(* ===== verification/Prelude.thy ===== *)
theory Prelude
  imports "HOL-Library.Word" "HOL-Library.State_Monad" "HOL-Library.Signed_Division"
begin

text \<open>
  What every component shares: machine integers, octet comparison, and the state monad in
  which the stateful C functions are written, with a weakest-precondition calculus
  (\<open>wp\<close>, collection \<open>wp_simps\<close>) and preservation of state predicates (\<open>keeps\<close>,
  collection \<open>keeps_intros\<close>).
\<close>

section \<open>Machine integers\<close>

text \<open>
  Unsigned C integers are words. Signed C integers are \<^typ>\<open>int\<close> and every store into a
  signed object of a given width passes through \<open>s8\<close>, \<open>s16\<close>, \<open>s32\<close> or \<open>s64\<close>: the value
  reduced to two's complement, which is what the supported compilers do on conversion.
\<close>

type_synonym u8 = "8 word"
type_synonym u16 = "16 word"
type_synonym u32 = "32 word"
type_synonym u64 = "64 word"

definition s8 :: "int \<Rightarrow> int" where "s8 k = signed_take_bit 7 k"
definition s16 :: "int \<Rightarrow> int" where "s16 k = signed_take_bit 15 k"
definition s32 :: "int \<Rightarrow> int" where "s32 k = signed_take_bit 31 k"
definition s64 :: "int \<Rightarrow> int" where "s64 k = signed_take_bit 63 k"

definition INT_MAX :: int where "INT_MAX = 2147483647"

lemma s8_id: "- 128 \<le> k \<Longrightarrow> k < 128 \<Longrightarrow> s8 k = k"
  unfolding s8_def by (rule signed_take_bit_int_eq_self) simp_all

lemma s16_id: "- 32768 \<le> k \<Longrightarrow> k < 32768 \<Longrightarrow> s16 k = k"
  unfolding s16_def by (rule signed_take_bit_int_eq_self) simp_all

lemma s32_id: "- 2147483648 \<le> k \<Longrightarrow> k < 2147483648 \<Longrightarrow> s32 k = k"
  unfolding s32_def by (rule signed_take_bit_int_eq_self) simp_all

lemma s64_id:
  "- 9223372036854775808 \<le> k \<Longrightarrow> k < 9223372036854775808 \<Longrightarrow> s64 k = k"
  unfolding s64_def by (rule signed_take_bit_int_eq_self) simp_all

lemma s32_range: "- 2147483648 \<le> s32 k" "s32 k < 2147483648"
  unfolding s32_def
  using signed_take_bit_int_greater_eq_minus_exp [of 31 k] signed_take_bit_int_less_exp [of 31 k]
  by simp_all

lemma s32_idem [simp]: "s32 (s32 k) = s32 k"
  by (simp add: s32_def)

text \<open>C's division and remainder truncate towards zero: \<open>sdiv\<close> and \<open>smod\<close>.\<close>

lemma sdiv_nonneg: "0 \<le> (a::int) \<Longrightarrow> 0 < b \<Longrightarrow> a sdiv b = a div b"
  by (simp add: signed_divide_int_def sgn_if)

lemma smod_nonneg: "0 \<le> (a::int) \<Longrightarrow> 0 < b \<Longrightarrow> a smod b = a mod b"
  by (simp add: signed_modulo_int_def sgn_if)

lemma sdiv_neg: "(a::int) < 0 \<Longrightarrow> 0 < b \<Longrightarrow> a sdiv b = - ((- a) div b)"
  by (simp add: signed_divide_int_def sgn_if)

lemma smod_neg: "(a::int) < 0 \<Longrightarrow> 0 < b \<Longrightarrow> a smod b = - ((- a) mod b)"
  by (simp add: signed_modulo_int_def sgn_if)

lemma smod_bound: "0 < m \<Longrightarrow> \<bar>(x::int) smod m\<bar> < m"
proof (cases "x < 0")
  case True
  assume m: "0 < m"
  have "0 \<le> (- x) mod m" "(- x) mod m < m" using m by (simp_all only: pos_mod_sign pos_mod_bound)
  with True m show ?thesis by (simp add: smod_neg)
qed (simp add: smod_nonneg)

lemma sdiv_times: "0 < m \<Longrightarrow> ((x::int) * m) sdiv m = x"
  using nonzero_mult_div_cancel_right [of m "- x"]
  by (cases "x < 0") (simp_all add: sdiv_neg sdiv_nonneg mult_neg_pos)

section \<open>Octet strings\<close>

text \<open>
  \<open>memcmp\<close> over two octet arrays: the sign of the first difference, octets read as unsigned.
\<close>

fun memcmp :: "u8 list \<Rightarrow> u8 list \<Rightarrow> int" where
  "memcmp (x # xs) (y # ys) = (if x < y then - 1 else if y < x then 1 else memcmp xs ys)"
| "memcmp _ _ = 0"

lemma memcmp_range: "memcmp xs ys \<in> {- 1, 0, 1}"
  by (induction xs ys rule: memcmp.induct) auto

lemma memcmp_swap: "memcmp ys xs = - memcmp xs ys"
  by (induction xs ys rule: memcmp.induct) auto

lemma memcmp_refl [simp]: "memcmp xs xs = 0"
  by (induction xs) auto

lemma memcmp_eq_0: "length xs = length ys \<Longrightarrow> memcmp xs ys = 0 \<longleftrightarrow> xs = ys"
  by (induction xs ys rule: memcmp.induct) auto

lemma memcmp_less_trans:
  "length xs = length ys \<Longrightarrow> length ys = length zs \<Longrightarrow> memcmp xs ys < 0 \<Longrightarrow> memcmp ys zs < 0 \<Longrightarrow>
   memcmp xs zs < 0"
proof (induction xs ys arbitrary: zs rule: memcmp.induct)
  case (1 x xs y ys)
  then obtain z zs' where "zs = z # zs'" by (cases zs) auto
  with 1 show ?case by (auto split: if_splits)
qed auto

section \<open>The state monad\<close>

definition gets :: "('s \<Rightarrow> 'a) \<Rightarrow> ('s, 'a) state" where
  "gets f = State (\<lambda>s. (f s, s))"

definition modify :: "('s \<Rightarrow> 's) \<Rightarrow> ('s, unit) state" where
  "modify f = State (\<lambda>s. ((), f s))"

definition skip :: "('s, unit) state" where
  "skip = State_Monad.return ()"

definition whenM :: "bool \<Rightarrow> ('s, unit) state \<Rightarrow> ('s, unit) state" where
  "whenM b m = (if b then m else skip)"

primrec forM :: "'a list \<Rightarrow> ('a \<Rightarrow> ('s, unit) state) \<Rightarrow> ('s, unit) state" where
  "forM [] f = skip"
| "forM (x # xs) f = do { f x; forM xs f }"

text \<open>The state after a command, its value dropped.\<close>

definition exec :: "('s, 'a) state \<Rightarrow> 's \<Rightarrow> 's" where
  "exec m s = snd (run_state m s)"

lemma run_gets [simp]: "run_state (gets f) s = (f s, s)"
  by (simp add: gets_def)

lemma run_modify [simp]: "run_state (modify f) s = ((), f s)"
  by (simp add: modify_def)

lemma run_skip [simp]: "run_state skip s = ((), s)"
  by (simp add: skip_def)

named_theorems wp_simps "weakest preconditions of the commands"
named_theorems keeps_intros "commands that keep a state predicate"

definition wp :: "('s, 'a) state \<Rightarrow> ('a \<Rightarrow> 's \<Rightarrow> bool) \<Rightarrow> 's \<Rightarrow> bool" where
  "wp m Q s = (case run_state m s of (a, s') \<Rightarrow> Q a s')"

lemma wp_return [wp_simps]: "wp (State_Monad.return a) Q s = Q a s"
  by (simp add: wp_def)

lemma wp_bind [wp_simps]: "wp (State_Monad.bind m f) Q s = wp m (\<lambda>a. wp (f a) Q) s"
  by (simp add: wp_def split: prod.split)

lemma wp_gets [wp_simps]: "wp (gets f) Q s = Q (f s) s"
  by (simp add: wp_def)

lemma wp_modify [wp_simps]: "wp (modify f) Q s = Q () (f s)"
  by (simp add: wp_def)

lemma wp_skip [wp_simps]: "wp skip Q s = Q () s"
  by (simp add: wp_def)

lemma wp_when [wp_simps]: "wp (whenM b m) Q s = (if b then wp m Q s else Q () s)"
  by (simp add: whenM_def wp_simps)

lemma wp_if [wp_simps]: "wp (if b then m else n) Q s = (if b then wp m Q s else wp n Q s)"
  by simp

lemma wp_conseq: "wp m Q s \<Longrightarrow> (\<And>a s'. Q a s' \<Longrightarrow> R a s') \<Longrightarrow> wp m R s"
  by (auto simp: wp_def split: prod.splits)

lemma wp_exec: "wp m (\<lambda>_. P) s = P (exec m s)"
  by (simp add: wp_def exec_def split: prod.split)

lemma run_state_exec: "run_state m s = (fst (run_state m s), exec m s)"
  by (simp add: exec_def)

lemma exec_unit: "run_state (m :: ('s, unit) state) s = ((), exec m s)"
  by (cases "run_state m s") (simp add: exec_def)

lemma exec_bind: "exec (State_Monad.bind m f) s = exec (f (fst (run_state m s))) (exec m s)"
  by (simp add: exec_def split: prod.split)

lemma exec_basic [simp]:
  "exec (State_Monad.return a) s = s"
  "exec (gets f) s = s"
  "exec (modify g) s = g s"
  "exec skip s = s"
  by (simp_all add: exec_def)

lemma exec_when: "exec (whenM b m) s = (if b then exec m s else s)"
  by (simp add: whenM_def)

lemma exec_if: "exec (if b then m else n) s = (if b then exec m s else exec n s)"
  by simp

subsection \<open>Preservation of a state predicate\<close>

definition keeps :: "('s \<Rightarrow> bool) \<Rightarrow> ('s, 'a) state \<Rightarrow> bool" where
  "keeps P m \<longleftrightarrow> (\<forall>s. P s \<longrightarrow> P (exec m s))"

lemma keepsI: "(\<And>s. P s \<Longrightarrow> P (exec m s)) \<Longrightarrow> keeps P m"
  by (simp add: keeps_def)

lemma keepsD: "keeps P m \<Longrightarrow> P s \<Longrightarrow> P (exec m s)"
  by (simp add: keeps_def)

lemma keeps_return [keeps_intros]: "keeps P (State_Monad.return a)"
  by (simp add: keeps_def)

lemma keeps_gets [keeps_intros]: "keeps P (gets f)"
  by (simp add: keeps_def)

lemma keeps_skip [keeps_intros]: "keeps P skip"
  by (simp add: keeps_def)

lemma keeps_bind [keeps_intros]:
  "keeps P m \<Longrightarrow> (\<And>a. keeps P (f a)) \<Longrightarrow> keeps P (State_Monad.bind m f)"
  by (simp add: keeps_def exec_bind)

lemma keeps_if [keeps_intros]:
  "(b \<Longrightarrow> keeps P m) \<Longrightarrow> (\<not> b \<Longrightarrow> keeps P n) \<Longrightarrow> keeps P (if b then m else n)"
  by simp

lemma keeps_when [keeps_intros]: "(b \<Longrightarrow> keeps P m) \<Longrightarrow> keeps P (whenM b m)"
  by (simp add: whenM_def keeps_skip)

lemma keeps_let [keeps_intros]: "(\<And>x. keeps P (f x)) \<Longrightarrow> keeps P (Let v f)"
  by (simp add: Let_def)

lemma keeps_case_prod [keeps_intros]:
  "(\<And>a b. keeps P (f a b)) \<Longrightarrow> keeps P (case p of (a, b) \<Rightarrow> f a b)"
  by (simp split: prod.split)

lemma keeps_case_option [keeps_intros]:
  "keeps P m \<Longrightarrow> (\<And>a. keeps P (f a)) \<Longrightarrow> keeps P (case x of None \<Rightarrow> m | Some a \<Rightarrow> f a)"
  by (simp split: option.split)

lemma keeps_forM [keeps_intros]: "(\<And>x. keeps P (f x)) \<Longrightarrow> keeps P (forM xs f)"
  by (induction xs) (auto intro!: keeps_intros)

lemma keeps_modify: "(\<And>s. P s \<Longrightarrow> P (g s)) \<Longrightarrow> keeps P (modify g)"
  by (simp add: keeps_def)

end
