(* ===== verification/PtpTypes.thy ===== *)
theory PtpTypes
  imports Prelude
begin

text \<open>
  The data of the daemon: the constants of PTPWRd/constants.h, the structs of
  PTPWRd/datatypes.h and PTPWRd/dep/datatypes_dep.h, and the state \<open>sys\<close> the functions
  of the daemon read and write. Fields keep their C names; a name two structs share is
  prefixed (\<open>ann_\<close> for the Announce body, \<open>opt_\<close> for the run-time options). Only fields
  some modelled function reads or writes are kept.
\<close>

section \<open>Constants\<close>

abbreviation (input) HEADER_LENGTH where "HEADER_LENGTH \<equiv> 34"
abbreviation (input) ANNOUNCE_LENGTH where "ANNOUNCE_LENGTH \<equiv> 64"
abbreviation (input) SYNC_LENGTH where "SYNC_LENGTH \<equiv> 44"
abbreviation (input) FOLLOW_UP_LENGTH where "FOLLOW_UP_LENGTH \<equiv> 44"
abbreviation (input) DELAY_REQ_LENGTH where "DELAY_REQ_LENGTH \<equiv> 44"
abbreviation (input) DELAY_RESP_LENGTH where "DELAY_RESP_LENGTH \<equiv> 54"
abbreviation (input) PDELAY_REQ_LENGTH where "PDELAY_REQ_LENGTH \<equiv> 54"
abbreviation (input) PDELAY_RESP_LENGTH where "PDELAY_RESP_LENGTH \<equiv> 54"
abbreviation (input) PDELAY_RESP_FOLLOW_UP_LENGTH where "PDELAY_RESP_FOLLOW_UP_LENGTH \<equiv> 54"
abbreviation (input) WR_ANNOUNCE_TLV_LENGTH where "WR_ANNOUNCE_TLV_LENGTH \<equiv> 10"
abbreviation (input) WR_ANNOUNCE_LENGTH where "WR_ANNOUNCE_LENGTH \<equiv> 78"
abbreviation (input) WR_SIGNALING_MSG_BASE_LENGTH where "WR_SIGNALING_MSG_BASE_LENGTH \<equiv> 48"
abbreviation (input) CLOCK_IDENTITY_LENGTH where "CLOCK_IDENTITY_LENGTH \<equiv> 8"
abbreviation (input) PACKET_SIZE where "PACKET_SIZE \<equiv> 1024"
abbreviation (input) TWO_STEP_FLAG where "TWO_STEP_FLAG \<equiv> (2::u8)"

abbreviation (input) TLV_TYPE_ORG_EXTENSION where "TLV_TYPE_ORG_EXTENSION \<equiv> 3"
abbreviation (input) WR_TLV_ORGANIZATION_ID where "WR_TLV_ORGANIZATION_ID \<equiv> 0x080030"
abbreviation (input) WR_TLV_MAGIC_NUMBER where "WR_TLV_MAGIC_NUMBER \<equiv> 0xDEAD"
abbreviation (input) WR_TLV_WR_VERSION_NUMBER where "WR_TLV_WR_VERSION_NUMBER \<equiv> 1"

text \<open>White Rabbit node configuration (also the low bits of the Announce flags) and mode.\<close>

abbreviation (input) NON_WR where "NON_WR \<equiv> (0::u8)"
abbreviation (input) WR_M_ONLY where "WR_M_ONLY \<equiv> (1::u8)"
abbreviation (input) WR_S_ONLY where "WR_S_ONLY \<equiv> (2::u8)"
abbreviation (input) WR_M_AND_S where "WR_M_AND_S \<equiv> (3::u8)"
abbreviation (input) WR_MODE_AUTO where "WR_MODE_AUTO \<equiv> (4::u8)"
abbreviation (input) WR_MASTER where "WR_MASTER \<equiv> (1::u8)"
abbreviation (input) WR_SLAVE where "WR_SLAVE \<equiv> (2::u8)"
abbreviation (input) WR_NODE_MODE where "WR_NODE_MODE \<equiv> (3::u8)"
abbreviation (input) WR_IS_CALIBRATED where "WR_IS_CALIBRATED \<equiv> (4::u8)"
abbreviation (input) WR_IS_WR_MODE where "WR_IS_WR_MODE \<equiv> (8::u8)"

text \<open>Identifiers of the White Rabbit signalling messages.\<close>

abbreviation (input) NULL_WR_TLV where "NULL_WR_TLV \<equiv> (0::u16)"
abbreviation (input) SLAVE_PRESENT where "SLAVE_PRESENT \<equiv> (0x1000::u16)"
abbreviation (input) LOCK where "LOCK \<equiv> (0x1001::u16)"
abbreviation (input) LOCKED where "LOCKED \<equiv> (0x1002::u16)"
abbreviation (input) CALIBRATE where "CALIBRATE \<equiv> (0x1003::u16)"
abbreviation (input) CALIBRATED where "CALIBRATED \<equiv> (0x1004::u16)"
abbreviation (input) WR_MODE_ON where "WR_MODE_ON \<equiv> (0x1005::u16)"
abbreviation (input) ANN_SUFIX where "ANN_SUFIX \<equiv> (0x2000::u16)"

text \<open>Message types of the PTP header.\<close>

abbreviation (input) MT_SYNC where "MT_SYNC \<equiv> (0::u8)"
abbreviation (input) MT_DELAY_REQ where "MT_DELAY_REQ \<equiv> (1::u8)"
abbreviation (input) MT_PDELAY_REQ where "MT_PDELAY_REQ \<equiv> (2::u8)"
abbreviation (input) MT_PDELAY_RESP where "MT_PDELAY_RESP \<equiv> (3::u8)"
abbreviation (input) MT_FOLLOW_UP where "MT_FOLLOW_UP \<equiv> (8::u8)"
abbreviation (input) MT_DELAY_RESP where "MT_DELAY_RESP \<equiv> (9::u8)"
abbreviation (input) MT_PDELAY_RESP_FOLLOW_UP where "MT_PDELAY_RESP_FOLLOW_UP \<equiv> (10::u8)"
abbreviation (input) MT_ANNOUNCE where "MT_ANNOUNCE \<equiv> (11::u8)"
abbreviation (input) MT_SIGNALING where "MT_SIGNALING \<equiv> (12::u8)"
abbreviation (input) MT_MANAGEMENT where "MT_MANAGEMENT \<equiv> (13::u8)"

datatype ptp_state =
  PTP_INITIALIZING | PTP_FAULTY | PTP_DISABLED | PTP_LISTENING | PTP_PRE_MASTER
| PTP_MASTER | PTP_PASSIVE | PTP_UNCALIBRATED | PTP_SLAVE

datatype wr_state =
  WRS_PRESENT | WRS_S_LOCK | WRS_M_LOCK | WRS_LOCKED | WRS_CALIBRATION | WRS_CALIBRATED
| WRS_RESP_CALIB_REQ | WRS_WR_LINK_ON
| WRS_IDLE
| WRS_S_LOCK_1 | WRS_S_LOCK_2
| WRS_CALIBRATION_1 | WRS_CALIBRATION_2 | WRS_CALIBRATION_3 | WRS_CALIBRATION_4
| WRS_CALIBRATION_5 | WRS_CALIBRATION_6 | WRS_CALIBRATION_7 | WRS_CALIBRATION_8
| WRS_RESP_CALIB_REQ_1 | WRS_RESP_CALIB_REQ_2 | WRS_RESP_CALIB_REQ_3

datatype slave_role = NON_SLAVE | PRIMARY_SLAVE | SECONDARY_SLAVE

datatype init_mode = INIT | RE_INIT

datatype servo_state =
  WR_SERVO_NONE | WR_SYNC_NSEC | WR_SYNC_TAI | WR_SYNC_PHASE | WR_TRACK_PHASE
| WR_WAIT_SYNC_IDLE | WR_WAIT_OFFSET_STABLE

section \<open>Structs\<close>

record Integer64 =
  i64_msb :: int
  i64_lsb :: u32

record FixedDelta =
  delta_msb :: u32
  delta_lsb :: u32

record Timestamp =
  secs_msb :: u16
  secs_lsb :: u32
  nanosecondsField :: u32

record PortIdentity =
  clockIdentity :: "u8 list"
  portNumber :: u16

record ClockQuality =
  clockClass :: u8
  clockAccuracy :: u8
  offsetScaledLogVariance :: u16

record MsgHeader =
  transportSpecific :: u8
  messageType :: u8
  versionPTP :: u8
  messageLength :: u16
  hdr_domainNumber :: u8
  flagField :: "u8 list"
  correctionfield :: Integer64
  sourcePortIdentity :: PortIdentity
  sequenceId :: u16
  controlField :: u8
  logMessageInterval :: int

record MsgAnnounce =
  ann_originTimestamp :: Timestamp
  ann_currentUtcOffset :: int
  ann_grandmasterPriority1 :: u8
  ann_clockQuality :: ClockQuality
  ann_grandmasterPriority2 :: u8
  ann_grandmasterIdentity :: "u8 list"
  ann_stepsRemoved :: u16
  ann_timeSource :: u8
  wr_flags :: u8

text \<open>The bodies of Delay\_Resp, Pdelay\_Resp and Pdelay\_Resp\_Follow\_Up have one shape.\<close>

record MsgResp =
  resp_timestamp :: Timestamp
  requestingPortIdentity :: PortIdentity

record TimeInternal =
  seconds :: int
  nanoseconds :: int
  ti_phase :: int
  ti_correct :: int

record wr_timestamp =
  sec :: int
  nsec :: int
  phase :: int
  raw_phase :: int
  raw_nsec :: int
  raw_ahead :: int
  correct :: int

record IntervalTimer =
  t_start :: u64
  interval :: int

record ForeignMasterRecord =
  fmPortIdentity :: PortIdentity
  fmAnnounceMessages :: u16
  receptionPortNumber :: u16
  fm_announce :: MsgAnnounce
  fm_header :: MsgHeader

record PtpClockDS =
  twoStepFlag :: bool
  numberPorts :: u16
  clockQuality :: ClockQuality
  priority1 :: u8
  priority2 :: u8
  domainNumber :: u8
  stepsRemoved :: u16
  primarySlavePortNumber :: u16
  secondarySlavePortNumber :: u16
  parentPortIdentity :: PortIdentity
  grandmasterIdentity :: "u8 list"
  grandmasterClockQuality :: ClockQuality
  grandmasterPriority1 :: u8
  grandmasterPriority2 :: u8
  currentUtcOffset :: int
  currentUtcOffsetValid :: bool
  leap59 :: bool
  leap61 :: bool
  timeTraceable :: bool
  frequencyTraceable :: bool
  ptpTimescale :: bool
  timeSource :: u8
  Ebest :: int
  globalStateDecisionEvent :: bool
  bestForeign :: "(nat \<times> nat) option"
  secondBestForeign :: "nat option"
  clockClassValidityTimer :: IntervalTimer
  clockClassValidityTimeout :: u8

text \<open>
  \<open>bestForeign\<close> is the C pointer \<open>&ptpPortDS[p].foreign[r]\<close> as the pair of its indices,
  dereferenced where it is used; \<open>secondBestForeign\<close> points at the
  \<open>secondaryForeignMaster\<close> of a port.
\<close>

record wr_servo_t =
  state :: servo_state
  next_state :: servo_state
  mu :: wr_timestamp
  delta_tx_m :: int
  delta_rx_m :: int
  delta_tx_s :: int
  delta_rx_s :: int
  cur_setpoint :: int
  delta_ms :: int
  delta_ms_prev :: int
  servo_t1 :: wr_timestamp
  servo_t2 :: wr_timestamp
  servo_t3 :: wr_timestamp
  servo_t4 :: wr_timestamp
  last_tics :: u64
  fiber_fix_alpha :: int
  clock_period_ps :: int
  missed_iters :: int

text \<open>The socket of libptpnetif/ptpd\_netif.c and the addresses of the port (NetPath).\<close>

record NetPath =
  local_mac :: "u8 list"
  selfAddr :: "u8 list"
  multicastAddr :: "u8 list"
  unicastAddr :: "u8 list"
  sk_clock_period :: u32
  sk_phase_transition :: u32
  sk_dmtd_phase :: u32
  sk_dmtd_phase_valid :: bool
  sk_tmo_start :: u64
  sk_tmo_timeout :: u64

record PortTimers =
  tm_pdelayReq :: IntervalTimer
  tm_delayReq :: IntervalTimer
  tm_sync :: IntervalTimer
  tm_announceReceipt :: IntervalTimer
  tm_announceInterval :: IntervalTimer

record PtpPortDS =
  netPath :: NetPath
  port_clockIdentity :: "u8 list"
  portIdentity :: PortIdentity
  portState :: ptp_state
  logMinDelayReqInterval :: int
  peerMeanPathDelay :: TimeInternal
  logAnnounceInterval :: int
  announceReceiptTimeout :: u8
  logSyncInterval :: int
  delayMechanism :: u8
  logMinPdelayReqInterval :: int
  versionNumber :: u8
  foreign :: "ForeignMasterRecord list"
  number_foreign_records :: u16
  max_foreign_records :: int
  foreign_record_i :: int
  foreign_record_best :: int
  record_update :: bool
  msgTmpHeader :: MsgHeader
  msgTmp_announce :: MsgAnnounce
  msgTmp_timestamp :: Timestamp
  msgTmp_resp :: MsgResp
  msgObuf :: "u8 list"
  msgIbuf :: "u8 list"
  pdelay_req_receive_time :: TimeInternal
  pdelay_req_send_time :: TimeInternal
  pdelay_resp_receive_time :: TimeInternal
  pdelay_resp_send_time :: TimeInternal
  sync_receive_time :: TimeInternal
  delay_req_receive_time :: TimeInternal
  PdelayReqHeader :: MsgHeader
  delayReqHeader :: MsgHeader
  lastSyncCorrectionField :: TimeInternal
  lastPdelayRespCorrectionField :: TimeInternal
  sentPDelayReqSequenceId :: u16
  sentDelayReqSequenceId :: u16
  sentSyncSequenceId :: u16
  sentAnnounceSequenceId :: u16
  recvSyncSequenceId :: u16
  waitingForFollow :: bool
  message_activity :: bool
  port_uuid_field :: "u8 list"
  timers :: PortTimers
  wrConfig :: u8
  phyCalibrationRequired :: bool
  wrStateTimeout :: u32
  wrStateRetry :: u8
  parentWrConfig :: u8
  calPeriod :: u32
  calRetry :: u8
  wrPortState :: wr_state
  wrMode :: u8
  wrModeON :: bool
  calibrated :: bool
  deltaTx :: FixedDelta
  deltaRx :: FixedDelta
  otherNodeDeltaTx :: FixedDelta
  otherNodeDeltaRx :: FixedDelta
  parentWrModeON :: bool
  parentCalibrated :: bool
  otherNodeCalSendPattern :: u16
  otherNodeCalPeriod :: u32
  otherNodeCalRetry :: u8
  parentIsWRnode :: bool
  msgTmpWrMessageID :: u16
  wr_servo_ds :: wr_servo_t
  synch_tx_ts :: wr_timestamp
  delayReq_tx_ts :: wr_timestamp
  pDelayReq_tx_ts :: wr_timestamp
  pDelayResp_tx_ts :: wr_timestamp
  current_rx_ts :: wr_timestamp
  currentWRstateCnt :: u8
  wrTimers :: "wr_state \<Rightarrow> IntervalTimer"
  wrTimeouts :: "wr_state \<Rightarrow> int"
  secondaryForeignMaster :: ForeignMasterRecord
  wrSlaveRole :: slave_role
  linkUP :: bool
  doRestart :: bool

text \<open>
  The union \<open>msgTmp\<close> is kept as separate members (\<open>msgTmp_timestamp\<close> for Sync, Follow\_Up;
  \<open>msgTmp_resp\<close> for the three responses). The code reads a member only after writing it,
  with one exception, the flags in \<open>copyD0\<close>, whose result no code reads.
\<close>

record RunTimeOpts =
  opt_announceInterval :: int
  opt_syncInterval :: int
  opt_clockQuality :: ClockQuality
  opt_priority1 :: u8
  opt_priority2 :: u8
  opt_domainNumber :: u8
  inboundLatency :: TimeInternal
  outboundLatency :: TimeInternal
  opt_max_foreign_records :: int
  E2E_mode :: bool
  opt_portNumber :: u16
  opt_calPeriod :: u32
  overrideClockIdentity :: u8
  opt_wrConfig :: u8
  opt_phyCalibrationRequired :: bool
  opt_wrStateTimeout :: u32
  opt_wrStateRetry :: u8
  primarySource :: bool
  masterOnly :: bool
  disableFallbackIfWRFails :: bool
  opt_iface_given :: "nat \<Rightarrow> bool"
  opt_unicast_given :: bool
  opt_currentUtcOffset :: int
  noResetClock :: bool
  noAdjust :: bool
  displayStats :: bool
  csvStats :: bool
  opt_ap :: int
  opt_ai :: int
  opt_s :: int
  ethernet_mode :: bool
  autoPortDiscovery :: bool

text \<open>
  Of the interface names and the unicast address of the options only whether they are given
  (are not the empty string) decides anything.
\<close>

section \<open>Zeroed memory\<close>

text \<open>
  The structs as \<open>calloc\<close> and the loader leave them: every member zero
  (\<^const>\<open>PTP_INITIALIZING\<close>, \<^const>\<open>WRS_PRESENT\<close>, \<^const>\<open>NON_SLAVE\<close> and
  \<^const>\<open>WR_SERVO_NONE\<close> are the zeros of their enumerations).
\<close>

definition i64_zero :: Integer64 where
  [simp]: "i64_zero = \<lparr>i64_msb = 0, i64_lsb = 0\<rparr>"
definition fd_zero :: FixedDelta where
  [simp]: "fd_zero = \<lparr>delta_msb = 0, delta_lsb = 0\<rparr>"
definition ts_zero :: Timestamp where
  [simp]: "ts_zero = \<lparr>secs_msb = 0, secs_lsb = 0, nanosecondsField = 0\<rparr>"
definition pid_zero :: PortIdentity where
  [simp]: "pid_zero = \<lparr>clockIdentity = replicate 8 0, portNumber = 0\<rparr>"
definition cq_zero :: ClockQuality where
  [simp]: "cq_zero = \<lparr>clockClass = 0, clockAccuracy = 0, offsetScaledLogVariance = 0\<rparr>"
definition ti_zero :: TimeInternal where
  [simp]: "ti_zero = \<lparr>seconds = 0, nanoseconds = 0, ti_phase = 0, ti_correct = 0\<rparr>"
definition wrts_zero :: wr_timestamp where
  [simp]: "wrts_zero = \<lparr>sec = 0, nsec = 0, phase = 0, raw_phase = 0, raw_nsec = 0, raw_ahead = 0, correct = 0\<rparr>"
definition timer_zero :: IntervalTimer where
  [simp]: "timer_zero = \<lparr>t_start = 0, interval = 0\<rparr>"

definition header_zero :: MsgHeader where
  "header_zero = \<lparr>transportSpecific = 0, messageType = 0, versionPTP = 0, messageLength = 0,
     hdr_domainNumber = 0, flagField = [0, 0], correctionfield = i64_zero,
     sourcePortIdentity = pid_zero, sequenceId = 0, controlField = 0, logMessageInterval = 0\<rparr>"

definition announce_zero :: MsgAnnounce where
  "announce_zero = \<lparr>ann_originTimestamp = ts_zero, ann_currentUtcOffset = 0,
     ann_grandmasterPriority1 = 0, ann_clockQuality = cq_zero, ann_grandmasterPriority2 = 0,
     ann_grandmasterIdentity = replicate 8 0, ann_stepsRemoved = 0, ann_timeSource = 0, wr_flags = 0\<rparr>"

definition resp_zero :: MsgResp where
  "resp_zero = \<lparr>resp_timestamp = ts_zero, requestingPortIdentity = pid_zero\<rparr>"

definition foreign_zero :: ForeignMasterRecord where
  "foreign_zero = \<lparr>fmPortIdentity = pid_zero, fmAnnounceMessages = 0, receptionPortNumber = 0,
     fm_announce = announce_zero, fm_header = header_zero\<rparr>"

definition clock_zero :: PtpClockDS where
  "clock_zero = \<lparr>twoStepFlag = False, numberPorts = 0, clockQuality = cq_zero, priority1 = 0,
     priority2 = 0, domainNumber = 0, stepsRemoved = 0, primarySlavePortNumber = 0,
     secondarySlavePortNumber = 0, parentPortIdentity = pid_zero,
     grandmasterIdentity = replicate 8 0, grandmasterClockQuality = cq_zero,
     grandmasterPriority1 = 0, grandmasterPriority2 = 0, currentUtcOffset = 0,
     currentUtcOffsetValid = False, leap59 = False, leap61 = False, timeTraceable = False,
     frequencyTraceable = False, ptpTimescale = False, timeSource = 0, Ebest = 0,
     globalStateDecisionEvent = False, bestForeign = None, secondBestForeign = None,
     clockClassValidityTimer = timer_zero, clockClassValidityTimeout = 0\<rparr>"

definition servo_zero :: wr_servo_t where
  "servo_zero = \<lparr>state = WR_SERVO_NONE, next_state = WR_SERVO_NONE, mu = wrts_zero,
     delta_tx_m = 0, delta_rx_m = 0, delta_tx_s = 0, delta_rx_s = 0, cur_setpoint = 0,
     delta_ms = 0, delta_ms_prev = 0, servo_t1 = wrts_zero, servo_t2 = wrts_zero,
     servo_t3 = wrts_zero, servo_t4 = wrts_zero, last_tics = 0, fiber_fix_alpha = 0,
     clock_period_ps = 0, missed_iters = 0\<rparr>"

definition net_zero :: NetPath where
  "net_zero = \<lparr>local_mac = replicate 6 0, selfAddr = replicate 6 0, multicastAddr = replicate 6 0,
     unicastAddr = replicate 6 0, sk_clock_period = 0, sk_phase_transition = 0,
     sk_dmtd_phase = 0, sk_dmtd_phase_valid = False, sk_tmo_start = 0, sk_tmo_timeout = 0\<rparr>"

definition timers_zero :: PortTimers where
  "timers_zero = \<lparr>tm_pdelayReq = timer_zero, tm_delayReq = timer_zero, tm_sync = timer_zero,
     tm_announceReceipt = timer_zero, tm_announceInterval = timer_zero\<rparr>"

definition port_zero :: PtpPortDS where
  "port_zero = \<lparr>netPath = net_zero, port_clockIdentity = replicate 8 0, portIdentity = pid_zero,
     portState = PTP_INITIALIZING, logMinDelayReqInterval = 0, peerMeanPathDelay = ti_zero,
     logAnnounceInterval = 0, announceReceiptTimeout = 0, logSyncInterval = 0,
     delayMechanism = 0, logMinPdelayReqInterval = 0, versionNumber = 0, foreign = [],
     number_foreign_records = 0, max_foreign_records = 0, foreign_record_i = 0,
     foreign_record_best = 0, record_update = False, msgTmpHeader = header_zero,
     msgTmp_announce = announce_zero, msgTmp_timestamp = ts_zero, msgTmp_resp = resp_zero,
     msgObuf = replicate PACKET_SIZE 0, msgIbuf = replicate PACKET_SIZE 0,
     pdelay_req_receive_time = ti_zero, pdelay_req_send_time = ti_zero,
     pdelay_resp_receive_time = ti_zero, pdelay_resp_send_time = ti_zero,
     sync_receive_time = ti_zero, delay_req_receive_time = ti_zero,
     PdelayReqHeader = header_zero, delayReqHeader = header_zero,
     lastSyncCorrectionField = ti_zero, lastPdelayRespCorrectionField = ti_zero,
     sentPDelayReqSequenceId = 0, sentDelayReqSequenceId = 0, sentSyncSequenceId = 0,
     sentAnnounceSequenceId = 0, recvSyncSequenceId = 0, waitingForFollow = False,
     message_activity = False, port_uuid_field = replicate 6 0, timers = timers_zero,
     wrConfig = 0, phyCalibrationRequired = False, wrStateTimeout = 0, wrStateRetry = 0,
     parentWrConfig = 0, calPeriod = 0, calRetry = 0, wrPortState = WRS_PRESENT, wrMode = 0,
     wrModeON = False, calibrated = False, deltaTx = fd_zero, deltaRx = fd_zero,
     otherNodeDeltaTx = fd_zero, otherNodeDeltaRx = fd_zero, parentWrModeON = False,
     parentCalibrated = False, otherNodeCalSendPattern = 0, otherNodeCalPeriod = 0,
     otherNodeCalRetry = 0, parentIsWRnode = False, msgTmpWrMessageID = 0, wr_servo_ds = servo_zero,
     synch_tx_ts = wrts_zero, delayReq_tx_ts = wrts_zero, pDelayReq_tx_ts = wrts_zero,
     pDelayResp_tx_ts = wrts_zero, current_rx_ts = wrts_zero, currentWRstateCnt = 0,
     wrTimers = \<lambda>_. timer_zero, wrTimeouts = \<lambda>_. 0,
     secondaryForeignMaster = foreign_zero, wrSlaveRole = NON_SLAVE, linkUP = False,
     doRestart = False\<rparr>"

definition opts_zero :: RunTimeOpts where
  "opts_zero = \<lparr>opt_announceInterval = 0, opt_syncInterval = 0, opt_clockQuality = cq_zero,
     opt_priority1 = 0, opt_priority2 = 0, opt_domainNumber = 0, inboundLatency = ti_zero,
     outboundLatency = ti_zero, opt_max_foreign_records = 0, E2E_mode = False,
     opt_portNumber = 0, opt_calPeriod = 0, overrideClockIdentity = 0, opt_wrConfig = 0,
     opt_phyCalibrationRequired = False, opt_wrStateTimeout = 0, opt_wrStateRetry = 0,
     primarySource = False, masterOnly = False, disableFallbackIfWRFails = False,
     opt_iface_given = \<lambda>_. False, opt_unicast_given = False, opt_currentUtcOffset = 0,
     noResetClock = False, noAdjust = False, displayStats = False, csvStats = False, opt_ap = 0,
     opt_ai = 0, opt_s = 0, ethernet_mode = False, autoPortDiscovery = False\<rparr>"

text \<open>Reading a zeroed struct member by member, so that examples never unfold a whole one.\<close>

lemma header_zero_sel [simp]:
  "transportSpecific header_zero = 0" "messageType header_zero = 0" "versionPTP header_zero = 0"
  "messageLength header_zero = 0" "hdr_domainNumber header_zero = 0"
  "flagField header_zero = [0, 0]" "correctionfield header_zero = i64_zero"
  "sourcePortIdentity header_zero = pid_zero" "sequenceId header_zero = 0"
  "controlField header_zero = 0" "logMessageInterval header_zero = 0"
  by (simp_all add: header_zero_def)

lemma announce_zero_sel [simp]:
  "ann_originTimestamp announce_zero = ts_zero" "ann_currentUtcOffset announce_zero = 0"
  "ann_grandmasterPriority1 announce_zero = 0" "ann_clockQuality announce_zero = cq_zero"
  "ann_grandmasterPriority2 announce_zero = 0"
  "ann_grandmasterIdentity announce_zero = replicate 8 0" "ann_stepsRemoved announce_zero = 0"
  "ann_timeSource announce_zero = 0" "wr_flags announce_zero = 0"
  by (simp_all add: announce_zero_def)

lemma resp_zero_sel [simp]:
  "resp_timestamp resp_zero = ts_zero" "requestingPortIdentity resp_zero = pid_zero"
  by (simp_all add: resp_zero_def)

lemma foreign_zero_sel [simp]:
  "fmPortIdentity foreign_zero = pid_zero" "fmAnnounceMessages foreign_zero = 0"
  "receptionPortNumber foreign_zero = 0" "fm_announce foreign_zero = announce_zero"
  "fm_header foreign_zero = header_zero"
  by (simp_all add: foreign_zero_def)

lemma clock_zero_sel [simp]:
  "twoStepFlag clock_zero = False" "numberPorts clock_zero = 0"
  "clockQuality clock_zero = cq_zero" "priority1 clock_zero = 0" "priority2 clock_zero = 0"
  "domainNumber clock_zero = 0" "stepsRemoved clock_zero = 0"
  "primarySlavePortNumber clock_zero = 0" "secondarySlavePortNumber clock_zero = 0"
  "parentPortIdentity clock_zero = pid_zero" "grandmasterIdentity clock_zero = replicate 8 0"
  "grandmasterClockQuality clock_zero = cq_zero" "grandmasterPriority1 clock_zero = 0"
  "grandmasterPriority2 clock_zero = 0" "currentUtcOffset clock_zero = 0"
  "currentUtcOffsetValid clock_zero = False" "leap59 clock_zero = False"
  "leap61 clock_zero = False" "timeTraceable clock_zero = False"
  "frequencyTraceable clock_zero = False" "ptpTimescale clock_zero = False"
  "timeSource clock_zero = 0" "Ebest clock_zero = 0" "globalStateDecisionEvent clock_zero = False"
  "bestForeign clock_zero = None" "secondBestForeign clock_zero = None"
  "clockClassValidityTimer clock_zero = timer_zero" "clockClassValidityTimeout clock_zero = 0"
  by (simp_all add: clock_zero_def)

lemma servo_zero_sel [simp]:
  "state servo_zero = WR_SERVO_NONE" "next_state servo_zero = WR_SERVO_NONE"
  "mu servo_zero = wrts_zero" "delta_tx_m servo_zero = 0" "delta_rx_m servo_zero = 0"
  "delta_tx_s servo_zero = 0" "delta_rx_s servo_zero = 0" "cur_setpoint servo_zero = 0"
  "delta_ms servo_zero = 0" "delta_ms_prev servo_zero = 0" "servo_t1 servo_zero = wrts_zero"
  "servo_t2 servo_zero = wrts_zero" "servo_t3 servo_zero = wrts_zero"
  "servo_t4 servo_zero = wrts_zero" "last_tics servo_zero = 0" "fiber_fix_alpha servo_zero = 0"
  "clock_period_ps servo_zero = 0" "missed_iters servo_zero = 0"
  by (simp_all add: servo_zero_def)

lemma net_zero_sel [simp]:
  "local_mac net_zero = replicate 6 0" "selfAddr net_zero = replicate 6 0"
  "multicastAddr net_zero = replicate 6 0" "unicastAddr net_zero = replicate 6 0"
  "sk_clock_period net_zero = 0" "sk_phase_transition net_zero = 0" "sk_dmtd_phase net_zero = 0"
  "sk_dmtd_phase_valid net_zero = False" "sk_tmo_start net_zero = 0" "sk_tmo_timeout net_zero = 0"
  by (simp_all add: net_zero_def)

lemma timers_zero_sel [simp]:
  "tm_pdelayReq timers_zero = timer_zero" "tm_delayReq timers_zero = timer_zero"
  "tm_sync timers_zero = timer_zero" "tm_announceReceipt timers_zero = timer_zero"
  "tm_announceInterval timers_zero = timer_zero"
  by (simp_all add: timers_zero_def)

lemma port_zero_sel [simp]:
  "netPath port_zero = net_zero" "port_clockIdentity port_zero = replicate 8 0"
  "portIdentity port_zero = pid_zero" "portState port_zero = PTP_INITIALIZING"
  "logMinDelayReqInterval port_zero = 0" "peerMeanPathDelay port_zero = ti_zero"
  "logAnnounceInterval port_zero = 0" "announceReceiptTimeout port_zero = 0"
  "logSyncInterval port_zero = 0" "delayMechanism port_zero = 0"
  "logMinPdelayReqInterval port_zero = 0" "versionNumber port_zero = 0" "foreign port_zero = []"
  "number_foreign_records port_zero = 0" "max_foreign_records port_zero = 0"
  "foreign_record_i port_zero = 0" "foreign_record_best port_zero = 0"
  "record_update port_zero = False" "msgTmpHeader port_zero = header_zero"
  "msgTmp_announce port_zero = announce_zero" "msgTmp_timestamp port_zero = ts_zero"
  "msgTmp_resp port_zero = resp_zero" "msgObuf port_zero = replicate PACKET_SIZE 0"
  "msgIbuf port_zero = replicate PACKET_SIZE 0" "pdelay_req_receive_time port_zero = ti_zero"
  "pdelay_req_send_time port_zero = ti_zero" "pdelay_resp_receive_time port_zero = ti_zero"
  "pdelay_resp_send_time port_zero = ti_zero" "sync_receive_time port_zero = ti_zero"
  "delay_req_receive_time port_zero = ti_zero" "PdelayReqHeader port_zero = header_zero"
  "delayReqHeader port_zero = header_zero" "lastSyncCorrectionField port_zero = ti_zero"
  "lastPdelayRespCorrectionField port_zero = ti_zero" "sentPDelayReqSequenceId port_zero = 0"
  "sentDelayReqSequenceId port_zero = 0" "sentSyncSequenceId port_zero = 0"
  "sentAnnounceSequenceId port_zero = 0" "recvSyncSequenceId port_zero = 0"
  "waitingForFollow port_zero = False" "message_activity port_zero = False"
  "port_uuid_field port_zero = replicate 6 0" "timers port_zero = timers_zero"
  "wrConfig port_zero = 0" "phyCalibrationRequired port_zero = False"
  "wrStateTimeout port_zero = 0" "wrStateRetry port_zero = 0" "parentWrConfig port_zero = 0"
  "calPeriod port_zero = 0" "calRetry port_zero = 0" "wrPortState port_zero = WRS_PRESENT"
  "wrMode port_zero = 0" "wrModeON port_zero = False" "calibrated port_zero = False"
  "deltaTx port_zero = fd_zero" "deltaRx port_zero = fd_zero"
  "otherNodeDeltaTx port_zero = fd_zero" "otherNodeDeltaRx port_zero = fd_zero"
  "parentWrModeON port_zero = False" "parentCalibrated port_zero = False"
  "otherNodeCalSendPattern port_zero = 0" "otherNodeCalPeriod port_zero = 0"
  "otherNodeCalRetry port_zero = 0" "parentIsWRnode port_zero = False"
  "msgTmpWrMessageID port_zero = 0" "wr_servo_ds port_zero = servo_zero"
  "synch_tx_ts port_zero = wrts_zero" "delayReq_tx_ts port_zero = wrts_zero"
  "pDelayReq_tx_ts port_zero = wrts_zero" "pDelayResp_tx_ts port_zero = wrts_zero"
  "current_rx_ts port_zero = wrts_zero" "currentWRstateCnt port_zero = 0"
  "wrTimers port_zero = (\<lambda>_. timer_zero)" "wrTimeouts port_zero = (\<lambda>_. 0)"
  "secondaryForeignMaster port_zero = foreign_zero" "wrSlaveRole port_zero = NON_SLAVE"
  "linkUP port_zero = False" "doRestart port_zero = False"
  by (simp_all add: port_zero_def)

lemma opts_zero_sel [simp]:
  "opt_announceInterval opts_zero = 0" "opt_syncInterval opts_zero = 0"
  "opt_clockQuality opts_zero = cq_zero" "opt_priority1 opts_zero = 0"
  "opt_priority2 opts_zero = 0" "opt_domainNumber opts_zero = 0"
  "inboundLatency opts_zero = ti_zero" "outboundLatency opts_zero = ti_zero"
  "opt_max_foreign_records opts_zero = 0" "E2E_mode opts_zero = False"
  "opt_portNumber opts_zero = 0" "opt_calPeriod opts_zero = 0"
  "overrideClockIdentity opts_zero = 0" "opt_wrConfig opts_zero = 0"
  "opt_phyCalibrationRequired opts_zero = False" "opt_wrStateTimeout opts_zero = 0"
  "opt_wrStateRetry opts_zero = 0" "primarySource opts_zero = False"
  "masterOnly opts_zero = False" "disableFallbackIfWRFails opts_zero = False"
  "opt_iface_given opts_zero = (\<lambda>_. False)" "opt_unicast_given opts_zero = False"
  "opt_currentUtcOffset opts_zero = 0" "noResetClock opts_zero = False" "noAdjust opts_zero = False"
  "displayStats opts_zero = False" "csvStats opts_zero = False" "opt_ap opts_zero = 0"
  "opt_ai opts_zero = 0" "opt_s opts_zero = 0" "ethernet_mode opts_zero = False"
  "autoPortDiscovery opts_zero = False"
  by (simp_all add: opts_zero_def)

end
