(* ===== verification/Sys.thy ===== *)
theory Sys
  imports PtpTypes
begin

text \<open>
  The state the daemon runs in and the world it calls. Everything that is not under src/
  (the kernel's socket and clock, the HAL daemon behind the remote calls, the content of
  uninitialised stack memory) is an \<open>env\<close>: one function per external call, from the
  number of the call to its answer, so that a proof holds for every answer the world gives
  and a witness picks concrete ones. What the daemon does to the world is recorded in
  \<open>log\<close>.
\<close>

section \<open>The world\<close>

record hwts =
  tv_sec :: u64
  tv_nsec :: int

record rx_frame =
  h_dest :: "u8 list"
  h_source :: "u8 list"
  h_proto :: u16
  pkt_data :: "u8 list"
  hwtimeraw :: "hwts option"

text \<open>
  \<open>recvmsg\<close> on the packet socket: nothing there (EAGAIN), another result that is not
  positive, or a frame.
\<close>

datatype rx_result = RX_EAGAIN | RX_FAIL int | RX_FRAME rx_frame

record hexp_port_state =
  hps_valid :: bool
  hps_mode :: int
  hps_delta_tx :: u32
  hps_delta_rx :: u32
  hps_phase_val :: u32
  hps_phase_val_valid :: bool
  hps_up :: int
  hps_tx_calibrated :: bool
  hps_rx_calibrated :: bool
  hps_clock_period :: u32
  hps_t2_phase_transition :: u32
  hps_fiber_fix_alpha :: int

text \<open>
  Answers of the remote calls are the return code of \<open>minipc_call\<close> and the content of the
  result object after it (whatever was there before when the call failed).
  \<open>env_socket\<close> is the outcome of the kernel calls that open and configure the packet
  socket, with the hardware address of the interface. \<open>env_stack\<close> is the value of an
  uninitialised local variable.
\<close>

record env =
  env_gettimeofday :: "nat \<Rightarrow> u64"
  env_recvmsg :: "nat \<Rightarrow> rx_result"
  env_sendto :: "nat \<Rightarrow> int"
  env_recv_errqueue :: "nat \<Rightarrow> int \<times> hwts option"
  env_lock_cmd :: "nat \<Rightarrow> int \<times> int"
  env_pps_cmd :: "nat \<Rightarrow> int \<times> int"
  env_port_state :: "nat \<Rightarrow> int \<times> hexp_port_state"
  env_query_ports :: "nat \<Rightarrow> int"
  env_hal_connect :: "nat \<Rightarrow> bool"
  env_socket :: "nat \<Rightarrow> (u8 list) option"
  env_stack :: "nat \<Rightarrow> int"

datatype event =
  Sent nat "u8 list" u16 "u8 list"
| LockCmd nat int
| PpsCmd int int
| Exit int

text \<open>
  \<open>Sent i mac type data\<close> is a frame handed to \<open>sendto\<close> on port \<open>i\<close>; \<open>LockCmd i c\<close> and
  \<open>PpsCmd c v\<close> are remote calls to the HAL with command \<open>c\<close> and its parameter. Nothing the
  log holds after \<open>Exit\<close> happens: the process is gone.
\<close>

text \<open>A division by zero ends the process with a signal.\<close>

abbreviation SIGFPE :: int where "SIGFPE \<equiv> - 8"

section \<open>The state\<close>

text \<open>What the servo exports of its state (ptpd\_exports.h).\<close>

record ptpdexp_sync_state_t =
  es_valid :: bool
  es_slave_servo_state :: string
  es_tracking_enabled :: int
  es_mu :: int
  es_delay_ms :: int
  es_delta_tx_m :: int
  es_delta_rx_m :: int
  es_delta_tx_s :: int
  es_delta_rx_s :: int
  es_fiber_asymmetry :: int
  es_total_asymmetry :: int
  es_cur_offset :: int
  es_cur_setpoint :: int
  es_cur_skew :: int
  es_update_count :: int

text \<open>
  \<open>ports\<close> is the array \<open>ptpPortDS\<close>: the pointer to the data set of a port is its index, and
  \<open>clk\<close> the clock data set every port points to. The last five fields are the static
  variables of dep/wr\_servo.c.
\<close>

record sys =
  rtOpts :: RunTimeOpts
  ports :: "nat \<Rightarrow> PtpPortDS"
  clk :: PtpClockDS
  world :: env
  ncall :: nat
  log :: "event list"
  servo_state_valid :: bool
  cur_servo_state :: ptpdexp_sync_state_t
  tracking_enabled :: int
  got_sync :: bool
  ph_adjust :: int

type_synonym 'a cmd = "(sys, 'a) State_Monad.state"

definition ext :: "(env \<Rightarrow> nat \<Rightarrow> 'a) \<Rightarrow> 'a cmd" where
  "ext f = do {
     r \<leftarrow> gets (\<lambda>s. f (world s) (ncall s));
     modify (\<lambda>s. s\<lparr>ncall := Suc (ncall s)\<rparr>);
     State_Monad.return r }"

definition emit :: "event \<Rightarrow> unit cmd" where
  "emit e = modify (\<lambda>s. s\<lparr>log := log s @ [e]\<rparr>)"

definition gp :: "nat \<Rightarrow> (PtpPortDS \<Rightarrow> 'a) \<Rightarrow> 'a cmd" where
  "gp i f = gets (\<lambda>s. f (ports s i))"

definition upd :: "nat \<Rightarrow> (PtpPortDS \<Rightarrow> PtpPortDS) \<Rightarrow> unit cmd" where
  "upd i f = modify (\<lambda>s. s\<lparr>ports := (ports s)(i := f (ports s i))\<rparr>)"

definition gc :: "(PtpClockDS \<Rightarrow> 'a) \<Rightarrow> 'a cmd" where
  "gc f = gets (\<lambda>s. f (clk s))"

definition updc :: "(PtpClockDS \<Rightarrow> PtpClockDS) \<Rightarrow> unit cmd" where
  "updc f = modify (\<lambda>s. s\<lparr>clk := f (clk s)\<rparr>)"

definition go :: "(RunTimeOpts \<Rightarrow> 'a) \<Rightarrow> 'a cmd" where
  "go f = gets (\<lambda>s. f (rtOpts s))"

lemma wp_ext [wp_simps]:
  "wp (ext f) Q s = Q (f (world s) (ncall s)) (s\<lparr>ncall := Suc (ncall s)\<rparr>)"
  by (simp add: ext_def wp_simps)

lemma wp_access [wp_simps]:
  "wp (emit e) Q s = Q () (s\<lparr>log := log s @ [e]\<rparr>)"
  "wp (gp i f) Q' s = Q' (f (ports s i)) s"
  "wp (upd i g) Q s = Q () (s\<lparr>ports := (ports s)(i := g (ports s i))\<rparr>)"
  "wp (gc f') Q'' s = Q'' (f' (clk s)) s"
  "wp (updc g') Q s = Q () (s\<lparr>clk := g' (clk s)\<rparr>)"
  "wp (go f'') Q''' s = Q''' (f'' (rtOpts s)) s"
  by (simp_all add: emit_def gp_def upd_def gc_def updc_def go_def wp_simps)

lemma run_ext [simp]:
  "run_state (ext f) s = (f (world s) (ncall s), s\<lparr>ncall := Suc (ncall s)\<rparr>)"
  by (simp add: ext_def)

lemma run_access [simp]:
  "run_state (emit e) s = ((), s\<lparr>log := log s @ [e]\<rparr>)"
  "run_state (gp i f) s = (f (ports s i), s)"
  "run_state (upd i g) s = ((), s\<lparr>ports := (ports s)(i := g (ports s i))\<rparr>)"
  "run_state (gc f') s = (f' (clk s), s)"
  "run_state (updc g') s = ((), s\<lparr>clk := g' (clk s)\<rparr>)"
  "run_state (go f'') s = (f'' (rtOpts s), s)"
  by (simp_all add: emit_def gp_def upd_def gc_def updc_def go_def)

subsection \<open>Invariants of the ports\<close>

text \<open>
  \<open>port_inv Q R\<close>: every port satisfies \<open>Q\<close> (which may depend on its index) and the options
  satisfy \<open>R\<close>. Whatever only talks to the world or to the clock data set keeps it.
\<close>

definition port_inv :: "(nat \<Rightarrow> PtpPortDS \<Rightarrow> bool) \<Rightarrow> (RunTimeOpts \<Rightarrow> bool) \<Rightarrow> sys \<Rightarrow> bool" where
  "port_inv Q R s \<longleftrightarrow> (\<forall>i. Q i (ports s i)) \<and> R (rtOpts s)"

lemma keeps_port_inv [keeps_intros]:
  "keeps (port_inv Q R) (ext f)"
  "keeps (port_inv Q R) (emit e)"
  "keeps (port_inv Q R) (updc h)"
  "keeps P (gp i g)"
  "keeps P (gc g')"
  "keeps P (go g'')"
  by (simp_all add: keeps_def exec_def port_inv_def)

lemma keeps_upd: "(\<And>p. Q i p \<Longrightarrow> Q i (h p)) \<Longrightarrow> keeps (port_inv Q R) (upd i h)"
  by (simp add: keeps_def exec_def port_inv_def)

lemma keeps_go_bind:
  "(\<And>r. R r \<Longrightarrow> keeps (port_inv Q R) (g (f r))) \<Longrightarrow> keeps (port_inv Q R) (State_Monad.bind (go f) g)"
  by (simp add: keeps_def exec_bind port_inv_def exec_def [of "go f"])

lemma keeps_gp_bind:
  "(\<And>p. Q i p \<Longrightarrow> keeps (port_inv Q R) (g (f p))) \<Longrightarrow> keeps (port_inv Q R) (State_Monad.bind (gp i f) g)"
  by (simp add: keeps_def exec_bind port_inv_def exec_def [of "gp i f"])

lemma port_invD: "port_inv Q R s \<Longrightarrow> Q i (ports s i)" "port_inv Q R s \<Longrightarrow> R (rtOpts s)"
  by (simp_all add: port_inv_def)

subsection \<open>A quiet world\<close>

text \<open>
  A concrete world and state, for running the model on examples: the clock of the system
  stands still, nothing is received, and every remote call succeeds.
\<close>

definition hps_idle :: hexp_port_state where
  "hps_idle = \<lparr>hps_valid = True, hps_mode = 4, hps_delta_tx = 0, hps_delta_rx = 0,
     hps_phase_val = 0, hps_phase_val_valid = True, hps_up = 1, hps_tx_calibrated = True,
     hps_rx_calibrated = True, hps_clock_period = 8000, hps_t2_phase_transition = 0,
     hps_fiber_fix_alpha = 0\<rparr>"

definition quiet_env :: env where
  "quiet_env = \<lparr>env_gettimeofday = \<lambda>_. 0, env_recvmsg = \<lambda>_. RX_EAGAIN, env_sendto = \<lambda>_. 60,
     env_recv_errqueue = \<lambda>_. (0, None), env_lock_cmd = \<lambda>_. (0, 0), env_pps_cmd = \<lambda>_. (0, 0),
     env_port_state = \<lambda>_. (0, hps_idle), env_query_ports = \<lambda>_. 1, env_hal_connect = \<lambda>_. True,
     env_socket = \<lambda>_. Some (replicate 6 0), env_stack = \<lambda>_. 0\<rparr>"

definition es_zero :: ptpdexp_sync_state_t where
  "es_zero = \<lparr>es_valid = False, es_slave_servo_state = [], es_tracking_enabled = 0, es_mu = 0,
     es_delay_ms = 0, es_delta_tx_m = 0, es_delta_rx_m = 0, es_delta_tx_s = 0, es_delta_rx_s = 0,
     es_fiber_asymmetry = 0, es_total_asymmetry = 0, es_cur_offset = 0, es_cur_setpoint = 0,
     es_cur_skew = 0, es_update_count = 0\<rparr>"

definition sys_zero :: sys where
  "sys_zero = \<lparr>rtOpts = opts_zero, ports = \<lambda>_. port_zero, clk = clock_zero, world = quiet_env,
     ncall = 0, log = [], servo_state_valid = False, cur_servo_state = es_zero,
     tracking_enabled = 1, got_sync = False, ph_adjust = 0\<rparr>"

lemma sys_zero_sel [simp]:
  "rtOpts sys_zero = opts_zero" "ports sys_zero = (\<lambda>_. port_zero)" "clk sys_zero = clock_zero"
  "world sys_zero = quiet_env" "ncall sys_zero = 0" "log sys_zero = []"
  "servo_state_valid sys_zero = False" "cur_servo_state sys_zero = es_zero"
  "tracking_enabled sys_zero = 1" "got_sync sys_zero = False" "ph_adjust sys_zero = 0"
  by (simp_all add: sys_zero_def)

lemma quiet_env_sel [simp]:
  "env_gettimeofday quiet_env = (\<lambda>_. 0)" "env_recvmsg quiet_env = (\<lambda>_. RX_EAGAIN)"
  "env_sendto quiet_env = (\<lambda>_. 60)" "env_recv_errqueue quiet_env = (\<lambda>_. (0, None))"
  "env_lock_cmd quiet_env = (\<lambda>_. (0, 0))" "env_pps_cmd quiet_env = (\<lambda>_. (0, 0))"
  "env_port_state quiet_env = (\<lambda>_. (0, hps_idle))" "env_query_ports quiet_env = (\<lambda>_. 1)"
  "env_hal_connect quiet_env = (\<lambda>_. True)" "env_socket quiet_env = (\<lambda>_. Some (replicate 6 0))"
  "env_stack quiet_env = (\<lambda>_. 0)"
  by (simp_all add: quiet_env_def)

end
