(* ===== verification/Arith.thy ===== *)
theory Arith
  imports Sys
begin

text \<open>
  PTPWRd/arith.c: seconds and nanoseconds as pairs of 32-bit integers. The functions that
  write through a pointer take the old value of the target as an argument and return the
  new one, so that a branch that leaves the target alone is visible.
\<close>

unbundle bit_operations_syntax

section \<open>Definitions\<close>

definition normalizeTime :: "TimeInternal \<Rightarrow> TimeInternal" where
  "normalizeTime r =
    (let s = s32 (seconds r + nanoseconds r sdiv 1000000000);
         n = s32 (nanoseconds r - nanoseconds r sdiv 1000000000 * 1000000000)
     in if s > 0 \<and> n < 0 then r\<lparr>seconds := s32 (s - 1), nanoseconds := s32 (n + 1000000000)\<rparr>
        else if s < 0 \<and> n > 0 then r\<lparr>seconds := s32 (s + 1), nanoseconds := s32 (n - 1000000000)\<rparr>
        else r\<lparr>seconds := s, nanoseconds := n\<rparr>)"

definition addTime :: "TimeInternal \<Rightarrow> TimeInternal \<Rightarrow> TimeInternal \<Rightarrow> TimeInternal" where
  "addTime r x y = normalizeTime
     (r\<lparr>seconds := s32 (seconds x + seconds y),
        nanoseconds := s32 (nanoseconds x + nanoseconds y)\<rparr>)"

definition subTime :: "TimeInternal \<Rightarrow> TimeInternal \<Rightarrow> TimeInternal \<Rightarrow> TimeInternal" where
  "subTime r x y = normalizeTime
     (r\<lparr>seconds := s32 (seconds x - seconds y),
        nanoseconds := s32 (nanoseconds x - nanoseconds y)\<rparr>)"

text \<open>
  The body both branches of \<open>integer64_to_internalTime\<close> share: drop the 16 fractional bits,
  splice the low octets of \<open>msb\<close> above those of \<open>lsb\<close> (little-endian byte copies) and
  split into seconds and nanoseconds with \<open>2^32 = 4 * 10^9 + 294967296\<close>.
\<close>

definition integer64_split :: "int \<Rightarrow> u32 \<Rightarrow> TimeInternal \<Rightarrow> TimeInternal" where
  "integer64_split msb lsb r =
    (let lsb' = drop_bit 16 lsb AND 0xFFFF OR push_bit 16 (word_of_int msb AND 0xFFFF);
         msb' = drop_bit 16 msb;
         ns = s32 (uint (lsb' mod 1000000000));
         s = s32 (uint (lsb' div 1000000000));
         ns_msb = s64 (msb' * 294967296);
         s_msb = s32 (s32 (4 * msb') + s32 (ns_msb sdiv 1000000000))
     in normalizeTime
          (r\<lparr>seconds := s32 (s + s_msb),
             nanoseconds := s32 (ns + s32 (ns_msb smod 1000000000))\<rparr>))"

definition integer64_to_internalTime :: "Integer64 \<Rightarrow> TimeInternal \<Rightarrow> TimeInternal" where
  "integer64_to_internalTime bigint r =
    (let negative = ((word_of_int (i64_msb bigint) :: u32) AND 0x80000000 = 0x80000000)
     in if \<not> negative then integer64_split (i64_msb bigint) (i64_lsb bigint) r
        else
          (let lsb = NOT (i64_lsb bigint);
               msb = NOT (i64_msb bigint);
               t = (if lsb = 0xffffffff then integer64_split (s32 (msb + 1)) 0 r
                    else integer64_split msb (lsb + 1) r)
           in t\<lparr>nanoseconds := s32 (- nanoseconds t), seconds := s32 (- seconds t)\<rparr>))"

definition fromInternalTime :: "TimeInternal \<Rightarrow> Timestamp \<Rightarrow> Timestamp" where
  "fromInternalTime internal external =
    (if seconds internal AND NOT INT_MAX \<noteq> 0 \<or> nanoseconds internal AND NOT INT_MAX \<noteq> 0
     then external
     else external\<lparr>secs_lsb := word_of_int (seconds internal),
                   nanosecondsField := word_of_int (nanoseconds internal),
                   secs_msb := 0\<rparr>)"

definition toInternalTime :: "TimeInternal \<Rightarrow> Timestamp \<Rightarrow> TimeInternal" where
  "toInternalTime internal external =
    (if uint (secs_lsb external) < INT_MAX
     then internal\<lparr>seconds := s32 (uint (secs_lsb external)),
                   nanoseconds := s32 (uint (nanosecondsField external))\<rparr>
     else internal)"

section \<open>The abstract time\<close>

text \<open>
  What a \<^typ>\<open>TimeInternal\<close> stands for, in nanoseconds, and the normal form the functions
  produce: less than a second of nanoseconds, and no opposite signs.
\<close>

definition ti_total :: "TimeInternal \<Rightarrow> int" where
  "ti_total t = seconds t * 1000000000 + nanoseconds t"

definition ti_normal :: "TimeInternal \<Rightarrow> bool" where
  "ti_normal t \<longleftrightarrow> \<bar>nanoseconds t\<bar> < 1000000000 \<and>
     \<not> (seconds t > 0 \<and> nanoseconds t < 0) \<and> \<not> (seconds t < 0 \<and> nanoseconds t > 0)"

lemma sdiv_giga_bound: "- 2147483648 \<le> a \<Longrightarrow> a < 2147483648 \<Longrightarrow> \<bar>(a::int) sdiv 1000000000\<bar> \<le> 2"
  by (cases "a < 0") (simp_all add: sdiv_neg sdiv_nonneg)

text \<open>
  The bounds under which nothing wraps: seconds a few short of the 32-bit range.
\<close>

definition ti_safe :: "TimeInternal \<Rightarrow> bool" where
  "ti_safe t \<longleftrightarrow> \<bar>seconds t\<bar> \<le> 2147483640 \<and>
     - 2147483648 \<le> nanoseconds t \<and> nanoseconds t < 2147483648"

lemma normalizeTime_correct:
  assumes "ti_safe r"
  shows "ti_total (normalizeTime r) = ti_total r" "ti_normal (normalizeTime r)"
proof -
  define q where "q = nanoseconds r sdiv 1000000000"
  define m where "m = nanoseconds r smod 1000000000"
  have n: "nanoseconds r = q * 1000000000 + m"
    by (simp add: q_def m_def sdiv_mult_smod_eq)
  have q: "\<bar>q\<bar> \<le> 2"
    using assms unfolding q_def ti_safe_def by (intro sdiv_giga_bound) auto
  have m: "\<bar>m\<bar> < 1000000000" unfolding m_def by (rule smod_bound) simp
  have b: "\<bar>seconds r\<bar> \<le> 2147483640" using assms by (simp add: ti_safe_def)
  have s: "s32 (seconds r + q) = seconds r + q" using b q by (intro s32_id) auto
  have w: "s32 m = m" using m by (intro s32_id) auto
  have r1: "m < 0 \<Longrightarrow> s32 (m + 1000000000) = m + 1000000000"
    and r2: "m > 0 \<Longrightarrow> s32 (m - 1000000000) = m - 1000000000"
    and r3: "seconds r + q > 0 \<Longrightarrow> s32 (seconds r + q - 1) = seconds r + q - 1"
    and r4: "seconds r + q < 0 \<Longrightarrow> s32 (seconds r + q + 1) = seconds r + q + 1"
    using m b q by (auto intro!: s32_id)
  have e: "nanoseconds r - nanoseconds r sdiv 1000000000 * 1000000000 = m"
    using n by (simp add: q_def)
  have eq: "normalizeTime r =
      (if seconds r + q > 0 \<and> m < 0
       then r\<lparr>seconds := seconds r + q - 1, nanoseconds := m + 1000000000\<rparr>
       else if seconds r + q < 0 \<and> m > 0
       then r\<lparr>seconds := seconds r + q + 1, nanoseconds := m - 1000000000\<rparr>
       else r\<lparr>seconds := seconds r + q, nanoseconds := m\<rparr>)"
    unfolding normalizeTime_def e using r1 r2 r3 r4 by (simp add: Let_def s w flip: q_def)
  show "ti_total (normalizeTime r) = ti_total r"
    unfolding eq by (simp add: ti_total_def) (simp add: n algebra_simps)
  show "ti_normal (normalizeTime r)"
    unfolding eq using m by (auto simp: ti_normal_def)
qed

lemma normalizeTime_keeps:
  "ti_phase (normalizeTime r) = ti_phase r" "ti_correct (normalizeTime r) = ti_correct r"
  by (simp_all add: normalizeTime_def Let_def)

text \<open>Two times whose sum and difference stay away from the ends of the 32-bit range.\<close>

definition ti_addable :: "TimeInternal \<Rightarrow> TimeInternal \<Rightarrow> bool" where
  "ti_addable x y \<longleftrightarrow> \<bar>seconds x\<bar> + \<bar>seconds y\<bar> \<le> 2147483640 \<and>
     \<bar>nanoseconds x\<bar> + \<bar>nanoseconds y\<bar> \<le> 2147483647"

lemma addTime_correct:
  assumes "ti_addable x y"
  shows "ti_total (addTime r x y) = ti_total x + ti_total y" "ti_normal (addTime r x y)"
proof -
  have s: "s32 (seconds x + seconds y) = seconds x + seconds y"
    and n: "s32 (nanoseconds x + nanoseconds y) = nanoseconds x + nanoseconds y"
    using assms by (auto simp: ti_addable_def intro!: s32_id)
  have "ti_safe (r\<lparr>seconds := seconds x + seconds y, nanoseconds := nanoseconds x + nanoseconds y\<rparr>)"
    using assms by (auto simp: ti_safe_def ti_addable_def)
  from normalizeTime_correct [OF this]
  show "ti_total (addTime r x y) = ti_total x + ti_total y" "ti_normal (addTime r x y)"
    by (simp_all add: addTime_def s n) (simp add: ti_total_def algebra_simps)
qed

lemma subTime_correct:
  assumes "ti_addable x y"
  shows "ti_total (subTime r x y) = ti_total x - ti_total y" "ti_normal (subTime r x y)"
proof -
  have s: "s32 (seconds x - seconds y) = seconds x - seconds y"
    and n: "s32 (nanoseconds x - nanoseconds y) = nanoseconds x - nanoseconds y"
    using assms by (auto simp: ti_addable_def intro!: s32_id)
  have "ti_safe (r\<lparr>seconds := seconds x - seconds y, nanoseconds := nanoseconds x - nanoseconds y\<rparr>)"
    using assms by (auto simp: ti_safe_def ti_addable_def)
  from normalizeTime_correct [OF this]
  show "ti_total (subTime r x y) = ti_total x - ti_total y" "ti_normal (subTime r x y)"
    by (simp_all add: subTime_def s n) (simp add: ti_total_def algebra_simps)
qed

section \<open>The correction field\<close>

lemma u32_high: "0 \<le> uint (w :: u32) div 65536" "uint (w :: u32) div 65536 < 65536"
  using uint_lt2p [of w] by (simp_all add: pos_imp_zdiv_nonneg_iff del: uint_div_distrib)

lemma splice_low:
  "uint (drop_bit 16 lsb AND 0xFFFF OR push_bit 16 (word_of_int msb AND 0xFFFF) :: u32) =
   (msb mod 65536) * 65536 + uint lsb div 65536"
proof -
  let ?v = "concat_bit 16 (drop_bit 16 (uint lsb)) (take_bit 16 msb)"
  have m: "(0xFFFF :: u32) = mask 16" by (simp add: mask_eq_exp_minus_1)
  have eq: "(drop_bit 16 lsb AND 0xFFFF OR push_bit 16 (word_of_int msb AND 0xFFFF) :: u32)
            = word_of_int ?v"
    unfolding m
    by (rule bit_word_eqI)
      (auto simp: bit_simps bit_concat_bit_iff)
  note u = u32_high [of lsb]
  have v: "?v = (msb mod 65536) * 65536 + uint lsb div 65536"
  proof -
    have "take_bit 16 (drop_bit 16 (uint lsb)) = drop_bit 16 (uint lsb)"
      using u by (intro take_bit_int_eq_self) (simp_all only: drop_bit_eq_div, simp_all)
    then show ?thesis
      by (simp add: concat_bit_eq push_bit_eq_mult drop_bit_eq_div take_bit_eq_mod)
  qed
  have "0 \<le> ?v" "?v < 4294967296"
    unfolding v using u pos_mod_bound [of 65536 msb] pos_mod_sign [of 65536 msb] by auto
  then show ?thesis
    unfolding eq by (simp only: v uint_word_of_int) simp
qed

text \<open>The body on the magnitude of the correction field: the whole nanoseconds of it.\<close>

lemma whole_nanoseconds:
  "(msb * 4294967296 + uint (lsb :: u32)) div 65536 =
   msb div 65536 * 4294967296 + (msb mod 65536 * 65536 + uint lsb div 65536)"
proof -
  define h c where "h = msb div 65536" and "c = msb mod 65536"
  have "msb = h * 65536 + c" by (simp add: h_def c_def)
  then have "msb * 4294967296 + uint lsb = uint lsb + (h * 4294967296 + c * 65536) * 65536" by simp
  note this [unfolded h_def c_def]
  then show ?thesis by simp
qed

text \<open>No step of it wraps: it normalizes the sum of the two halves, each split at a billion.\<close>

lemma integer64_split_parts:
  fixes lsb :: u32
  assumes "0 \<le> msb" "msb < 2147483648"
  defines "h \<equiv> msb div 65536" and "l \<equiv> msb mod 65536 * 65536 + uint lsb div 65536"
  shows "integer64_split msb lsb r = normalizeTime
    (r\<lparr>seconds := l div 1000000000 + 4 * h + h * 294967296 div 1000000000,
       nanoseconds := l mod 1000000000 + h * 294967296 mod 1000000000\<rparr>)"
proof -
  have h: "0 \<le> h" "h \<le> 32767" using assms by (auto simp: h_def)
  have l: "0 \<le> l" "l < 4294967296"
    unfolding l_def using u32_high [of lsb] pos_mod_bound [of 65536 msb] pos_mod_sign [of 65536 msb] by auto
  have d: "0 \<le> h * 294967296 div 1000000000" "h * 294967296 div 1000000000 \<le> 9665"
    "0 \<le> l div 1000000000" "l div 1000000000 \<le> 4"
    using h l by auto
  note m = pos_mod_bound [of 1000000000 l] pos_mod_sign [of 1000000000 l]
    pos_mod_bound [of 1000000000 "h * 294967296"] pos_mod_sign [of 1000000000 "h * 294967296"]
  have w: "s32 (l mod 1000000000) = l mod 1000000000" "s32 (l div 1000000000) = l div 1000000000"
    "s64 (h * 294967296) = h * 294967296" "s32 (4 * h) = 4 * h"
    "s32 (h * 294967296 mod 1000000000) = h * 294967296 mod 1000000000"
    "s32 (h * 294967296 div 1000000000) = h * 294967296 div 1000000000"
    "s32 (4 * h + h * 294967296 div 1000000000) = 4 * h + h * 294967296 div 1000000000"
    "s32 (l div 1000000000 + 4 * h + h * 294967296 div 1000000000) =
      l div 1000000000 + 4 * h + h * 294967296 div 1000000000"
    "s32 (l mod 1000000000 + h * 294967296 mod 1000000000) = l mod 1000000000 + h * 294967296 mod 1000000000"
    using h d m by (auto intro!: s32_id s64_id)
  have dr: "drop_bit 16 msb = h" by (simp add: h_def drop_bit_eq_div)
  have hs: "(h * 294967296) sdiv 1000000000 = h * 294967296 div 1000000000"
    "(h * 294967296) smod 1000000000 = h * 294967296 mod 1000000000"
    by (rule sdiv_nonneg, simp_all add: h(1)) (rule smod_nonneg, simp_all add: h(1))
  show ?thesis
    unfolding integer64_split_def Let_def dr uint_div_distrib uint_mod_distrib splice_low
    using w by (simp add: hs add.assoc flip: l_def)
qed

lemma integer64_split_correct:
  assumes "0 \<le> msb" "msb < 2147483648"
  shows "ti_total (integer64_split msb lsb r) = (msb * 4294967296 + uint lsb) div 65536"
    and "ti_normal (integer64_split msb lsb r)"
    and "0 \<le> seconds (integer64_split msb lsb r)"
    and "seconds (integer64_split msb lsb r) \<le> 140738"
    and "0 \<le> nanoseconds (integer64_split msb lsb r)"
proof -
  define h where "h = msb div 65536"
  define l where "l = (msb mod 65536) * 65536 + uint lsb div 65536"
  have h: "0 \<le> h" "h \<le> 32767" using assms by (auto simp: h_def)
  note u = u32_high [of lsb]
  have l: "0 \<le> l" "l < 4294967296"
    unfolding l_def using u pos_mod_bound [of 65536 msb] pos_mod_sign [of 65536 msb] by auto
  have tot: "(msb * 4294967296 + uint lsb) div 65536 = h * 4294967296 + l"
    unfolding h_def l_def by (rule whole_nanoseconds)
  define n where "n = l mod 1000000000 + (h * 294967296) mod 1000000000"
  define t where "t = l div 1000000000 + 4 * h + (h * 294967296) div 1000000000"
  have n: "0 \<le> n" "n < 2000000000" unfolding n_def
    using pos_mod_bound [of 1000000000 l] pos_mod_sign [of 1000000000 l]
      pos_mod_bound [of 1000000000 "h * 294967296"] pos_mod_sign [of 1000000000 "h * 294967296"]
    by auto
  have d: "0 \<le> h * 294967296 div 1000000000" "h * 294967296 div 1000000000 \<le> 9665"
      "0 \<le> l div 1000000000" "l div 1000000000 \<le> 4"
    using h l by auto
  have t: "0 \<le> t" "t \<le> 140737" using h d by (auto simp: t_def)
  have nt: "t * 1000000000 + n = h * 4294967296 + l"
    using div_mult_mod_eq [of l 1000000000] div_mult_mod_eq [of "h * 294967296" 1000000000]
    by (simp add: n_def t_def algebra_simps)
  have eq: "integer64_split msb lsb r = normalizeTime (r\<lparr>seconds := t, nanoseconds := n\<rparr>)"
    unfolding t_def n_def h_def l_def by (rule integer64_split_parts [OF assms])
  have safe: "ti_safe (r\<lparr>seconds := t, nanoseconds := n\<rparr>)"
    using n t by (simp add: ti_safe_def)
  show tt: "ti_total (integer64_split msb lsb r) = (msb * 4294967296 + uint lsb) div 65536"
    using normalizeTime_correct(1) [OF safe] nt by (simp add: eq tot ti_total_def)
  show nn: "ti_normal (integer64_split msb lsb r)"
    using normalizeTime_correct(2) [OF safe] by (simp add: eq)
  show "0 \<le> seconds (integer64_split msb lsb r)"
    "seconds (integer64_split msb lsb r) \<le> 140738"
    "0 \<le> nanoseconds (integer64_split msb lsb r)"
    using nn tt nt n t by (auto simp: ti_normal_def ti_total_def tot)
qed

lemma sign_bit:
  assumes "- 2147483648 \<le> k" "k < 2147483648"
  shows "((word_of_int k :: u32) AND 0x80000000 = 0x80000000) \<longleftrightarrow> k < 0"
proof -
  have e: "(0x80000000 :: u32) = push_bit 31 1" by simp
  have "((word_of_int k :: u32) AND 0x80000000 = 0x80000000) \<longleftrightarrow> bit k 31"
  proof
    assume "(word_of_int k :: u32) AND 0x80000000 = 0x80000000"
    from this [unfolded e, THEN arg_cong, of "\<lambda>w. bit w 31"] show "bit k 31"
      by (simp add: bit_simps)
  next
    assume "bit k 31"
    then show "(word_of_int k :: u32) AND 0x80000000 = 0x80000000"
      unfolding e by (intro bit_word_eqI) (auto simp: bit_push_bit_iff bit_and_iff bit_1_iff
          bit_word_of_int_iff simp del: push_bit_of_1 push_bit_numeral elim!: back_subst [of "bit k"])
  qed
  also have "\<dots> \<longleftrightarrow> odd (k div 2147483648)" by (simp add: bit_iff_odd)
  also have "\<dots> \<longleftrightarrow> k < 0"
  proof (cases "k < 0")
    case True
    then have "k div 2147483648 = - 1" 
      using assms div_pos_pos_trivial [of "k + 2147483648" 2147483648] by simp
    with True show ?thesis by simp
  next
    case False
    then have "k div 2147483648 = 0" using assms by (intro div_pos_pos_trivial) auto
    with False show ?thesis by simp
  qed
  finally show ?thesis .
qed

text \<open>The signed 64-bit value of the two halves, in units of \<open>2^-16\<close> ns.\<close>

definition i64_value :: "Integer64 \<Rightarrow> int" where
  "i64_value b = i64_msb b * 4294967296 + uint (i64_lsb b)"

definition i64_in_range :: "Integer64 \<Rightarrow> bool" where
  "i64_in_range b \<longleftrightarrow> - 2147483648 \<le> i64_msb b \<and> i64_msb b < 2147483648"

lemma ti_negate:
  assumes "ti_normal t" "0 \<le> seconds t" "seconds t \<le> 140738" "0 \<le> nanoseconds t"
  shows "ti_total (t\<lparr>nanoseconds := s32 (- nanoseconds t), seconds := s32 (- seconds t)\<rparr>) = - ti_total t"
    and "ti_normal (t\<lparr>nanoseconds := s32 (- nanoseconds t), seconds := s32 (- seconds t)\<rparr>)"
proof -
  have "s32 (- nanoseconds t) = - nanoseconds t" "s32 (- seconds t) = - seconds t"
    using assms by (auto simp: ti_normal_def intro!: s32_id)
  then show "ti_total (t\<lparr>nanoseconds := s32 (- nanoseconds t), seconds := s32 (- seconds t)\<rparr>) = - ti_total t"
    and "ti_normal (t\<lparr>nanoseconds := s32 (- nanoseconds t), seconds := s32 (- seconds t)\<rparr>)"
    using assms by (auto simp: ti_total_def ti_normal_def)
qed

text \<open>The two's complement of a negative correction field, taken half by half, is its magnitude.\<close>

lemma uint_not_plus_one:
  assumes "(w :: u32) \<noteq> 0"
  shows "uint (NOT w + 1) = 4294967296 - uint w"
proof -
  have u: "0 \<le> uint w" "uint w < 4294967296" "uint w \<noteq> 0"
    using uint_lt2p [of w] assms by (simp_all add: unsigned_eq_0_iff)
  then have "(4294967296 - uint w) mod 4294967296 = 4294967296 - uint w" by (intro mod_pos_pos_trivial) linarith+
  then have "(- uint w) mod 4294967296 = 4294967296 - uint w" by (simp add: mod_diff_eq flip: mod_diff_left_eq)
  then show ?thesis by (simp add: not_eq_complement uint_word_ariths)
qed

lemma integer64_magnitude:
  assumes "i64_in_range b" "i64_value b \<noteq> - 9223372036854775808" "i64_msb b < 0"
  shows "\<exists>m l. (if NOT (i64_lsb b) = 0xffffffff then integer64_split (s32 (NOT (i64_msb b) + 1)) 0 r
      else integer64_split (NOT (i64_msb b)) (NOT (i64_lsb b) + 1) r) = integer64_split m l r \<and>
    0 \<le> m \<and> m < 2147483648 \<and> m * 4294967296 + uint l = - i64_value b"
proof (cases "i64_lsb b = 0")
  case True
  then have m: "i64_msb b \<noteq> - 2147483648" using assms(2) by (auto simp: i64_value_def)
  then have "s32 (NOT (i64_msb b) + 1) = - i64_msb b"
    using assms(1) by (simp add: not_int_def i64_in_range_def) (intro s32_id, auto)
  then show ?thesis
    using True m assms(1,3)
    by (intro exI [of _ "- i64_msb b"] exI [of _ 0]) (auto simp: i64_value_def i64_in_range_def)
next
  case False
  have "(0xffffffff :: u32) = NOT 0" by simp
  then have "NOT (i64_lsb b) \<noteq> 0xffffffff" using False by (metis bit.compl_eq_compl_iff)
  then show ?thesis
    using uint_not_plus_one [OF False] assms(1,3)
    by (intro exI [of _ "NOT (i64_msb b)"] exI [of _ "NOT (i64_lsb b) + 1"])
      (simp add: i64_value_def i64_in_range_def not_int_def)
qed

text \<open>
  C39. The correction field of a message, a signed 64-bit count of 1/65536 ns, is turned into
  seconds and nanoseconds exactly: the result is the value divided by 65536 rounded towards
  zero, in normal form, for every value but the most negative one (whose magnitude does
  not fit and overflows in the code).
\<close>
theorem integer64_to_internalTime_exact:
  assumes "i64_in_range b" "i64_value b \<noteq> - 9223372036854775808"
  shows "ti_total (integer64_to_internalTime b r) = i64_value b sdiv 65536 \<and>
         ti_normal (integer64_to_internalTime b r)"
proof (cases "i64_msb b < 0")
  case False
  then have "\<not> ((word_of_int (i64_msb b) :: u32) AND 0x80000000 = 0x80000000)"
    using sign_bit assms by (simp add: i64_in_range_def)
  with False show ?thesis
    using integer64_split_correct [of "i64_msb b" "i64_lsb b" r] assms
    by (simp add: integer64_to_internalTime_def i64_in_range_def i64_value_def sdiv_nonneg)
next
  case True
  let ?m = "i64_msb b" and ?l = "i64_lsb b"
  have sign: "(word_of_int ?m :: u32) AND 0x80000000 = 0x80000000"
    using sign_bit assms True by (simp add: i64_in_range_def)
  have v: "i64_value b < 0" using True uint_lt2p [of ?l] by (simp add: i64_value_def)
  define t where "t = (if NOT ?l = 0xffffffff then integer64_split (s32 (NOT ?m + 1)) 0 r
                       else integer64_split (NOT ?m) (NOT ?l + 1) r)"
  have "\<exists>m' l'. t = integer64_split m' l' r \<and> 0 \<le> m' \<and> m' < 2147483648 \<and>
          m' * 4294967296 + uint l' = - i64_value b"
    unfolding t_def using integer64_magnitude [OF assms True] by auto
  then obtain m' l' where t: "t = integer64_split m' l' r" "0 \<le> m'" "m' < 2147483648"
    "m' * 4294967296 + uint l' = - i64_value b" by auto
  note t' = integer64_split_correct [OF t(2,3), of l' r, folded t(1)]
  have "integer64_to_internalTime b r =
      t\<lparr>nanoseconds := s32 (- nanoseconds t), seconds := s32 (- seconds t)\<rparr>"
    by (simp add: integer64_to_internalTime_def sign t_def Let_def)
  then show ?thesis
    using ti_negate [OF t'(2,3,4,5)] t'(1) t(4) v by (simp add: sdiv_neg)
qed

theorem integer64_to_internalTime_exact_witness:
  "ti_total (integer64_to_internalTime \<lparr>i64_msb = - 1, i64_lsb = 0xFFFE0000\<rparr>
      ti_zero) = - 2"
  using integer64_to_internalTime_exact [of "\<lparr>i64_msb = - 1, i64_lsb = 0xFFFE0000\<rparr>"
      "ti_zero"]
  by (simp add: i64_in_range_def i64_value_def sdiv_neg)

text \<open>
  C38. Adding and subtracting times is exact in nanoseconds and leaves a normalised result,
  whatever the operands' signs and whether or not they were normalised, as long as the sums
  of the magnitudes stay inside 32 bits; the phase and the correctness flag of the
  target are left alone.
\<close>
theorem addTime_subTime_exact:
  assumes "ti_addable x y"
  shows "ti_total (addTime r x y) = ti_total x + ti_total y \<and> ti_normal (addTime r x y) \<and>
         ti_total (subTime r x y) = ti_total x - ti_total y \<and> ti_normal (subTime r x y) \<and>
         ti_phase (addTime r x y) = ti_phase r \<and> ti_phase (subTime r x y) = ti_phase r \<and>
         ti_correct (addTime r x y) = ti_correct r \<and> ti_correct (subTime r x y) = ti_correct r"
  using addTime_correct [OF assms] subTime_correct [OF assms]
  by (simp add: normalizeTime_keeps) (simp add: addTime_def subTime_def normalizeTime_keeps)

theorem addTime_subTime_exact_witness:
  "ti_total (addTime ti_zero
      \<lparr>seconds = 1, nanoseconds = 800000000, ti_phase = 0, ti_correct = 0\<rparr>
      \<lparr>seconds = - 3, nanoseconds = - 300000000, ti_phase = 0, ti_correct = 0\<rparr>) = - 1500000000"
  using addTime_subTime_exact
    [of "\<lparr>seconds = 1, nanoseconds = 800000000, ti_phase = 0, ti_correct = 0\<rparr>"
        "\<lparr>seconds = - 3, nanoseconds = - 300000000, ti_phase = 0, ti_correct = 0\<rparr>" ti_zero]
  by (simp add: ti_addable_def ti_total_def)

lemma neg_mask: "x AND NOT INT_MAX \<noteq> 0 \<longleftrightarrow> x < 0 \<or> 2147483647 < x"
proof -
  have "x AND NOT INT_MAX = push_bit 31 (drop_bit 31 x)"
    by (rule bit_eqI) (auto simp: INT_MAX_def bit_simps bit_push_bit_iff
        mask_eq_exp_minus_1 [of 31, where 'a = int, simplified, symmetric])
  then have "x AND NOT INT_MAX = 0 \<longleftrightarrow> x div 2147483648 = 0"
    by (simp add: push_bit_eq_mult drop_bit_eq_div)
  then show ?thesis by (auto simp: zdiv_eq_0_iff)
qed

text \<open>
  Converting a time of the system to a PTP timestamp and back gives the time again when
  it is not negative and before 2038; a negative time leaves the timestamp as it was, and a
  timestamp from 2038 on leaves the time as it was.
\<close>
lemma internalTime_roundtrip:
  assumes "seconds t < 2147483648" "nanoseconds t < 2147483648"
  shows "toInternalTime r (fromInternalTime t e) =
      (if 0 \<le> seconds t \<and> 0 \<le> nanoseconds t \<and> seconds t < INT_MAX
       then r\<lparr>seconds := seconds t, nanoseconds := nanoseconds t\<rparr>
       else if seconds t < 0 \<or> nanoseconds t < 0 then toInternalTime r e
       else r)"
proof (cases "seconds t < 0 \<or> nanoseconds t < 0")
  case True
  then show ?thesis by (auto simp: fromInternalTime_def neg_mask)
next
  case False
  with assms have "fromInternalTime t e = e\<lparr>secs_lsb := word_of_int (seconds t),
      nanosecondsField := word_of_int (nanoseconds t), secs_msb := 0\<rparr>"
    by (simp add: fromInternalTime_def neg_mask)
  with False assms show ?thesis
    by (auto simp: toInternalTime_def INT_MAX_def uint_word_of_int s32_id)
qed

lemma internalTime_roundtrip_example:
  "toInternalTime ti_zero (fromInternalTime
      \<lparr>seconds = 5, nanoseconds = 7, ti_phase = 0, ti_correct = 0\<rparr> ts_zero) =
   ti_zero\<lparr>seconds := 5, nanoseconds := 7\<rparr>"
  using internalTime_roundtrip
    [of "\<lparr>seconds = 5, nanoseconds = 7, ti_phase = 0, ti_correct = 0\<rparr>" ti_zero ts_zero]
  by (simp add: INT_MAX_def)

end
