(* ===== verification/Wire.thy ===== *)
theory Wire
  imports Sys
begin

text \<open>
  Octets, big-endian integers and blocks in a message buffer (the accessors at the head of
  PTPWRd/dep/msg.c; \<open>flip16\<close>/\<open>flip32\<close> stores through a casted pointer write the same octets
  on the little-endian build). The locale \<open>wire\<close> is what packing and unpacking rely on:
  a field read back where it was written, and untouched by writes elsewhere.
\<close>

unbundle bit_operations_syntax

section \<open>Accessors\<close>

definition get_u8 :: "nat \<Rightarrow> u8 list \<Rightarrow> u8" where
  "get_u8 o' b = b ! o'"

definition put_u8 :: "nat \<Rightarrow> u8 \<Rightarrow> u8 list \<Rightarrow> u8 list" where
  "put_u8 o' x b = b[o' := x]"

definition put_be16 :: "nat \<Rightarrow> u16 \<Rightarrow> u8 list \<Rightarrow> u8 list" where
  "put_be16 o' x b = b[o' := ucast (drop_bit 8 x), o' + 1 := ucast x]"

definition put_be32 :: "nat \<Rightarrow> u32 \<Rightarrow> u8 list \<Rightarrow> u8 list" where
  "put_be32 o' x b = b[o' := ucast (drop_bit 24 x), o' + 1 := ucast (drop_bit 16 x),
     o' + 2 := ucast (drop_bit 8 x), o' + 3 := ucast x]"

definition get_be32 :: "nat \<Rightarrow> u8 list \<Rightarrow> u32" where
  "get_be32 o' b = (push_bit 24 (ucast (b ! o')) AND 0xFF000000)
     OR (push_bit 16 (ucast (b ! (o' + 1))) AND 0x00FF0000)
     OR (push_bit 8 (ucast (b ! (o' + 2))) AND 0x0000FF00)
     OR (ucast (b ! (o' + 3)) AND 0x000000FF)"

definition get_be16 :: "nat \<Rightarrow> u8 list \<Rightarrow> u16" where
  "get_be16 o' b = (push_bit 8 (ucast (b ! o')) AND 0xFF00) OR (ucast (b ! (o' + 1)) AND 0x00FF)"

text \<open>\<open>memcpy\<close> to and from a buffer.\<close>

fun put_block :: "nat \<Rightarrow> u8 list \<Rightarrow> u8 list \<Rightarrow> u8 list" where
  "put_block o' [] b = b"
| "put_block o' (x # xs) b = put_block (Suc o') xs (b[o' := x])"

definition get_block :: "nat \<Rightarrow> nat \<Rightarrow> u8 list \<Rightarrow> u8 list" where
  "get_block n o' b = map (\<lambda>k. b ! (o' + k)) [0..<n]"

text \<open>A sequence of stores, in the order of the list.\<close>

primrec writes :: "(u8 list \<Rightarrow> u8 list) list \<Rightarrow> u8 list \<Rightarrow> u8 list" where
  "writes [] b = b"
| "writes (f # fs) b = writes fs (f b)"

section \<open>The contract of an accessor\<close>

locale wire =
  fixes get :: "nat \<Rightarrow> u8 list \<Rightarrow> 'v"
    and put :: "nat \<Rightarrow> 'v \<Rightarrow> u8 list \<Rightarrow> u8 list"
    and width :: nat
    and ok :: "'v \<Rightarrow> bool"
  assumes put_length: "length (put p v b) = length b"
    and put_outside: "ok v \<Longrightarrow> k < p \<or> p + width \<le> k \<Longrightarrow> put p v b ! k = b ! k"
    and get_put: "ok v \<Longrightarrow> p + width \<le> length b \<Longrightarrow> get p (put p v b) = v"
    and get_local: "(\<And>k. p \<le> k \<Longrightarrow> k < p + width \<Longrightarrow> b ! k = b' ! k) \<Longrightarrow> get p b = get p b'"

text \<open>Reading one kind of field after writing another one elsewhere.\<close>

locale wire_pair = r: wire getr putr widthr okr + w: wire getw putw widthw okw
  for getr :: "nat \<Rightarrow> u8 list \<Rightarrow> 'r" and putr widthr okr
    and getw :: "nat \<Rightarrow> u8 list \<Rightarrow> 'w" and putw widthw okw
begin

lemma disjoint:
  "okw v \<Longrightarrow> q + widthr \<le> p \<or> p + widthw \<le> q \<Longrightarrow> getr q (putw p v b) = getr q b"
  by (rule r.get_local, rule w.put_outside) auto

end

section \<open>The accessors satisfy it\<close>

lemma be16_bytes:
  "(push_bit 8 (ucast (ucast (drop_bit 8 x) :: u8)) AND 0xFF00) OR (ucast (ucast x :: u8) AND 0x00FF) = (x :: u16)"
proof -
  have m: "(0xFF00 :: u16) = push_bit 8 (mask 8)" "(0x00FF :: u16) = mask 8"
    by (simp_all add: mask_eq_exp_minus_1)
  show ?thesis
    unfolding m by (rule bit_word_eqI) (auto simp: bit_simps)
qed

lemma be32_bytes:
  "(push_bit 24 (ucast (ucast (drop_bit 24 x) :: u8)) AND 0xFF000000)
     OR (push_bit 16 (ucast (ucast (drop_bit 16 x) :: u8)) AND 0x00FF0000)
     OR (push_bit 8 (ucast (ucast (drop_bit 8 x) :: u8)) AND 0x0000FF00)
     OR (ucast (ucast x :: u8) AND 0x000000FF) = (x :: u32)"
proof -
  have m: "(0xFF000000 :: u32) = push_bit 24 (mask 8)" "(0x00FF0000 :: u32) = push_bit 16 (mask 8)"
    "(0x0000FF00 :: u32) = push_bit 8 (mask 8)" "(0x000000FF :: u32) = mask 8"
    by (simp_all add: mask_eq_exp_minus_1)
  show ?thesis
  proof (unfold m, rule bit_word_eqI)
    fix n assume "n < LENGTH(32)"
    then consider "n < 8" | "8 \<le> n" "n < 16" | "16 \<le> n" "n < 24" | "24 \<le> n" "n < 32"
      by fastforce
    then show "bit ((push_bit 24 (ucast (ucast (drop_bit 24 x) :: u8)) AND push_bit 24 (mask 8))
      OR (push_bit 16 (ucast (ucast (drop_bit 16 x) :: u8)) AND push_bit 16 (mask 8))
      OR (push_bit 8 (ucast (ucast (drop_bit 8 x) :: u8)) AND push_bit 8 (mask 8))
      OR (ucast (ucast x :: u8) AND mask 8) :: u32) n = bit x n"
      by cases (simp_all add: bit_simps, linarith+)
  qed
qed

interpretation u8w: wire get_u8 put_u8 1 "\<lambda>_. True"
  by unfold_locales (auto simp: get_u8_def put_u8_def)

interpretation be16: wire get_be16 put_be16 2 "\<lambda>_. True"
  by unfold_locales (auto simp: get_be16_def put_be16_def be16_bytes)

interpretation be32: wire get_be32 put_be32 4 "\<lambda>_. True"
  by unfold_locales (auto simp: get_be32_def put_be32_def be32_bytes)

lemma put_block_length: "length (put_block p v b) = length b"
  by (induction p v b rule: put_block.induct) auto

lemma put_block_outside: "k < p \<or> p + length v \<le> k \<Longrightarrow> put_block p v b ! k = b ! k"
  by (induction p v b rule: put_block.induct) auto

lemma put_block_inside:
  "p + length v \<le> length b \<Longrightarrow> k < length v \<Longrightarrow> put_block p v b ! (p + k) = v ! k"
proof (induction p v b arbitrary: k rule: put_block.induct)
  case (2 p x xs b)
  then show ?case
    by (cases k) (auto simp: put_block_outside put_block_length)
qed simp

interpretation block: wire "get_block n" put_block n "\<lambda>v. length v = n" for n
  by unfold_locales
    (auto simp: put_block_length put_block_outside put_block_inside get_block_def intro!: nth_equalityI)

interpretation u8_u8: wire_pair get_u8 put_u8 1 "\<lambda>_. True" get_u8 put_u8 1 "\<lambda>_. True" ..
interpretation u8_be16: wire_pair get_u8 put_u8 1 "\<lambda>_. True" get_be16 put_be16 2 "\<lambda>_. True" ..
interpretation u8_be32: wire_pair get_u8 put_u8 1 "\<lambda>_. True" get_be32 put_be32 4 "\<lambda>_. True" ..
interpretation u8_block: wire_pair get_u8 put_u8 1 "\<lambda>_. True"
  "get_block n" put_block n "\<lambda>v. length v = n" for n ..
interpretation be16_u8: wire_pair get_be16 put_be16 2 "\<lambda>_. True" get_u8 put_u8 1 "\<lambda>_. True" ..
interpretation be16_be16: wire_pair get_be16 put_be16 2 "\<lambda>_. True" get_be16 put_be16 2 "\<lambda>_. True" ..
interpretation be16_be32: wire_pair get_be16 put_be16 2 "\<lambda>_. True" get_be32 put_be32 4 "\<lambda>_. True" ..
interpretation be16_block: wire_pair get_be16 put_be16 2 "\<lambda>_. True"
  "get_block n" put_block n "\<lambda>v. length v = n" for n ..
interpretation be32_u8: wire_pair get_be32 put_be32 4 "\<lambda>_. True" get_u8 put_u8 1 "\<lambda>_. True" ..
interpretation be32_be16: wire_pair get_be32 put_be32 4 "\<lambda>_. True" get_be16 put_be16 2 "\<lambda>_. True" ..
interpretation be32_be32: wire_pair get_be32 put_be32 4 "\<lambda>_. True" get_be32 put_be32 4 "\<lambda>_. True" ..
interpretation be32_block: wire_pair get_be32 put_be32 4 "\<lambda>_. True"
  "get_block n" put_block n "\<lambda>v. length v = n" for n ..
interpretation block_u8: wire_pair "get_block m" put_block m "\<lambda>v. length v = m"
  get_u8 put_u8 1 "\<lambda>_. True" for m ..
interpretation block_be16: wire_pair "get_block m" put_block m "\<lambda>v. length v = m"
  get_be16 put_be16 2 "\<lambda>_. True" for m ..
interpretation block_be32: wire_pair "get_block m" put_block m "\<lambda>v. length v = m"
  get_be32 put_be32 4 "\<lambda>_. True" for m ..
interpretation block_block: wire_pair "get_block m" put_block m "\<lambda>v. length v = m"
  "get_block n" put_block n "\<lambda>v. length v = n" for m n ..

lemmas wire_length = u8w.put_length be16.put_length be32.put_length block.put_length

lemmas wire_same = u8w.get_put [OF TrueI] be16.get_put [OF TrueI] be32.get_put [OF TrueI]
  block.get_put [OF refl]

lemmas wire_other =
  u8_u8.disjoint [OF TrueI] u8_be16.disjoint [OF TrueI] u8_be32.disjoint [OF TrueI]
  be16_u8.disjoint [OF TrueI] be16_be16.disjoint [OF TrueI] be16_be32.disjoint [OF TrueI]
  be32_u8.disjoint [OF TrueI] be32_be16.disjoint [OF TrueI] be32_be32.disjoint [OF TrueI]
  block_u8.disjoint [OF TrueI] block_be16.disjoint [OF TrueI] block_be32.disjoint [OF TrueI]

lemma wire_other_block:
  "q + 1 \<le> p \<or> p + length v \<le> q \<Longrightarrow> get_u8 q (put_block p v b) = get_u8 q b"
  "q + 2 \<le> p \<or> p + length v \<le> q \<Longrightarrow> get_be16 q (put_block p v b) = get_be16 q b"
  "q + 4 \<le> p \<or> p + length v \<le> q \<Longrightarrow> get_be32 q (put_block p v b) = get_be32 q b"
  "q + m \<le> p \<or> p + length v \<le> q \<Longrightarrow> get_block m q (put_block p v b) = get_block m q b"
  by (rule u8_block.disjoint [OF refl] be16_block.disjoint [OF refl] be32_block.disjoint [OF refl]
        block_block.disjoint [OF refl], assumption)+

lemma wire_same_block: "p + length v \<le> length b \<Longrightarrow> m = length v \<Longrightarrow> get_block m p (put_block p v b) = v"
  by (simp add: block.get_put)

lemmas wire_simps = wire_length wire_same wire_same_block wire_other wire_other_block

lemma get_block_length [simp]: "length (get_block n p b) = n"
  by (simp add: get_block_def)

end
