(* ===== verification/NetIf.thy ===== *)
theory NetIf
  imports Sys
begin

text \<open>
  libptpnetif/ptpd\_netif.c and the remote calls of libptpnetif/hal\_client.c: the packet
  socket with its hardware timestamps, the phase detector, the locking and calibration
  interface of the HAL and the system clock. A port is its index; the interface name
  passed to the HAL is the one of that port.
\<close>

unbundle bit_operations_syntax

abbreviation (input) PTPD_NETIF_READY where "PTPD_NETIF_READY \<equiv> 1"
abbreviation (input) PTPD_NETIF_OK where "PTPD_NETIF_OK \<equiv> 0"
abbreviation (input) PTPD_NETIF_ERROR where "PTPD_NETIF_ERROR \<equiv> - 1"
abbreviation (input) PTPD_NETIF_NOT_READY where "PTPD_NETIF_NOT_READY \<equiv> - 2"
abbreviation (input) PTPD_NETIF_NOT_FOUND where "PTPD_NETIF_NOT_FOUND \<equiv> - 3"
abbreviation (input) PTPD_NETIF_TX where "PTPD_NETIF_TX \<equiv> 1"
abbreviation (input) PTPD_NETIF_RX where "PTPD_NETIF_RX \<equiv> 2"
abbreviation (input) HEXP_LOCK_CMD_START where "HEXP_LOCK_CMD_START \<equiv> 1"
abbreviation (input) HEXP_LOCK_CMD_CHECK where "HEXP_LOCK_CMD_CHECK \<equiv> 2"
abbreviation (input) HEXP_LOCK_CMD_ENABLE_TRACKING where "HEXP_LOCK_CMD_ENABLE_TRACKING \<equiv> 3"
abbreviation (input) HEXP_LOCK_STATUS_LOCKED where "HEXP_LOCK_STATUS_LOCKED \<equiv> 0"
abbreviation (input) HEXP_PPSG_CMD_ADJUST_PHASE where "HEXP_PPSG_CMD_ADJUST_PHASE \<equiv> 1"
abbreviation (input) HEXP_PPSG_CMD_ADJUST_SEC where "HEXP_PPSG_CMD_ADJUST_SEC \<equiv> 2"
abbreviation (input) HEXP_PPSG_CMD_ADJUST_NSEC where "HEXP_PPSG_CMD_ADJUST_NSEC \<equiv> 3"
abbreviation (input) HEXP_PPSG_CMD_POLL where "HEXP_PPSG_CMD_POLL \<equiv> 4"
abbreviation (input) HEXP_PPSG_CMD_SET_VALID where "HEXP_PPSG_CMD_SET_VALID \<equiv> 5"
abbreviation (input) ETHER_MTU where "ETHER_MTU \<equiv> 1518"
abbreviation (input) DMTD_UPDATE_INTERVAL where "DMTD_UPDATE_INTERVAL \<equiv> 500"

section \<open>Remote calls to the HAL\<close>

definition halexp_lock_cmd :: "nat \<Rightarrow> int \<Rightarrow> int cmd" where
  "halexp_lock_cmd i command = do {
     emit (LockCmd i command);
     r \<leftarrow> ext env_lock_cmd;
     State_Monad.return (if fst r < 0 then fst r else snd r) }"

definition halexp_pps_cmd :: "int \<Rightarrow> int \<Rightarrow> int cmd" where
  "halexp_pps_cmd command v = do {
     emit (PpsCmd command v);
     r \<leftarrow> ext env_pps_cmd;
     State_Monad.return (if fst r < 0 then fst r else snd r) }"

definition halexp_get_port_state :: "nat \<Rightarrow> (int \<times> hexp_port_state) cmd" where
  "halexp_get_port_state i = ext env_port_state"

text \<open>\<open>fuel\<close> bounds the \<open>for(;;)\<close> of the retries; \<open>retries\<close> of it are enough.\<close>

fun halexp_client_try_connect :: "nat \<Rightarrow> int \<Rightarrow> int cmd" where
  "halexp_client_try_connect 0 retries = State_Monad.return (- 1)"
| "halexp_client_try_connect (Suc fuel) retries = do {
     up \<leftarrow> ext env_hal_connect;
     if up then State_Monad.return 0
     else if s32 (retries - 1) = 0 then State_Monad.return (- 1)
     else halexp_client_try_connect fuel (s32 (retries - 1)) }"

section \<open>System time\<close>

definition get_tics :: "u64 cmd" where
  "get_tics = ext env_gettimeofday"

definition ptpd_netif_get_msec_tics :: "u64 cmd" where
  "ptpd_netif_get_msec_tics = do { t \<leftarrow> get_tics; State_Monad.return (t div 1000) }"

definition tmo_init :: "nat \<Rightarrow> u32 \<Rightarrow> unit cmd" where
  "tmo_init i milliseconds = do {
     t \<leftarrow> get_tics;
     upd i (\<lambda>p. p\<lparr>netPath := (netPath p)\<lparr>sk_tmo_start := t,
                    sk_tmo_timeout := ucast milliseconds * 1000\<rparr>\<rparr>) }"

definition tmo_restart :: "nat \<Rightarrow> unit cmd" where
  "tmo_restart i = do {
     t \<leftarrow> get_tics;
     upd i (\<lambda>p. p\<lparr>netPath := (netPath p)\<lparr>sk_tmo_start := t\<rparr>\<rparr>) }"

definition tmo_expired :: "nat \<Rightarrow> bool cmd" where
  "tmo_expired i = do {
     t \<leftarrow> get_tics;
     n \<leftarrow> gp i netPath;
     State_Monad.return (t - sk_tmo_start n > sk_tmo_timeout n) }"

section \<open>Timestamps\<close>

definition inside_range :: "int \<Rightarrow> int \<Rightarrow> int \<Rightarrow> bool" where
  "inside_range lo hi x = (if lo < hi then lo \<le> x \<and> x \<le> hi else x \<le> hi \<or> lo \<le> x)"

definition update_dmtd :: "nat \<Rightarrow> unit cmd" where
  "update_dmtd i = do {
     e \<leftarrow> tmo_expired i;
     whenM e (do {
       ps \<leftarrow> halexp_get_port_state i;
       upd i (\<lambda>p. p\<lparr>netPath := (netPath p)\<lparr>sk_dmtd_phase := hps_phase_val (snd ps),
                      sk_dmtd_phase_valid := hps_phase_val_valid (snd ps)\<rparr>\<rparr>);
       tmo_restart i }) }"

definition ptpd_netif_linearize_rx_timestamp ::
    "wr_timestamp \<Rightarrow> int \<Rightarrow> bool \<Rightarrow> int \<Rightarrow> int \<Rightarrow> wr_timestamp" where
  "ptpd_netif_linearize_rx_timestamp ts dmtd_phase cntr_ahead transition_point clock_period =
    (let ph = s32 (s32 (clock_period - 1) - dmtd_phase);
         lo = s32 (transition_point - clock_period sdiv 4);
         trip_lo = (if lo < 0 then s32 (lo + clock_period) else lo);
         hi = s32 (transition_point + clock_period sdiv 4);
         trip_hi = (if hi \<ge> clock_period then s32 (hi - clock_period) else hi);
         n = (if inside_range trip_lo trip_hi ph
              then let n1 = s32 (nsec ts - (if cntr_ahead then clock_period sdiv 1000 else 0))
                   in if inside_range trip_lo transition_point ph
                      then s32 (n1 + clock_period sdiv 1000) else n1
              else nsec ts);
         p1 = s32 (s32 (ph - transition_point) - 1);
         p2 = (if p1 < 0 then s32 (p1 + clock_period) else p1)
     in ts\<lparr>raw_phase := dmtd_phase, nsec := n, phase := s32 (s32 (clock_period - 1) - p2)\<rparr>)"

section \<open>The packet socket\<close>

text \<open>
  \<open>tv\_sec & 0x7fffffff\<close> are the seconds; bit 31 of it says the rising edge counter was
  ahead.
\<close>

definition hw_sec :: "hwts \<Rightarrow> int" where
  "hw_sec h = uint (tv_sec h AND 0x7fffffff)"

definition hw_ahead :: "hwts \<Rightarrow> bool" where
  "hw_ahead h \<longleftrightarrow> tv_sec h AND 0x80000000 \<noteq> 0"

definition poll_tx_timestamp :: "nat \<Rightarrow> wr_timestamp \<Rightarrow> wr_timestamp cmd" where
  "poll_tx_timestamp i tx = do {
     r \<leftarrow> ext env_recv_errqueue;
     State_Monad.return (let tx = tx\<lparr>correct := 0\<rparr> in
       if fst r \<le> 0 then tx
       else case snd r of
         None \<Rightarrow> tx
       | Some h \<Rightarrow> tx\<lparr>correct := 1, phase := 0, nsec := s32 (tv_nsec h), sec := hw_sec h\<rparr>) }"

text \<open>
  The socket of a port is always of the raw Ethernet family (\<open>create_socket\<close> makes no other),
  so the family check never fires. \<open>EINVAL\<close> is 22.
\<close>

definition ptpd_netif_sendto ::
    "nat \<Rightarrow> u8 list \<Rightarrow> u16 \<Rightarrow> u8 list \<Rightarrow> wr_timestamp \<Rightarrow> (int \<times> wr_timestamp) cmd" where
  "ptpd_netif_sendto i to ethertype data tx_ts =
    (if length data > ETHER_MTU - 8 then State_Monad.return (- 22, tx_ts)
     else do {
       emit (Sent i to ethertype (data @ replicate (46 - length data) 0));
       rval \<leftarrow> ext env_sendto;
       tx \<leftarrow> poll_tx_timestamp i tx_ts;
       State_Monad.return (rval, tx) })"

text \<open>
  \<open>recvfrom\<close> gives the return code, the frame (\<open>None\<close> when nothing was copied out) and the
  new value of the timestamp. \<open>recvmsg\<close> truncates the frame to \<open>data\_length\<close> octets.
\<close>

definition ptpd_netif_recvfrom ::
    "nat \<Rightarrow> nat \<Rightarrow> wr_timestamp \<Rightarrow> (int \<times> rx_frame option \<times> wr_timestamp) cmd" where
  "ptpd_netif_recvfrom i data_length ts = do {
     r \<leftarrow> ext env_recvmsg;
     case r of
       RX_EAGAIN \<Rightarrow> State_Monad.return (0, None, ts)
     | RX_FAIL ret \<Rightarrow> State_Monad.return (if ret = - 11 then 0 else ret, None, ts)
     | RX_FRAME f \<Rightarrow>
        (let f = f\<lparr>pkt_data := take data_length (pkt_data f)\<rparr>;
             ts = ts\<lparr>correct := 0\<rparr>;
             n = int (length (pkt_data f))
         in case hwtimeraw f of
              None \<Rightarrow> State_Monad.return (n, Some f, ts)
            | Some h \<Rightarrow> do {
                let ts = ts\<lparr>nsec := s32 (tv_nsec h), sec := hw_sec h,
                            raw_nsec := s32 (tv_nsec h), raw_ahead := (if hw_ahead h then 1 else 0)\<rparr>;
                update_dmtd i;
                s \<leftarrow> gp i netPath;
                State_Monad.return (n, Some f,
                  if sk_dmtd_phase_valid s
                  then (ptpd_netif_linearize_rx_timestamp ts (s32 (uint (sk_dmtd_phase s)))
                          (hw_ahead h) (s32 (uint (sk_phase_transition s)))
                          (s32 (uint (sk_clock_period s))))\<lparr>correct := 1\<rparr>
                  else ts) }) }"

definition ptpd_netif_create_socket :: "nat \<Rightarrow> bool cmd" where
  "ptpd_netif_create_socket i = do {
     ps \<leftarrow> halexp_get_port_state i;
     if fst ps < 0 then State_Monad.return False
     else do {
       hw \<leftarrow> ext env_socket;
       case hw of
         None \<Rightarrow> State_Monad.return False
       | Some mac \<Rightarrow> do {
           upd i (\<lambda>p. p\<lparr>netPath := (netPath p)\<lparr>local_mac := mac,
                    sk_clock_period := hps_clock_period (snd ps),
                    sk_phase_transition := hps_t2_phase_transition (snd ps),
                    sk_dmtd_phase_valid := False,
                    sk_dmtd_phase := hps_phase_val (snd ps)\<rparr>\<rparr>);
           tmo_init i DMTD_UPDATE_INTERVAL;
           State_Monad.return True } } }"

section \<open>Locking and calibration\<close>

definition ptpd_netif_init :: "int cmd" where
  "ptpd_netif_init = do {
     r \<leftarrow> halexp_client_try_connect 10 10;
     State_Monad.return (if r < 0 then PTPD_NETIF_ERROR else PTPD_NETIF_OK) }"

definition ptpd_netif_locking_enable :: "nat \<Rightarrow> int cmd" where
  "ptpd_netif_locking_enable i = do {
     ret \<leftarrow> halexp_lock_cmd i HEXP_LOCK_CMD_START;
     State_Monad.return (if ret < 0 then PTPD_NETIF_ERROR else PTPD_NETIF_OK) }"

definition ptpd_netif_locking_disable :: "nat \<Rightarrow> int cmd" where
  "ptpd_netif_locking_disable i = State_Monad.return PTPD_NETIF_OK"

definition ptpd_netif_locking_poll :: "nat \<Rightarrow> int cmd" where
  "ptpd_netif_locking_poll i = do {
     r \<leftarrow> halexp_lock_cmd i HEXP_LOCK_CMD_CHECK;
     State_Monad.return (if r = HEXP_LOCK_STATUS_LOCKED then PTPD_NETIF_READY
                         else PTPD_NETIF_NOT_READY) }"

definition ptpd_netif_enable_phase_tracking :: "nat \<Rightarrow> int cmd" where
  "ptpd_netif_enable_phase_tracking i = do {
     ret \<leftarrow> halexp_lock_cmd i HEXP_LOCK_CMD_ENABLE_TRACKING;
     State_Monad.return (if ret < 0 then PTPD_NETIF_ERROR else PTPD_NETIF_OK) }"

definition ptpd_netif_calibration_pattern_enable :: "nat \<Rightarrow> int cmd" where
  "ptpd_netif_calibration_pattern_enable i = State_Monad.return PTPD_NETIF_OK"

definition ptpd_netif_calibration_pattern_disable :: "nat \<Rightarrow> int cmd" where
  "ptpd_netif_calibration_pattern_disable i = State_Monad.return PTPD_NETIF_OK"

definition ptpd_netif_calibrating_enable :: "nat \<Rightarrow> int cmd" where
  "ptpd_netif_calibrating_enable i = State_Monad.return PTPD_NETIF_OK"

definition ptpd_netif_calibrating_disable :: "nat \<Rightarrow> int cmd" where
  "ptpd_netif_calibrating_disable i = State_Monad.return PTPD_NETIF_OK"

text \<open>
  The four outputs of \<open>read_calibration_data\<close>, or \<open>None\<close> for PTPD\_NETIF\_NOT\_FOUND, when no
  output is written.
\<close>

definition ptpd_netif_read_calibration_data :: "nat \<Rightarrow> (u64 \<times> u64 \<times> int \<times> int) option cmd" where
  "ptpd_netif_read_calibration_data i = do {
     ps \<leftarrow> halexp_get_port_state i;
     let st = snd ps;
     State_Monad.return
       (if hps_valid st \<and> hps_tx_calibrated st \<and> hps_rx_calibrated st
        then Some (ucast (hps_delta_tx st), ucast (hps_delta_rx st),
                   hps_fiber_fix_alpha st, s32 (uint (hps_clock_period st)))
        else None) }"

text \<open>\<open>calibrating_poll\<close> ignores that outcome, so it may hand out an uninitialised local.\<close>

definition ptpd_netif_calibrating_poll :: "nat \<Rightarrow> int \<Rightarrow> (int \<times> u64) cmd" where
  "ptpd_netif_calibrating_poll i txrx = do {
     u_rx \<leftarrow> ext env_stack;
     u_tx \<leftarrow> ext env_stack;
     c \<leftarrow> ptpd_netif_read_calibration_data i;
     let (d_tx, d_rx) = (case c of None \<Rightarrow> (word_of_int u_tx, word_of_int u_rx)
                         | Some (tx, rx, _, _) \<Rightarrow> (tx, rx));
     State_Monad.return (PTPD_NETIF_READY, if txrx = PTPD_NETIF_TX then d_tx else d_rx) }"

definition ptpd_netif_get_port_state :: "nat \<Rightarrow> int cmd" where
  "ptpd_netif_get_port_state i = do {
     ps \<leftarrow> halexp_get_port_state i;
     State_Monad.return
       (if hps_valid (snd ps)
        then if hps_up (snd ps) > 0 then PTPD_NETIF_OK else PTPD_NETIF_ERROR
        else PTPD_NETIF_ERROR) }"

definition ptpd_netif_extsrc_detection :: int where
  "ptpd_netif_extsrc_detection = 0"

text \<open>The scan of the HAL's port list; \<open>j\<close> follows \<open>i\<close>, so it ends at the port asked for.\<close>

definition ptpd_netif_get_ifName :: "int \<Rightarrow> int cmd" where
  "ptpd_netif_get_ifName number = do {
     num_ports \<leftarrow> ext env_query_ports;
     State_Monad.return (if 0 \<le> number \<and> number < num_ports then PTPD_NETIF_OK
                         else PTPD_NETIF_ERROR) }"

section \<open>Adjusting the timebase\<close>

definition ptpd_netif_adjust_counters :: "int \<Rightarrow> int \<Rightarrow> int cmd" where
  "ptpd_netif_adjust_counters adjust_sec adjust_nsec =
    (if adjust_nsec = 0 \<and> adjust_sec = 0 then State_Monad.return PTPD_NETIF_OK
     else if adjust_sec \<noteq> 0 \<and> adjust_nsec \<noteq> 0 then do {
       emit (Exit (- 1)); State_Monad.return PTPD_NETIF_ERROR }
     else do {
       r \<leftarrow> (if adjust_sec \<noteq> 0 then halexp_pps_cmd HEXP_PPSG_CMD_ADJUST_SEC adjust_sec
            else halexp_pps_cmd HEXP_PPSG_CMD_ADJUST_NSEC adjust_nsec);
       State_Monad.return (if r = 0 then PTPD_NETIF_OK else PTPD_NETIF_ERROR) })"

definition ptpd_netif_adjust_phase :: "int \<Rightarrow> int cmd" where
  "ptpd_netif_adjust_phase phase_ps = do {
     r \<leftarrow> halexp_pps_cmd HEXP_PPSG_CMD_ADJUST_PHASE phase_ps;
     State_Monad.return (if r = 0 then PTPD_NETIF_OK else PTPD_NETIF_ERROR) }"

definition ptpd_netif_adjust_in_progress :: "int cmd" where
  "ptpd_netif_adjust_in_progress = do {
     u \<leftarrow> ext env_stack;
     r \<leftarrow> halexp_pps_cmd HEXP_PPSG_CMD_POLL u;
     State_Monad.return (if r \<noteq> 0 then PTPD_NETIF_OK else PTPD_NETIF_NOT_READY) }"

definition ptpd_netif_enable_timing_output :: "int \<Rightarrow> int cmd" where
  "ptpd_netif_enable_timing_output enable = do {
     r \<leftarrow> halexp_pps_cmd HEXP_PPSG_CMD_SET_VALID enable;
     State_Monad.return (if r \<noteq> 0 then PTPD_NETIF_OK else PTPD_NETIF_NOT_READY) }"

section \<open>Properties\<close>

text \<open>
  C36. Linearising a receive timestamp: for a clock period below 2^29 ps and phases inside a
  period, the linearised phase is the detector's phase moved by the transition point, modulo
  the period, the whole nanoseconds move by at most one period, and the raw reading is kept.
\<close>
theorem linearize_rx_timestamp_correct:
  assumes "0 < cp" "cp < 536870912" "0 \<le> dmtd" "dmtd < cp" "0 \<le> tp" "tp < cp"
    and "\<bar>nsec ts\<bar> \<le> 1000000000"
  shows "let r = ptpd_netif_linearize_rx_timestamp ts dmtd ahead tp cp
         in phase r = (dmtd + tp + 1) mod cp \<and> 0 \<le> phase r \<and> phase r < cp \<and>
            \<bar>nsec r - nsec ts\<bar> \<le> cp div 1000 \<and> sec r = sec ts \<and> raw_phase r = dmtd"
proof -
  define p1 where "p1 = cp - 2 - dmtd - tp"
  have p1: "- cp \<le> p1" "p1 \<le> cp - 2" using assms by (auto simp: p1_def)
  have e1: "s32 (s32 (s32 (s32 (cp - 1) - dmtd) - tp) - 1) = p1"
  proof -
    have "s32 (cp - 1) = cp - 1" "s32 (cp - 1 - dmtd) = cp - 1 - dmtd"
      "s32 (cp - 1 - dmtd - tp) = cp - 1 - dmtd - tp"
      "s32 (cp - 1 - dmtd - tp - 1) = cp - 1 - dmtd - tp - 1"
      using assms by (auto intro!: s32_id)
    then show ?thesis by (simp add: p1_def)
  qed
  have e2: "s32 (p1 + cp) = p1 + cp" "s32 (cp - 1) = cp - 1"
    using p1 assms(1,2) by (auto intro!: s32_id)
  define p2 where "p2 = (if p1 < 0 then p1 + cp else p1)"
  have p2: "0 \<le> p2" "p2 \<le> cp - 1" using p1 assms(1) by (auto simp: p2_def)
  have e3: "s32 (cp - 1 - p2) = cp - 1 - p2" using p2 assms(2) by (intro s32_id) auto
  have ph: "phase (ptpd_netif_linearize_rx_timestamp ts dmtd ahead tp cp) = cp - 1 - p2"
    using e1 e2 e3 by (cases "p1 < 0") (simp_all add: ptpd_netif_linearize_rx_timestamp_def Let_def p2_def)
  have md: "cp - 1 - p2 = (dmtd + tp + 1) mod cp"
  proof (cases "p1 < 0")
    case True
    have "(dmtd + tp + 1) mod cp = (dmtd + tp + 1 - cp) mod cp" by simp
    also have "\<dots> = dmtd + tp + 1 - cp"
      using True p1 by (intro mod_pos_pos_trivial) (auto simp: p1_def)
    finally show ?thesis using True by (simp add: p2_def p1_def)
  next
    case False
    then have "(dmtd + tp + 1) mod cp = dmtd + tp + 1"
      using assms by (intro mod_pos_pos_trivial) (auto simp: p1_def)
    with False show ?thesis by (simp add: p2_def p1_def)
  qed
  have sd: "cp sdiv 1000 = cp div 1000" using assms(1) by (intro sdiv_nonneg) auto
  have q: "0 \<le> cp div 1000" "cp div 1000 < 536871" using assms(1,2) by auto
  have w: "s32 (nsec ts) = nsec ts" "s32 (nsec ts - cp div 1000) = nsec ts - cp div 1000"
    "s32 (nsec ts + cp div 1000) = nsec ts + cp div 1000"
    using q assms(7) by (auto intro!: s32_id)
  have ns: "\<bar>nsec (ptpd_netif_linearize_rx_timestamp ts dmtd ahead tp cp) - nsec ts\<bar> \<le> cp div 1000"
    using q w by (simp add: ptpd_netif_linearize_rx_timestamp_def Let_def sd)
  show ?thesis
    using ph md ns p2 by (simp add: Let_def) (simp add: ptpd_netif_linearize_rx_timestamp_def Let_def)
qed

theorem linearize_rx_timestamp_correct_witness:
  "phase (ptpd_netif_linearize_rx_timestamp wrts_zero 7000 True 2000 8000) = 1001"
  using linearize_rx_timestamp_correct [of 8000 7000 2000 wrts_zero True] by (simp add: Let_def)

end
