(* ===== verification/Timer.thy ===== *)
theory Timer
  imports NetIf
begin

text \<open>
  PTPWRd/dep/timer.c: interval timers polled against the millisecond clock. A pointer to a
  timer is a \<open>timer_ref\<close>; \<open>timer_start\<close> and \<open>timer_check\<close> are what the functions do to the
  struct once they have read the clock.
\<close>

section \<open>Definitions\<close>

datatype timer_ref =
  T_pdelayReq nat | T_delayReq nat | T_sync nat | T_announceReceipt nat | T_announceInterval nat
| T_wr nat wr_state | T_clockClassValidity

fun timer_get :: "timer_ref \<Rightarrow> sys \<Rightarrow> IntervalTimer" where
  "timer_get (T_pdelayReq i) s = tm_pdelayReq (timers (ports s i))"
| "timer_get (T_delayReq i) s = tm_delayReq (timers (ports s i))"
| "timer_get (T_sync i) s = tm_sync (timers (ports s i))"
| "timer_get (T_announceReceipt i) s = tm_announceReceipt (timers (ports s i))"
| "timer_get (T_announceInterval i) s = tm_announceInterval (timers (ports s i))"
| "timer_get (T_wr i st) s = wrTimers (ports s i) st"
| "timer_get T_clockClassValidity s = clockClassValidityTimer (clk s)"

fun timer_put :: "timer_ref \<Rightarrow> (IntervalTimer \<Rightarrow> IntervalTimer) \<Rightarrow> unit cmd" where
  "timer_put (T_pdelayReq i) f = upd i (\<lambda>p. p\<lparr>timers := (timers p)\<lparr>tm_pdelayReq := f (tm_pdelayReq (timers p))\<rparr>\<rparr>)"
| "timer_put (T_delayReq i) f = upd i (\<lambda>p. p\<lparr>timers := (timers p)\<lparr>tm_delayReq := f (tm_delayReq (timers p))\<rparr>\<rparr>)"
| "timer_put (T_sync i) f = upd i (\<lambda>p. p\<lparr>timers := (timers p)\<lparr>tm_sync := f (tm_sync (timers p))\<rparr>\<rparr>)"
| "timer_put (T_announceReceipt i) f =
     upd i (\<lambda>p. p\<lparr>timers := (timers p)\<lparr>tm_announceReceipt := f (tm_announceReceipt (timers p))\<rparr>\<rparr>)"
| "timer_put (T_announceInterval i) f =
     upd i (\<lambda>p. p\<lparr>timers := (timers p)\<lparr>tm_announceInterval := f (tm_announceInterval (timers p))\<rparr>\<rparr>)"
| "timer_put (T_wr i st) f = upd i (\<lambda>p. p\<lparr>wrTimers := (wrTimers p)(st := f (wrTimers p st))\<rparr>)"
| "timer_put T_clockClassValidity f =
     updc (\<lambda>c. c\<lparr>clockClassValidityTimer := f (clockClassValidityTimer c)\<rparr>)"

definition timer_init :: "IntervalTimer \<Rightarrow> IntervalTimer" where
  "timer_init t = t\<lparr>interval := 0\<rparr>"

definition timer_start :: "u64 \<Rightarrow> int \<Rightarrow> IntervalTimer \<Rightarrow> IntervalTimer" where
  "timer_start tics iv t = t\<lparr>t_start := tics, interval := iv\<rparr>"

definition timer_stop :: "IntervalTimer \<Rightarrow> IntervalTimer" where
  "timer_stop t = t\<lparr>interval := 0\<rparr>"

definition timer_check :: "u64 \<Rightarrow> IntervalTimer \<Rightarrow> bool \<times> IntervalTimer" where
  "timer_check tics t =
    (let t_expire = t_start t + word_of_int (interval t)
     in if interval t \<noteq> 0 \<and> tics \<ge> t_expire
        then let t1 = t\<lparr>t_start := t_start t + word_of_int (interval t)\<rparr>
             in (True, if t_start t1 < tics then t1\<lparr>t_start := tics\<rparr> else t1)
        else (False, t))"

definition timerInit :: "timer_ref \<Rightarrow> unit cmd" where
  "timerInit r = timer_put r timer_init"

definition timerStart :: "timer_ref \<Rightarrow> int \<Rightarrow> unit cmd" where
  "timerStart r iv = do {
     tics \<leftarrow> ptpd_netif_get_msec_tics;
     timer_put r (timer_start tics (s32 iv)) }"

definition timerStop :: "timer_ref \<Rightarrow> unit cmd" where
  "timerStop r = timer_put r timer_stop"

definition timerExpired :: "timer_ref \<Rightarrow> bool cmd" where
  "timerExpired r = do {
     tics \<leftarrow> ptpd_netif_get_msec_tics;
     t \<leftarrow> gets (timer_get r);
     timer_put r (\<lambda>t. snd (timer_check tics t));
     State_Monad.return (fst (timer_check tics t)) }"

text \<open>
  \<open>pow\_2\<close> of ptpd.h, \<open>1 << exp\<close> on int. A count outside 0..31 is undefined in C; the
  model takes it modulo 32, as the shift instruction of x86 does.
\<close>

definition pow_2 :: "int \<Rightarrow> int" where
  "pow_2 e = s32 (2 ^ nat (e mod 32))"

section \<open>A polled timer\<close>

text \<open>
  The contract the clients of a timer rely on: polled at time \<open>now\<close>, a running timer fires
  exactly when a whole period has passed since it last fired (or was started), and firing
  moves its origin to \<open>now\<close>.
\<close>

locale polled_timer =
  fixes check :: "int \<Rightarrow> 't \<Rightarrow> bool \<times> 't"
    and origin period :: "'t \<Rightarrow> int"
    and valid :: "int \<Rightarrow> 't \<Rightarrow> bool"
  assumes fires: "valid now t \<Longrightarrow> fst (check now t) \<longleftrightarrow> 0 < period t \<and> origin t + period t \<le> now"
    and fired: "valid now t \<Longrightarrow> fst (check now t) \<Longrightarrow>
      origin (snd (check now t)) = now \<and> period (snd (check now t)) = period t"
    and silent: "valid now t \<Longrightarrow> \<not> fst (check now t) \<Longrightarrow> snd (check now t) = t"
    and valid_later: "valid now t \<Longrightarrow> valid later t \<Longrightarrow> now \<le> later \<Longrightarrow> valid later (snd (check now t))"
begin

fun fire_times :: "'t \<Rightarrow> int list \<Rightarrow> int list" where
  "fire_times t [] = []"
| "fire_times t (now # ts) =
     (if fst (check now t) then [now] else []) @ fire_times (snd (check now t)) ts"

lemma valid_run:
  "sorted (now # ts) \<Longrightarrow> \<forall>x\<in>set (now # ts). valid x t \<Longrightarrow> \<forall>x\<in>set ts. valid x (snd (check now t))"
  using valid_later by auto

lemma fire_spacing:
  assumes "sorted ts" "\<forall>x\<in>set ts. valid x t" "0 < period t"
  shows "period t * int (length (fire_times t ts)) \<le>
           (if fire_times t ts = [] then 0 else last (fire_times t ts) - origin t)"
  using assms
proof (induction ts arbitrary: t)
  case (Cons now ts)
  let ?t = "snd (check now t)"
  have v: "\<forall>x\<in>set ts. valid x ?t" using valid_run Cons.prems by blast
  have n: "valid now t" using Cons.prems by simp
  show ?case
  proof (cases "fst (check now t)")
    case True
    then have o: "origin ?t = now" "period ?t = period t" using fired n by auto
    have "origin t + period t \<le> now" using fires n True by blast
    with Cons.IH [OF _ v] Cons.prems True show ?thesis
      by (auto simp: o algebra_simps split: if_splits)
  next
    case False
    then have "?t = t" using silent n by blast
    with Cons.IH [OF _ v] Cons.prems False show ?thesis by (auto split: if_splits)
  qed
qed simp

lemma fire_times_subset: "set (fire_times t ts) \<subseteq> set ts"
  by (induction ts arbitrary: t) auto

text \<open>A timer polled over a window fires at most once per period of it.\<close>

lemma fire_rate:
  assumes "sorted ts" "\<forall>x\<in>set ts. valid x t \<and> x \<le> stop" "0 < period t" "origin t \<le> stop"
  shows "period t * int (length (fire_times t ts)) \<le> stop - origin t"
proof -
  have "fire_times t ts \<noteq> [] \<Longrightarrow> last (fire_times t ts) \<le> stop"
    using assms(2) fire_times_subset last_in_set by blast
  with fire_spacing [of ts t] assms show ?thesis by (auto split: if_splits)
qed

text \<open>It cannot be late either: the first poll a period after the origin fires.\<close>

lemma fire_prompt:
  assumes "sorted ts" "\<forall>x\<in>set ts. valid x t" "0 < period t" "now \<in> set ts" "origin t + period t \<le> now"
  shows "\<exists>x\<in>set (fire_times t ts). x \<le> now"
  using assms
proof (induction ts arbitrary: t)
  case (Cons a ts)
  show ?case
  proof (cases "fst (check a t)")
    case True
    with Cons.prems show ?thesis by auto
  next
    case False
    then have t: "snd (check a t) = t" using silent Cons.prems by simp
    have "now \<noteq> a" using fires [of a t] False Cons.prems by auto
    with Cons.IH [of t] Cons.prems False show ?thesis by (auto simp: t)
  qed
qed simp

end

text \<open>
  timer.c provides the contract while times stay below \<open>2^63\<close>: the millisecond clock is a
  64-bit count of microseconds divided by 1000 and never comes near it.
\<close>

definition timer_valid :: "int \<Rightarrow> IntervalTimer \<Rightarrow> bool" where
  "timer_valid now t \<longleftrightarrow> uint (t_start t) \<le> now \<and> now < 9223372036854775808 \<and>
     0 \<le> interval t \<and> interval t < 2147483648"

lemma t_expire_uint:
  assumes "timer_valid now t"
  shows "uint (t_start t + word_of_int (interval t)) = uint (t_start t) + interval t"
proof -
  have "(uint (t_start t) + interval t) mod 18446744073709551616 = uint (t_start t) + interval t"
    using assms by (intro mod_pos_pos_trivial) (auto simp: timer_valid_def)
  then show ?thesis
    using assms by (simp add: uint_word_ariths uint_word_of_int timer_valid_def mod_add_right_eq)
qed

lemma timer_check_correct:
  assumes "timer_valid now t"
  shows "fst (timer_check (word_of_int now) t) \<longleftrightarrow>
           0 < interval t \<and> uint (t_start t) + interval t \<le> now"
    and "fst (timer_check (word_of_int now) t) \<Longrightarrow>
           snd (timer_check (word_of_int now) t) = t\<lparr>t_start := word_of_int now\<rparr>"
    and "\<not> fst (timer_check (word_of_int now) t) \<Longrightarrow> snd (timer_check (word_of_int now) t) = t"
proof -
  have now: "uint (word_of_int now :: u64) = now"
    using assms by (simp add: timer_valid_def uint_word_of_int) (smt (verit) mod_pos_pos_trivial uint_ge_0)
  have le: "t_start t + word_of_int (interval t) \<le> word_of_int now \<longleftrightarrow>
      uint (t_start t) + interval t \<le> now"
    by (simp add: word_le_def t_expire_uint [OF assms] now)
  have lt: "t_start t + word_of_int (interval t) < word_of_int now \<longleftrightarrow>
      uint (t_start t) + interval t < now"
    by (simp add: word_less_def t_expire_uint [OF assms] now)
  show "fst (timer_check (word_of_int now) t) \<longleftrightarrow>
      0 < interval t \<and> uint (t_start t) + interval t \<le> now"
    using assms by (auto simp: timer_check_def Let_def le timer_valid_def)
  show "snd (timer_check (word_of_int now) t) = t\<lparr>t_start := word_of_int now\<rparr>"
    if "fst (timer_check (word_of_int now) t)"
    using that by (auto simp: timer_check_def Let_def le lt not_less)
  show "snd (timer_check (word_of_int now) t) = t" if "\<not> fst (timer_check (word_of_int now) t)"
    using that by (auto simp: timer_check_def Let_def)
qed

interpretation timer: polled_timer
  "\<lambda>now. timer_check (word_of_int now)" "\<lambda>t. uint (t_start t)" interval timer_valid
proof
  fix now t assume v: "timer_valid now t"
  note c = timer_check_correct [OF v]
  have now: "uint (word_of_int now :: u64) = now"
    using v by (simp add: timer_valid_def uint_word_of_int) (smt (verit) mod_pos_pos_trivial uint_ge_0)
  show "fst (timer_check (word_of_int now) t) \<longleftrightarrow>
      0 < interval t \<and> uint (t_start t) + interval t \<le> now" by (rule c)
  show "uint (t_start (snd (timer_check (word_of_int now) t))) = now \<and>
      interval (snd (timer_check (word_of_int now) t)) = interval t"
    if "fst (timer_check (word_of_int now) t)" using c(2) [OF that] now by simp
  show "snd (timer_check (word_of_int now) t) = t" if "\<not> fst (timer_check (word_of_int now) t)"
    by (rule c(3) [OF that])
  fix later assume l: "timer_valid later t" "now \<le> later"
  show "timer_valid later (snd (timer_check (word_of_int now) t))"
    using c(2,3) l now by (cases "fst (timer_check (word_of_int now) t)") (auto simp: timer_valid_def)
qed

section \<open>Timers in the state\<close>

lemma run_timer_put:
  "run_state (timer_put r f) s = ((), exec (timer_put r f) s)"
  by (rule exec_unit)

lemma timer_get_put [simp]: "timer_get r (exec (timer_put r f) s) = f (timer_get r s)"
  by (cases r) (simp_all add: exec_def)

lemma timer_get_put_other: "r \<noteq> r' \<Longrightarrow> timer_get r (exec (timer_put r' f) s) = timer_get r s"
  by (cases r; cases r') (auto simp: exec_def)

lemma timer_put_frame [simp]:
  "world (exec (timer_put r f) s) = world s" "ncall (exec (timer_put r f) s) = ncall s"
  "log (exec (timer_put r f) s) = log s" "rtOpts (exec (timer_put r f) s) = rtOpts s"
  by (cases r; simp add: exec_def)+

lemma timer_get_ncall [simp]: "timer_get r (s\<lparr>ncall := n\<rparr>) = timer_get r s"
  by (cases r) simp_all

lemma wp_timer_put [wp_simps]: "wp (timer_put r f) Q s = Q () (exec (timer_put r f) s)"
  by (simp add: wp_def run_timer_put)

lemma run_msec_tics [simp]:
  "run_state ptpd_netif_get_msec_tics s =
     (env_gettimeofday (world s) (ncall s) div 1000, s\<lparr>ncall := Suc (ncall s)\<rparr>)"
  by (simp add: ptpd_netif_get_msec_tics_def get_tics_def)

lemma wp_msec_tics [wp_simps]:
  "wp ptpd_netif_get_msec_tics Q s =
     Q (env_gettimeofday (world s) (ncall s) div 1000) (s\<lparr>ncall := Suc (ncall s)\<rparr>)"
  by (simp add: wp_def)

lemma u64_msec: "uint ((t :: u64) div 1000) < 18446744073709552"
  using uint_lt2p [of t] by (simp add: uint_div_distrib)

lemma pow_2_small: "0 \<le> e \<Longrightarrow> e < 31 \<Longrightarrow> pow_2 e = 2 ^ nat e"
proof -
  assume e: "0 \<le> e" "e < 31"
  then have "nat e \<le> 30" by simp
  then have "(2::int) ^ nat e \<le> 2 ^ 30" by (rule power_increasing) simp
  then have "(2::int) ^ nat e \<le> 1073741824" by simp
  moreover have "(0::int) \<le> 2 ^ nat e" by simp
  ultimately have "s32 (2 ^ nat e) = 2 ^ nat e" by (intro s32_id) linarith+
  then show ?thesis using e by (simp add: pow_2_def)
qed

section \<open>Properties\<close>

text \<open>
  A timer of the daemon, started for \<open>iv\<close> milliseconds and polled later by the same clock,
  has expired exactly when it was started with a positive interval and at least that many
  milliseconds have passed; a poll that finds it expired restarts its interval at that moment,
  one that does not changes nothing, and a stopped timer never expires.
\<close>
theorem timerExpired_after_start:
  assumes "0 \<le> iv" "iv < 2147483648"
    and "env_gettimeofday (world s) (ncall s) \<le> env_gettimeofday (world s) (Suc (ncall s))"
  shows "let t0 = env_gettimeofday (world s) (ncall s) div 1000;
             t1 = env_gettimeofday (world s) (Suc (ncall s)) div 1000;
             s1 = exec (timerStart r iv) s;
             s2 = exec (timerExpired r) s1
         in fst (run_state (timerExpired r) s1) = (0 < iv \<and> uint t0 + iv \<le> uint t1) \<and>
            timer_get r s2 = (timer_get r s1)
              \<lparr>t_start := if 0 < iv \<and> uint t0 + iv \<le> uint t1 then t1 else t0\<rparr> \<and>
            \<not> fst (run_state (timerExpired r) (exec (timerStop r) s1))"
proof -
  let ?t0 = "env_gettimeofday (world s) (ncall s) div 1000"
  let ?t1 = "env_gettimeofday (world s) (Suc (ncall s)) div 1000"
  let ?s1 = "exec (timerStart r iv) s"
  have iv: "s32 iv = iv" using assms by (intro s32_id) auto
  have s1: "?s1 = exec (timer_put r (timer_start ?t0 iv)) (s\<lparr>ncall := Suc (ncall s)\<rparr>)"
    by (simp add: timerStart_def exec_bind exec_def [of ptpd_netif_get_msec_tics] iv)
  define t where "t = timer_get r ?s1"
  have t: "t = (timer_get r s)\<lparr>t_start := ?t0, interval := iv\<rparr>"
    by (simp add: t_def s1 timer_start_def)
  have le: "uint ?t0 \<le> uint ?t1"
    using assms(3) by (simp add: word_le_def uint_div_distrib zdiv_mono1)
  have v: "timer_valid (uint ?t1) t"
    using assms le u64_msec [of "env_gettimeofday (world s) (Suc (ncall s))"]
    by (simp add: timer_valid_def t)
  note c = timer_check_correct [OF v, simplified]
  have e1: "fst (run_state (timerExpired r) ?s1) = fst (timer_check ?t1 t)"
    by (simp add: timerExpired_def run_timer_put t_def) (simp add: s1)
  have e2: "timer_get r (exec (timerExpired r) ?s1) = snd (timer_check ?t1 t)"
    by (simp add: timerExpired_def exec_bind t_def exec_def [of ptpd_netif_get_msec_tics])
      (simp add: s1)
  have e3: "\<not> fst (run_state (timerExpired r) (exec (timerStop r) ?s1))"
    by (simp add: timerExpired_def run_timer_put timerStop_def timer_check_def timer_stop_def)
  show ?thesis
    unfolding Let_def using c e1 e2 e3
    by (cases "fst (timer_check ?t1 t)") (auto simp: t_def [symmetric] t)
qed

theorem timerExpired_after_start_witness:
  "fst (run_state (timerExpired (T_sync 0)) (exec (timerStart (T_sync 0) 1000)
     (sys_zero\<lparr>world := quiet_env\<lparr>env_gettimeofday := \<lambda>n. of_nat n * 1000000\<rparr>\<rparr>)))"
  using timerExpired_after_start [of 1000
      "sys_zero\<lparr>world := quiet_env\<lparr>env_gettimeofday := \<lambda>n. of_nat n * 1000000\<rparr>\<rparr>" "T_sync 0"]
  by (simp add: Let_def sys_zero_def)

text \<open>The times of a list of polls at which a timer fires.\<close>

fun timer_fires :: "IntervalTimer \<Rightarrow> int list \<Rightarrow> int list" where
  "timer_fires t [] = []"
| "timer_fires t (now # ts) =
     (if fst (timer_check (word_of_int now) t) then [now] else []) @
     timer_fires (snd (timer_check (word_of_int now) t)) ts"

lemma timer_fires_eq: "timer_fires t ts = timer.fire_times t ts"
  by (induction t ts rule: timer_fires.induct) auto



end
