(* ===== verification/Msg.thy ===== *)
theory Msg
  imports Wire
begin

text \<open>
  PTPWRd/dep/msg.c: packing and unpacking of the PTP messages and of the White Rabbit
  TLVs. A pack function takes the buffer and the data sets it reads and returns the buffer;
  an unpack function takes the buffer and, where it may leave something unwritten, the old
  value of its target.
\<close>

unbundle bit_operations_syntax

section \<open>Header\<close>

definition msgUnpackHeader :: "u8 list \<Rightarrow> MsgHeader" where
  "msgUnpackHeader buf = \<lparr>
     transportSpecific = drop_bit 4 (get_u8 0 buf),
     messageType = get_u8 0 buf AND 0x0F,
     versionPTP = get_u8 1 buf AND 0x0F,
     messageLength = get_be16 2 buf,
     hdr_domainNumber = get_u8 4 buf,
     flagField = get_block 2 6 buf,
     correctionfield = \<lparr>i64_msb = sint (get_be32 8 buf), i64_lsb = get_be32 12 buf\<rparr>,
     sourcePortIdentity = \<lparr>clockIdentity = get_block 8 20 buf, portNumber = get_be16 28 buf\<rparr>,
     sequenceId = get_be16 30 buf,
     controlField = get_u8 32 buf,
     logMessageInterval = sint (get_u8 33 buf)\<rparr>"

definition msgPackHeader :: "PtpPortDS \<Rightarrow> PtpClockDS \<Rightarrow> u8 list \<Rightarrow> u8 list" where
  "msgPackHeader p c = writes
    [put_u8 0 0,
     put_u8 1 (versionNumber p),
     put_u8 4 (domainNumber c),
     (\<lambda>b. if twoStepFlag c then put_u8 6 TWO_STEP_FLAG b else b),
     put_block 8 (replicate 8 0),
     put_block 20 (clockIdentity (portIdentity p)),
     put_be16 28 (portNumber (portIdentity p)),
     put_u8 33 0x7F]"

text \<open>
  Every pack function clears the message type of octet 0 and sets its own; the type, the
  length, the sequence number, the control field and the interval are the part of the
  header that differs between messages.
\<close>

definition set_messageType :: "u8 \<Rightarrow> u8 list \<Rightarrow> u8 list" where
  "set_messageType t b = put_u8 0 (get_u8 0 (put_u8 0 (get_u8 0 b AND 0xF0) b) OR t)
     (put_u8 0 (get_u8 0 b AND 0xF0) b)"

definition put_timestamp :: "nat \<Rightarrow> Timestamp \<Rightarrow> u8 list \<Rightarrow> u8 list" where
  "put_timestamp p t = writes
    [put_be16 p (secs_msb t), put_be32 (p + 2) (secs_lsb t), put_be32 (p + 6) (nanosecondsField t)]"

definition get_timestamp :: "nat \<Rightarrow> u8 list \<Rightarrow> Timestamp" where
  "get_timestamp p b = \<lparr>secs_msb = get_be16 p b, secs_lsb = get_be32 (p + 2) b,
     nanosecondsField = get_be32 (p + 6) b\<rparr>"

text \<open>A hardware timestamp as the 48 bits of seconds and 32 bits of nanoseconds sent.\<close>

definition wr_to_Timestamp :: "wr_timestamp \<Rightarrow> Timestamp" where
  "wr_to_Timestamp t = \<lparr>secs_msb = word_of_int (drop_bit 32 (sec t) AND 0xFFFF),
     secs_lsb = word_of_int (sec t AND 0xFFFFFFFF), nanosecondsField = word_of_int (nsec t)\<rparr>"

section \<open>Sync, Follow\_Up, Delay\_Req, Delay\_Resp\<close>

definition msgPackSync :: "Timestamp \<Rightarrow> PtpPortDS \<Rightarrow> u8 list \<Rightarrow> u8 list" where
  "msgPackSync originTimestamp p = writes
    [set_messageType MT_SYNC,
     put_be16 2 SYNC_LENGTH,
     put_be16 30 (sentSyncSequenceId p),
     put_u8 32 0,
     put_u8 33 (word_of_int (logSyncInterval p)),
     put_block 8 (replicate 8 0),
     put_timestamp 34 originTimestamp]"

definition msgUnpackSync :: "u8 list \<Rightarrow> Timestamp" where
  "msgUnpackSync buf = get_timestamp 34 buf"

definition msgPackFollowUp :: "PtpPortDS \<Rightarrow> u8 list \<Rightarrow> u8 list" where
  "msgPackFollowUp p = writes
    [set_messageType MT_FOLLOW_UP,
     put_be16 2 FOLLOW_UP_LENGTH,
     put_be16 30 (sentSyncSequenceId p - 1),
     put_u8 32 2,
     put_u8 33 (word_of_int (logSyncInterval p)),
     put_timestamp 34 (wr_to_Timestamp (synch_tx_ts p))]"

definition msgUnpackFollowUp :: "u8 list \<Rightarrow> Timestamp" where
  "msgUnpackFollowUp buf = get_timestamp 34 buf"

definition msgPackDelayReq :: "Timestamp \<Rightarrow> PtpPortDS \<Rightarrow> u8 list \<Rightarrow> u8 list" where
  "msgPackDelayReq originTimestamp p = writes
    [set_messageType MT_DELAY_REQ,
     put_be16 2 DELAY_REQ_LENGTH,
     put_be16 30 (sentDelayReqSequenceId p),
     put_u8 32 1,
     put_u8 33 0x7F,
     put_block 8 (replicate 8 0),
     put_timestamp 34 originTimestamp]"

definition msgUnpackDelayReq :: "u8 list \<Rightarrow> Timestamp" where
  "msgUnpackDelayReq buf = get_timestamp 34 buf"

definition msgPackDelayResp :: "MsgHeader \<Rightarrow> PtpPortDS \<Rightarrow> u8 list \<Rightarrow> u8 list" where
  "msgPackDelayResp header p = writes
    [set_messageType MT_DELAY_RESP,
     put_be16 2 DELAY_RESP_LENGTH,
     put_u8 4 (hdr_domainNumber header),
     put_block 8 (replicate 8 0),
     put_be32 8 (word_of_int (i64_msb (correctionfield header))),
     put_be32 12 (i64_lsb (correctionfield header)),
     put_be16 30 (sequenceId header),
     put_u8 32 3,
     put_u8 33 (word_of_int (logMinDelayReqInterval p)),
     put_timestamp 34 (wr_to_Timestamp (current_rx_ts p)),
     put_block 44 (clockIdentity (sourcePortIdentity header)),
     put_be16 52 (portNumber (sourcePortIdentity header))]"

definition get_resp :: "u8 list \<Rightarrow> MsgResp" where
  "get_resp buf = \<lparr>resp_timestamp = get_timestamp 34 buf,
     requestingPortIdentity = \<lparr>clockIdentity = get_block 8 44 buf, portNumber = get_be16 52 buf\<rparr>\<rparr>"

definition msgUnpackDelayResp :: "u8 list \<Rightarrow> MsgResp" where
  "msgUnpackDelayResp buf = get_resp buf"

section \<open>Peer delay messages\<close>

definition msgPackPDelayReq :: "Timestamp \<Rightarrow> PtpPortDS \<Rightarrow> u8 list \<Rightarrow> u8 list" where
  "msgPackPDelayReq originTimestamp p = writes
    [set_messageType MT_PDELAY_REQ,
     put_be16 2 PDELAY_REQ_LENGTH,
     put_be16 30 (sentPDelayReqSequenceId p),
     put_u8 32 5,
     put_u8 33 0x7F,
     put_block 8 (replicate 8 0),
     put_timestamp 34 originTimestamp,
     put_block 44 (replicate 10 0)]"

definition msgUnpackPDelayReq :: "u8 list \<Rightarrow> Timestamp" where
  "msgUnpackPDelayReq buf = get_timestamp 34 buf"

definition msgPackPDelayResp :: "MsgHeader \<Rightarrow> PtpPortDS \<Rightarrow> u8 list \<Rightarrow> u8 list" where
  "msgPackPDelayResp header p = writes
    [set_messageType MT_PDELAY_RESP,
     put_be16 2 PDELAY_RESP_LENGTH,
     put_u8 4 (hdr_domainNumber header),
     put_block 8 (replicate 8 0),
     put_be16 30 (sequenceId header),
     put_u8 32 5,
     put_u8 33 0x7F,
     put_timestamp 34 (wr_to_Timestamp (current_rx_ts p)),
     put_block 44 (clockIdentity (sourcePortIdentity header)),
     put_be16 52 (portNumber (sourcePortIdentity header))]"

definition msgUnpackPDelayResp :: "u8 list \<Rightarrow> MsgResp" where
  "msgUnpackPDelayResp buf = get_resp buf"

definition msgPackPDelayRespFollowUp :: "MsgHeader \<Rightarrow> PtpPortDS \<Rightarrow> u8 list \<Rightarrow> u8 list" where
  "msgPackPDelayRespFollowUp header p = writes
    [set_messageType MT_PDELAY_RESP_FOLLOW_UP,
     put_be16 2 PDELAY_RESP_FOLLOW_UP_LENGTH,
     put_be16 30 (sequenceId (PdelayReqHeader p)),
     put_u8 32 5,
     put_u8 33 0x7F,
     put_be32 8 (word_of_int (i64_msb (correctionfield header))),
     put_be32 12 (i64_lsb (correctionfield header)),
     put_timestamp 34 (wr_to_Timestamp (pDelayResp_tx_ts p)),
     put_block 44 (clockIdentity (sourcePortIdentity header)),
     put_be16 52 (portNumber (sourcePortIdentity header))]"

definition msgUnpackPDelayRespFollowUp :: "u8 list \<Rightarrow> MsgResp" where
  "msgUnpackPDelayRespFollowUp buf = get_resp buf"

section \<open>Announce with the White Rabbit suffix\<close>

definition announces_wr :: "PtpPortDS \<Rightarrow> bool" where
  "announces_wr p \<longleftrightarrow> wrConfig p \<noteq> NON_WR \<and> wrConfig p \<noteq> WR_S_ONLY"

definition announce_flags :: "PtpPortDS \<Rightarrow> u16" where
  "announce_flags p =
    (let f = 0 OR ucast (wrConfig p);
         f = (if calibrated p then ucast WR_IS_CALIBRATED OR f else f)
     in if wrModeON p then ucast WR_IS_WR_MODE OR f else f)"

text \<open>
  The organisation id, the magic number and the version, at offset \<open>p\<close>: stored and
  reassembled from three 16-bit fields.
\<close>

definition put_wr_tlv :: "nat \<Rightarrow> u8 list \<Rightarrow> u8 list" where
  "put_wr_tlv p = writes
    [put_be16 p (ucast (drop_bit 8 WR_TLV_ORGANIZATION_ID :: u32)),
     put_be16 (p + 2) (ucast (0xFFFF AND
        (push_bit 8 WR_TLV_ORGANIZATION_ID OR drop_bit 8 WR_TLV_MAGIC_NUMBER) :: u32)),
     put_be16 (p + 4) (ucast (0xFFFF AND
        (push_bit 8 WR_TLV_MAGIC_NUMBER OR WR_TLV_WR_VERSION_NUMBER) :: u32))]"

definition tlv_organizationID :: "nat \<Rightarrow> u8 list \<Rightarrow> u32" where
  "tlv_organizationID p buf =
     drop_bit 8 (ucast (get_be16 (p + 2) buf)) OR push_bit 8 (ucast (get_be16 p buf))"

definition tlv_magicNumber :: "nat \<Rightarrow> u8 list \<Rightarrow> u16" where
  "tlv_magicNumber p buf =
     drop_bit 8 (get_be16 (p + 4) buf) OR (0xFF00 AND push_bit 8 (get_be16 (p + 2) buf))"

definition tlv_versionNumber :: "nat \<Rightarrow> u8 list \<Rightarrow> u16" where
  "tlv_versionNumber p buf = 0xFF AND get_be16 (p + 4) buf"

definition msgPackAnnounce :: "PtpPortDS \<Rightarrow> PtpClockDS \<Rightarrow> u8 list \<Rightarrow> u8 list" where
  "msgPackAnnounce p c = writes
    ([set_messageType MT_ANNOUNCE,
      put_be16 2 (if announces_wr p then WR_ANNOUNCE_LENGTH else ANNOUNCE_LENGTH),
      put_be16 30 (sentAnnounceSequenceId p),
      put_u8 32 5,
      put_u8 33 (word_of_int (logAnnounceInterval p)),
      put_block 34 (replicate 10 0),
      put_be16 44 (word_of_int (currentUtcOffset c)),
      put_u8 47 (grandmasterPriority1 c),
      put_u8 48 (clockClass (clockQuality c)),
      put_u8 49 (clockAccuracy (clockQuality c)),
      put_be16 50 (offsetScaledLogVariance (clockQuality c)),
      put_u8 52 (grandmasterPriority2 c),
      put_block 53 (grandmasterIdentity c),
      put_u8 61 (ucast (0xFF AND stepsRemoved c)),
      put_u8 62 (ucast (0xFF AND drop_bit 8 (stepsRemoved c))),
      put_u8 63 (timeSource c)] @
     (if announces_wr p
      then [put_be16 64 TLV_TYPE_ORG_EXTENSION,
            put_be16 66 WR_ANNOUNCE_TLV_LENGTH,
            put_wr_tlv 68,
            put_be16 74 ANN_SUFIX,
            put_be16 76 (announce_flags p)]
      else []))"

definition msgUnpackAnnounce :: "u8 list \<Rightarrow> MsgAnnounce \<Rightarrow> MsgAnnounce" where
  "msgUnpackAnnounce buf announce =
    (let a = announce\<lparr>
           ann_originTimestamp := get_timestamp 34 buf,
           ann_currentUtcOffset := sint (get_be16 44 buf),
           ann_grandmasterPriority1 := get_u8 47 buf,
           ann_clockQuality := \<lparr>clockClass = get_u8 48 buf, clockAccuracy = get_u8 49 buf,
                               offsetScaledLogVariance = get_be16 50 buf\<rparr>,
           ann_grandmasterPriority2 := get_u8 52 buf,
           ann_grandmasterIdentity := get_block 8 53 buf,
           ann_stepsRemoved := ucast (get_u8 61 buf) OR push_bit 8 (ucast (get_u8 62 buf)),
           ann_timeSource := get_u8 63 buf\<rparr>
     in if get_be16 2 buf > ANNOUNCE_LENGTH \<and>
           get_be16 64 buf = TLV_TYPE_ORG_EXTENSION \<and>
           tlv_organizationID 68 buf = WR_TLV_ORGANIZATION_ID \<and>
           tlv_magicNumber 68 buf = WR_TLV_MAGIC_NUMBER \<and>
           tlv_versionNumber 68 buf = WR_TLV_WR_VERSION_NUMBER \<and>
           get_be16 74 buf = ANN_SUFIX
        then a\<lparr>wr_flags := ucast (get_be16 76 buf)\<rparr>
        else a)"

section \<open>White Rabbit signalling messages\<close>

text \<open>
  The length the caller sends, and the buffer. A port in no White Rabbit mode packs nothing
  and returns 0.
\<close>

definition msgPackWRSignalingMsg ::
    "PtpPortDS \<Rightarrow> PtpClockDS \<Rightarrow> u16 \<Rightarrow> u8 list \<Rightarrow> u16 \<times> u8 list" where
  "msgPackWRSignalingMsg p c wrMessageID buf =
    (if wrMode p = NON_WR \<or> wrMessageID = ANN_SUFIX then (0, buf)
     else
       let len = (if wrMessageID = CALIBRATE then 20
                  else if wrMessageID = CALIBRATED then 24 else 8) :: u16
       in (WR_SIGNALING_MSG_BASE_LENGTH + len, writes
        ([set_messageType MT_SIGNALING,
          put_u8 32 5,
          put_block 34 (clockIdentity (parentPortIdentity c)),
          put_be16 42 (portNumber (parentPortIdentity c)),
          put_be16 44 TLV_TYPE_ORG_EXTENSION,
          put_wr_tlv 48,
          put_be16 54 wrMessageID] @
         (if wrMessageID = CALIBRATE
          then [put_be16 56 (push_bit 8 (ucast (calRetry p)) OR (if calibrated p then 0 else 1)),
                put_be32 58 (calPeriod p)]
          else if wrMessageID = CALIBRATED
          then [put_be32 56 (delta_msb (deltaTx p)), put_be32 60 (delta_lsb (deltaTx p)),
                put_be32 64 (delta_msb (deltaRx p)), put_be32 68 (delta_lsb (deltaRx p))]
          else []) @
         [put_be16 2 (WR_SIGNALING_MSG_BASE_LENGTH + len),
          put_be16 46 len]) buf))"

text \<open>
  The target port of the message, the message id (the old one where a TLV that is not White
  Rabbit's is rejected) and the port.
\<close>

definition msgUnpackWRSignalingMsg ::
    "u8 list \<Rightarrow> u16 \<Rightarrow> PtpPortDS \<Rightarrow> PortIdentity \<times> u16 \<times> PtpPortDS" where
  "msgUnpackWRSignalingMsg buf wrMessageID p =
    (let target = \<lparr>clockIdentity = get_block 8 34 buf, portNumber = get_be16 42 buf\<rparr>
     in if get_be16 44 buf \<noteq> TLV_TYPE_ORG_EXTENSION then (target, wrMessageID, p)
        else if tlv_organizationID 48 buf \<noteq> WR_TLV_ORGANIZATION_ID then (target, wrMessageID, p)
        else if tlv_magicNumber 48 buf \<noteq> WR_TLV_MAGIC_NUMBER then (target, wrMessageID, p)
        else if tlv_versionNumber 48 buf \<noteq> WR_TLV_WR_VERSION_NUMBER then (target, wrMessageID, p)
        else
          let i = get_be16 54 buf
          in if i = CALIBRATE
             then (target, i, p\<lparr>
               otherNodeCalSendPattern := 0x00FF AND get_be16 56 buf,
               otherNodeCalRetry := ucast (0x00FF AND drop_bit 8 (get_be16 56 buf)),
               otherNodeCalPeriod := get_be32 58 buf\<rparr>)
             else if i = CALIBRATED
             then (target, i, p\<lparr>
               otherNodeDeltaTx := \<lparr>delta_msb = get_be32 56 buf, delta_lsb = get_be32 60 buf\<rparr>,
               otherNodeDeltaRx := \<lparr>delta_msb = get_be32 64 buf, delta_lsb = get_be32 68 buf\<rparr>\<rparr>)
             else (target, i, p))"

section \<open>Field lemmas\<close>

text \<open>
  The compound accessors as accessors: timestamps (10 octets), the message type nibble and
  the White Rabbit TLV head (6 octets).
\<close>

interpretation stamp: wire get_timestamp put_timestamp 10 "\<lambda>_. True"
proof
  fix p and v :: Timestamp and b :: "u8 list"
  show "length (put_timestamp p v b) = length b"
    by (simp add: put_timestamp_def wire_simps)
  show "put_timestamp p v b ! k = b ! k" if "k < p \<or> p + 10 \<le> k" for k
    using that by (auto simp: put_timestamp_def put_be16_def put_be32_def)
  show "get_timestamp p (put_timestamp p v b) = v" if "p + 10 \<le> length b"
    using that by (cases v) (simp add: put_timestamp_def get_timestamp_def wire_simps)
  show "get_timestamp p b = get_timestamp p b'" if "\<And>k. p \<le> k \<Longrightarrow> k < p + 10 \<Longrightarrow> b ! k = b' ! k" for b'
    using that by (simp add: get_timestamp_def get_be16_def get_be32_def)
qed

interpretation u8_stamp: wire_pair get_u8 put_u8 1 "\<lambda>_. True" get_timestamp put_timestamp 10 "\<lambda>_. True" ..
interpretation be16_stamp: wire_pair get_be16 put_be16 2 "\<lambda>_. True" get_timestamp put_timestamp 10 "\<lambda>_. True" ..
interpretation be32_stamp: wire_pair get_be32 put_be32 4 "\<lambda>_. True" get_timestamp put_timestamp 10 "\<lambda>_. True" ..
interpretation block_stamp: wire_pair "get_block m" put_block m "\<lambda>v. length v = m"
  get_timestamp put_timestamp 10 "\<lambda>_. True" for m ..
interpretation stamp_u8: wire_pair get_timestamp put_timestamp 10 "\<lambda>_. True" get_u8 put_u8 1 "\<lambda>_. True" ..
interpretation stamp_be16: wire_pair get_timestamp put_timestamp 10 "\<lambda>_. True" get_be16 put_be16 2 "\<lambda>_. True" ..
interpretation stamp_be32: wire_pair get_timestamp put_timestamp 10 "\<lambda>_. True" get_be32 put_be32 4 "\<lambda>_. True" ..
interpretation stamp_block: wire_pair get_timestamp put_timestamp 10 "\<lambda>_. True"
  "get_block n" put_block n "\<lambda>v. length v = n" for n ..

lemma stamp_other_block:
  "q + 10 \<le> p \<or> p + length v \<le> q \<Longrightarrow> get_timestamp q (put_block p v b) = get_timestamp q b"
  by (rule stamp_block.disjoint [OF refl])

lemmas stamp_simps = stamp.put_length stamp.get_put [OF TrueI] stamp_other_block
  u8_stamp.disjoint [OF TrueI] be16_stamp.disjoint [OF TrueI] be32_stamp.disjoint [OF TrueI]
  block_stamp.disjoint [OF TrueI] stamp_u8.disjoint [OF TrueI] stamp_be16.disjoint [OF TrueI]
  stamp_be32.disjoint [OF TrueI]

lemma messageType_simps:
  "length (set_messageType t b) = length b"
  "0 < length b \<Longrightarrow> get_u8 0 (set_messageType t b) = (get_u8 0 b AND 0xF0) OR t"
  "0 < q \<Longrightarrow> get_u8 q (set_messageType t b) = get_u8 q b"
  "0 < q \<Longrightarrow> get_be16 q (set_messageType t b) = get_be16 q b"
  "0 < q \<Longrightarrow> get_be32 q (set_messageType t b) = get_be32 q b"
  "0 < q \<Longrightarrow> get_block m q (set_messageType t b) = get_block m q b"
  "0 < q \<Longrightarrow> get_timestamp q (set_messageType t b) = get_timestamp q b"
  by (simp_all add: set_messageType_def wire_simps stamp_simps Suc_le_eq)

lemma wr_tlv_simps:
  "length (put_wr_tlv p b) = length b"
  "p + 6 \<le> length b \<Longrightarrow> q = p \<Longrightarrow> get_be16 q (put_wr_tlv p b) = 0x0800"
  "p + 6 \<le> length b \<Longrightarrow> q = p + 2 \<Longrightarrow> get_be16 q (put_wr_tlv p b) = 0x30DE"
  "p + 6 \<le> length b \<Longrightarrow> q = p + 4 \<Longrightarrow> get_be16 q (put_wr_tlv p b) = 0xAD01"
  "q + 1 \<le> p \<or> p + 6 \<le> q \<Longrightarrow> get_u8 q (put_wr_tlv p b) = get_u8 q b"
  "q + 2 \<le> p \<or> p + 6 \<le> q \<Longrightarrow> get_be16 q (put_wr_tlv p b) = get_be16 q b"
  "q + 4 \<le> p \<or> p + 6 \<le> q \<Longrightarrow> get_be32 q (put_wr_tlv p b) = get_be32 q b"
  "q + m \<le> p \<or> p + 6 \<le> q \<Longrightarrow> get_block m q (put_wr_tlv p b) = get_block m q b"
  "q + 10 \<le> p \<or> p + 6 \<le> q \<Longrightarrow> get_timestamp q (put_wr_tlv p b) = get_timestamp q b"
  by (auto simp: put_wr_tlv_def wire_simps stamp_simps)

lemmas msg_simps = wire_simps stamp_simps messageType_simps wr_tlv_simps

lemma tlv_values:
  assumes "get_be16 p b = 0x0800" "get_be16 (p + 2) b = 0x30DE" "get_be16 (p + 4) b = 0xAD01"
  shows "tlv_organizationID p b = WR_TLV_ORGANIZATION_ID"
    "tlv_magicNumber p b = WR_TLV_MAGIC_NUMBER" "tlv_versionNumber p b = WR_TLV_WR_VERSION_NUMBER"
  using assms by (simp_all add: tlv_organizationID_def tlv_magicNumber_def tlv_versionNumber_def)

text \<open>The header as the receiver of a packed message reads it.\<close>

lemma msgPackHeader_length [simp]: "length (msgPackHeader p c b) = length b"
  by (simp add: msgPackHeader_def msg_simps)

lemma msgPack_length [simp]:
  "length (msgPackSync t p b) = length b" "length (msgPackFollowUp p b) = length b"
  "length (msgPackDelayReq t p b) = length b" "length (msgPackDelayResp h p b) = length b"
  "length (msgPackPDelayReq t p b) = length b" "length (msgPackPDelayResp h p b) = length b"
  "length (msgPackPDelayRespFollowUp h p b) = length b" "length (msgPackAnnounce p c b) = length b"
  "length (snd (msgPackWRSignalingMsg p c w b)) = length b"
  by (simp_all add: msgPackSync_def msgPackFollowUp_def msgPackDelayReq_def msgPackDelayResp_def
      msgPackPDelayReq_def msgPackPDelayResp_def msgPackPDelayRespFollowUp_def msgPackAnnounce_def
      msgPackWRSignalingMsg_def msg_simps Let_def)

definition port_ok :: "PtpPortDS \<Rightarrow> bool" where
  "port_ok p \<longleftrightarrow> length (clockIdentity (portIdentity p)) = 8 \<and> versionNumber p AND 0x0F = versionNumber p"

lemma sint_of_s8: "- 128 \<le> k \<Longrightarrow> k < 128 \<Longrightarrow> sint (word_of_int k :: u8) = k"
  by (simp add: sint_sbintrunc' signed_take_bit_int_eq_self)

lemma sint_of_s16: "- 32768 \<le> k \<Longrightarrow> k < 32768 \<Longrightarrow> sint (word_of_int k :: u16) = k"
  by (simp add: sint_sbintrunc' signed_take_bit_int_eq_self)

lemma sint_of_s32: "- 2147483648 \<le> k \<Longrightarrow> k < 2147483648 \<Longrightarrow> sint (word_of_int k :: u32) = k"
  by (simp add: sint_sbintrunc' signed_take_bit_int_eq_self)

text \<open>The header a port's own message carries.\<close>

definition sent_header :: "PtpPortDS \<Rightarrow> PtpClockDS \<Rightarrow> u8 list \<Rightarrow> MsgHeader" where
  "sent_header p c b = \<lparr>
     transportSpecific = 0, messageType = 0, versionPTP = versionNumber p, messageLength = get_be16 2 b,
     hdr_domainNumber = domainNumber c,
     flagField = [if twoStepFlag c then TWO_STEP_FLAG else get_u8 6 b, get_u8 7 b],
     correctionfield = \<lparr>i64_msb = 0, i64_lsb = 0\<rparr>, sourcePortIdentity = portIdentity p,
     sequenceId = get_be16 30 b, controlField = get_u8 32 b, logMessageInterval = 127\<rparr>"

lemma get_block_2: "get_block 2 q b = [get_u8 q b, get_u8 (q + 1) b]"
  by (simp add: get_block_def get_u8_def upt_rec)

lemma zeros_8: "put_block p (replicate 8 0) b = put_be32 (p + 4) 0 (put_be32 p 0 b)"
  by (simp add: put_be32_def numeral_eq_Suc)

lemma be32_of_zeros:
  "p + 8 \<le> length b \<Longrightarrow> get_be32 p (put_block p (replicate 8 0) b) = 0"
  "p + 8 \<le> length b \<Longrightarrow> q = p + 4 \<Longrightarrow> get_be32 q (put_block p (replicate 8 0) b) = 0"
  unfolding zeros_8 by (simp_all add: wire_simps)

lemma msgUnpackHeader_msgPackHeader:
  assumes "length b = 1024" "port_ok p"
  shows "msgUnpackHeader (msgPackHeader p c b) = sent_header p c b"
  using assms
  by (simp add: msgUnpackHeader_def msgPackHeader_def sent_header_def port_ok_def msg_simps
      get_block_2 be32_of_zeros)

lemmas pack_defs = msgPackHeader_def msgPackSync_def msgPackFollowUp_def msgPackDelayReq_def
  msgPackDelayResp_def msgPackPDelayReq_def msgPackPDelayResp_def msgPackPDelayRespFollowUp_def
  msgPackAnnounce_def

lemmas unpack_defs = msgUnpackHeader_def msgUnpackSync_def msgUnpackFollowUp_def
  msgUnpackDelayReq_def msgUnpackDelayResp_def msgUnpackPDelayReq_def msgUnpackPDelayResp_def
  msgUnpackPDelayRespFollowUp_def get_resp_def

section \<open>Round trips\<close>

text \<open>
  C29. A two-step Sync and its Follow\_Up, packed one after the other by a port whose sequence
  number is incremented in between, are read by the receiver as the two messages of that port
  with one sequence number, the declared lengths and the configured interval; the Sync carries
  its origin timestamp and the Follow\_Up the 48-bit seconds and the nanoseconds of the hardware
  transmit timestamp.
\<close>
theorem sync_followUp_roundtrip:
  assumes "length b = 1024" "length b' = 1024" "port_ok p"
    and "- 128 \<le> logSyncInterval p" "logSyncInterval p < 128"
  shows "let m = msgPackSync t p (msgPackHeader p c b);
             p' = p\<lparr>sentSyncSequenceId := sentSyncSequenceId p + 1, synch_tx_ts := tx\<rparr>;
             m' = msgPackFollowUp p' (msgPackHeader p' c b')
         in msgUnpackHeader m = (sent_header p c b)\<lparr>messageType := MT_SYNC, messageLength := 44,
              sequenceId := sentSyncSequenceId p, controlField := 0,
              logMessageInterval := logSyncInterval p\<rparr> \<and>
            msgUnpackSync m = t \<and>
            msgUnpackHeader m' = (sent_header p c b')\<lparr>messageType := MT_FOLLOW_UP, messageLength := 44,
              sequenceId := sentSyncSequenceId p, controlField := 2,
              logMessageInterval := logSyncInterval p\<rparr> \<and>
            msgUnpackFollowUp m' = wr_to_Timestamp tx"
  using assms
  by (simp add: Let_def pack_defs unpack_defs sent_header_def port_ok_def msg_simps
      get_block_2 be32_of_zeros sint_of_s8)

theorem sync_followUp_roundtrip_witness:
  "msgUnpackSync (msgPackSync \<lparr>secs_msb = 1, secs_lsb = 2, nanosecondsField = 3\<rparr> port_zero
     (msgPackHeader port_zero clock_zero (replicate 1024 0))) =
   \<lparr>secs_msb = 1, secs_lsb = 2, nanosecondsField = 3\<rparr>"
  using sync_followUp_roundtrip [of "replicate 1024 0" "replicate 1024 0" port_zero
      "\<lparr>secs_msb = 1, secs_lsb = 2, nanosecondsField = 3\<rparr>" clock_zero wrts_zero]
  by (simp add: Let_def port_ok_def)

text \<open>
  C30. The answer to a Delay\_Req, packed from the header the request was read with, carries back
  its sequence number, correction field, domain and requesting port, and the hardware receive
  timestamp of the request; the request itself is read as sent.
\<close>
theorem delay_roundtrip:
  assumes "length b = 1024" "length b' = 1024" "port_ok p" "port_ok p'"
    and "- 128 \<le> logMinDelayReqInterval p'" "logMinDelayReqInterval p' < 128"
  shows "let m = msgPackDelayReq t p (msgPackHeader p c b);
             h = msgUnpackHeader m;
             m' = msgPackDelayResp h p' (msgPackHeader p' c' b')
         in h = (sent_header p c b)\<lparr>messageType := MT_DELAY_REQ, messageLength := 44,
              sequenceId := sentDelayReqSequenceId p, controlField := 1\<rparr> \<and>
            msgUnpackDelayReq m = t \<and>
            msgUnpackHeader m' = (sent_header p' c' b')\<lparr>messageType := MT_DELAY_RESP,
              messageLength := 54, hdr_domainNumber := domainNumber c,
              correctionfield := correctionfield h, sequenceId := sentDelayReqSequenceId p,
              controlField := 3, logMessageInterval := logMinDelayReqInterval p'\<rparr> \<and>
            msgUnpackDelayResp m' = \<lparr>resp_timestamp = wr_to_Timestamp (current_rx_ts p'),
              requestingPortIdentity = portIdentity p\<rparr>"
  using assms
  by (simp add: Let_def pack_defs unpack_defs sent_header_def port_ok_def msg_simps
      get_block_2 be32_of_zeros sint_of_s8)

theorem delay_roundtrip_witness:
  "let h = msgUnpackHeader (msgPackDelayReq ts_zero port_zero
              (msgPackHeader port_zero clock_zero (replicate 1024 0)))
   in msgUnpackDelayResp (msgPackDelayResp h port_zero
        (msgPackHeader port_zero clock_zero (replicate 1024 0))) =
      \<lparr>resp_timestamp = wr_to_Timestamp wrts_zero, requestingPortIdentity = pid_zero\<rparr>"
  using delay_roundtrip [of "replicate 1024 0" "replicate 1024 0" port_zero port_zero ts_zero
      clock_zero clock_zero]
  by (auto simp: Let_def port_ok_def)

lemma stepsRemoved_bytes:
  "ucast (ucast (0xFF AND (x :: u16)) :: u8) OR push_bit 8 (ucast (ucast (0xFF AND drop_bit 8 x) :: u8)) = x"
proof -
  have m: "(0xFF :: u16) = mask 8" by (simp add: mask_eq_exp_minus_1)
  show ?thesis unfolding m by (rule bit_word_eqI) (auto simp: bit_simps)
qed

lemma wrConfig_flags:
  "ucast (announce_flags p) = (wrConfig p OR (if calibrated p then WR_IS_CALIBRATED else 0) OR
     (if wrModeON p then WR_IS_WR_MODE else 0))"
proof -
  have "ucast (ucast w :: u16) = w" for w :: u8
    by (rule bit_word_eqI) (auto simp: bit_simps)
  then show ?thesis
    by (simp add: announce_flags_def Let_def unsigned_or_eq or.commute or.left_commute)
qed

text \<open>
  C27. An Announce is read as the clock data set it was packed from: time scale offset,
  priorities, quality, grandmaster identity, steps removed and time source, with an empty
  origin timestamp. A port configured as White Rabbit master (alone or with slave)
  appends the suffix, and the receiver gets its configuration with the calibrated and WR-mode
  bits; for any other port the receiver's flags keep their old value.
\<close>
theorem announce_roundtrip:
  assumes "length b = 1024" "port_ok p" "length (grandmasterIdentity c) = 8"
    and "- 32768 \<le> currentUtcOffset c" "currentUtcOffset c < 32768"
    and "- 128 \<le> logAnnounceInterval p" "logAnnounceInterval p < 128"
  shows "let m = msgPackAnnounce p c (msgPackHeader p c b)
         in msgUnpackHeader m = (sent_header p c b)\<lparr>messageType := MT_ANNOUNCE,
              messageLength := if announces_wr p then 78 else 64,
              sequenceId := sentAnnounceSequenceId p, controlField := 5,
              logMessageInterval := logAnnounceInterval p\<rparr> \<and>
            msgUnpackAnnounce m a = \<lparr>
              ann_originTimestamp = ts_zero, ann_currentUtcOffset = currentUtcOffset c,
              ann_grandmasterPriority1 = grandmasterPriority1 c,
              ann_clockQuality = clockQuality c, ann_grandmasterPriority2 = grandmasterPriority2 c,
              ann_grandmasterIdentity = grandmasterIdentity c, ann_stepsRemoved = stepsRemoved c,
              ann_timeSource = timeSource c,
              wr_flags = if announces_wr p
                then wrConfig p OR (if calibrated p then WR_IS_CALIBRATED else 0) OR
                     (if wrModeON p then WR_IS_WR_MODE else 0)
                else wr_flags a\<rparr>"
proof -
  have z: "get_timestamp 34 (put_block 34 (replicate 10 0) b) = ts_zero" if "length b = 1024" for b
  proof -
    have "put_block 34 (replicate 10 0) b = put_timestamp 34 ts_zero b"
      by (simp add: put_timestamp_def put_be16_def put_be32_def numeral_eq_Suc)
    then show ?thesis using that by (simp add: msg_simps)
  qed
  show ?thesis
    using assms
    by (cases a; cases "announces_wr p") (simp_all add: Let_def pack_defs msgUnpackHeader_def msgUnpackAnnounce_def sent_header_def
      port_ok_def msg_simps get_block_2 be32_of_zeros sint_of_s8 sint_of_s16 z stepsRemoved_bytes
      tlv_values wrConfig_flags)
qed

theorem announce_roundtrip_witness:
  "wr_flags (msgUnpackAnnounce (msgPackAnnounce (port_zero\<lparr>wrConfig := WR_M_AND_S, calibrated := True\<rparr>)
     clock_zero (msgPackHeader (port_zero\<lparr>wrConfig := WR_M_AND_S, calibrated := True\<rparr>) clock_zero
       (replicate 1024 0))) announce_zero) = 7"
  using announce_roundtrip [of "replicate 1024 0" "port_zero\<lparr>wrConfig := WR_M_AND_S, calibrated := True\<rparr>"
      clock_zero announce_zero]
  by (simp add: Let_def port_ok_def announces_wr_def)

lemma calRetry_bytes:
  "ucast (0x00FF AND drop_bit 8 (push_bit 8 (ucast (r :: u8)) OR (if c then 0 else 1 :: u16))) = r"
  "0x00FF AND (push_bit 8 (ucast r) OR (if c then 0 else 1 :: u16)) = (if c then 0 else 1)"
proof -
  have m: "(0x00FF :: u16) = mask 8" by (simp add: mask_eq_exp_minus_1)
  show "ucast (0x00FF AND drop_bit 8 (push_bit 8 (ucast (r :: u8)) OR (if c then 0 else 1 :: u16))) = r"
    unfolding m by (rule bit_word_eqI) (cases c; simp add: bit_simps bit_1_iff)
  show "0x00FF AND (push_bit 8 (ucast r) OR (if c then 0 else 1 :: u16)) = (if c then 0 else 1)"
    unfolding m by (rule bit_word_eqI) (cases c; simp add: bit_simps bit_1_iff; linarith)
qed

lemma nibble_type: "(((x :: u8) AND 0xF0) OR 0x0C) AND 0x0F = 0x0C"
proof -
  have "(x AND 0xF0) AND 0x0F = 0" by (simp add: and.assoc)
  then show ?thesis by (simp add: bit.conj_disj_distrib2)
qed

lemma wr_signaling_fields:
  assumes "length b = 1024" "length (clockIdentity (parentPortIdentity c)) = 8"
    and "wrMode p \<noteq> NON_WR" "w \<noteq> ANN_SUFIX" and nm: "msgPackWRSignalingMsg p c w b = (n, m)"
  shows "get_be16 2 m = n" "get_u8 0 m = (get_u8 0 b AND 0xF0) OR 0x0C"
    "get_block 8 34 m = clockIdentity (parentPortIdentity c)"
    "get_be16 42 m = portNumber (parentPortIdentity c)" "get_be16 44 m = TLV_TYPE_ORG_EXTENSION"
    "get_be16 48 m = 0x0800" "get_be16 50 m = 0x30DE" "get_be16 52 m = 0xAD01" "get_be16 54 m = w"
    "w = CALIBRATE \<Longrightarrow> get_be16 56 m = push_bit 8 (ucast (calRetry p)) OR (if calibrated p then 0 else 1)"
    "w = CALIBRATE \<Longrightarrow> get_be32 58 m = calPeriod p"
    "w = CALIBRATED \<Longrightarrow> get_be32 56 m = delta_msb (deltaTx p)"
    "w = CALIBRATED \<Longrightarrow> get_be32 60 m = delta_lsb (deltaTx p)"
    "w = CALIBRATED \<Longrightarrow> get_be32 64 m = delta_msb (deltaRx p)"
    "w = CALIBRATED \<Longrightarrow> get_be32 68 m = delta_lsb (deltaRx p)"
proof -
  define body where "body = writes
    ((if w = CALIBRATE
      then [put_be16 56 (push_bit 8 (ucast (calRetry p)) OR (if calibrated p then 0 else 1)),
            put_be32 58 (calPeriod p)]
      else if w = CALIBRATED
      then [put_be32 56 (delta_msb (deltaTx p)), put_be32 60 (delta_lsb (deltaTx p)),
            put_be32 64 (delta_msb (deltaRx p)), put_be32 68 (delta_lsb (deltaRx p))]
      else []))"
  define head where "head = writes [set_messageType MT_SIGNALING, put_u8 32 5,
      put_block 34 (clockIdentity (parentPortIdentity c)),
      put_be16 42 (portNumber (parentPortIdentity c)), put_be16 44 TLV_TYPE_ORG_EXTENSION,
      put_wr_tlv 48, put_be16 54 w]"
  have app: "writes (xs @ ys) x = writes ys (writes xs x)" for xs ys x
    by (induction xs arbitrary: x) auto
  have m: "m = put_be16 46 (n - 48) (put_be16 2 n (body (head b)))"
    using nm assms(3,4) unfolding msgPackWRSignalingMsg_def Let_def app body_def head_def
    by (auto split: if_splits)
  have lh: "length (head b) = 1024" by (simp add: head_def msg_simps assms(1))
  have lb: "length (body x) = length x" for x by (simp add: body_def msg_simps)
  have body_low: "q + 2 \<le> 56 \<Longrightarrow> get_be16 q (body x) = get_be16 q x"
    "q < 56 \<Longrightarrow> get_u8 q (body x) = get_u8 q x" "q + 8 \<le> 56 \<Longrightarrow> get_block 8 q (body x) = get_block 8 q x" for q x
    by (simp_all add: body_def msg_simps)
  show "get_be16 2 m = n" by (simp add: m msg_simps lb lh)
  show "get_u8 0 m = (get_u8 0 b AND 0xF0) OR 0x0C"
    by (simp add: m msg_simps body_low) (simp add: head_def msg_simps assms(1))
  show "get_block 8 34 m = clockIdentity (parentPortIdentity c)"
    "get_be16 42 m = portNumber (parentPortIdentity c)" "get_be16 44 m = TLV_TYPE_ORG_EXTENSION"
    "get_be16 48 m = 0x0800" "get_be16 50 m = 0x30DE" "get_be16 52 m = 0xAD01" "get_be16 54 m = w"
    by (simp_all add: m msg_simps body_low, simp_all add: head_def msg_simps assms(1,2))
  show "w = CALIBRATE \<Longrightarrow> get_be16 56 m = push_bit 8 (ucast (calRetry p)) OR (if calibrated p then 0 else 1)"
    "w = CALIBRATE \<Longrightarrow> get_be32 58 m = calPeriod p"
    "w = CALIBRATED \<Longrightarrow> get_be32 56 m = delta_msb (deltaTx p)"
    "w = CALIBRATED \<Longrightarrow> get_be32 60 m = delta_lsb (deltaTx p)"
    "w = CALIBRATED \<Longrightarrow> get_be32 64 m = delta_msb (deltaRx p)"
    "w = CALIBRATED \<Longrightarrow> get_be32 68 m = delta_lsb (deltaRx p)"
    by (simp_all add: m msg_simps body_def lh)
qed

text \<open>What the receiver makes of a message it accepts.\<close>

definition signalled :: "PtpPortDS \<Rightarrow> u16 \<Rightarrow> PtpPortDS \<Rightarrow> PtpPortDS" where
  "signalled p w q =
    (if w = CALIBRATE then q\<lparr>
       otherNodeCalSendPattern := if calibrated p then 0 else 1,
       otherNodeCalRetry := calRetry p, otherNodeCalPeriod := calPeriod p\<rparr>
     else if w = CALIBRATED then q\<lparr>otherNodeDeltaTx := deltaTx p, otherNodeDeltaRx := deltaRx p\<rparr>
     else q)"

lemma wr_signaling_read:
  assumes "length b = 1024" "length (clockIdentity (parentPortIdentity c)) = 8"
    and "wrMode p \<noteq> NON_WR" "w \<noteq> ANN_SUFIX" and nm: "msgPackWRSignalingMsg p c w b = (n, m)"
  shows "messageType (msgUnpackHeader m) = MT_SIGNALING"
    "msgUnpackWRSignalingMsg m i q = (parentPortIdentity c, w, signalled p w q)"
proof -
  note f = wr_signaling_fields [OF assms]
  have tlv: "tlv_organizationID 48 m = WR_TLV_ORGANIZATION_ID" "tlv_magicNumber 48 m = WR_TLV_MAGIC_NUMBER"
    "tlv_versionNumber 48 m = WR_TLV_WR_VERSION_NUMBER"
    using tlv_values [of 48 m] f by simp_all
  show "messageType (msgUnpackHeader m) = MT_SIGNALING"
    by (simp only: msgUnpackHeader_def MsgHeader.simps f(2) nibble_type)
  have retry: "ucast (0x00FF AND drop_bit 8 (get_be16 56 m)) = calRetry p"
    "0x00FF AND get_be16 56 m = (if calibrated p then 0 else 1)" if "w = CALIBRATE"
    unfolding f(10) [OF that] by (rule calRetry_bytes)+
  have target: "\<lparr>clockIdentity = get_block 8 34 m, portNumber = get_be16 42 m\<rparr> = parentPortIdentity c"
    by (simp add: f(3,4))
  consider "w = CALIBRATE" | "w = CALIBRATED" | "w \<noteq> CALIBRATE" "w \<noteq> CALIBRATED" by blast
  then show "msgUnpackWRSignalingMsg m i q = (parentPortIdentity c, w, signalled p w q)"
    unfolding msgUnpackWRSignalingMsg_def signalled_def Let_def target f(5,9) tlv
    by cases (simp_all add: retry f(11-15))
qed

text \<open>
  C28. A White Rabbit signalling message packed by a port in a White Rabbit mode, for any
  message id but the Announce suffix, is read by any receiver with that id, the parent port of
  the sender as target and a declared length that is the returned one; CALIBRATE carries the
  sender's retry count, period and whether it still needs the pattern, CALIBRATED its two fixed
  delays bit for bit, and any other id changes nothing in the receiving port.
\<close>
theorem wr_signaling_roundtrip:
  assumes "length b = 1024" "length (clockIdentity (parentPortIdentity c)) = 8"
    and "wrMode p \<noteq> NON_WR" "w \<noteq> ANN_SUFIX"
  shows "let (n, m) = msgPackWRSignalingMsg p c w b
         in n = get_be16 2 m \<and> messageType (msgUnpackHeader m) = MT_SIGNALING \<and>
            msgUnpackWRSignalingMsg m i q = (parentPortIdentity c, w,
              (if w = CALIBRATE then q\<lparr>
                 otherNodeCalSendPattern := if calibrated p then 0 else 1,
                 otherNodeCalRetry := calRetry p, otherNodeCalPeriod := calPeriod p\<rparr>
               else if w = CALIBRATED then q\<lparr>
                 otherNodeDeltaTx := deltaTx p, otherNodeDeltaRx := deltaRx p\<rparr>
               else q))"
proof -
  obtain n m where nm: "msgPackWRSignalingMsg p c w b = (n, m)" by (cases "msgPackWRSignalingMsg p c w b")
  show ?thesis
    by (simp only: nm Let_def prod.case wr_signaling_read [OF assms nm] signalled_def
        wr_signaling_fields(1) [OF assms nm])
qed

theorem wr_signaling_roundtrip_witness:
  "otherNodeDeltaTx (snd (snd (msgUnpackWRSignalingMsg
     (snd (msgPackWRSignalingMsg (port_zero\<lparr>wrMode := WR_SLAVE, deltaTx := \<lparr>delta_msb = 1, delta_lsb = 2\<rparr>\<rparr>)
        clock_zero CALIBRATED (replicate 1024 0))) 0 port_zero))) = \<lparr>delta_msb = 1, delta_lsb = 2\<rparr>"
  using wr_signaling_roundtrip [of "replicate 1024 0" clock_zero
      "port_zero\<lparr>wrMode := WR_SLAVE, deltaTx := \<lparr>delta_msb = 1, delta_lsb = 2\<rparr>\<rparr>" CALIBRATED 0 port_zero]
  by (simp add: Let_def split_beta)

text \<open>
  A signalling message whose TLV is not White Rabbit's (type, organisation, magic
  number or version) is ignored whatever else it holds: the message id the caller holds
  and the port keep their values. A message with White Rabbit's TLV delivers its id.
\<close>
theorem wr_signaling_rejected:
  "let foreign = (get_be16 44 buf \<noteq> TLV_TYPE_ORG_EXTENSION \<or>
       tlv_organizationID 48 buf \<noteq> WR_TLV_ORGANIZATION_ID \<or>
       tlv_magicNumber 48 buf \<noteq> WR_TLV_MAGIC_NUMBER \<or>
       tlv_versionNumber 48 buf \<noteq> WR_TLV_WR_VERSION_NUMBER);
       (target, i', p') = msgUnpackWRSignalingMsg buf i p
   in (if foreign then i' = i \<and> p' = p else i' = get_be16 54 buf)"
  by (auto simp: Let_def msgUnpackWRSignalingMsg_def)

theorem wr_signaling_rejected_witness:
  "snd (msgUnpackWRSignalingMsg (replicate 1024 0) LOCK port_zero) = (LOCK, port_zero)"
  using wr_signaling_rejected [of "replicate 1024 0" LOCK port_zero]
  by (simp add: Let_def split_beta get_be16_def prod_eq_iff)

end
