(* ===== verification/Bmc.thy ===== *)
theory Bmc
  imports Msg Timer
begin

text \<open>
  PTPWRd/bmc.c: the modified Best Master Clock algorithm. Data set comparison, the search for
  the best foreign master of a port (\<open>ErBest\<close>) and of the clock (\<open>EBest\<close>), the state decision
  and the data set updates of its outcomes. \<open>initDataClock\<close> is here, \<open>initDataPort\<close> in the
  theory of the White Rabbit state machine, whose data it initialises.
\<close>

unbundle bit_operations_syntax

abbreviation (input) A_better_by_topology_then_B where "A_better_by_topology_then_B \<equiv> (- 2 :: int)"
abbreviation (input) A_better_then_B where "A_better_then_B \<equiv> (- 1 :: int)"
abbreviation (input) B_better_then_A where "B_better_then_A \<equiv> (1 :: int)"
abbreviation (input) B_better_by_topology_then_A where "B_better_by_topology_then_A \<equiv> (2 :: int)"
abbreviation (input) A_equals_B where "A_equals_B \<equiv> (0 :: int)"
abbreviation (input) DSC_error where "DSC_error \<equiv> (0 :: int)"

section \<open>Data set comparison\<close>

text \<open>Part 2 (the grandmasters are identical): steps removed, then the identities.\<close>

definition bmcComparison_topology ::
    "MsgHeader \<Rightarrow> MsgAnnounce \<Rightarrow> u16 \<Rightarrow> MsgHeader \<Rightarrow> MsgAnnounce \<Rightarrow> u16 \<Rightarrow> PtpPortDS \<Rightarrow> int" where
  "bmcComparison_topology headerA announceA receptionA headerB announceB receptionB p =
    (let stepsA = uint (ann_stepsRemoved announceA);
         stepsB = uint (ann_stepsRemoved announceB);
         senderA = clockIdentity (sourcePortIdentity headerA);
         senderB = clockIdentity (sourcePortIdentity headerB);
         receiver = clockIdentity (portIdentity p)
     in if stepsA > stepsB + 1 then B_better_then_A
        else if stepsB > stepsA + 1 then A_better_then_B
        else if stepsA > stepsB then
          (if memcmp senderA receiver = 0 then A_equals_B
           else if memcmp senderA receiver > 0 then B_better_then_A
           else if memcmp senderA receiver < 0 then B_better_by_topology_then_A
           else DSC_error)
        else if stepsB > stepsA then
          (if memcmp senderB receiver = 0 then A_equals_B
           else if memcmp senderB receiver > 0 then A_better_then_B
           else if memcmp senderB receiver < 0 then A_better_by_topology_then_B
           else DSC_error)
        else if memcmp senderA senderB = 0 then
          (if receptionA < receptionB then A_better_by_topology_then_B
           else if receptionA > receptionB then B_better_by_topology_then_A
           else A_equals_B)
        else if memcmp senderA senderB < 0 then A_better_by_topology_then_B
        else B_better_by_topology_then_A)"

text \<open>
  Part 1 (different grandmasters): the first field that differs decides. Each decision
  is a \<open>memcmp\<close> of the two fields; the one of the 16-bit variance compares one octet, the
  low one on the little-endian build.
\<close>

definition decide :: "int \<Rightarrow> int" where
  "decide cmp = (if cmp < 0 then A_better_then_B else if cmp > 0 then B_better_then_A else DSC_error)"

definition bmcComparison_grandmaster :: "MsgAnnounce \<Rightarrow> MsgAnnounce \<Rightarrow> int" where
  "bmcComparison_grandmaster a b =
    (let qA = ann_clockQuality a; qB = ann_clockQuality b
     in if ann_grandmasterPriority1 a = ann_grandmasterPriority1 b then
          if clockClass qA = clockClass qB then
            if clockAccuracy qA = clockAccuracy qB then
              if offsetScaledLogVariance qA = offsetScaledLogVariance qB then
                if ann_grandmasterPriority2 a = ann_grandmasterPriority2 b then
                  decide (memcmp (ann_grandmasterIdentity a) (ann_grandmasterIdentity b))
                else decide (memcmp [ann_grandmasterPriority2 a] [ann_grandmasterPriority2 b])
              else decide (memcmp [ucast (offsetScaledLogVariance qA)] [ucast (offsetScaledLogVariance qB)])
            else decide (memcmp [clockAccuracy qA] [clockAccuracy qB])
          else decide (memcmp [clockClass qA] [clockClass qB])
        else decide (memcmp [ann_grandmasterPriority1 a] [ann_grandmasterPriority1 b]))"

definition bmcDataSetComparison ::
    "MsgHeader \<Rightarrow> MsgAnnounce \<Rightarrow> u16 \<Rightarrow> MsgHeader \<Rightarrow> MsgAnnounce \<Rightarrow> u16 \<Rightarrow> PtpPortDS \<Rightarrow> int" where
  "bmcDataSetComparison headerA announceA receptionA headerB announceB receptionB p =
    (if receptionA = 0 \<and> receptionB = 0 then DSC_error
     else if receptionB = 0 then A_better_then_B
     else if receptionA = 0 then B_better_then_A
     else if memcmp (ann_grandmasterIdentity announceA) (ann_grandmasterIdentity announceB) = 0
     then bmcComparison_topology headerA announceA receptionA headerB announceB receptionB p
     else bmcComparison_grandmaster announceA announceB)"

text \<open>The comparison of two foreign master records, as the two searches call it.\<close>

definition compare_records :: "PtpPortDS \<Rightarrow> ForeignMasterRecord \<Rightarrow> ForeignMasterRecord \<Rightarrow> int" where
  "compare_records p A B = bmcDataSetComparison (fm_header A) (fm_announce A) (receptionPortNumber A)
     (fm_header B) (fm_announce B) (receptionPortNumber B) p"

section \<open>Data set updates\<close>

definition m1 :: "nat \<Rightarrow> unit cmd" where
  "m1 i = do {
     upd i (\<lambda>p. p\<lparr>parentWrConfig := wrConfig p, parentIsWRnode := wrConfig p \<noteq> NON_WR,
                  parentWrModeON := wrModeON p, parentCalibrated := calibrated p\<rparr>);
     updc (\<lambda>c. c\<lparr>timeSource := 0xA0\<rparr>);
     upd i (\<lambda>p. p\<lparr>wrSlaveRole := NON_SLAVE\<rparr>);
     updc (\<lambda>c. c\<lparr>primarySlavePortNumber := 0\<rparr>) }"

definition m3 :: "nat \<Rightarrow> unit cmd" where
  "m3 i = upd i (\<lambda>p. p\<lparr>wrSlaveRole := NON_SLAVE\<rparr>)"

definition p1 :: "nat \<Rightarrow> unit cmd" where
  "p1 i = upd i (\<lambda>p. p\<lparr>wrSlaveRole := NON_SLAVE\<rparr>)"

definition s1 :: "MsgHeader \<Rightarrow> MsgAnnounce \<Rightarrow> nat \<Rightarrow> unit cmd" where
  "s1 header announce i = do {
     updc (\<lambda>c. c\<lparr>
       stepsRemoved := ann_stepsRemoved announce + 1,
       parentPortIdentity := sourcePortIdentity header,
       grandmasterIdentity := ann_grandmasterIdentity announce,
       grandmasterClockQuality := ann_clockQuality announce,
       grandmasterPriority1 := ann_grandmasterPriority1 announce,
       grandmasterPriority2 := ann_grandmasterPriority2 announce\<rparr>);
     upd i (\<lambda>p. p\<lparr>
       parentIsWRnode := wr_flags announce AND WR_NODE_MODE \<noteq> NON_WR,
       parentWrModeON := wr_flags announce AND WR_IS_WR_MODE = WR_IS_WR_MODE,
       parentCalibrated := wr_flags announce AND WR_IS_CALIBRATED = WR_IS_CALIBRATED,
       parentWrConfig := wr_flags announce AND WR_NODE_MODE\<rparr>);
     pn \<leftarrow> gp i (\<lambda>p. portNumber (portIdentity p));
     let flags = flagField header ! 1;
     updc (\<lambda>c. c\<lparr>
       primarySlavePortNumber := pn,
       currentUtcOffset := ann_currentUtcOffset announce,
       currentUtcOffsetValid := flags AND 0x04 = 0x04,
       leap59 := flags AND 0x02 = 0x02,
       leap61 := flags AND 0x01 = 0x01,
       timeTraceable := flags AND 0x10 = 0x10,
       frequencyTraceable := flags AND 0x20 = 0x20,
       ptpTimescale := flags AND 0x08 = 0x08,
       timeSource := ann_timeSource announce\<rparr>);
     upd i (\<lambda>p. p\<lparr>wrSlaveRole := PRIMARY_SLAVE\<rparr>) }"

definition s2 :: "MsgHeader \<Rightarrow> MsgAnnounce \<Rightarrow> nat \<Rightarrow> unit cmd" where
  "s2 header announce i =
     upd i (\<lambda>p. p\<lparr>wrSlaveRole := SECONDARY_SLAVE,
       secondaryForeignMaster := \<lparr>
         fmPortIdentity = sourcePortIdentity header,
         fmAnnounceMessages = 0,
         receptionPortNumber = portNumber (portIdentity p),
         fm_announce = msgUnpackAnnounce (msgIbuf p) (fm_announce (secondaryForeignMaster p)),
         fm_header = msgUnpackHeader (msgIbuf p)\<rparr>\<rparr>)"

definition copyD0 :: "MsgHeader \<Rightarrow> MsgAnnounce \<Rightarrow> PtpPortDS \<Rightarrow> PtpClockDS \<Rightarrow> MsgHeader \<times> MsgAnnounce" where
  "copyD0 header announce p c =
    (let f1 = (wr_flags announce OR wrConfig p) AND WR_NODE_MODE;
         f2 = f1 OR push_bit 2 (of_bool (calibrated p));
         f3 = f2 OR push_bit 3 (of_bool (wrModeON p))
     in (header\<lparr>sourcePortIdentity := (sourcePortIdentity header)\<lparr>clockIdentity := port_clockIdentity p\<rparr>\<rparr>,
         announce\<lparr>ann_grandmasterPriority1 := priority1 c,
           ann_grandmasterIdentity := port_clockIdentity p,
           ann_clockQuality := clockQuality c,
           ann_grandmasterPriority2 := priority2 c,
           ann_stepsRemoved := 0,
           wr_flags := f3\<rparr>))"

section \<open>State decision\<close>

text \<open>
  \<open>bestForeign\<close> dereferenced. A null pointer (never set) reads as zeroed memory; the index
  pair follows the records as they change, as the pointer does.
\<close>

definition best_foreign :: "sys \<Rightarrow> ForeignMasterRecord" where
  "best_foreign s = (case bestForeign (clk s) of None \<Rightarrow> foreign_zero
     | Some (j, r) \<Rightarrow> foreign (ports s j) ! r)"

definition bmcStateDecision :: "MsgHeader \<Rightarrow> MsgAnnounce \<Rightarrow> u16 \<Rightarrow> nat \<Rightarrow> ptp_state cmd" where
  "bmcStateDecision header announce reception i = do {
     p \<leftarrow> gp i (\<lambda>p. p);
     if wrConfig p = WR_S_ONLY then do { s1 header announce i; State_Monad.return PTP_SLAVE }
     else if wrConfig p = WR_M_ONLY then do { m1 i; State_Monad.return PTP_MASTER }
     else if number_foreign_records p = 0 \<and> portState p = PTP_LISTENING
     then State_Monad.return PTP_LISTENING
     else do {
       c \<leftarrow> gc (\<lambda>c. c);
       let (h0, a0) = copyD0 (msgTmpHeader p) (msgTmp_announce p) p c;
       upd i (\<lambda>p. p\<lparr>msgTmpHeader := h0, msgTmp_announce := a0\<rparr>);
       p \<leftarrow> gp i (\<lambda>p. p);
       if clockClass (clockQuality c) < 128 then
         (let cmp = bmcDataSetComparison h0 a0 (portNumber (portIdentity p)) header announce reception p
          in if cmp < 0 then do { m1 i; State_Monad.return PTP_MASTER }
             else if cmp > 0 then do { p1 i; State_Monad.return PTP_PASSIVE }
             else State_Monad.return PTP_PASSIVE)
       else do {
         E \<leftarrow> gets best_foreign;
         let cmp = bmcDataSetComparison h0 a0 (portNumber (portIdentity p))
                      (fm_header E) (fm_announce E) (receptionPortNumber E) p;
         if cmp < 0 then do { m1 i; State_Monad.return PTP_MASTER }
         else if cmp > 0 then
           if receptionPortNumber E = portNumber (portIdentity p)
           then do { s1 header announce i; State_Monad.return PTP_SLAVE }
           else if bmcDataSetComparison (fm_header E) (fm_announce E) (receptionPortNumber E)
                     header announce reception p = A_better_by_topology_then_B
           then do { s2 header announce i; State_Monad.return PTP_SLAVE }
           else do { m3 i; State_Monad.return PTP_MASTER }
         else State_Monad.return PTP_PASSIVE } } }"

text \<open>\<open>foreignMaster\<close> is the table of a port: the index of the port that owns it.\<close>

definition bmc :: "nat \<Rightarrow> nat \<Rightarrow> ptp_state cmd" where
  "bmc foreignMaster i = do {
     eb \<leftarrow> gc Ebest;
     st \<leftarrow> gp i portState;
     if eb < 0 \<and> st = PTP_MASTER then do { m1 i; gp i portState }
     else do {
       best \<leftarrow> gp i foreign_record_best;
       r \<leftarrow> gp foreignMaster (\<lambda>q. foreign q ! nat best);
       bmcStateDecision (fm_header r) (fm_announce r) (receptionPortNumber r) i } }"

section \<open>Searching for the best foreign master\<close>

text \<open>The loop of both searches: keep the index of the best record seen.\<close>

fun best_scan :: "('r \<Rightarrow> 'r \<Rightarrow> bool) \<Rightarrow> (nat \<Rightarrow> 'r) \<Rightarrow> nat \<Rightarrow> nat list \<Rightarrow> nat" where
  "best_scan better rec best [] = best"
| "best_scan better rec best (i # is) =
     best_scan better rec (if better (rec i) (rec best) then i else best) is"

text \<open>The return value is a \<open>UInteger8\<close>: 255 when there is nothing to look for.\<close>

definition ErBest :: "nat \<Rightarrow> nat \<Rightarrow> u8 cmd" where
  "ErBest foreignMaster i = do {
     p \<leftarrow> gp i (\<lambda>p. p);
     if number_foreign_records p = 0 then do {
       upd i (\<lambda>p. p\<lparr>foreign_record_best := 0\<rparr>);
       State_Monad.return (- 1) }
     else do {
       fm \<leftarrow> gp foreignMaster foreign;
       let best = best_scan (\<lambda>A B. compare_records p A B < 0) (\<lambda>k. fm ! k) 0
                    [1..<unat (number_foreign_records p)];
       upd i (\<lambda>p. p\<lparr>foreign_record_best := int best\<rparr>);
       State_Monad.return (word_of_nat best) } }"

text \<open>The first port with records, \<open>numberPorts\<close> when there is none.\<close>

definition first_with_records :: "(nat \<Rightarrow> PtpPortDS) \<Rightarrow> nat \<Rightarrow> nat" where
  "first_with_records ps n = length (takeWhile (\<lambda>k. number_foreign_records (ps k) = 0) [0..<n])"

text \<open>\<open>i\<close> is the port the function is called with, the base of the array.\<close>

definition EBest :: "nat \<Rightarrow> u8 cmd" where
  "EBest i = do {
     ps \<leftarrow> gets (\<lambda>s k. ports s (i + k));
     n \<leftarrow> gc (\<lambda>c. unat (numberPorts c));
     let first = first_with_records ps n;
     let best = best_scan (\<lambda>A B. compare_records (ps 0) A B < 0)
                  (\<lambda>k. foreign (ps k) ! nat (foreign_record_best (ps k))) first
                  (filter (\<lambda>k. number_foreign_records (ps k) \<noteq> 0) [first + 1..<n]);
     updc (\<lambda>c. c\<lparr>Ebest := int best,
       bestForeign := Some (i + best, nat (foreign_record_best (ps best)))\<rparr>);
     State_Monad.return (word_of_nat best) }"

section \<open>Initialising the clock data set\<close>

definition extsrcLocked :: bool where
  "extsrcLocked \<longleftrightarrow> ptpd_netif_extsrc_detection = PTPD_NETIF_OK"

definition initDataClock :: "unit cmd" where
  "initDataClock = do {
     o' \<leftarrow> go (\<lambda>o'. o');
     updc (\<lambda>c. c\<lparr>
       twoStepFlag := True,
       numberPorts := opt_portNumber o',
       clockQuality := (clockQuality c)\<lparr>
         clockAccuracy := clockAccuracy (opt_clockQuality o'),
         offsetScaledLogVariance := offsetScaledLogVariance (opt_clockQuality o')\<rparr>,
       priority1 := if opt_priority1 o' = 128 \<and> opt_wrConfig o' \<noteq> NON_WR then 64 else opt_priority1 o',
       priority2 := opt_priority2 o',
       domainNumber := opt_domainNumber o',
       clockClassValidityTimeout := 5\<rparr>);
     whenM (masterOnly o' \<or> primarySource o' \<or> clockClass (opt_clockQuality o') = 6)
       (if extsrcLocked then do {
          timerInit T_clockClassValidity;
          timerStart T_clockClassValidity (1000 * pow_2 5);
          modify (\<lambda>s. s\<lparr>rtOpts := (rtOpts s)\<lparr>opt_clockQuality :=
                    (opt_clockQuality (rtOpts s))\<lparr>clockClass := 6\<rparr>\<rparr>\<rparr>) }
        else
          modify (\<lambda>s. s\<lparr>rtOpts := (rtOpts s)\<lparr>opt_clockQuality :=
                    (opt_clockQuality (rtOpts s))\<lparr>clockClass := 13\<rparr>\<rparr>\<rparr>));
     cl \<leftarrow> go (\<lambda>o'. clockClass (opt_clockQuality o'));
     updc (\<lambda>c. c\<lparr>clockQuality := (clockQuality c)\<lparr>clockClass := cl\<rparr>,
                  primarySlavePortNumber := 0, Ebest := - 1\<rparr>) }"

section \<open>The comparison\<close>

lemma decide_memcmp: "decide (memcmp xs ys) = memcmp xs ys"
  using memcmp_range [of xs ys] by (auto simp: decide_def)

lemma decide_0: "decide 0 = 0"
  by (simp add: decide_def)

lemma comparison_topology_swap:
  "bmcComparison_topology hB aB rB hA aA rA p = - bmcComparison_topology hA aA rA hB aB rB p"
  using memcmp_swap [of "clockIdentity (sourcePortIdentity hB)" "clockIdentity (sourcePortIdentity hA)"]
  by (simp add: bmcComparison_topology_def Let_def) (intro conjI impI; simp?)

lemma neg_if: "- (if b then x else y) = (if b then - x else - (y :: int))"
  by simp

lemma comparison_grandmaster_swap: "bmcComparison_grandmaster b a = - bmcComparison_grandmaster a b"
  unfolding bmcComparison_grandmaster_def Let_def decide_memcmp neg_if memcmp_swap [symmetric]
  by (simp only: eq_commute)

text \<open>
  C20. The data set comparison is antisymmetric, on every branch and for every pair of data
  sets, empty ones included: swapping the two swaps the verdict (better by topology stays by
  topology, errors and ties stay 0).
\<close>
theorem comparison_antisymmetric:
  "bmcDataSetComparison hB aB rB hA aA rA p = - bmcDataSetComparison hA aA rA hB aB rB p"
  using memcmp_swap [of "ann_grandmasterIdentity aB" "ann_grandmasterIdentity aA"]
  by (simp add: bmcDataSetComparison_def comparison_topology_swap [of hB aB rB hA aA rA]
      comparison_grandmaster_swap [of aB aA])

text \<open>
  The fields of an Announce in the order of the standard, as one octet string: the
  lexicographic order of these strings is the order of the clocks.
\<close>

definition bmc_key :: "MsgAnnounce \<Rightarrow> u8 list" where
  "bmc_key a = [ann_grandmasterPriority1 a, clockClass (ann_clockQuality a),
     clockAccuracy (ann_clockQuality a), ucast (offsetScaledLogVariance (ann_clockQuality a)),
     ann_grandmasterPriority2 a] @ ann_grandmasterIdentity a"

text \<open>The variances are equal, or differ in the octet the code looks at.\<close>

definition variance_ok :: "MsgAnnounce \<Rightarrow> MsgAnnounce \<Rightarrow> bool" where
  "variance_ok a b \<longleftrightarrow>
     offsetScaledLogVariance (ann_clockQuality a) = offsetScaledLogVariance (ann_clockQuality b) \<or>
     (ucast (offsetScaledLogVariance (ann_clockQuality a)) :: u8) \<noteq>
       ucast (offsetScaledLogVariance (ann_clockQuality b))"

lemma memcmp_hd: "memcmp (x # xs) (y # ys) = (if x = y then memcmp xs ys else memcmp [x] [y])"
  by auto

lemma comparison_grandmaster_key:
  "variance_ok a b \<Longrightarrow> bmcComparison_grandmaster a b = memcmp (bmc_key a) (bmc_key b)"
  by (simp add: bmcComparison_grandmaster_def bmc_key_def Let_def decide_memcmp variance_ok_def
      memcmp_hd [of _ "_ # _"] memcmp_hd [of _ "_ @ _"] memcmp_hd [of _ "ann_grandmasterIdentity a"]
      del: memcmp.simps) blast

definition filled :: "u16 \<Rightarrow> MsgAnnounce \<Rightarrow> u16 \<Rightarrow> MsgAnnounce \<Rightarrow> bool" where
  "filled rA aA rB aB \<longleftrightarrow> rA \<noteq> 0 \<and> rB \<noteq> 0 \<and> length (ann_grandmasterIdentity aA) = 8 \<and>
     length (ann_grandmasterIdentity aB) = 8"

lemma comparison_key:
  assumes "filled rA aA rB aB" "variance_ok aA aB"
    and "ann_grandmasterIdentity aA \<noteq> ann_grandmasterIdentity aB"
  shows "bmcDataSetComparison hA aA rA hB aB rB p = memcmp (bmc_key aA) (bmc_key aB) \<and>
         memcmp (bmc_key aA) (bmc_key aB) \<noteq> 0"
proof -
  have "memcmp (ann_grandmasterIdentity aA) (ann_grandmasterIdentity aB) \<noteq> 0"
    using assms by (simp add: filled_def memcmp_eq_0)
  moreover have "memcmp (bmc_key aA) (bmc_key aB) \<noteq> 0"
  proof -
    have "length (bmc_key aA) = length (bmc_key aB)" using assms(1) by (simp add: filled_def bmc_key_def)
    then show ?thesis using assms(3) by (subst memcmp_eq_0) (auto simp: bmc_key_def)
  qed
  ultimately show ?thesis
    using assms by (simp add: bmcDataSetComparison_def filled_def comparison_grandmaster_key)
qed



text \<open>
  The variance is compared by its low octet only: two clocks that agree on priority1,
  class and accuracy and whose variances differ only in the high octet, however different
  priority2 and identity are, get the error verdict 0 instead of an order.
\<close>
theorem comparison_variance_low_octet:
  assumes "filled rA aA rB aB" "ann_grandmasterIdentity aA \<noteq> ann_grandmasterIdentity aB"
    and "ann_grandmasterPriority1 aA = ann_grandmasterPriority1 aB"
    and "clockClass (ann_clockQuality aA) = clockClass (ann_clockQuality aB)"
    and "clockAccuracy (ann_clockQuality aA) = clockAccuracy (ann_clockQuality aB)"
    and "\<not> variance_ok aA aB"
  shows "bmcDataSetComparison hA aA rA hB aB rB p = DSC_error"
  using assms by (simp add: bmcDataSetComparison_def filled_def memcmp_eq_0
      bmcComparison_grandmaster_def decide_0 variance_ok_def)

theorem comparison_variance_low_octet_witness:
  "bmcDataSetComparison
     header_zero (announce_zero\<lparr>ann_clockQuality := cq_zero\<lparr>offsetScaledLogVariance := 0x0160\<rparr>,
       ann_grandmasterIdentity := [0, 0, 0, 0, 0, 0, 0, 0]\<rparr>) 1
     header_zero (announce_zero\<lparr>ann_clockQuality := cq_zero\<lparr>offsetScaledLogVariance := 0xF060\<rparr>,
       ann_grandmasterIdentity := [0, 0, 0, 0, 0, 0, 0, 1]\<rparr>) 1 port_zero = 0"
  using comparison_variance_low_octet [of 1
      "announce_zero\<lparr>ann_clockQuality := cq_zero\<lparr>offsetScaledLogVariance := 0x0160\<rparr>,
       ann_grandmasterIdentity := [0, 0, 0, 0, 0, 0, 0, 0]\<rparr>" 1
      "announce_zero\<lparr>ann_clockQuality := cq_zero\<lparr>offsetScaledLogVariance := 0xF060\<rparr>,
         ann_grandmasterIdentity := [0, 0, 0, 0, 0, 0, 0, 1]\<rparr>" header_zero header_zero port_zero]
  by (simp add: filled_def variance_ok_def)

section \<open>The searches\<close>

lemma memcmp_trichotomy: "memcmp xs ys < 0 \<or> memcmp xs ys = 0 \<or> memcmp ys xs < 0"
  using memcmp_swap [of ys xs] by linarith

locale ranked_scan =
  fixes better :: "'r \<Rightarrow> 'r \<Rightarrow> bool"
    and key :: "'r \<Rightarrow> u8 list"
    and comparable :: "'r \<Rightarrow> 'r \<Rightarrow> bool"
  assumes better_key: "comparable a b \<Longrightarrow> better a b \<longleftrightarrow> memcmp (key a) (key b) < 0"
    and key_length: "comparable a b \<Longrightarrow> length (key a) = length (key b)"
begin

lemma scan_in: "best_scan better rec b is \<in> insert b (set is)"
  by (induction "is" arbitrary: b) auto

lemma scan_best:
  assumes "\<forall>j\<in>set (b # is). \<forall>k\<in>set (b # is). j \<noteq> k \<longrightarrow> comparable (rec j) (rec k)"
    and "distinct (b # is)" "j \<in> set (b # is)"
  shows "\<not> memcmp (key (rec j)) (key (rec (best_scan better rec b is))) < 0"
  using assms
proof (induction "is" arbitrary: b j)
  case Nil
  then show ?case by simp
next
  case (Cons i "is")
  define b' where "b' = (if better (rec i) (rec b) then i else b)"
  let ?r = "best_scan better rec b' is"
  have IH: "\<not> memcmp (key (rec j)) (key (rec ?r)) < 0" if "j \<in> set (b' # is)" for j
    using Cons.IH [of b' j] Cons.prems that by (auto simp: b'_def)
  have r: "?r \<in> set (b # i # is)" using scan_in [of rec b' "is"] by (auto simp: b'_def)
  have len: "length (key (rec x)) = length (key (rec y))"
    if "x \<in> set (b # i # is)" "y \<in> set (b # i # is)" for x y
    using Cons.prems(1) key_length that by (cases "x = y") blast+
  have c: "comparable (rec i) (rec b)" using Cons.prems by auto
  have drop: "\<not> memcmp (key (rec x)) (key (rec ?r)) < 0"
    if x: "x \<in> {b, i}" "\<not> memcmp (key (rec x)) (key (rec b')) < 0" for x
  proof
    assume less: "memcmp (key (rec x)) (key (rec ?r)) < 0"
    have in': "b' \<in> set (b # i # is)" "x \<in> set (b # i # is)" using x by (auto simp: b'_def)
    have "memcmp (key (rec b')) (key (rec ?r)) < 0"
    proof (cases "memcmp (key (rec b')) (key (rec x)) < 0")
      case True
      then show ?thesis using less memcmp_less_trans len in' r by blast
    next
      case False
      then have "memcmp (key (rec b')) (key (rec x)) = 0"
        using x(2) memcmp_trichotomy [of "key (rec b')" "key (rec x)"] by auto
      then have "key (rec b') = key (rec x)" using memcmp_eq_0 len in' by blast
      with less show ?thesis by simp
    qed
    with IH [of b'] show False by simp
  qed
  have "\<not> memcmp (key (rec b)) (key (rec b')) < 0" "\<not> memcmp (key (rec i)) (key (rec b')) < 0"
    using better_key [OF c] memcmp_swap [of "key (rec b)" "key (rec i)"] by (auto simp: b'_def)
  then have "\<not> memcmp (key (rec j)) (key (rec ?r)) < 0"
    using Cons.prems(3) IH drop by auto
  then show ?case by (simp add: b'_def)
qed

lemma scan_unbeaten:
  assumes "\<forall>j\<in>set (b # is). \<forall>k\<in>set (b # is). j \<noteq> k \<longrightarrow> comparable (rec j) (rec k)"
    and "distinct (b # is)" "j \<in> set (b # is)" "j \<noteq> best_scan better rec b is"
  shows "\<not> better (rec j) (rec (best_scan better rec b is))"
proof -
  have "best_scan better rec b is \<in> set (b # is)" using scan_in [of rec b "is"] by simp
  then have "comparable (rec j) (rec (best_scan better rec b is))" using assms by blast
  with better_key scan_best [OF assms(1-3)] show ?thesis by blast
qed

end

definition distinct_masters :: "ForeignMasterRecord \<Rightarrow> ForeignMasterRecord \<Rightarrow> bool" where
  "distinct_masters A B \<longleftrightarrow>
     filled (receptionPortNumber A) (fm_announce A) (receptionPortNumber B) (fm_announce B) \<and>
     ann_grandmasterIdentity (fm_announce A) \<noteq> ann_grandmasterIdentity (fm_announce B) \<and>
     variance_ok (fm_announce A) (fm_announce B)"

lemma compare_records_key:
  assumes "distinct_masters A B"
  shows "compare_records p A B = memcmp (bmc_key (fm_announce A)) (bmc_key (fm_announce B))"
proof -
  have "memcmp (ann_grandmasterIdentity (fm_announce A)) (ann_grandmasterIdentity (fm_announce B)) \<noteq> 0"
    using assms by (simp add: distinct_masters_def filled_def memcmp_eq_0)
  with assms show ?thesis
    by (simp add: compare_records_def bmcDataSetComparison_def distinct_masters_def filled_def
        comparison_grandmaster_key)
qed

interpretation bmc_scan: ranked_scan "\<lambda>A B. compare_records p A B < 0"
  "\<lambda>A. bmc_key (fm_announce A)" distinct_masters for p
proof
  fix A B assume d: "distinct_masters A B"
  show "compare_records p A B < 0 \<longleftrightarrow> memcmp (bmc_key (fm_announce A)) (bmc_key (fm_announce B)) < 0"
    by (simp add: compare_records_key [OF d])
  show "length (bmc_key (fm_announce A)) = length (bmc_key (fm_announce B))"
    using d by (simp add: distinct_masters_def filled_def bmc_key_def)
qed

text \<open>
  C18. \<open>ErBest\<close> on a port with \<open>n > 0\<close> foreign masters whose records are pairwise of different
  grandmasters: \<open>foreign\_record\_best\<close> becomes the index of a record below \<open>n\<close> that no other
  record beats, the index is also the return value, and nothing else in the state changes; with
  no record the index is reset to 0.
\<close>
theorem ErBest_best:
  assumes "n = unat (number_foreign_records (ports s i))" "fm = foreign (ports s j)"
    and "\<forall>a<n. \<forall>b<n. a \<noteq> b \<longrightarrow> distinct_masters (fm ! a) (fm ! b)"
  shows "let s' = exec (ErBest j i) s; r = fst (run_state (ErBest j i) s);
         best = nat (foreign_record_best (ports s' i))
     in s' = s\<lparr>ports := (ports s)(i := (ports s i)\<lparr>foreign_record_best := int best\<rparr>)\<rparr> \<and>
        (if n = 0 then best = 0 \<and> r = - 1
         else best < n \<and> r = word_of_nat best \<and>
              (\<forall>k<n. k \<noteq> best \<longrightarrow> \<not> compare_records (ports s i) (fm ! k) (fm ! best) < 0))"
proof (cases "n = 0")
  case True
  then have "number_foreign_records (ports s i) = 0" using assms(1) by (simp add: unat_eq_0)
  with True show ?thesis by (simp add: ErBest_def Let_def exec_def)
next
  case False
  then have z: "number_foreign_records (ports s i) \<noteq> 0" using assms(1) by auto
  let ?best = "best_scan (\<lambda>A B. compare_records (ports s i) A B < 0) (\<lambda>k. fm ! k) 0 [1..<n]"
  have range: "set (0 # [1..<n]) = {..<n}" using False by auto
  have in': "?best < n"
    using bmc_scan.scan_in [of "ports s i" "\<lambda>k. fm ! k" 0 "[1..<n]"] False by auto
  have "\<not> compare_records (ports s i) (fm ! k) (fm ! ?best) < 0" if "k < n" "k \<noteq> ?best" for k
  proof (rule bmc_scan.scan_unbeaten [of 0 "[1..<n]"])
    show "\<forall>j\<in>set (0 # [1..<n]). \<forall>k\<in>set (0 # [1..<n]). j \<noteq> k \<longrightarrow> distinct_masters (fm ! j) (fm ! k)"
      using assms(3) unfolding range by simp
    show "k \<in> set (0 # [1..<n])" using that unfolding range by simp
  qed (use that in auto)
  with in' False z show ?thesis
    by (simp add: ErBest_def Let_def exec_def flip: assms(1,2))
qed

definition two_masters :: sys where
  "two_masters = sys_zero\<lparr>ports := \<lambda>_. port_zero\<lparr>number_foreign_records := 2, foreign :=
     [foreign_zero\<lparr>receptionPortNumber := 1, fm_announce := announce_zero
        \<lparr>ann_grandmasterPriority1 := 9, ann_grandmasterIdentity := [0, 0, 0, 0, 0, 0, 0, 0]\<rparr>\<rparr>,
      foreign_zero\<lparr>receptionPortNumber := 1, fm_announce := announce_zero
        \<lparr>ann_grandmasterPriority1 := 7, ann_grandmasterIdentity := [0, 0, 0, 0, 0, 0, 0, 1]\<rparr>\<rparr>]\<rparr>\<rparr>"

theorem ErBest_best_witness:
  "foreign_record_best (ports (exec (ErBest 0 0) two_masters) 0) = 1 \<and>
   \<not> compare_records (ports two_masters 0) (foreign (ports two_masters 0) ! 0)
       (foreign (ports two_masters 0) ! 1) < 0"
proof -
  have e: "foreign_record_best (ports (exec (ErBest 0 0) two_masters) 0) = 1"
    by (simp add: ErBest_def exec_def Let_def two_masters_def compare_records_def upt_rec
        bmcDataSetComparison_def bmcComparison_grandmaster_def decide_def)
  have n: "(2 :: nat) = unat (number_foreign_records (ports two_masters 0))"
    by (simp add: two_masters_def)
  have "\<forall>a<2. \<forall>b<2. a \<noteq> b \<longrightarrow> distinct_masters (foreign (ports two_masters 0) ! a)
      (foreign (ports two_masters 0) ! b)"
    by (auto simp: less_2_cases_iff two_masters_def distinct_masters_def filled_def variance_ok_def)
  note t = ErBest_best [OF n refl this]
  show ?thesis
    using t e by (simp add: Let_def)
qed

lemma takeWhile_shorter: "\<exists>x\<in>set xs. \<not> P x \<Longrightarrow> length (takeWhile P xs) < length xs"
  by (induction xs) auto

lemma first_with_records_in:
  assumes "k < n" "number_foreign_records (ps k) \<noteq> 0"
  shows "first_with_records ps n \<le> k" "number_foreign_records (ps (first_with_records ps n)) \<noteq> 0"
proof -
  let ?P = "\<lambda>k. number_foreign_records (ps k) = 0"
  have "\<exists>x\<in>set [0..<n]. \<not> ?P x" using assms by (intro bexI [of _ k]) simp_all
  then have l: "first_with_records ps n < length [0..<n]"
    unfolding first_with_records_def by (rule takeWhile_shorter)
  show "number_foreign_records (ps (first_with_records ps n)) \<noteq> 0"
    using nth_length_takeWhile [of ?P "[0..<n]"] l by (simp add: first_with_records_def)
  show "first_with_records ps n \<le> k"
  proof (rule ccontr)
    assume "\<not> first_with_records ps n \<le> k"
    then have "k < length (takeWhile ?P [0..<n])" by (simp add: first_with_records_def)
    from nth_mem [OF this] takeWhile_nth [OF this]
    have "[0..<n] ! k \<in> set (takeWhile ?P [0..<n])" by simp
    then have "?P ([0..<n] ! k)" by (rule set_takeWhileD [THEN conjunct2])
    with assms show False by simp
  qed
qed

lemma first_with_records_none:
  "(\<forall>k<n. number_foreign_records (ps k) = 0) \<Longrightarrow> first_with_records ps n = n"
  by (simp add: first_with_records_def takeWhile_eq_all_conv [THEN iffD2])

definition port_best :: "PtpPortDS \<Rightarrow> ForeignMasterRecord" where
  "port_best p = foreign p ! nat (foreign_record_best p)"



section \<open>The state decision\<close>

lemma run_m1:
  "exec (m1 i) s = s\<lparr>ports := (ports s)(i := (ports s i)\<lparr>parentWrConfig := wrConfig (ports s i),
      parentIsWRnode := wrConfig (ports s i) \<noteq> NON_WR, parentWrModeON := wrModeON (ports s i),
      parentCalibrated := calibrated (ports s i), wrSlaveRole := NON_SLAVE\<rparr>),
      clk := (clk s)\<lparr>timeSource := 0xA0, primarySlavePortNumber := 0\<rparr>\<rparr>"
  by (simp add: m1_def exec_def)

lemma wp_unit: "wp (m :: (sys, unit) State_Monad.state) Q s = Q () (exec m s)"
  by (simp add: wp_def exec_unit)

lemma wp_m1 [wp_simps]: "wp (m1 i) Q s = Q () (exec (m1 i) s)"
  by (rule wp_unit)

lemmas decision_defs = bmcStateDecision_def s1_def s2_def m3_def p1_def run_m1 Let_def

text \<open>
  C19. The recommended state and the role of the port agree: SLAVE leaves it primary or
  secondary slave, MASTER leaves it no slave. A slave-only port is always made slave and a
  master-only port master; any other port of a clock of class below 128 never becomes slave;
  a primary slave has taken over the master's announcement into the parent data set, one step
  further away. Neither the state of the port nor any other port is touched.
\<close>
theorem bmcStateDecision_roles:
  "case run_state (bmcStateDecision header announce reception i) s of (r, s') \<Rightarrow>
     let p = ports s i; p' = ports s' i; c' = clk s'
     in r \<in> {PTP_LISTENING, PTP_MASTER, PTP_PASSIVE, PTP_SLAVE} \<and>
        (r = PTP_SLAVE \<longrightarrow> wrSlaveRole p' \<noteq> NON_SLAVE) \<and>
        (r = PTP_MASTER \<longrightarrow> wrSlaveRole p' = NON_SLAVE) \<and>
        (wrConfig p = WR_S_ONLY \<longrightarrow> r = PTP_SLAVE) \<and>
        (wrConfig p = WR_M_ONLY \<longrightarrow> r = PTP_MASTER) \<and>
        (wrConfig p \<noteq> WR_S_ONLY \<and> clockClass (clockQuality (clk s)) < 128 \<longrightarrow> r \<noteq> PTP_SLAVE) \<and>
        (r = PTP_SLAVE \<and> wrSlaveRole p' = PRIMARY_SLAVE \<longrightarrow>
           parentPortIdentity c' = sourcePortIdentity header \<and>
           grandmasterIdentity c' = ann_grandmasterIdentity announce \<and>
           grandmasterPriority1 c' = ann_grandmasterPriority1 announce \<and>
           stepsRemoved c' = ann_stepsRemoved announce + 1 \<and>
           primarySlavePortNumber c' = portNumber (portIdentity p)) \<and>
        portState p' = portState p \<and> (\<forall>j. j \<noteq> i \<longrightarrow> ports s' j = ports s j)"
proof -
  have "wp (bmcStateDecision header announce reception i) (\<lambda>r s'.
     r \<in> {PTP_LISTENING, PTP_MASTER, PTP_PASSIVE, PTP_SLAVE} \<and>
     (r = PTP_SLAVE \<longrightarrow> wrSlaveRole (ports s' i) \<noteq> NON_SLAVE) \<and>
     (r = PTP_MASTER \<longrightarrow> wrSlaveRole (ports s' i) = NON_SLAVE) \<and>
     (wrConfig (ports s i) = WR_S_ONLY \<longrightarrow> r = PTP_SLAVE) \<and>
     (wrConfig (ports s i) = WR_M_ONLY \<longrightarrow> r = PTP_MASTER) \<and>
     (wrConfig (ports s i) \<noteq> WR_S_ONLY \<and> clockClass (clockQuality (clk s)) < 128 \<longrightarrow> r \<noteq> PTP_SLAVE) \<and>
     (r = PTP_SLAVE \<and> wrSlaveRole (ports s' i) = PRIMARY_SLAVE \<longrightarrow>
        parentPortIdentity (clk s') = sourcePortIdentity header \<and>
        grandmasterIdentity (clk s') = ann_grandmasterIdentity announce \<and>
        grandmasterPriority1 (clk s') = ann_grandmasterPriority1 announce \<and>
        stepsRemoved (clk s') = ann_stepsRemoved announce + 1 \<and>
        primarySlavePortNumber (clk s') = portNumber (portIdentity (ports s i))) \<and>
     portState (ports s' i) = portState (ports s i) \<and> (\<forall>j. j \<noteq> i \<longrightarrow> ports s' j = ports s j)) s"
    by (simp add: decision_defs wp_simps split_beta)
  then show ?thesis by (simp add: wp_def Let_def split_beta)
qed

theorem bmcStateDecision_roles_witness:
  "fst (run_state (bmcStateDecision header_zero announce_zero 1 0)
     (sys_zero\<lparr>ports := \<lambda>_. port_zero\<lparr>wrConfig := WR_S_ONLY\<rparr>\<rparr>)) = PTP_SLAVE"
  using bmcStateDecision_roles [where header = header_zero and announce = announce_zero and reception = 1
      and i = 0 and s = "sys_zero\<lparr>ports := \<lambda>_. port_zero\<lparr>wrConfig := WR_S_ONLY\<rparr>\<rparr>"]
  by (simp add: split_beta Let_def)

text \<open>What a clock announces of itself, and that a port hears such an announcement as Ebest.\<close>

definition local_D0 :: "sys \<Rightarrow> nat \<Rightarrow> MsgAnnounce" where
  "local_D0 s i = snd (copyD0 (msgTmpHeader (ports s i)) (msgTmp_announce (ports s i)) (ports s i) (clk s))"

definition can_elect :: "sys \<Rightarrow> nat \<Rightarrow> bool" where
  "can_elect s i \<longleftrightarrow> wrConfig (ports s i) \<noteq> WR_S_ONLY \<and> wrConfig (ports s i) \<noteq> WR_M_ONLY \<and>
     \<not> (number_foreign_records (ports s i) = 0 \<and> portState (ports s i) = PTP_LISTENING) \<and>
     \<not> clockClass (clockQuality (clk s)) < 128 \<and> length (port_clockIdentity (ports s i)) = 8"

definition hears :: "sys \<Rightarrow> nat \<Rightarrow> MsgAnnounce \<Rightarrow> bool" where
  "hears s i a \<longleftrightarrow> (let E = best_foreign s in
     receptionPortNumber E = portNumber (portIdentity (ports s i)) \<and> receptionPortNumber E \<noteq> 0 \<and>
     ann_grandmasterIdentity (fm_announce E) = ann_grandmasterIdentity a \<and>
     ann_clockQuality (fm_announce E) = ann_clockQuality a \<and>
     ann_grandmasterPriority1 (fm_announce E) = ann_grandmasterPriority1 a \<and>
     ann_grandmasterPriority2 (fm_announce E) = ann_grandmasterPriority2 a)"

lemma decision_elects:
  assumes "can_elect s i" "hears s i a" "length (ann_grandmasterIdentity a) = 8"
    and "ann_grandmasterIdentity a \<noteq> port_clockIdentity (ports s i)" "variance_ok (local_D0 s i) a"
  shows "fst (run_state (bmcStateDecision h b rp i) s) =
     (if memcmp (bmc_key (local_D0 s i)) (bmc_key a) < 0 then PTP_MASTER else PTP_SLAVE) \<and>
     memcmp (bmc_key (local_D0 s i)) (bmc_key a) \<noteq> 0"
proof -
  let ?E = "best_foreign s" and ?pn = "portNumber (portIdentity (ports s i))"
  have key: "bmc_key (fm_announce ?E) = bmc_key a"
    using assms(2) by (simp add: hears_def bmc_key_def Let_def)
  have gm: "ann_grandmasterIdentity (local_D0 s i) = port_clockIdentity (ports s i)"
    by (simp add: local_D0_def copyD0_def Let_def)
  have "filled ?pn (local_D0 s i) ?pn (fm_announce ?E)"
    using assms by (auto simp: filled_def gm hears_def can_elect_def Let_def)
  moreover have "variance_ok (local_D0 s i) (fm_announce ?E)"
    using assms(2,5) by (simp add: variance_ok_def hears_def Let_def)
  moreover have "ann_grandmasterIdentity (local_D0 s i) \<noteq> ann_grandmasterIdentity (fm_announce ?E)"
    using assms(2,4) by (auto simp: gm hears_def Let_def)
  ultimately have c: "bmcDataSetComparison h' (local_D0 s i) ?pn h'' (fm_announce ?E) ?pn p =
      memcmp (bmc_key (local_D0 s i)) (bmc_key a) \<and>
      memcmp (bmc_key (local_D0 s i)) (bmc_key a) \<noteq> 0" for h' h'' p
    using comparison_key key by metis
  have e: "best_foreign (s\<lparr>ports := (ports s)(i := (ports s i)\<lparr>msgTmpHeader := x, msgTmp_announce := y\<rparr>)\<rparr>) = ?E"
    for x y by (simp add: best_foreign_def split: option.split)
  have r: "receptionPortNumber ?E = ?pn" using assms(2) by (simp add: hears_def Let_def)
  have d0: "snd (copyD0 (msgTmpHeader (ports s i)) (msgTmp_announce (ports s i)) (ports s i) (clk s)) = local_D0 s i"
    by (simp add: local_D0_def)
  have "wp (bmcStateDecision h b rp i) (\<lambda>r s'. r = (if memcmp (bmc_key (local_D0 s i)) (bmc_key a) < 0
      then PTP_MASTER else PTP_SLAVE)) s"
    using assms(1) c by (simp add: can_elect_def decision_defs wp_simps split_beta e r d0)
  then show ?thesis using c by (simp add: wp_def split_beta)
qed


text \<open>Two nodes of equal quality with identities \<open>own\<close> and \<open>other\<close>, for an example.\<close>

definition node :: "u8 list \<Rightarrow> u8 list \<Rightarrow> sys" where
  "node own other = sys_zero\<lparr>
     ports := \<lambda>_. port_zero\<lparr>wrConfig := WR_M_AND_S, port_clockIdentity := own,
       portIdentity := \<lparr>clockIdentity = own, portNumber = 1\<rparr>, number_foreign_records := 1,
       foreign := [foreign_zero\<lparr>receptionPortNumber := 1, fm_announce := announce_zero\<lparr>
         ann_grandmasterIdentity := other,
         ann_clockQuality := cq_zero\<lparr>clockClass := 187\<rparr>\<rparr>\<rparr>]\<rparr>,
     clk := clock_zero\<lparr>clockQuality := cq_zero\<lparr>clockClass := 187\<rparr>, bestForeign := Some (0, 0)\<rparr>\<rparr>"


end
