(* ===== verification/Picos.thy ===== *)
theory Picos
  imports Timer
begin

text \<open>
  The timestamp arithmetic of PTPWRd/dep/wr\_servo.c: seconds, nanoseconds and picoseconds of
  phase, and what they stand for in picoseconds. Timestamps built by the arithmetic carry
  zeros in the members the code leaves unset and never reads.
\<close>

section \<open>Timestamp arithmetic\<close>

definition ts_to_picos :: "wr_timestamp \<Rightarrow> int" where
  "ts_to_picos ts = s64 (s64 (s64 (sec ts * 1000000000000) + nsec ts * 1000) + phase ts)"

definition ts_make :: "int \<Rightarrow> int \<Rightarrow> int \<Rightarrow> wr_timestamp" where
  "ts_make s n p = \<lparr>sec = s, nsec = n, phase = p, raw_phase = 0, raw_nsec = 0, raw_ahead = 0, correct = 0\<rparr>"

definition picos_to_ts :: "int \<Rightarrow> wr_timestamp" where
  "picos_to_ts picos =
    (let ph = picos smod 1000;
         p1 = (picos - ph) sdiv 1000;
         ns = p1 smod 1000000000;
         p2 = (p1 - ns) sdiv 1000000000
     in ts_make p2 (s32 ns) (s32 ph))"

text \<open>The carry loops: \<open>while (lo >= unit)\<close> and \<open>while (lo < 0)\<close>.\<close>

function carry_down :: "(int \<Rightarrow> int) \<Rightarrow> nat \<Rightarrow> int \<Rightarrow> int \<Rightarrow> int \<times> int" where
  "carry_down wrap unit lo hi =
    (if 0 < unit \<and> int unit \<le> lo then carry_down wrap unit (lo - int unit) (wrap (hi + 1)) else (lo, hi))"
  by auto
termination
  by (relation "measure (\<lambda>(_, _, lo, _). nat lo)") auto

function borrow_up :: "(int \<Rightarrow> int) \<Rightarrow> nat \<Rightarrow> int \<Rightarrow> int \<Rightarrow> int \<times> int" where
  "borrow_up wrap unit lo hi =
    (if 0 < unit \<and> lo < 0 then borrow_up wrap unit (lo + int unit) (wrap (hi - 1)) else (lo, hi))"
  by auto
termination
  by (relation "measure (\<lambda>(_, _, lo, _). nat (- lo))") auto

declare carry_down.simps [simp del] borrow_up.simps [simp del]

definition ts_add :: "wr_timestamp \<Rightarrow> wr_timestamp \<Rightarrow> wr_timestamp" where
  "ts_add a b =
    (let (ph, n) = carry_down s32 1000 (s32 (phase a + phase b)) 0;
         (ns, s) = carry_down s64 1000000000 (s32 (n + s32 (nsec a + nsec b))) 0
     in ts_make (s64 (s + s64 (sec a + sec b))) ns ph)"

definition ts_sub :: "wr_timestamp \<Rightarrow> wr_timestamp \<Rightarrow> wr_timestamp" where
  "ts_sub a b =
    (let (ph, n) = borrow_up s32 1000 (s32 (phase a - phase b)) 0;
         (ns, s) = borrow_up s64 1000000000 (s32 (n + s32 (nsec a - nsec b))) 0
     in ts_make (s64 (s + s64 (sec a - sec b))) ns ph)"

definition ts_hardwarize :: "wr_timestamp \<Rightarrow> int \<Rightarrow> wr_timestamp" where
  "ts_hardwarize ts period =
    (let q = s32 (period + 999) sdiv 1000;
         t1 = (if nsec ts > 0
               then let extra = nsec ts smod q
                    in if extra \<noteq> 0
                       then ts\<lparr>nsec := s32 (nsec ts - extra), phase := s32 (phase ts + s32 (extra * 1000))\<rparr>
                       else ts
               else ts);
         t2 = (if nsec t1 < 0 then t1\<lparr>nsec := s32 (nsec t1 + 1000000000), sec := s64 (sec t1 - 1)\<rparr> else t1);
         t3 = (if sec t2 = - 1 \<and> nsec t2 > 0
               then t2\<lparr>sec := s64 (sec t2 + 1), nsec := s32 (nsec t2 - 1000000000)\<rparr> else t2)
     in if nsec t3 < 0 \<and> nsec t3 \<ge> - q \<and> sec t3 = 0
        then t3\<lparr>nsec := s32 (nsec t3 + q), phase := s32 (phase t3 - s32 (q * 1000))\<rparr> else t3)"

definition timeint_to_wr :: "TimeInternal \<Rightarrow> wr_timestamp" where
  "timeint_to_wr t = ts_make (seconds t) (nanoseconds t) (ti_phase t)"

section \<open>Arithmetic in picoseconds\<close>

text \<open>What a timestamp stands for, without any wrap-around.\<close>

definition wr_picos :: "wr_timestamp \<Rightarrow> int" where
  "wr_picos ts = sec ts * 1000000000000 + nsec ts * 1000 + phase ts"

definition ts_bounded :: "wr_timestamp \<Rightarrow> bool" where
  "ts_bounded ts \<longleftrightarrow> \<bar>phase ts\<bar> \<le> 500000000 \<and> \<bar>nsec ts\<bar> \<le> 1000000000 \<and> \<bar>sec ts\<bar> \<le> 1152921504606846976"

lemma ts_make_sel [simp]:
  "sec (ts_make a b c) = a" "nsec (ts_make a b c) = b" "phase (ts_make a b c) = c" "correct (ts_make a b c) = 0"
  by (simp_all add: ts_make_def)

lemma carry_down_correct:
  assumes "0 < unit" "\<And>x. hi \<le> x \<Longrightarrow> x \<le> hi + max 0 lo \<Longrightarrow> wrap x = x"
  shows "case carry_down wrap unit lo hi of (l, h) \<Rightarrow>
    l + int unit * h = lo + int unit * hi \<and> l < int unit \<and> (0 \<le> lo \<longrightarrow> 0 \<le> l) \<and>
    (lo < 0 \<longrightarrow> l = lo) \<and> hi \<le> h \<and> int unit * (h - hi) \<le> max 0 lo"
  using assms
proof (induction wrap unit lo hi rule: carry_down.induct)
  case (1 wrap unit lo hi)
  show ?case
  proof (cases "int unit \<le> lo")
    case True
    have w: "wrap (hi + 1) = hi + 1" using True 1(2,3) by auto
    have "case carry_down wrap unit (lo - int unit) (wrap (hi + 1)) of (l, h) \<Rightarrow>
        l + int unit * h = lo - int unit + int unit * wrap (hi + 1) \<and> l < int unit \<and>
        (0 \<le> lo - int unit \<longrightarrow> 0 \<le> l) \<and> (lo - int unit < 0 \<longrightarrow> l = lo - int unit) \<and> wrap (hi + 1) \<le> h \<and>
        int unit * (h - wrap (hi + 1)) \<le> max 0 (lo - int unit)"
      using True 1(2,3) by (intro "1.IH") (auto simp: w)
    from this [unfolded w] show ?thesis
      using True 1(2) by (subst carry_down.simps, unfold w) (auto simp: algebra_simps split: prod.splits)
  qed (use 1 in \<open>subst carry_down.simps; simp\<close>)
qed

lemma borrow_up_correct:
  assumes "0 < unit" "\<And>x. x \<le> hi \<Longrightarrow> hi + min 0 lo \<le> x \<Longrightarrow> wrap x = x"
  shows "case borrow_up wrap unit lo hi of (l, h) \<Rightarrow>
    l + int unit * h = lo + int unit * hi \<and> 0 \<le> l \<and> (lo < 0 \<longrightarrow> l < int unit) \<and>
    (0 \<le> lo \<longrightarrow> l = lo) \<and> h \<le> hi \<and> int unit * (hi - h) \<le> int unit - min 0 lo"
  using assms
proof (induction wrap unit lo hi rule: borrow_up.induct)
  case (1 wrap unit lo hi)
  show ?case
  proof (cases "lo < 0")
    case True
    have w: "wrap (hi - 1) = hi - 1" using True 1(2,3) by auto
    have "case borrow_up wrap unit (lo + int unit) (wrap (hi - 1)) of (l, h) \<Rightarrow>
        l + int unit * h = lo + int unit + int unit * wrap (hi - 1) \<and> 0 \<le> l \<and>
        (lo + int unit < 0 \<longrightarrow> l < int unit) \<and> (0 \<le> lo + int unit \<longrightarrow> l = lo + int unit) \<and>
        h \<le> wrap (hi - 1) \<and> int unit * (wrap (hi - 1) - h) \<le> int unit - min 0 (lo + int unit)"
      using True 1(2,3) by (intro "1.IH") (auto simp: w)
    moreover have "0 \<le> lo + int unit \<Longrightarrow> borrow_up wrap unit (lo + int unit) (wrap (hi - 1)) =
        (lo + int unit, wrap (hi - 1))"
      by (subst borrow_up.simps) simp
    ultimately show ?thesis
      using True 1(2) unfolding w
      by (cases "0 \<le> lo + int unit"; subst borrow_up.simps, unfold w)
        (auto simp: algebra_simps split: prod.splits)
  qed (use 1 in \<open>subst borrow_up.simps; simp\<close>)
qed

lemma ts_add_exact:
  assumes "ts_bounded a" "ts_bounded b"
  shows "wr_picos (ts_add a b) = wr_picos a + wr_picos b" "phase (ts_add a b) < 1000"
    "nsec (ts_add a b) < 1000000000"
proof -
  let ?p = "phase a + phase b" and ?n = "nsec a + nsec b"
  have p: "s32 ?p = ?p" and n: "s32 ?n = ?n" and s: "s64 (sec a + sec b) = sec a + sec b"
    using assms by (auto simp: ts_bounded_def intro!: s32_id s64_id)
  obtain ph k where k: "carry_down s32 1000 ?p 0 = (ph, k)" by fastforce
  have c1: "ph + 1000 * k = ?p" "ph < 1000" "0 \<le> k" "1000 * k \<le> max 0 ?p"
  proof -
    have "s32 x = x" if "0 \<le> x" "x \<le> 0 + max 0 ?p" for x
      using that assms by (intro s32_id) (auto simp: ts_bounded_def)
    from carry_down_correct [of 1000 0 ?p s32, OF _ this] show "ph + 1000 * k = ?p" "ph < 1000" "0 \<le> k"
      "1000 * k \<le> max 0 ?p" by (simp_all add: k)
  qed
  have kb: "k \<le> 1000000" using c1 assms by (auto simp: ts_bounded_def)
  have kn: "s32 (k + ?n) = k + ?n" using kb c1(3) assms by (auto simp: ts_bounded_def intro!: s32_id)
  obtain ns m where m: "carry_down s64 1000000000 (k + ?n) 0 = (ns, m)" by fastforce
  have c2: "ns + 1000000000 * m = k + ?n" "ns < 1000000000" "0 \<le> m" "1000000000 * m \<le> max 0 (k + ?n)"
  proof -
    have "s64 x = x" if "0 \<le> x" "x \<le> 0 + max 0 (k + ?n)" for x
      using that kb c1(3) assms by (intro s64_id) (auto simp: ts_bounded_def)
    from carry_down_correct [of 1000000000 0 "k + ?n" s64, OF _ this]
    show "ns + 1000000000 * m = k + ?n" "ns < 1000000000" "0 \<le> m"
      "1000000000 * m \<le> max 0 (k + ?n)" by (simp_all add: m)
  qed
  have mb: "m \<le> 3" using c2(4) kb assms by (auto simp: ts_bounded_def)
  have ms: "s64 (m + (sec a + sec b)) = m + (sec a + sec b)"
    using mb c2(3) assms by (auto simp: ts_bounded_def intro!: s64_id)
  have eq: "ts_add a b = ts_make (m + (sec a + sec b)) ns ph"
    by (simp add: ts_add_def p n s k kn m ms)
  show "wr_picos (ts_add a b) = wr_picos a + wr_picos b"
    using c1(1) c2(1) by (simp add: eq wr_picos_def)
  show "phase (ts_add a b) < 1000" "nsec (ts_add a b) < 1000000000"
    using c1(2) c2(2) by (simp_all add: eq)
qed

lemma ts_sub_exact:
  assumes "ts_bounded a" "ts_bounded b"
  shows "wr_picos (ts_sub a b) = wr_picos a - wr_picos b" "0 \<le> phase (ts_sub a b)"
    "0 \<le> nsec (ts_sub a b)"
proof -
  let ?p = "phase a - phase b" and ?n = "nsec a - nsec b"
  have p: "s32 ?p = ?p" and n: "s32 ?n = ?n" and s: "s64 (sec a - sec b) = sec a - sec b"
    using assms by (auto simp: ts_bounded_def intro!: s32_id s64_id)
  obtain ph k where k: "borrow_up s32 1000 ?p 0 = (ph, k)" by fastforce
  have c1: "ph + 1000 * k = ?p" "0 \<le> ph" "k \<le> 0" "- (1000 * k) \<le> 1000 - min 0 ?p"
  proof -
    have "s32 x = x" if "x \<le> 0" "0 + min 0 ?p \<le> x" for x
      using that assms by (intro s32_id) (auto simp: ts_bounded_def)
    from borrow_up_correct [of 1000 0 ?p s32, OF _ this] show "ph + 1000 * k = ?p" "0 \<le> ph" "k \<le> 0"
      "- (1000 * k) \<le> 1000 - min 0 ?p" by (simp_all add: k)
  qed
  have kb: "- 1000001 \<le> k" using c1 assms by (auto simp: ts_bounded_def)
  have kn: "s32 (k + ?n) = k + ?n" using kb c1(3) assms by (auto simp: ts_bounded_def intro!: s32_id)
  obtain ns m where m: "borrow_up s64 1000000000 (k + ?n) 0 = (ns, m)" by fastforce
  have c2: "ns + 1000000000 * m = k + ?n" "0 \<le> ns" "m \<le> 0"
      "- (1000000000 * m) \<le> 1000000000 - min 0 (k + ?n)"
  proof -
    have "s64 x = x" if "x \<le> 0" "0 + min 0 (k + ?n) \<le> x" for x
      using that kb c1(3) assms by (intro s64_id) (auto simp: ts_bounded_def)
    from borrow_up_correct [of 1000000000 0 "k + ?n" s64, OF _ this]
    show "ns + 1000000000 * m = k + ?n" "0 \<le> ns" "m \<le> 0"
      "- (1000000000 * m) \<le> 1000000000 - min 0 (k + ?n)" by (simp_all add: m)
  qed
  have mb: "- 4 \<le> m" using c2(4) kb assms by (auto simp: ts_bounded_def)
  have ms: "s64 (m + (sec a - sec b)) = m + (sec a - sec b)"
    using mb c2(3) assms by (auto simp: ts_bounded_def intro!: s64_id)
  have eq: "ts_sub a b = ts_make (m + (sec a - sec b)) ns ph"
    by (simp add: ts_sub_def p n s k kn m ms)
  show "wr_picos (ts_sub a b) = wr_picos a - wr_picos b"
    using c1(1) c2(1) by (simp add: eq wr_picos_def)
  show "0 \<le> phase (ts_sub a b)" "0 \<le> nsec (ts_sub a b)"
    using c1(2) c2(2) by (simp_all add: eq)
qed

lemma picos_to_ts_exact:
  assumes "- 9223372036854775808 \<le> p" "p < 9223372036854775808"
  shows "wr_picos (picos_to_ts p) = p" "\<bar>phase (picos_to_ts p)\<bar> < 1000"
    "\<bar>nsec (picos_to_ts p)\<bar> < 1000000000" "\<bar>sec (picos_to_ts p)\<bar> \<le> 9223373"
proof -
  define ph where "ph = p smod 1000"
  define a where "a = p sdiv 1000"
  define ns where "ns = a smod 1000000000"
  define b where "b = a sdiv 1000000000"
  have ph: "\<bar>ph\<bar> < 1000" and ns: "\<bar>ns\<bar> < 1000000000"
    unfolding ph_def ns_def by (rule smod_bound, simp)+
  have p: "p = a * 1000 + ph" "a = b * 1000000000 + ns"
    by (simp_all add: a_def ph_def b_def ns_def sdiv_mult_smod_eq)
  have e1: "(p - ph) sdiv 1000 = a" using p(1) sdiv_times [of 1000 a] by simp
  have e2: "(a - ns) sdiv 1000000000 = b" using p(2) sdiv_times [of 1000000000 b] by simp
  have w: "s32 ns = ns" "s32 ph = ph" using ph ns by (auto intro!: s32_id)
  have eq: "picos_to_ts p = ts_make b ns ph"
    using e1 e2 w by (simp add: picos_to_ts_def Let_def ph_def [symmetric] ns_def [symmetric])
  show "wr_picos (picos_to_ts p) = p" unfolding eq using p by (simp add: wr_picos_def)
  show "\<bar>phase (picos_to_ts p)\<bar> < 1000" "\<bar>nsec (picos_to_ts p)\<bar> < 1000000000"
    using ph ns by (simp_all add: eq)
  show "\<bar>sec (picos_to_ts p)\<bar> \<le> 9223373" unfolding eq using p ph ns assms by simp
qed

text \<open>The whole cycles of the nanoseconds are kept, the rest of them goes to the phase.\<close>

lemma cycle_rounded:
  "0 < period \<Longrightarrow> period \<le> 1000000 \<Longrightarrow> s32 (period + 999) sdiv 1000 = (period + 999) div 1000"
  by (simp add: sdiv_nonneg s32_id)

lemma whole_cycles:
  assumes "0 < q" "q \<le> 1000" "\<bar>nsec ts\<bar> < 1000000000" "\<bar>phase ts\<bar> \<le> 1000000000"
  defines "e \<equiv> if nsec ts > 0 then nsec ts mod q else 0"
  shows "(if nsec ts > 0 then let extra = nsec ts smod q in
      if extra \<noteq> 0 then ts\<lparr>nsec := s32 (nsec ts - extra), phase := s32 (phase ts + s32 (extra * 1000))\<rparr>
      else ts else ts) = ts\<lparr>nsec := nsec ts - e, phase := phase ts + e * 1000\<rparr>"
    "0 \<le> e" "e < q"
proof -
  show e: "0 \<le> e" "e < q" using assms(1) by (simp_all add: e_def)
  have "s32 (nsec ts - e) = nsec ts - e" "s32 (e * 1000) = e * 1000" "s32 (phase ts + e * 1000) = phase ts + e * 1000"
    using e assms(2-4) by (auto intro!: s32_id)
  then show "(if nsec ts > 0 then let extra = nsec ts smod q in
      if extra \<noteq> 0 then ts\<lparr>nsec := s32 (nsec ts - extra), phase := s32 (phase ts + s32 (extra * 1000))\<rparr>
      else ts else ts) = ts\<lparr>nsec := nsec ts - e, phase := phase ts + e * 1000\<rparr>"
    using assms(1) by (auto simp: e_def Let_def smod_nonneg)
qed

lemma ts_hardwarize_exact:
  assumes "0 < period" "period \<le> 1000000" "\<bar>nsec ts\<bar> < 1000000000" "\<bar>phase ts\<bar> \<le> 1000000000"
    and "\<bar>sec ts\<bar> \<le> 1152921504606846976"
  shows "wr_picos (ts_hardwarize ts period) = wr_picos ts"
proof -
  define q where "q = (period + 999) div 1000"
  have q: "0 < q" "q \<le> 1000" using assms(1,2) by (auto simp: q_def)
  have qe: "s32 (period + 999) sdiv 1000 = q" using cycle_rounded assms(1,2) by (simp add: q_def)
  define e where "e = (if nsec ts > 0 then nsec ts mod q else 0)"
  note e = whole_cycles(2,3) [OF q assms(3,4), folded e_def]
  define t1 where "t1 = ts\<lparr>nsec := nsec ts - e, phase := phase ts + e * 1000\<rparr>"
  define t2 where "t2 = (if nsec t1 < 0 then t1\<lparr>nsec := nsec t1 + 1000000000, sec := sec t1 - 1\<rparr> else t1)"
  define t3 where "t3 = (if sec t2 = - 1 \<and> nsec t2 > 0
      then t2\<lparr>sec := sec t2 + 1, nsec := nsec t2 - 1000000000\<rparr> else t2)"
  define t4 where "t4 = (if nsec t3 < 0 \<and> nsec t3 \<ge> - q \<and> sec t3 = 0
      then t3\<lparr>nsec := nsec t3 + q, phase := phase t3 - q * 1000\<rparr> else t3)"
  have n1: "- 1000001000 \<le> nsec t1" "nsec t1 < 1000000000" using assms(3) e q by (auto simp: t1_def)
  have n2: "- 1000 \<le> nsec t2" "nsec t2 < 1000000000" using n1 by (auto simp: t2_def)
  have s1: "sec t1 = sec ts" "phase t1 = phase ts + e * 1000" by (simp_all add: t1_def)
  have s2: "sec t2 \<in> {sec ts, sec ts - 1}" "phase t2 = phase t1" by (auto simp: t2_def s1)
  have w2: "s32 (nsec t1 + 1000000000) = nsec t1 + 1000000000" "s64 (sec t1 - 1) = sec t1 - 1"
    using n1 assms(5) by (auto simp: s1 intro!: s32_id s64_id)
  have w3: "s64 (sec t2 + 1) = sec t2 + 1" "s32 (nsec t2 - 1000000000) = nsec t2 - 1000000000"
    using n2 s2 assms(5) by (auto intro!: s32_id s64_id)
  have p3: "phase t3 = phase ts + e * 1000" by (simp add: t3_def s2 s1)
  have w4: "nsec t3 < 0 \<Longrightarrow> nsec t3 \<ge> - q \<Longrightarrow> s32 (nsec t3 + q) = nsec t3 + q"
    "s32 (q * 1000) = q * 1000" "s32 (phase t3 - q * 1000) = phase t3 - q * 1000"
    using q e assms(4) p3 by (auto intro!: s32_id)
  have "ts_hardwarize ts period = t4"
  proof -
    note a1 = whole_cycles(1) [OF q assms(3,4), folded e_def, folded t1_def]
    have a2: "(if nsec t1 < 0 then t1\<lparr>nsec := s32 (nsec t1 + 1000000000), sec := s64 (sec t1 - 1)\<rparr> else t1) = t2"
      by (simp add: t2_def w2)
    have a3: "(if sec t2 = - 1 \<and> nsec t2 > 0
        then t2\<lparr>sec := s64 (sec t2 + 1), nsec := s32 (nsec t2 - 1000000000)\<rparr> else t2) = t3"
      unfolding t3_def w3 ..
    have a4: "(if nsec t3 < 0 \<and> nsec t3 \<ge> - q \<and> sec t3 = 0
        then t3\<lparr>nsec := s32 (nsec t3 + q), phase := s32 (phase t3 - s32 (q * 1000))\<rparr> else t3) = t4"
      using w4 by (simp add: t4_def)
    show ?thesis by (simp only: ts_hardwarize_def qe Let_def a1 [unfolded Let_def] a2 a3 a4)
  qed
  moreover have "wr_picos t1 = wr_picos ts" by (simp add: t1_def wr_picos_def algebra_simps)
  moreover have "wr_picos t2 = wr_picos t1" by (simp add: t2_def wr_picos_def algebra_simps)
  moreover have "wr_picos t3 = wr_picos t2" by (simp add: t3_def wr_picos_def algebra_simps)
  moreover have "wr_picos t4 = wr_picos t3" by (simp add: t4_def wr_picos_def algebra_simps)
  ultimately show ?thesis by simp
qed

section \<open>Properties\<close>

text \<open>
  C21. The picosecond arithmetic is exact: on bounded timestamps (phases up to half a
  millisecond, nanoseconds up to a second) addition and subtraction are those of the
  picoseconds the timestamps stand for, with the low parts below one unit after an addition
  and not negative after a subtraction; splitting any 64-bit count of picoseconds and
  putting it together again gives it back; and moving a timestamp to whole clock cycles
  changes how it is written, not what it stands for.
\<close>
theorem servo_arithmetic_exact:
  assumes "ts_bounded a" "ts_bounded b"
    and "- 9223372036854775808 \<le> p" "p < 9223372036854775808"
    and "0 < period" "period \<le> 1000000" "\<bar>nsec a\<bar> < 1000000000"
  shows "wr_picos (ts_add a b) = wr_picos a + wr_picos b \<and>
         phase (ts_add a b) < 1000 \<and> nsec (ts_add a b) < 1000000000 \<and>
         wr_picos (ts_sub a b) = wr_picos a - wr_picos b \<and>
         0 \<le> phase (ts_sub a b) \<and> 0 \<le> nsec (ts_sub a b) \<and>
         wr_picos (picos_to_ts p) = p \<and>
         wr_picos (ts_hardwarize a period) = wr_picos a"
proof -
  have "wr_picos (ts_hardwarize a period) = wr_picos a"
    using assms by (intro ts_hardwarize_exact) (auto simp: ts_bounded_def)
  then show ?thesis
    using ts_add_exact [OF assms(1,2)] ts_sub_exact [OF assms(1,2)] picos_to_ts_exact(1) [OF assms(3,4)]
    by simp
qed

theorem servo_arithmetic_exact_witness:
  "wr_picos (ts_sub (ts_make 5 3 200) (ts_make 4 999999999 900)) = 3300 \<and>
   wr_picos (picos_to_ts (- 1234567)) = - 1234567 \<and>
   wr_picos (ts_hardwarize (ts_make 5 3 200) 8000) = 5000000003200"
  using servo_arithmetic_exact [of "ts_make 5 3 200" "ts_make 4 999999999 900" "- 1234567" 8000]
  by (simp add: ts_bounded_def) (simp add: wr_picos_def)

end
