(* ===== verification/Ticks.thy ===== *)
theory Ticks
  imports Picos
begin

text \<open>
  The offset of the servo as an integer: timestamps with small low parts, the normal form of a
  count of picoseconds, and what \<open>ts_hardwarize\<close> makes of it: seconds, whole clock cycles and a
  rest that is less than a cycle.
\<close>

section \<open>Timestamps in normal form\<close>

text \<open>What the subtraction needs: low parts that are not negative and a phase of at most a microsecond.\<close>

definition ts_ok :: "wr_timestamp \<Rightarrow> bool" where
  "ts_ok t \<longleftrightarrow> 0 \<le> phase t \<and> phase t \<le> 1000000 \<and> 0 \<le> nsec t \<and> nsec t \<le> 1000000000"

definition near :: "wr_timestamp \<Rightarrow> bool" where
  "near t \<longleftrightarrow> \<bar>wr_picos t\<bar> \<le> 10 ^ 29"

lemma ts_ok_bounded: "ts_ok t \<Longrightarrow> near t \<Longrightarrow> ts_bounded t"
  by (auto simp: ts_ok_def near_def ts_bounded_def wr_picos_def)

text \<open>The low part a loop leaves does not depend on the wrap-around of the high part.\<close>

lemma borrow_up_low:
  "0 < unit \<Longrightarrow> 0 \<le> fst (borrow_up w unit lo hi) \<and> fst (borrow_up w unit lo hi) \<le> max (int unit - 1) lo"
  by (induction w unit lo hi rule: borrow_up.induct) (subst (1 2) borrow_up.simps; force)

lemma carry_down_low:
  "0 < unit \<Longrightarrow> 0 \<le> lo \<Longrightarrow> 0 \<le> fst (carry_down w unit lo hi) \<and> fst (carry_down w unit lo hi) < int unit"
  by (induction w unit lo hi rule: carry_down.induct) (subst (1 2) carry_down.simps; force)

lemma ts_sub_ok:
  assumes a: "ts_ok a" "near a" and b: "ts_ok b" "near b"
  shows "wr_picos (ts_sub a b) = wr_picos a - wr_picos b" "ts_ok (ts_sub a b)"
proof -
  note e = ts_sub_exact [OF ts_ok_bounded [OF a] ts_ok_bounded [OF b]]
  show "wr_picos (ts_sub a b) = wr_picos a - wr_picos b" by (rule e(1))
  let ?p = "s32 (phase a - phase b)" and ?n = "s32 (nsec a - nsec b)"
  have p: "?p = phase a - phase b" and n: "?n = nsec a - nsec b"
    using a(1) b(1) by (auto simp: ts_ok_def intro!: s32_id)
  obtain ph k where k: "borrow_up s32 1000 ?p 0 = (ph, k)" by fastforce
  have "s32 x = x" if "x \<le> 0" "0 + min 0 ?p \<le> x" for x
    using that a(1) b(1) by (intro s32_id) (auto simp: ts_ok_def p)
  from borrow_up_correct [of 1000 0 ?p s32, OF _ this]
  have k0: "k \<le> 0" "- (1000 * k) \<le> 1000 - min 0 ?p" by (simp_all add: k)
  have "ph \<le> max 999 ?p" using borrow_up_low [of 1000 s32 ?p 0] by (simp add: k)
  then have ph: "ph \<le> 1000000" using a(1) b(1) by (auto simp: ts_ok_def p)
  have kb: "- 1001 \<le> k" using k0(2) a(1) b(1) by (auto simp: ts_ok_def p)
  have "s32 (k + ?n) = k + ?n" using kb k0(1) a(1) b(1) by (auto simp: ts_ok_def n intro!: s32_id)
  then have "nsec (ts_sub a b) \<le> max 999999999 (k + ?n)"
    using borrow_up_low [of 1000000000 s64 "k + ?n" 0] by (simp add: ts_sub_def k split_beta)
  then have "nsec (ts_sub a b) \<le> 1000000000" using k0(1) a(1) b(1) by (auto simp: ts_ok_def n)
  moreover have "phase (ts_sub a b) = ph" by (simp add: ts_sub_def k split: prod.splits)
  ultimately show "ts_ok (ts_sub a b)" using e(2,3) ph by (simp add: ts_ok_def)
qed

definition ts_normal :: "int \<Rightarrow> wr_timestamp" where
  "ts_normal x = ts_make (x div 1000000000000) (x mod 1000000000000 div 1000) (x mod 1000)"

lemma split_unique: "(0::int) \<le> r \<Longrightarrow> r < c \<Longrightarrow> (q * c + r) div c = q \<and> (q * c + r) mod c = r"
  by (simp add: div_pos_pos_trivial mod_pos_pos_trivial)

lemma ts_normal_unique:
  assumes "0 \<le> n" "n < 1000000000" "0 \<le> p" "p < 1000"
  shows "ts_make s n p = ts_normal (wr_picos (ts_make s n p))"
proof -
  have w: "wr_picos (ts_make s n p) = s * 1000000000000 + (n * 1000 + p)" by (simp add: wr_picos_def)
  have w': "s * 1000000000000 + (n * 1000 + p) = (s * 1000000000 + n) * 1000 + p" by simp
  have "0 \<le> n * 1000 + p" "n * 1000 + p < 1000000000000" using assms by auto
  note high = split_unique [OF this, of s] and low = split_unique [OF assms(3,4)]
  let ?w = "wr_picos (ts_make s n p)"
  have "?w div 1000000000000 = s" "?w mod 1000000000000 = n * 1000 + p" unfolding w using high by auto
  moreover have "?w mod 1000 = p" unfolding w w' using low by blast
  moreover have "(n * 1000 + p) div 1000 = n" using low by blast
  ultimately show ?thesis by (simp only: ts_normal_def)
qed

lemma ts_normal_parts [simp]:
  "wr_picos (ts_normal x) = x" "0 \<le> phase (ts_normal x)" "phase (ts_normal x) < 1000"
  "0 \<le> nsec (ts_normal x)" "nsec (ts_normal x) < 1000000000"
proof -
  have "x mod 1000000000000 mod 1000 = x mod 1000" by (rule mod_mod_cancel) simp
  then have m: "x mod 1000000000000 div 1000 * 1000 + x mod 1000 = x mod 1000000000000"
    by (metis div_mult_mod_eq)
  show "wr_picos (ts_normal x) = x"
    using m div_mult_mod_eq [of x 1000000000000] unfolding ts_normal_def wr_picos_def ts_make_sel by linarith
  have "0 \<le> x mod 1000000000000" "x mod 1000000000000 < 1000000000000" by simp_all
  then show "0 \<le> nsec (ts_normal x)" "nsec (ts_normal x) < 1000000000"
    by (simp_all add: ts_normal_def div_int_pos_iff)
qed (simp_all add: ts_normal_def)

lemma picos_to_ts_normal:
  assumes "0 \<le> d" "d < 9223372036854775808"
  shows "picos_to_ts d = ts_normal d"
proof -
  have m: "d smod 1000 = d mod 1000" "(d div 1000) smod 1000000000 = d div 1000 mod 1000000000"
    using assms by (simp_all add: smod_nonneg div_int_pos_iff)
  have q: "(d - d mod 1000) sdiv 1000 = d div 1000"
    "(d div 1000 - d div 1000 mod 1000000000) sdiv 1000000000 = d div 1000 div 1000000000"
    using assms sdiv_times [of 1000 "d div 1000"] sdiv_times [of 1000000000 "d div 1000 div 1000000000"]
    by (simp_all add: minus_mod_eq_div_mult)
  have s: "s32 (d mod 1000) = d mod 1000" "s32 (d div 1000 mod 1000000000) = d div 1000 mod 1000000000"
    by (rule s32_id; use pos_mod_bound [of 1000 d] pos_mod_bound [of 1000000000 "d div 1000"]
        pos_mod_sign [of 1000 d] pos_mod_sign [of 1000000000 "d div 1000"] in linarith)+
  let ?t = "ts_make (d div 1000 div 1000000000) (d div 1000 mod 1000000000) (d mod 1000)"
  have t: "picos_to_ts d = ?t" by (simp add: picos_to_ts_def Let_def m q s)
  have "?t = ts_normal (wr_picos ?t)" by (rule ts_normal_unique) simp_all
  moreover have "wr_picos ?t = d"
    using picos_to_ts_exact(1) [of d] assms unfolding t by simp
  ultimately show ?thesis using t by simp
qed

lemma ts_add_normal:
  assumes "ts_ok a" "near a" "0 \<le> d" "d < 9223372036854775808"
  shows "ts_add a (picos_to_ts d) = ts_normal (wr_picos a + d)"
proof -
  let ?d = "picos_to_ts d"
  have n: "?d = ts_normal d" by (rule picos_to_ts_normal [OF assms(3,4)])
  have b: "ts_bounded ?d"
    using picos_to_ts_exact(2-4) [of d] assms(3,4) by (simp add: ts_bounded_def)
  note e = ts_add_exact [OF ts_ok_bounded [OF assms(1,2)] b]
  let ?p = "s32 (phase a + phase ?d)" and ?n = "s32 (nsec a + nsec ?d)"
  have p: "?p = phase a + phase ?d" "?n = nsec a + nsec ?d"
    using assms(1) ts_normal_parts(2-5) [of d] unfolding n ts_ok_def by (intro s32_id; linarith)+
  have low: "0 \<le> ?p" "?p \<le> 1001000" "0 \<le> ?n" "?n \<le> 2000000000"
    using assms(1) ts_normal_parts(2-5) [of d] unfolding p unfolding n ts_ok_def by linarith+
  obtain ph k where k: "carry_down s32 1000 ?p 0 = (ph, k)" by fastforce
  have "s32 x = x" if "0 \<le> x" "x \<le> 0 + max 0 ?p" for x
    using that low by (intro s32_id) auto
  from carry_down_correct [of 1000 0 ?p s32, OF _ this] have k0: "0 \<le> k" "1000 * k \<le> max 0 ?p" by (simp_all add: k)
  have kn: "s32 (k + ?n) = k + ?n" using k0 low by (intro s32_id) auto
  have "0 \<le> phase (ts_add a ?d)"
    using carry_down_low [of 1000 ?p s32 0] low(1) by (simp add: ts_add_def k split_beta)
  moreover have "0 \<le> nsec (ts_add a ?d)"
    using carry_down_low [of 1000000000 "k + ?n" s64 0] low(3) k0(1) by (simp add: ts_add_def k kn split_beta)
  moreover have "ts_add a ?d = ts_make (sec (ts_add a ?d)) (nsec (ts_add a ?d)) (phase (ts_add a ?d))"
    by (simp add: ts_add_def split_beta)
  ultimately have "ts_add a ?d = ts_normal (wr_picos (ts_add a ?d))"
    using ts_normal_unique e(2,3) by metis
  then show ?thesis using picos_to_ts_exact(1) [of d] assms(3,4) by (simp add: e(1))
qed

section \<open>Whole cycles of the clock\<close>

definition cycle :: "int \<Rightarrow> int" where
  "cycle period = (period + 999) div 1000"

definition period_ok :: "int \<Rightarrow> bool" where
  "period_ok period \<longleftrightarrow> 0 < period \<and> period \<le> 1000000 \<and> cycle period dvd 1000000000"

definition hw_of :: "int \<Rightarrow> int \<Rightarrow> wr_timestamp" where
  "hw_of period x = ts_hardwarize (ts_normal x) period"

lemma cycle_bounds: "period_ok period \<Longrightarrow> 0 < cycle period \<and> cycle period \<le> 1000"
  by (auto simp: period_ok_def cycle_def)

text \<open>Between whole cycles below a second there is none less than a cycle from its end.\<close>

lemma last_cycle:
  assumes "0 < q" "q dvd n" "q dvd 1000000000" "n < (1000000000 :: int)"
  shows "n - 1000000000 \<ge> - q \<longleftrightarrow> n = 1000000000 - q"
proof
  obtain a b where ab: "n = q * a" "1000000000 = q * b" using assms(2,3) unfolding dvd_def by blast
  assume "n - 1000000000 \<ge> - q"
  then have "q * (b - 1) \<le> q * a" "q * a < q * b" using assms(4) unfolding ab by (simp_all add: algebra_simps)
  then have "a = b - 1" using assms(1) by simp
  then show "n = 1000000000 - q" by (simp add: ab right_diff_distrib)
qed simp

text \<open>Whole cycles are moved from the phase to the nanoseconds; a negative offset is written with a negative part.\<close>

lemma hw_of_parts:
  assumes p: "period_ok period" and x: "\<bar>x\<bar> \<le> 10 ^ 29"
  defines "q \<equiv> cycle period"
  defines "n \<equiv> nsec (ts_normal x) - nsec (ts_normal x) mod q"
    and "f \<equiv> phase (ts_normal x) + nsec (ts_normal x) mod q * 1000" and "k \<equiv> sec (ts_normal x)"
  shows "sec (hw_of period x) = (if k = - 1 \<and> 0 < n then 0 else k)"
    "nsec (hw_of period x) = (if k = - 1 \<and> 0 < n then if n = 1000000000 - q then 0 else n - 1000000000 else n)"
    "phase (hw_of period x) = (if k = - 1 \<and> n = 1000000000 - q then f - 1000 * q else f)"
    "x = k * 1000000000000 + n * 1000 + f" "0 \<le> n" "n < 1000000000" "0 \<le> f" "f < 1000 * q" "q dvd n" "n + q \<le> 1000000000"
proof -
  have q: "0 < q" "q \<le> 1000" "q dvd 1000000000" using cycle_bounds [OF p] p by (simp_all add: q_def period_ok_def)
  let ?t = "ts_normal x"
  note t = ts_normal_parts [of x]
  have e: "0 \<le> nsec ?t mod q" "nsec ?t mod q < q" "nsec ?t mod q \<le> nsec ?t"
    using q t(4) by (simp_all add: zmod_le_nonneg_dividend)
  show n: "0 \<le> n" "n < 1000000000" unfolding n_def using e t(5) by linarith+
  show dvd: "q dvd n" by (simp add: n_def minus_mod_eq_mult_div)
  show f: "0 \<le> f" "f < 1000 * q" unfolding f_def using e t(2,3) by linarith+
  show "x = k * 1000000000000 + n * 1000 + f"
    using t(1) by (simp add: wr_picos_def n_def f_def k_def algebra_simps)
  have k: "\<bar>k\<bar> \<le> 1000000000000000000"
    using t(1) t(2-5) x [simplified] unfolding wr_picos_def k_def by linarith
  have qe: "s32 (period + 999) sdiv 1000 = q"
    using p cycle_rounded by (simp add: q_def cycle_def period_ok_def)
  have "(if nsec ?t > 0 then nsec ?t mod q else 0) = nsec ?t mod q" using t(4) by (auto simp: order_le_less)
  then have "?t\<lparr>nsec := nsec ?t - (if nsec ?t > 0 then nsec ?t mod q else 0),
      phase := phase ?t + (if nsec ?t > 0 then nsec ?t mod q else 0) * 1000\<rparr> = ts_make k n f"
    by (simp add: n_def f_def k_def ts_normal_def ts_make_def)
  note a1 = whole_cycles(1) [OF q(1,2), of ?t, unfolded this]
  have w': "s32 (n - 1000000000) = n - 1000000000" "s32 (n - 1000000000 + q) = n - 1000000000 + q" "s32 (q * 1000) = q * 1000"
    "s32 (f - q * 1000) = f - q * 1000"
    using n f q by (intro s32_id; linarith)+
  have hw: "hw_of period x = (if k = - 1 \<and> 0 < n then if n - 1000000000 \<ge> - q then ts_make 0 (n - 1000000000 + q) (f - 1000 * q)
      else ts_make 0 (n - 1000000000) f else ts_make k n f)"
    unfolding hw_of_def ts_hardwarize_def qe Let_def
    using a1 [unfolded Let_def] t n q(1,2) by (auto simp: ts_make_def w' s64_id)
  note edge = last_cycle [OF q(1) dvd q(3) n(2)]
  show "n + q \<le> 1000000000" using edge by linarith
  show "sec (hw_of period x) = (if k = - 1 \<and> 0 < n then 0 else k)"
    "nsec (hw_of period x) = (if k = - 1 \<and> 0 < n then if n = 1000000000 - q then 0 else n - 1000000000 else n)"
    "phase (hw_of period x) = (if k = - 1 \<and> n = 1000000000 - q then f - 1000 * q else f)"
    using q unfolding hw edge by (auto simp: ts_make_def)
qed

lemma hw_parts:
  assumes p: "period_ok period" and x: "\<bar>x\<bar> \<le> 10 ^ 29"
  defines "c \<equiv> 1000 * cycle period"
  shows "sec (hw_of period x) = 0 \<and> nsec (hw_of period x) = 0 \<and> phase (hw_of period x) = x \<and> \<bar>x\<bar> \<le> c \<or>
    sec (hw_of period x) = 0 \<and> nsec (hw_of period x) \<noteq> 0 \<and>
      0 \<le> x - nsec (hw_of period x) * 1000 \<and> x - nsec (hw_of period x) * 1000 < c \<or>
    sec (hw_of period x) \<noteq> 0 \<and>
      0 \<le> x - sec (hw_of period x) * 1000000000000 \<and> x - sec (hw_of period x) * 1000000000000 < 1000000000000"
    "0 \<le> x \<Longrightarrow> x < 1000000000000 \<Longrightarrow> sec (hw_of period x) = 0"
    "0 \<le> x \<Longrightarrow> x < c \<Longrightarrow> sec (hw_of period x) = 0 \<and> nsec (hw_of period x) = 0"
proof -
  define q where "q = cycle period"
  define n where "n = nsec (ts_normal x) - nsec (ts_normal x) mod q"
  define f where "f = phase (ts_normal x) + nsec (ts_normal x) mod q * 1000"
  define k where "k = sec (ts_normal x)"
  note h = hw_of_parts [OF p x, folded q_def, folded n_def f_def k_def]
  have q: "0 < q" "q \<le> 1000" using cycle_bounds [OF p] by (simp_all add: q_def)
  have c: "c = 1000 * q" by (simp add: c_def q_def)
  show "sec (hw_of period x) = 0 \<and> nsec (hw_of period x) = 0 \<and> phase (hw_of period x) = x \<and> \<bar>x\<bar> \<le> c \<or>
    sec (hw_of period x) = 0 \<and> nsec (hw_of period x) \<noteq> 0 \<and>
      0 \<le> x - nsec (hw_of period x) * 1000 \<and> x - nsec (hw_of period x) * 1000 < c \<or>
    sec (hw_of period x) \<noteq> 0 \<and>
      0 \<le> x - sec (hw_of period x) * 1000000000000 \<and> x - sec (hw_of period x) * 1000000000000 < 1000000000000"
    using h q unfolding h(1-3) c by (cases "k = 0"; cases "n = 0"; cases "k = - 1"; cases "n = 1000000000 - q") auto
  have k0: "0 \<le> x \<Longrightarrow> x < 1000000000000 \<Longrightarrow> k = 0" by (simp add: k_def ts_normal_def div_pos_pos_trivial)
  then show "0 \<le> x \<Longrightarrow> x < 1000000000000 \<Longrightarrow> sec (hw_of period x) = 0" by (simp add: h(1))
  show "0 \<le> x \<Longrightarrow> x < c \<Longrightarrow> sec (hw_of period x) = 0 \<and> nsec (hw_of period x) = 0"
  proof -
    assume x: "0 \<le> x" "x < c"
    then have "k = 0" using k0 q c by simp
    then have "n * 1000 + f < 1000 * q" using h(4) x c by simp
    then have "n < q" using h(7) by linarith
    then have "n = 0" using zdvd_imp_le [OF h(9)] h(5) by linarith
    then show ?thesis using \<open>k = 0\<close> by (simp add: h(1,2))
  qed
qed

end
