(* ===== verification/Servo.thy ===== *)
theory Servo
  imports Picos Wire
begin

text \<open>
  PTPWRd/dep/wr\_servo.c (and the exported commands of ptpd\_exports.c that set its variables):
  the computation of the offset from the four timestamps and the servo's state machine,
  which drives the HAL.
\<close>

unbundle bit_operations_syntax

section \<open>The servo's interface\<close>

definition upd_servo :: "nat \<Rightarrow> (wr_servo_t \<Rightarrow> wr_servo_t) \<Rightarrow> unit cmd" where
  "upd_servo i f = upd i (\<lambda>p. p\<lparr>wr_servo_ds := f (wr_servo_ds p)\<rparr>)"

definition upd_es :: "(ptpdexp_sync_state_t \<Rightarrow> ptpdexp_sync_state_t) \<Rightarrow> unit cmd" where
  "upd_es f = modify (\<lambda>s. s\<lparr>cur_servo_state := f (cur_servo_state s)\<rparr>)"

definition wr_servo_enable_tracking :: "int \<Rightarrow> unit cmd" where
  "wr_servo_enable_tracking enable = modify (\<lambda>s. s\<lparr>tracking_enabled := enable\<rparr>)"

definition wr_servo_man_adjust_phase :: "int \<Rightarrow> int cmd" where
  "wr_servo_man_adjust_phase ph = do {
     modify (\<lambda>s. s\<lparr>ph_adjust := ph\<rparr>);
     State_Monad.return ph }"

definition ptpdexp_get_sync_state :: "ptpdexp_sync_state_t \<Rightarrow> ptpdexp_sync_state_t cmd" where
  "ptpdexp_get_sync_state st = do {
     valid \<leftarrow> gets servo_state_valid;
     c \<leftarrow> gets cur_servo_state;
     State_Monad.return (if valid then c\<lparr>es_valid := True\<rparr> else st\<lparr>es_valid := False\<rparr>) }"

definition ptpdexp_cmd :: "int \<Rightarrow> int \<Rightarrow> int cmd" where
  "ptpdexp_cmd command v = do {
     whenM (command = 1) (wr_servo_enable_tracking v);
     whenM (command = 2) (do { wr_servo_man_adjust_phase v; skip });
     State_Monad.return 0 }"

definition wr_servo_reset :: "unit cmd" where
  "wr_servo_reset = do {
     upd_es (\<lambda>e. e\<lparr>es_valid := False\<rparr>);
     modify (\<lambda>s. s\<lparr>servo_state_valid := False\<rparr>) }"

text \<open>The fixed delay in picoseconds: bits 16..47 of the scaled 64-bit value.\<close>

definition delta_ps :: "FixedDelta \<Rightarrow> int" where
  "delta_ps d = sint (((drop_bit 16 (delta_lsb d)) AND 0xFFFF) OR push_bit 16 (delta_msb d) :: u32)"

definition wr_servo_init :: "nat \<Rightarrow> int cmd" where
  "wr_servo_init i = do {
     c \<leftarrow> ptpd_netif_read_calibration_data i;
     case c of
       None \<Rightarrow> State_Monad.return (- 1)
     | Some (_, _, alpha, period) \<Rightarrow> do {
         upd_servo i (\<lambda>s. s\<lparr>fiber_fix_alpha := alpha, clock_period_ps := period\<rparr>);
         ptpd_netif_enable_timing_output 0;
         upd i (\<lambda>p. p\<lparr>wr_servo_ds := (wr_servo_ds p)\<lparr>
           state := WR_SYNC_TAI, cur_setpoint := 0, missed_iters := 0,
           delta_tx_m := delta_ps (otherNodeDeltaTx p), delta_rx_m := delta_ps (otherNodeDeltaRx p),
           delta_tx_s := delta_ps (deltaTx p), delta_rx_s := delta_ps (deltaRx p)\<rparr>\<rparr>);
         s \<leftarrow> gp i wr_servo_ds;
         upd_es (\<lambda>e. e\<lparr>es_delta_tx_m := delta_tx_m s, es_delta_rx_m := delta_rx_m s,
           es_delta_tx_s := delta_tx_s s, es_delta_rx_s := delta_rx_s s,
           es_slave_servo_state := ''Uninitialized''\<rparr>);
         modify (\<lambda>s. s\<lparr>servo_state_valid := True\<rparr>);
         upd_es (\<lambda>e. e\<lparr>es_valid := True, es_update_count := 0\<rparr>);
         modify (\<lambda>s. s\<lparr>got_sync := False\<rparr>);
         State_Monad.return 0 } }"

definition wr_servo_got_sync :: "nat \<Rightarrow> TimeInternal \<Rightarrow> TimeInternal \<Rightarrow> int cmd" where
  "wr_servo_got_sync i t1 t2 = do {
     upd_servo i (\<lambda>s. s\<lparr>servo_t1 := (timeint_to_wr t1)\<lparr>correct := 1\<rparr>,
                        servo_t2 := (timeint_to_wr t2)\<lparr>correct := ti_correct t2\<rparr>\<rparr>);
     modify (\<lambda>s. s\<lparr>got_sync := True\<rparr>);
     State_Monad.return 0 }"

definition wr_servo_got_delay :: "nat \<Rightarrow> int \<Rightarrow> int cmd" where
  "wr_servo_got_delay i cf = do {
     upd i (\<lambda>p. p\<lparr>wr_servo_ds := (wr_servo_ds p)\<lparr>
       servo_t3 := delayReq_tx_ts p,
       servo_t4 := (timeint_to_wr (delay_req_receive_time p))\<lparr>correct := 1,
                     phase := s32 (s64 (cf * 1000) sdiv 65536)\<rparr>\<rparr>\<rparr>);
     State_Monad.return 0 }"

section \<open>The update\<close>

text \<open>
  The measurements: round trip \<open>mu\<close>, master-to-slave delay and offset. The delay is computed
  in \<open>uint64\_t\<close>; its first shift is one of \<open>int64\_t\<close>, its second one of \<open>uint64\_t\<close>.
\<close>

definition servo_mu :: "wr_servo_t \<Rightarrow> wr_timestamp" where
  "servo_mu s = ts_sub (ts_sub (servo_t4 s) (servo_t1 s)) (ts_sub (servo_t3 s) (servo_t2 s))"

definition big_delta_fix :: "wr_servo_t \<Rightarrow> u64" where
  "big_delta_fix s = word_of_int (s32 (s32 (s32 (delta_tx_m s + delta_tx_s s) + delta_rx_m s) + delta_rx_s s))"

definition delay_ms_fix :: "wr_servo_t \<Rightarrow> wr_timestamp \<Rightarrow> int \<Rightarrow> u64" where
  "delay_ms_fix s m ph =
    (let d = word_of_int (ts_to_picos m) - big_delta_fix s
     in word_of_int (drop_bit 40 (s64 (sint d * fiber_fix_alpha s)))
        + drop_bit 1 d + word_of_int (delta_tx_m s) + word_of_int (delta_rx_s s) + word_of_int ph)"

definition servo_offset :: "wr_servo_t \<Rightarrow> u64 \<Rightarrow> wr_timestamp" where
  "servo_offset s d = ts_add (ts_sub (servo_t1 s) (servo_t2 s)) (picos_to_ts (sint d))"

text \<open>The \<open>switch\<close> on the state of the servo, given the hardware offset.\<close>

definition servo_switch :: "nat \<Rightarrow> u64 \<Rightarrow> wr_timestamp \<Rightarrow> unit cmd" where
  "servo_switch i tics hw = do {
     s \<leftarrow> gp i wr_servo_ds;
     case state s of
       WR_WAIT_SYNC_IDLE \<Rightarrow> do {
         busy \<leftarrow> ptpd_netif_adjust_in_progress;
         whenM (busy = 0) (upd_servo i (\<lambda>s. s\<lparr>state := next_state s\<rparr>)) }
     | WR_SYNC_TAI \<Rightarrow> do {
         ptpd_netif_enable_timing_output 0;
         if sec hw \<noteq> 0 then do {
           upd_es (\<lambda>e. e\<lparr>es_slave_servo_state := ''SYNC_SEC''\<rparr>);
           ptpd_netif_adjust_counters (sec hw) 0;
           ptpd_netif_adjust_phase 0;
           upd_servo i (\<lambda>s. s\<lparr>next_state := WR_SYNC_NSEC, state := WR_WAIT_SYNC_IDLE, last_tics := tics\<rparr>) }
         else upd_servo i (\<lambda>s. s\<lparr>state := WR_SYNC_NSEC\<rparr>) }
     | WR_SYNC_NSEC \<Rightarrow> do {
         upd_es (\<lambda>e. e\<lparr>es_slave_servo_state := ''SYNC_NSEC''\<rparr>);
         if nsec hw \<noteq> 0 then do {
           ptpd_netif_adjust_counters 0 (nsec hw);
           upd_servo i (\<lambda>s. s\<lparr>next_state := WR_SYNC_NSEC, state := WR_WAIT_SYNC_IDLE, last_tics := tics\<rparr>) }
         else upd_servo i (\<lambda>s. s\<lparr>state := WR_SYNC_PHASE\<rparr>) }
     | WR_SYNC_PHASE \<Rightarrow> do {
         upd_es (\<lambda>e. e\<lparr>es_slave_servo_state := ''SYNC_PHASE''\<rparr>);
         upd_servo i (\<lambda>s. s\<lparr>cur_setpoint := s32 (phase hw + s32 (nsec hw * 1000))\<rparr>);
         s \<leftarrow> gp i wr_servo_ds;
         ptpd_netif_adjust_phase (cur_setpoint s);
         upd_servo i (\<lambda>s. s\<lparr>next_state := WR_WAIT_OFFSET_STABLE, state := WR_WAIT_SYNC_IDLE,
                            last_tics := tics, delta_ms_prev := delta_ms s\<rparr>) }
     | WR_WAIT_OFFSET_STABLE \<Rightarrow> do {
         (if sec hw \<noteq> 0 \<or> nsec hw \<noteq> 0 then upd_servo i (\<lambda>s. s\<lparr>state := WR_SYNC_TAI\<rparr>)
          else if \<bar>s32 (ts_to_picos hw)\<bar> < 60 then do {
            ptpd_netif_enable_timing_output 1;
            upd_servo i (\<lambda>s. s\<lparr>state := WR_TRACK_PHASE\<rparr>) }
          else upd_servo i (\<lambda>s. s\<lparr>missed_iters := s32 (missed_iters s + 1)\<rparr>));
         upd_servo i (\<lambda>s. if missed_iters s \<ge> 10 then s\<lparr>state := WR_SYNC_TAI\<rparr> else s) }
     | WR_TRACK_PHASE \<Rightarrow> do {
         upd_es (\<lambda>e. e\<lparr>es_slave_servo_state := ''TRACK_PHASE'', es_cur_setpoint := cur_setpoint s,
                        es_cur_skew := s64 (delta_ms s - delta_ms_prev s)\<rparr>);
         whenM (sec hw \<noteq> 0 \<or> nsec hw \<noteq> 0) (upd_servo i (\<lambda>s. s\<lparr>state := WR_SYNC_TAI\<rparr>));
         tr \<leftarrow> gets tracking_enabled;
         whenM (tr \<noteq> 0) (do {
           upd_servo i (\<lambda>s. s\<lparr>cur_setpoint := s32 (cur_setpoint s + (delta_ms s - delta_ms_prev s))\<rparr>);
           s \<leftarrow> gp i wr_servo_ds;
           ptpd_netif_adjust_phase (cur_setpoint s);
           upd_servo i (\<lambda>s. s\<lparr>delta_ms_prev := delta_ms s, next_state := WR_TRACK_PHASE,
                              state := WR_WAIT_SYNC_IDLE, last_tics := tics\<rparr>) }) }
     | WR_SERVO_NONE \<Rightarrow> skip }"

definition wr_servo_update :: "nat \<Rightarrow> int cmd" where
  "wr_servo_update i = do {
     g \<leftarrow> gets got_sync;
     s \<leftarrow> gp i wr_servo_ds;
     if \<not> g then State_Monad.return 0
     else if correct (servo_t1 s) = 0 \<or> correct (servo_t2 s) = 0 \<or> correct (servo_t3 s) = 0
       \<or> correct (servo_t4 s) = 0 then State_Monad.return 0
     else do {
       upd_es (\<lambda>e. e\<lparr>es_update_count := s64 (es_update_count e + 1)\<rparr>);
       modify (\<lambda>s. s\<lparr>got_sync := False\<rparr>);
       let m = servo_mu s;
       upd_servo i (\<lambda>s. s\<lparr>mu := m\<rparr>);
       ph \<leftarrow> gets ph_adjust;
       tr \<leftarrow> gets tracking_enabled;
       let d = delay_ms_fix s m ph;
       let off = servo_offset s d;
       let hw = ts_hardwarize off (clock_period_ps s);
       let total = s64 (ts_to_picos m - 2 * sint d);
       upd_es (\<lambda>e. e\<lparr>es_mu := ts_to_picos m, es_cur_offset := ts_to_picos off, es_delay_ms := sint d,
         es_total_asymmetry := total,
         es_fiber_asymmetry := s64 (s64 (total - s32 (delta_tx_m s + delta_rx_s s))
                                    + s32 (delta_rx_m s + delta_tx_s s)),
         es_tracking_enabled := tr\<rparr>);
       upd_servo i (\<lambda>s. s\<lparr>delta_ms := sint d\<rparr>);
       tics \<leftarrow> ptpd_netif_get_msec_tics;
       lock \<leftarrow> ptpd_netif_locking_poll i;
       whenM (lock \<noteq> PTPD_NETIF_READY) (do {
         ptpd_netif_enable_timing_output 0;
         upd i (\<lambda>p. p\<lparr>doRestart := True\<rparr>) });
       servo_switch i tics hw;
       State_Monad.return 0 } }"

section \<open>Measurements\<close>

lemma u64_sint: "- 9223372036854775808 \<le> k \<Longrightarrow> k < 9223372036854775808 \<Longrightarrow> sint (word_of_int k :: u64) = k"
  by (simp add: sint_sbintrunc' signed_take_bit_int_eq_self)

lemma ts_to_picos_exact:
  assumes "\<bar>sec ts\<bar> \<le> 9000000" "\<bar>nsec ts\<bar> \<le> 2147483648" "\<bar>phase ts\<bar> \<le> 2147483648"
  shows "ts_to_picos ts = wr_picos ts"
proof -
  have "s64 (sec ts * 1000000000000) = sec ts * 1000000000000"
    "s64 (sec ts * 1000000000000 + nsec ts * 1000) = sec ts * 1000000000000 + nsec ts * 1000"
    "s64 (sec ts * 1000000000000 + nsec ts * 1000 + phase ts) =
       sec ts * 1000000000000 + nsec ts * 1000 + phase ts"
    using assms by (auto intro!: s64_id)
  then show ?thesis by (simp add: ts_to_picos_def wr_picos_def)
qed

text \<open>The fixed delays of a link, and the part of the round trip the fibre itself takes.\<close>

definition delays_small :: "wr_servo_t \<Rightarrow> bool" where
  "delays_small s \<longleftrightarrow> \<bar>delta_tx_m s\<bar> \<le> 500000000 \<and> \<bar>delta_rx_m s\<bar> \<le> 500000000 \<and>
     \<bar>delta_tx_s s\<bar> \<le> 500000000 \<and> \<bar>delta_rx_s s\<bar> \<le> 500000000 \<and>
     \<bar>fiber_fix_alpha s\<bar> \<le> 2147483648"

definition fibre_picos :: "wr_servo_t \<Rightarrow> wr_timestamp \<Rightarrow> int" where
  "fibre_picos s m = ts_to_picos m - (delta_tx_m s + delta_tx_s s + delta_rx_m s + delta_rx_s s)"

lemma big_delta_exact:
  assumes "delays_small s"
  shows "big_delta_fix s = word_of_int (delta_tx_m s + delta_tx_s s + delta_rx_m s + delta_rx_s s)"
proof -
  have "s32 (delta_tx_m s + delta_tx_s s) = delta_tx_m s + delta_tx_s s"
    "s32 (delta_tx_m s + delta_tx_s s + delta_rx_m s) = delta_tx_m s + delta_tx_s s + delta_rx_m s"
    "s32 (delta_tx_m s + delta_tx_s s + delta_rx_m s + delta_rx_s s) =
       delta_tx_m s + delta_tx_s s + delta_rx_m s + delta_rx_s s"
    using assms by (auto simp: delays_small_def intro!: s32_id)
  then show ?thesis by (simp add: big_delta_fix_def)
qed

lemma u64_uint: "0 \<le> k \<Longrightarrow> k < 18446744073709551616 \<Longrightarrow> uint (word_of_int k :: u64) = k"
  by (simp only: uint_word_of_int) (rule mod_pos_pos_trivial, simp_all)

lemma u64_half:
  assumes "- 9223372036854775808 \<le> k" "k < 9223372036854775808"
  shows "drop_bit 1 (word_of_int k :: u64) =
    word_of_int (if 0 \<le> k then k div 2 else k div 2 + 9223372036854775808)"
proof -
  define j where "j = (if 0 \<le> k then k else k + 18446744073709551616)"
  have j: "0 \<le> j" "j < 18446744073709551616" using assms by (auto simp: j_def)
  have w: "(word_of_int k :: u64) = word_of_int j"
    by (simp add: j_def word_of_int_eq_iff take_bit_eq_mod)
  have "uint (drop_bit 1 (word_of_int j :: u64)) = j div 2"
    using j by (subst unsigned_drop_bit_eq)
      (simp only: u64_uint [OF j] drop_bit_eq_div, simp add: take_bit_int_eq_self)
  moreover have "uint (word_of_int (j div 2) :: u64) = j div 2" using j by (intro u64_uint) auto
  moreover have "j div 2 = (if 0 \<le> k then k div 2 else k div 2 + 9223372036854775808)"
    unfolding j_def by presburger
  ultimately show ?thesis unfolding w by (simp only: word_uint_eq_iff)
qed

lemma sint_half_turn:
  assumes "\<bar>v\<bar> < 9223372036854775808"
  shows "sint (word_of_int (if b then v else v + 9223372036854775808) :: u64) =
    (if b then v else if 0 \<le> v then v - 9223372036854775808 else v + 9223372036854775808)"
proof -
  have "sint (word_of_int (v + 9223372036854775808) :: u64) =
      (if 0 \<le> v then v - 9223372036854775808 else v + 9223372036854775808)"
  proof (cases "0 \<le> v")
    case True
    have "(word_of_int (v + 9223372036854775808) :: u64) =
        word_of_int (v - 9223372036854775808)"
      by (simp only: word_of_int_eq_iff take_bit_eq_mod) (simp add: mod_eq_dvd_iff)
    moreover have "sint (word_of_int (v - 9223372036854775808) :: u64) = v - 9223372036854775808"
      using assms True by (intro u64_sint) auto
    ultimately show ?thesis using True by (simp only:) simp
  next
    case False
    have "sint (word_of_int (v + 9223372036854775808) :: u64) = v + 9223372036854775808"
      using assms False by (intro u64_sint) auto
    then show ?thesis using False by (simp only:) simp
  qed
  moreover have "sint (word_of_int v :: u64) = v" using assms by (intro u64_sint) auto
  ultimately show ?thesis by (cases b) (simp_all only: if_True if_False)
qed

definition delay_formula :: "wr_servo_t \<Rightarrow> int \<Rightarrow> int \<Rightarrow> int" where
  "delay_formula s fibre ph = fibre * fiber_fix_alpha s div 1099511627776 + fibre div 2
     + delta_tx_m s + delta_rx_s s + ph"

lemma delay_ms_exact:
  assumes "delays_small s" "\<bar>fibre_picos s m\<bar> < 2147483648" "\<bar>ph\<bar> \<le> 1000000000"
    and "\<bar>ts_to_picos m\<bar> \<le> 4611686018427387904"
  shows "let f = fibre_picos s m; v = delay_formula s f ph
         in \<bar>v\<bar> \<le> 8589934592 \<and>
            sint (delay_ms_fix s m ph) =
              (if 0 \<le> f then v
               else if 0 \<le> v then v - 9223372036854775808 else v + 9223372036854775808)"
proof -
  define f where "f = fibre_picos s m"
  define prod where "prod = f * fiber_fix_alpha s"
  have f: "\<bar>f\<bar> < 2147483648" using assms(2) by (simp add: f_def)
  have d: "word_of_int (ts_to_picos m) - big_delta_fix s = word_of_int f"
    using big_delta_exact [OF assms(1)] by (simp add: f_def fibre_picos_def)
  have prod: "\<bar>prod\<bar> \<le> 4611686018427387904"
  proof -
    have "\<bar>prod\<bar> = \<bar>f\<bar> * \<bar>fiber_fix_alpha s\<bar>" by (simp add: prod_def abs_mult)
    also have "\<dots> \<le> 2147483648 * 2147483648"
      using f assms(1) by (intro mult_mono) (auto simp: delays_small_def)
    finally show ?thesis by simp
  qed
  have w: "s64 prod = prod" using prod by (intro s64_id) auto
  have dr: "drop_bit 40 prod = prod div 1099511627776" by (simp add: drop_bit_eq_div)
  have q: "- 4194304 \<le> prod div 1099511627776" "prod div 1099511627776 \<le> 4194304"
    using prod by auto
  define v where "v = delay_formula s f ph"
  have v': "v = prod div 1099511627776 + f div 2 + delta_tx_m s + delta_rx_s s + ph"
    by (simp add: v_def delay_formula_def prod_def)
  have h: "- 1073741824 \<le> f div 2" "f div 2 \<le> 1073741824" using f by auto
  have v: "\<bar>v\<bar> \<le> 8589934592"
  proof -
    have b: "\<bar>delta_tx_m s\<bar> \<le> 500000000" "\<bar>delta_rx_s s\<bar> \<le> 500000000"
      using assms(1) by (simp_all add: delays_small_def)
    then show ?thesis using q h assms(3) unfolding v' by linarith
  qed
  have sf: "sint (word_of_int f :: u64) = f" using f by (intro u64_sint) auto
  have half: "drop_bit 1 (word_of_int f :: u64) =
      word_of_int (if 0 \<le> f then f div 2 else f div 2 + 9223372036854775808)"
    using f by (intro u64_half) auto
  have sum: "delay_ms_fix s m ph = word_of_int (if 0 \<le> f then v else v + 9223372036854775808)"
    unfolding delay_ms_fix_def d Let_def sf half
    by (cases "0 \<le> f") (simp_all add: prod_def [symmetric] w dr v')
  have "sint (delay_ms_fix s m ph) =
      (if 0 \<le> f then v else if 0 \<le> v then v - 9223372036854775808 else v + 9223372036854775808)"
    unfolding sum by (rule sint_half_turn) (use v in linarith)
  with v show ?thesis unfolding Let_def v_def f_def by (rule conjI)
qed

text \<open>
  C22. The master-to-slave delay. With \<open>fibre\<close> the round trip less the four fixed delays,
  the code's mixed signed and unsigned arithmetic computes
  \<open>fibre * alpha / 2^40 + fibre / 2 + tx_m + rx_s + adjustment\<close>, rounded down, when the fibre
  time is not negative; when it is negative (deltas larger than the measured round trip) the
  second shift is one of an unsigned value and the result is off by exactly \<open>2^63\<close> ps.
\<close>
theorem delay_ms_correct:
  assumes "delays_small s" "\<bar>fibre_picos s m\<bar> < 2147483648" "\<bar>ph\<bar> \<le> 1000000000"
    and "\<bar>ts_to_picos m\<bar> \<le> 4611686018427387904"
  shows "let f = fibre_picos s m; v = delay_formula s f ph
         in \<bar>v\<bar> \<le> 8589934592 \<and>
            sint (delay_ms_fix s m ph) =
              (if 0 \<le> f then v
               else if 0 \<le> v then v - 9223372036854775808 else v + 9223372036854775808)"
  by (rule delay_ms_exact [OF assms])

theorem delay_ms_correct_witness:
  "sint (delay_ms_fix (servo_zero\<lparr>delta_tx_m := 100, delta_rx_s := 50\<rparr>) (ts_make 0 1 150) 0) = 650 \<and>
   sint (delay_ms_fix (servo_zero\<lparr>delta_tx_m := 2000\<rparr>) (ts_make 0 1 0) 0) = 1500 - 9223372036854775808"
  using delay_ms_correct [of "servo_zero\<lparr>delta_tx_m := 100, delta_rx_s := 50\<rparr>" "ts_make 0 1 150" 0]
    delay_ms_correct [of "servo_zero\<lparr>delta_tx_m := 2000\<rparr>" "ts_make 0 1 0" 0]
  by (simp add: delays_small_def fibre_picos_def ts_to_picos_exact wr_picos_def delay_formula_def Let_def)

section \<open>The state machine\<close>

text \<open>
  The specification: what the servo is doing (its state, the state to resume after the HAL
  has finished an adjustment, the count of misses), and the steps one measurement \<open>hw\<close> may
  cause, with tracking enabled or not.
\<close>

record phase_spec =
  ph_now :: servo_state
  ph_next :: servo_state
  ph_miss :: int

definition coarse :: "wr_timestamp \<Rightarrow> bool" where
  "coarse hw \<longleftrightarrow> sec hw \<noteq> 0 \<or> nsec hw \<noteq> 0"

definition servo_abs :: "wr_servo_t \<Rightarrow> phase_spec" where
  "servo_abs s = \<lparr>ph_now = state s, ph_next = next_state s, ph_miss = missed_iters s\<rparr>"

inductive servo_step :: "bool \<Rightarrow> wr_timestamp \<Rightarrow> phase_spec \<Rightarrow> phase_spec \<Rightarrow> bool"
  for tr :: bool and hw :: wr_timestamp where
  wait_busy: "ph_now p = WR_WAIT_SYNC_IDLE \<Longrightarrow> servo_step tr hw p p"
| wait_done: "ph_now p = WR_WAIT_SYNC_IDLE \<Longrightarrow> servo_step tr hw p (p\<lparr>ph_now := ph_next p\<rparr>)"
| tai_adjust: "ph_now p = WR_SYNC_TAI \<Longrightarrow> sec hw \<noteq> 0 \<Longrightarrow>
    servo_step tr hw p (p\<lparr>ph_now := WR_WAIT_SYNC_IDLE, ph_next := WR_SYNC_NSEC\<rparr>)"
| tai_done: "ph_now p = WR_SYNC_TAI \<Longrightarrow> sec hw = 0 \<Longrightarrow> servo_step tr hw p (p\<lparr>ph_now := WR_SYNC_NSEC\<rparr>)"
| nsec_adjust: "ph_now p = WR_SYNC_NSEC \<Longrightarrow> nsec hw \<noteq> 0 \<Longrightarrow>
    servo_step tr hw p (p\<lparr>ph_now := WR_WAIT_SYNC_IDLE, ph_next := WR_SYNC_NSEC\<rparr>)"
| nsec_done: "ph_now p = WR_SYNC_NSEC \<Longrightarrow> nsec hw = 0 \<Longrightarrow> servo_step tr hw p (p\<lparr>ph_now := WR_SYNC_PHASE\<rparr>)"
| phase_adjust: "ph_now p = WR_SYNC_PHASE \<Longrightarrow>
    servo_step tr hw p (p\<lparr>ph_now := WR_WAIT_SYNC_IDLE, ph_next := WR_WAIT_OFFSET_STABLE\<rparr>)"
| stable_lost: "ph_now p = WR_WAIT_OFFSET_STABLE \<Longrightarrow> coarse hw \<Longrightarrow>
    servo_step tr hw p (p\<lparr>ph_now := WR_SYNC_TAI\<rparr>)"
| stable_locked: "ph_now p = WR_WAIT_OFFSET_STABLE \<Longrightarrow> \<not> coarse hw \<Longrightarrow>
    \<bar>s32 (ts_to_picos hw)\<bar> < 60 \<Longrightarrow> ph_miss p < 10 \<Longrightarrow>
    servo_step tr hw p (p\<lparr>ph_now := WR_TRACK_PHASE\<rparr>)"
| stable_refused: "ph_now p = WR_WAIT_OFFSET_STABLE \<Longrightarrow> \<not> coarse hw \<Longrightarrow>
    \<bar>s32 (ts_to_picos hw)\<bar> < 60 \<Longrightarrow> 10 \<le> ph_miss p \<Longrightarrow>
    servo_step tr hw p (p\<lparr>ph_now := WR_SYNC_TAI\<rparr>)"
| stable_missed: "ph_now p = WR_WAIT_OFFSET_STABLE \<Longrightarrow> \<not> coarse hw \<Longrightarrow>
    60 \<le> \<bar>s32 (ts_to_picos hw)\<bar> \<Longrightarrow> m = s32 (ph_miss p + 1) \<Longrightarrow>
    servo_step tr hw p (p\<lparr>ph_now := (if 10 \<le> m then WR_SYNC_TAI else WR_WAIT_OFFSET_STABLE), ph_miss := m\<rparr>)"
| track_follow: "ph_now p = WR_TRACK_PHASE \<Longrightarrow> tr \<Longrightarrow>
    servo_step tr hw p (p\<lparr>ph_now := WR_WAIT_SYNC_IDLE, ph_next := WR_TRACK_PHASE\<rparr>)"
| track_lost: "ph_now p = WR_TRACK_PHASE \<Longrightarrow> \<not> tr \<Longrightarrow> coarse hw \<Longrightarrow>
    servo_step tr hw p (p\<lparr>ph_now := WR_SYNC_TAI\<rparr>)"
| track_hold: "ph_now p = WR_TRACK_PHASE \<Longrightarrow> \<not> tr \<Longrightarrow> \<not> coarse hw \<Longrightarrow> servo_step tr hw p p"

inductive_cases servo_stepE: "servo_step tr hw p q"

lemmas hal_defs = ptpd_netif_enable_timing_output_def ptpd_netif_adjust_phase_def
  ptpd_netif_adjust_in_progress_def halexp_pps_cmd_def ptpd_netif_locking_poll_def
  halexp_lock_cmd_def ptpd_netif_get_msec_tics_def get_tics_def

lemmas servo_cmd_defs = hal_defs ptpd_netif_adjust_counters_def upd_servo_def upd_es_def

lemma servo_switch_step:
  "state (wr_servo_ds (ports s i)) \<noteq> WR_SERVO_NONE \<Longrightarrow>
   wp (servo_switch i tics hw) (\<lambda>_ s'. tracking_enabled s' = tracking_enabled s \<and>
     servo_step (tracking_enabled s \<noteq> 0) hw (servo_abs (wr_servo_ds (ports s i)))
       (servo_abs (wr_servo_ds (ports s' i)))) s"
  by (cases "state (wr_servo_ds (ports s i))")
    (simp_all add: servo_switch_def servo_cmd_defs wp_simps servo_abs_def servo_step.simps
      coarse_def)

text \<open>The offset an update acts on: it depends on the four timestamps and the fixed delays only.\<close>

definition servo_hw :: "wr_servo_t \<Rightarrow> int \<Rightarrow> wr_timestamp" where
  "servo_hw s ph = ts_hardwarize (servo_offset s (delay_ms_fix s (servo_mu s) ph)) (clock_period_ps s)"

definition servo_ready :: "nat \<Rightarrow> sys \<Rightarrow> bool" where
  "servo_ready i s \<longleftrightarrow> got_sync s \<and> correct (servo_t1 (wr_servo_ds (ports s i))) \<noteq> 0 \<and>
     correct (servo_t2 (wr_servo_ds (ports s i))) \<noteq> 0 \<and> correct (servo_t3 (wr_servo_ds (ports s i))) \<noteq> 0 \<and>
     correct (servo_t4 (wr_servo_ds (ports s i))) \<noteq> 0"

definition servo_now :: "nat \<Rightarrow> sys \<Rightarrow> phase_spec" where
  "servo_now i s = servo_abs (wr_servo_ds (ports s i))"

lemma update_not_ready: "\<not> servo_ready i s \<Longrightarrow> exec (wr_servo_update i) s = s"
  by (simp add: wr_servo_update_def exec_def servo_ready_def)

lemma servo_abs_fields [simp]:
  "servo_abs (s\<lparr>mu := m\<rparr>) = servo_abs s" "servo_abs (s\<lparr>delta_ms := d\<rparr>) = servo_abs s"
  by (simp_all add: servo_abs_def)

lemma update_step:
  assumes "servo_ready i s" "ph_now (servo_now i s) \<noteq> WR_SERVO_NONE"
  shows "servo_step (tracking_enabled s \<noteq> 0) (servo_hw (wr_servo_ds (ports s i)) (ph_adjust s))
    (servo_now i s) (servo_now i (exec (wr_servo_update i) s))"
proof -
  have st: "state (wr_servo_ds (ports s i)) \<noteq> WR_SERVO_NONE"
    using assms(2) by (simp add: servo_now_def servo_abs_def)
  have "wp (wr_servo_update i) (\<lambda>_ s'. servo_step (tracking_enabled s \<noteq> 0)
      (servo_hw (wr_servo_ds (ports s i)) (ph_adjust s))
      (servo_abs (wr_servo_ds (ports s i))) (servo_abs (wr_servo_ds (ports s' i)))) s"
    using assms(1) st unfolding wr_servo_update_def servo_ready_def
    by (auto simp add: wp_simps upd_servo_def upd_es_def hal_defs Let_def servo_hw_def [symmetric]
      intro!: wp_conseq [OF servo_switch_step])
  then show ?thesis by (simp add: wp_exec servo_now_def)
qed

section \<open>Runs of the servo\<close>

text \<open>
  \<open>n\<close> updates, between which the rest of the daemon may do anything that leaves the state
  machine of this servo alone: deliver timestamps, turn tracking on or off, let the HAL
  answer differently.
\<close>

inductive servo_run :: "nat \<Rightarrow> sys \<Rightarrow> nat \<Rightarrow> sys \<Rightarrow> bool" for i :: nat and s :: sys
  where
  run_none: "servo_run i s 0 s"
| run_other: "servo_run i s n s' \<Longrightarrow> servo_now i s'' = servo_now i s' \<Longrightarrow> servo_run i s n s''"
| run_update: "servo_run i s n s' \<Longrightarrow> servo_run i s (Suc n) (exec (wr_servo_update i) s')"

definition phase_ok :: "phase_spec \<Rightarrow> bool" where
  "phase_ok p \<longleftrightarrow> ph_now p \<noteq> WR_SERVO_NONE \<and>
     (ph_now p = WR_WAIT_SYNC_IDLE \<longrightarrow>
        ph_next p \<in> {WR_SYNC_NSEC, WR_WAIT_OFFSET_STABLE, WR_TRACK_PHASE})"

definition phase_exhausted :: "int \<Rightarrow> phase_spec \<Rightarrow> bool" where
  "phase_exhausted k p \<longleftrightarrow> phase_ok p \<and> 10 \<le> ph_miss p \<and> ph_miss p \<le> k \<and>
     ph_now p \<noteq> WR_TRACK_PHASE \<and> (ph_now p = WR_WAIT_SYNC_IDLE \<longrightarrow> ph_next p \<noteq> WR_TRACK_PHASE)"

lemma phase_ok_step: "servo_step tr hw p q \<Longrightarrow> phase_ok p \<Longrightarrow> phase_ok q"
  by (auto simp: phase_ok_def split: if_splits elim!: servo_stepE)

lemma phase_exhausted_step:
  "servo_step tr hw p q \<Longrightarrow> phase_exhausted k p \<Longrightarrow> k < 2147483647 \<Longrightarrow> phase_exhausted (k + 1) q"
  by (erule servo_stepE) (auto simp: phase_exhausted_def phase_ok_def s32_id)

lemma update_keeps_phase:
  assumes "phase_ok (servo_now i s)"
    and "\<And>tr hw q. servo_step tr hw (servo_now i s) q \<Longrightarrow> Q q" "Q (servo_now i s)"
  shows "Q (servo_now i (exec (wr_servo_update i) s))"
proof (cases "servo_ready i s")
  case True
  with assms show ?thesis by (auto simp: phase_ok_def intro: update_step)
next
  case False
  with assms(3) show ?thesis by (simp add: update_not_ready)
qed

lemma run_phase_ok: "servo_run i s n s' \<Longrightarrow> phase_ok (servo_now i s) \<Longrightarrow> phase_ok (servo_now i s')"
  by (induction rule: servo_run.induct)
    (auto intro: update_keeps_phase phase_ok_step)

lemma phase_exhausted_mono: "phase_exhausted k p \<Longrightarrow> k \<le> k' \<Longrightarrow> phase_exhausted k' p"
  by (auto simp: phase_exhausted_def)

lemma run_exhausted:
  "servo_run i s n s' \<Longrightarrow> phase_exhausted k (servo_now i s) \<Longrightarrow> k + int n \<le> 2147483647 \<Longrightarrow>
   phase_exhausted (k + int n) (servo_now i s')"
proof (induction rule: servo_run.induct)
  case (run_update n s')
  then have ex: "phase_exhausted (k + int n) (servo_now i s')" by simp
  have "phase_exhausted (k + int n + 1) (servo_now i (exec (wr_servo_update i) s'))"
    by (rule update_keeps_phase)
      (use ex run_update.prems in \<open>auto intro: phase_exhausted_step phase_exhausted_mono
         simp: phase_exhausted_def [of _ "servo_now i s'"]\<close>)
  then show ?case by (simp add: algebra_simps)
qed auto

subsection \<open>An example state\<close>

definition stamp :: "int \<Rightarrow> int \<Rightarrow> wr_timestamp" where
  "stamp s n = (ts_make s n 0)\<lparr>correct := 1\<rparr>"

text \<open>A link 100 ns long whose two clocks agree, measured at second 5.\<close>

definition servo_demo :: "servo_state \<Rightarrow> int \<Rightarrow> wr_servo_t" where
  "servo_demo st miss = servo_zero\<lparr>state := st, clock_period_ps := 8000, missed_iters := miss,
     servo_t1 := stamp 5 0, servo_t2 := stamp 5 100, servo_t3 := stamp 5 200, servo_t4 := stamp 5 300\<rparr>"

definition sys_demo :: "servo_state \<Rightarrow> int \<Rightarrow> sys" where
  "sys_demo st miss = sys_zero\<lparr>got_sync := True, ports := \<lambda>_. port_zero\<lparr>wr_servo_ds := servo_demo st miss\<rparr>\<rparr>"

lemma sys_demo_ready: "servo_ready i (sys_demo st miss)"
  by (simp add: servo_ready_def sys_demo_def servo_demo_def stamp_def)

lemma servo_now_demo: "servo_now i (sys_demo st miss) = \<lparr>ph_now = st, ph_next = WR_SERVO_NONE, ph_miss = miss\<rparr>"
  by (simp add: servo_now_def sys_demo_def servo_demo_def servo_abs_def)

lemma tracking_demo: "tracking_enabled (sys_demo st miss) = 1"
  by (simp add: sys_demo_def)

lemmas demo_simps = sys_demo_ready servo_now_demo tracking_demo

subsection \<open>Properties\<close>

text \<open>
  C5. Refinement of the servo's specification: with a fresh Sync measurement and four valid
  timestamps, \<open>wr_servo_update\<close> makes one step of \<open>servo_step\<close> for the offset computed from
  the timestamps, whatever the HAL answers; without them it changes nothing at all.
\<close>
theorem wr_servo_update_refines:
  assumes "ph_now (servo_now i s) \<noteq> WR_SERVO_NONE"
  shows "if servo_ready i s
    then servo_step (tracking_enabled s \<noteq> 0) (servo_hw (wr_servo_ds (ports s i)) (ph_adjust s))
           (servo_now i s) (servo_now i (exec (wr_servo_update i) s))
    else exec (wr_servo_update i) s = s"
  using assms by (simp add: update_step update_not_ready)

theorem wr_servo_update_refines_witness:
  "servo_step True (servo_hw (wr_servo_ds (ports (sys_demo WR_SYNC_TAI 0) 0)) (ph_adjust (sys_demo WR_SYNC_TAI 0)))
     \<lparr>ph_now = WR_SYNC_TAI, ph_next = WR_SERVO_NONE, ph_miss = 0\<rparr>
     (servo_now 0 (exec (wr_servo_update 0) (sys_demo WR_SYNC_TAI 0)))"
  using wr_servo_update_refines [of 0 "sys_demo WR_SYNC_TAI 0"] by (simp add: demo_simps)

text \<open>
  The servo never loses its way: after any number of updates, with any interference that
  leaves its own variables alone, its state is one of the six the code knows and the state it
  will resume after an adjustment is one of the three that follow one.
\<close>
theorem servo_state_invariant:
  assumes "servo_run i s n s'" "ph_now (servo_now i s) = WR_SYNC_TAI"
  shows "phase_ok (servo_now i s')"
  using assms(1) by (rule run_phase_ok) (simp add: phase_ok_def assms(2))

theorem servo_state_invariant_witness:
  "phase_ok (servo_now 0 (exec (wr_servo_update 0) (sys_demo WR_SYNC_TAI 0)))"
  using servo_state_invariant [of 0 "sys_demo WR_SYNC_TAI 0" 1,
      OF run_update [OF run_none, folded One_nat_def]]
  by (simp add: demo_simps)

text \<open>
  C26. Once ten iterations have missed the stability threshold the servo can never track
  again: the counter is cleared by \<open>wr_servo_init\<close> alone, so every later visit to
  WR\_WAIT\_OFFSET\_STABLE goes back to WR\_SYNC\_TAI even when the offset is below the
  threshold (for as many updates as the counter can count).
\<close>
theorem servo_gives_up_for_good:
  assumes "servo_run i s n s'" "ph_now (servo_now i s) = WR_SYNC_TAI"
    and "10 \<le> ph_miss (servo_now i s)" "ph_miss (servo_now i s) + int n \<le> 2147483647"
  shows "ph_now (servo_now i s') \<noteq> WR_TRACK_PHASE"
  using run_exhausted [OF assms(1), of "ph_miss (servo_now i s)"] assms(2-)
  by (auto simp: phase_exhausted_def phase_ok_def)

theorem servo_gives_up_for_good_witness:
  "ph_now (servo_now 0 (exec (wr_servo_update 0) (sys_demo WR_SYNC_TAI 10))) \<noteq> WR_TRACK_PHASE"
  using servo_gives_up_for_good [of 0 "sys_demo WR_SYNC_TAI 10" 1,
      OF run_update [OF run_none, folded One_nat_def]]
  by (simp add: demo_simps)

text \<open>
  While tracking is enabled an update in WR\_TRACK\_PHASE never leaves the tracking
  cycle, however large the offset: the assignment of WR\_SYNC\_TAI for an offset of whole
  seconds or nanoseconds is overwritten a few lines further on.
\<close>
theorem tracking_ignores_offset:
  assumes "ph_now (servo_now i s) = WR_TRACK_PHASE" "tracking_enabled s \<noteq> 0" "servo_ready i s"
  shows "ph_now (servo_now i (exec (wr_servo_update i) s)) = WR_WAIT_SYNC_IDLE \<and>
    ph_next (servo_now i (exec (wr_servo_update i) s)) = WR_TRACK_PHASE"
  using update_step [OF assms(3)] assms(1,2) by (auto elim!: servo_stepE)

theorem tracking_ignores_offset_witness:
  "ph_now (servo_now 0 (exec (wr_servo_update 0) (sys_demo WR_TRACK_PHASE 0))) = WR_WAIT_SYNC_IDLE"
  using tracking_ignores_offset [of 0 "sys_demo WR_TRACK_PHASE 0"] by (simp add: demo_simps)

section \<open>What an update touches, and that it locks\<close>

definition is_hal_cmd :: "nat \<Rightarrow> event \<Rightarrow> bool" where
  "is_hal_cmd i e = (case e of LockCmd j c \<Rightarrow> j = i \<and> c = HEXP_LOCK_CMD_CHECK
     | PpsCmd c v \<Rightarrow> True | _ \<Rightarrow> False)"

definition port_frame :: "PtpPortDS \<Rightarrow> PtpPortDS \<Rightarrow> bool" where
  "port_frame p q \<longleftrightarrow> (\<exists>w d. q = p\<lparr>wr_servo_ds := w, doRestart := d\<rparr>)"

lemma port_frame_trans: "port_frame p q \<Longrightarrow> port_frame q r \<Longrightarrow> port_frame p r"
  by (clarsimp simp: port_frame_def) blast

lemma port_frame_upd [intro]:
  "port_frame p p" "port_frame p q \<Longrightarrow> port_frame p (q\<lparr>wr_servo_ds := w\<rparr>)"
  "port_frame p q \<Longrightarrow> port_frame p (q\<lparr>doRestart := d\<rparr>)"
proof -
  have "p = p\<lparr>wr_servo_ds := wr_servo_ds p, doRestart := doRestart p\<rparr>" by simp
  then show "port_frame p p" unfolding port_frame_def by blast
  have "\<And>w' d'. p\<lparr>wr_servo_ds := w', doRestart := d'\<rparr>\<lparr>wr_servo_ds := w\<rparr> = p\<lparr>wr_servo_ds := w, doRestart := d'\<rparr>"
    by simp
  then show "port_frame p q \<Longrightarrow> port_frame p (q\<lparr>wr_servo_ds := w\<rparr>)" unfolding port_frame_def by blast
  have "\<And>w' d'. p\<lparr>wr_servo_ds := w', doRestart := d'\<rparr>\<lparr>doRestart := d\<rparr> = p\<lparr>wr_servo_ds := w', doRestart := d\<rparr>"
    by simp
  then show "port_frame p q \<Longrightarrow> port_frame p (q\<lparr>doRestart := d\<rparr>)" unfolding port_frame_def by blast
qed

definition servo_frame :: "nat \<Rightarrow> sys \<Rightarrow> sys \<Rightarrow> bool" where
  "servo_frame i s s' \<longleftrightarrow>
     (\<exists>es. log s' = log s @ es \<and> list_all (is_hal_cmd i) es) \<and>
     (\<forall>j. j \<noteq> i \<longrightarrow> ports s' j = ports s j) \<and>
     port_frame (ports s i) (ports s' i) \<and>
     clk s' = clk s \<and> world s' = world s \<and> ph_adjust s' = ph_adjust s \<and>
     tracking_enabled s' = tracking_enabled s"

text \<open>The part of the servo an update does not change, and what its measurement depends on.\<close>

definition same_stamps :: "wr_servo_t \<Rightarrow> wr_servo_t \<Rightarrow> bool" where
  "same_stamps a b \<longleftrightarrow> servo_t1 a = servo_t1 b \<and> servo_t2 a = servo_t2 b \<and> servo_t3 a = servo_t3 b \<and>
     servo_t4 a = servo_t4 b \<and> delta_tx_m a = delta_tx_m b \<and> delta_rx_m a = delta_rx_m b \<and>
     delta_tx_s a = delta_tx_s b \<and> delta_rx_s a = delta_rx_s b \<and>
     fiber_fix_alpha a = fiber_fix_alpha b \<and> clock_period_ps a = clock_period_ps b"

lemma same_stamps_trans: "same_stamps a b \<Longrightarrow> same_stamps b c \<Longrightarrow> same_stamps a c"
  by (simp add: same_stamps_def)

lemma same_stamps_hw: "same_stamps a b \<Longrightarrow> servo_hw a = servo_hw b"
  by (simp add: same_stamps_def servo_hw_def servo_offset_def delay_ms_fix_def big_delta_fix_def
      servo_mu_def fun_eq_iff Let_def)

lemma servo_frame_trans: "servo_frame i a b \<Longrightarrow> servo_frame i b c \<Longrightarrow> servo_frame i a c"
proof -
  assume a: "servo_frame i a b" "servo_frame i b c"
  then obtain es fs where "log b = log a @ es" "list_all (is_hal_cmd i) es"
    "log c = log b @ fs" "list_all (is_hal_cmd i) fs" by (auto simp: servo_frame_def)
  then have "\<exists>es. log c = log a @ es \<and> list_all (is_hal_cmd i) es"
    by (intro exI [of _ "es @ fs"]) simp
  with a show ?thesis by (auto simp: servo_frame_def intro: port_frame_trans)
qed

lemma switch_frame:
  "wp (servo_switch i tics hw) (\<lambda>_ s'. servo_frame i s s' \<and>
     same_stamps (wr_servo_ds (ports s i)) (wr_servo_ds (ports s' i)) \<and>
     (state (wr_servo_ds (ports s i)) = WR_WAIT_SYNC_IDLE \<longrightarrow>
       (\<forall>n. 0 \<le> fst (env_pps_cmd (world s) n) \<and> snd (env_pps_cmd (world s) n) \<noteq> 0) \<longrightarrow>
       state (wr_servo_ds (ports s' i)) \<noteq> WR_WAIT_SYNC_IDLE \<or>
       next_state (wr_servo_ds (ports s i)) = WR_WAIT_SYNC_IDLE)) s"
  by (cases "state (wr_servo_ds (ports s i))")
    (simp_all add: servo_switch_def servo_cmd_defs wp_simps same_stamps_def servo_frame_def
      is_hal_cmd_def not_less port_frame_upd, blast)

definition round_post :: "nat \<Rightarrow> sys \<Rightarrow> sys \<Rightarrow> bool" where
  "round_post i s s' \<longleftrightarrow> servo_frame i s s' \<and>
     same_stamps (wr_servo_ds (ports s i)) (wr_servo_ds (ports s' i)) \<and>
     (servo_ready i s \<longrightarrow> state (wr_servo_ds (ports s i)) = WR_WAIT_SYNC_IDLE \<longrightarrow>
       (\<forall>n. 0 \<le> fst (env_pps_cmd (world s) n) \<and> snd (env_pps_cmd (world s) n) \<noteq> 0) \<longrightarrow>
       state (wr_servo_ds (ports s' i)) \<noteq> WR_WAIT_SYNC_IDLE \<or>
       next_state (wr_servo_ds (ports s i)) = WR_WAIT_SYNC_IDLE)"

lemma wp_return_eta: "wp (State_Monad.return a) Q = Q a"
  by (simp add: fun_eq_iff wp_simps)

lemma switch_after:
  assumes "servo_frame i s t" "same_stamps (wr_servo_ds (ports s i)) (wr_servo_ds (ports t i))"
    "state (wr_servo_ds (ports t i)) = state (wr_servo_ds (ports s i))"
    "next_state (wr_servo_ds (ports t i)) = next_state (wr_servo_ds (ports s i))"
  shows "wp (servo_switch i tics hw) (\<lambda>_ s'. round_post i s s') t"
proof -
  have "world t = world s" using assms(1) by (simp add: servo_frame_def)
  with assms show ?thesis
    by (intro wp_conseq [OF switch_frame])
      (auto simp: round_post_def intro: servo_frame_trans same_stamps_trans)
qed

lemma update_frame: "round_post i s (exec (wr_servo_update i) s)"
proof (cases "servo_ready i s")
  case False
  then show ?thesis
    by (auto simp: update_not_ready round_post_def servo_frame_def same_stamps_def)
next
  case True
  have "wp (wr_servo_update i) (\<lambda>_. round_post i s) s"
    using True unfolding wr_servo_update_def servo_ready_def
    by (simp add: wp_simps wp_return_eta upd_servo_def upd_es_def hal_defs Let_def)
      (intro conjI impI switch_after; simp add: servo_frame_def same_stamps_def is_hal_cmd_def port_frame_upd)
  then show ?thesis by (simp add: wp_exec)
qed

text \<open>
  What an update may touch: the servo of its port and that port's restart flag, the
  exported statistics, and the HAL by lock queries and clock commands; it sends no message,
  never stops the daemon, and leaves every other port and the clock data set alone.
\<close>
lemma wr_servo_update_frame: "servo_frame i s (exec (wr_servo_update i) s)"
  using update_frame [of i s] by (simp add: round_post_def)

text \<open>A round: a new Sync measurement arrives (with the same times) and the servo runs.\<close>

definition servo_round :: "nat \<Rightarrow> sys \<Rightarrow> sys" where
  "servo_round i s = exec (wr_servo_update i) (s\<lparr>got_sync := True\<rparr>)"

definition hal_idle :: "sys \<Rightarrow> bool" where
  "hal_idle s \<longleftrightarrow> (\<forall>n. 0 \<le> fst (env_pps_cmd (world s) n) \<and> snd (env_pps_cmd (world s) n) \<noteq> 0)"

definition good_link :: "nat \<Rightarrow> sys \<Rightarrow> bool" where
  "good_link i s \<longleftrightarrow> servo_ready i (s\<lparr>got_sync := True\<rparr>) \<and> hal_idle s \<and>
     \<not> coarse (servo_hw (wr_servo_ds (ports s i)) (ph_adjust s)) \<and>
     \<bar>s32 (ts_to_picos (servo_hw (wr_servo_ds (ports s i)) (ph_adjust s)))\<bar> < 60"

lemma round_good_link: "good_link i s \<Longrightarrow> good_link i (servo_round i s)"
  using update_frame [of i "s\<lparr>got_sync := True\<rparr>"]
  by (simp add: good_link_def servo_round_def round_post_def servo_frame_def servo_ready_def
      hal_idle_def same_stamps_def)
    (simp add: servo_hw_def servo_offset_def delay_ms_fix_def big_delta_fix_def servo_mu_def Let_def)

lemma round_step:
  assumes "good_link i s" "ph_now (servo_now i s) \<noteq> WR_SERVO_NONE"
  shows "servo_step (tracking_enabled s \<noteq> 0) (servo_hw (wr_servo_ds (ports s i)) (ph_adjust s))
      (servo_now i s) (servo_now i (servo_round i s))"
    "ph_now (servo_now i s) = WR_WAIT_SYNC_IDLE \<Longrightarrow> ph_next (servo_now i s) \<noteq> WR_WAIT_SYNC_IDLE \<Longrightarrow>
     ph_now (servo_now i (servo_round i s)) \<noteq> WR_WAIT_SYNC_IDLE"
  using update_step [of i "s\<lparr>got_sync := True\<rparr>"] update_frame [of i "s\<lparr>got_sync := True\<rparr>"] assms
  by (simp_all add: good_link_def servo_round_def round_post_def hal_idle_def servo_now_def servo_abs_def)

lemma round_goes:
  assumes "good_link i s"
  shows "ph_now (servo_now i s) = WR_SYNC_TAI \<Longrightarrow>
      servo_now i (servo_round i s) = (servo_now i s)\<lparr>ph_now := WR_SYNC_NSEC\<rparr>"
    "ph_now (servo_now i s) = WR_SYNC_NSEC \<Longrightarrow>
      servo_now i (servo_round i s) = (servo_now i s)\<lparr>ph_now := WR_SYNC_PHASE\<rparr>"
    "ph_now (servo_now i s) = WR_SYNC_PHASE \<Longrightarrow> servo_now i (servo_round i s) =
       (servo_now i s)\<lparr>ph_now := WR_WAIT_SYNC_IDLE, ph_next := WR_WAIT_OFFSET_STABLE\<rparr>"
    "ph_now (servo_now i s) = WR_WAIT_SYNC_IDLE \<Longrightarrow> ph_next (servo_now i s) = WR_WAIT_OFFSET_STABLE \<Longrightarrow>
      servo_now i (servo_round i s) = (servo_now i s)\<lparr>ph_now := WR_WAIT_OFFSET_STABLE\<rparr>"
    "ph_now (servo_now i s) = WR_WAIT_OFFSET_STABLE \<Longrightarrow> ph_miss (servo_now i s) < 10 \<Longrightarrow>
      servo_now i (servo_round i s) = (servo_now i s)\<lparr>ph_now := WR_TRACK_PHASE\<rparr>"
  using round_step [OF assms] assms
  by (auto simp: good_link_def coarse_def elim!: servo_stepE)

text \<open>
  The servo locks: on a link whose measured offset is below the threshold, with a HAL
  that is never busy and fewer than ten misses, five measurements take it from the start of
  the synchronisation to tracking.
\<close>
theorem servo_locks_in_five:
  assumes "good_link i s" "ph_now (servo_now i s) = WR_SYNC_TAI" "ph_miss (servo_now i s) < 10"
  shows "ph_now (servo_now i ((servo_round i ^^ 5) s)) = WR_TRACK_PHASE"
proof -
  define r where "r n = (servo_round i ^^ n) s" for n
  have g: "good_link i (r n)" for n
    by (induction n) (simp_all add: r_def assms(1) round_good_link)
  have suc: "r (Suc n) = servo_round i (r n)" for n by (simp add: r_def)
  have "r 5 = servo_round i (servo_round i (servo_round i (servo_round i (servo_round i (r 0)))))"
    by (simp add: suc eval_nat_numeral)
  moreover have "r 0 = s" by (simp add: r_def)
  ultimately show ?thesis
    using g [of 0] g [of 1] g [of 2] g [of 3] g [of 4] assms(2,3)
    by (simp add: r_def [of 5, symmetric] round_goes suc eval_nat_numeral)
qed

definition sys_link :: sys where
  "sys_link = (sys_demo WR_SYNC_TAI 0)\<lparr>world := quiet_env\<lparr>env_pps_cmd := \<lambda>_. (0, 1)\<rparr>\<rparr>"

lemmas picos_eval = ts_sub_def ts_add_def carry_down.simps borrow_up.simps s32_id s64_id
  ts_to_picos_def stamp_def

lemma servo_hw_demo: "servo_hw (servo_demo st miss) 0 = ts_make 0 0 0"
proof -
  have m: "servo_mu (servo_demo st miss) = ts_make 0 200 0"
    by (simp add: servo_mu_def servo_demo_def picos_eval)
  have d: "delay_ms_fix (servo_demo st miss) (ts_make 0 200 0) 0 = 100000"
    by (simp add: delay_ms_fix_def big_delta_fix_def servo_demo_def picos_eval Let_def)
  have p: "picos_to_ts (sint (100000 :: u64)) = ts_make 0 100 0"
    by (simp add: picos_to_ts_def Let_def s32_id)
  have o: "servo_offset (servo_demo st miss) 100000 = ts_make 0 0 0"
    unfolding servo_offset_def p by (simp add: servo_demo_def picos_eval)
  show ?thesis unfolding servo_hw_def m d o
    by (simp add: ts_hardwarize_def servo_demo_def s32_id Let_def)
qed

theorem servo_locks_in_five_witness:
  "ph_now (servo_now 0 ((servo_round 0 ^^ 5) sys_link)) = WR_TRACK_PHASE"
proof -
  have n: "servo_now 0 sys_link = \<lparr>ph_now = WR_SYNC_TAI, ph_next = WR_SERVO_NONE, ph_miss = 0\<rparr>"
    using servo_now_demo [of 0 WR_SYNC_TAI 0] by (simp add: sys_link_def servo_now_def)
  have "good_link 0 sys_link"
    using sys_demo_ready [of 0 WR_SYNC_TAI 0] servo_hw_demo [of WR_SYNC_TAI 0]
    by (simp add: good_link_def sys_link_def servo_ready_def hal_idle_def coarse_def sys_demo_def
        ts_to_picos_def s32_id s64_id)
  then show ?thesis using servo_locks_in_five [of 0 sys_link] by (simp add: n)
qed

end
