(* ===== verification/Steering.thy ===== *)
theory Steering
  imports Servo Ticks
begin

text \<open>
  The servo in its loop: the commands of the servo move the clock of the slave, and the clock of
  the slave is what the next timestamps are taken from. The offset an update computes is the one
  between the two clocks, up to the error of the estimated delay; from the start of the
  synchronisation the updates bring the clock of the slave to the one of the master and keep it
  there while the delay of the fibre drifts.
\<close>

section \<open>What is measured\<close>

text \<open>
  A fibre delays by \<open>fwd\<close> picoseconds from the master to the slave and by \<open>bwd\<close> on the way back.
  The estimate of the delay from master to slave is wrong by \<open>excess\<close>, which is nothing on a fibre
  as asymmetric as its coefficient says.
\<close>

record fibre =
  fwd :: int
  bwd :: int

definition fibre_ok :: "fibre \<Rightarrow> bool" where
  "fibre_ok L \<longleftrightarrow> 0 \<le> fwd L \<and> 0 \<le> bwd L \<and> fwd L + bwd L < 2147483648"

definition estimate :: "wr_servo_t \<Rightarrow> fibre \<Rightarrow> int \<Rightarrow> int" where
  "estimate v L ph = delay_formula v (fwd L + bwd L) ph"

definition excess :: "wr_servo_t \<Rightarrow> fibre \<Rightarrow> int \<Rightarrow> int" where
  "excess v L ph = estimate v L ph - (delta_tx_m v + fwd L + delta_rx_s v)"

text \<open>
  The four timestamps of an exchange when the clock of the slave is \<open>x\<close> ahead of the master's: the
  first and the fourth are the master's, the other two the slave's.
\<close>

definition soon :: "wr_timestamp \<Rightarrow> bool" where
  "soon t \<longleftrightarrow> ts_ok t \<and> \<bar>wr_picos t\<bar> \<le> 10 ^ 28"

definition seen :: "fibre \<Rightarrow> int \<Rightarrow> wr_servo_t \<Rightarrow> bool" where
  "seen L x v \<longleftrightarrow> soon (servo_t1 v) \<and> soon (servo_t2 v) \<and> soon (servo_t3 v) \<and> soon (servo_t4 v) \<and>
     wr_picos (servo_t2 v) = wr_picos (servo_t1 v) + delta_tx_m v + fwd L + delta_rx_s v + x \<and>
     wr_picos (servo_t4 v) = wr_picos (servo_t3 v) + delta_tx_s v + bwd L + delta_rx_m v - x"

lemma small_seconds:
  assumes "ts_ok t" "\<bar>wr_picos t\<bar> \<le> 1000000000000"
  shows "\<bar>sec t\<bar> \<le> 9000000"
  using assms by (auto simp: ts_ok_def wr_picos_def abs_le_iff)

lemma offset_measured:
  assumes "seen L x v" "delays_small v" "fibre_ok L" "\<bar>ph\<bar> \<le> 1000000000" "0 \<le> estimate v L ph"
  shows "sint (delay_ms_fix v (servo_mu v) ph) = estimate v L ph"
    "servo_hw v ph = hw_of (clock_period_ps v) (excess v L ph - x)"
proof -
  let ?m = "servo_mu v"
  have ok: "ts_ok (servo_t1 v)" "ts_ok (servo_t2 v)" "ts_ok (servo_t3 v)" "ts_ok (servo_t4 v)"
    and far: "\<bar>wr_picos (servo_t1 v)\<bar> \<le> 10 ^ 28" "\<bar>wr_picos (servo_t2 v)\<bar> \<le> 10 ^ 28" "\<bar>wr_picos (servo_t3 v)\<bar> \<le> 10 ^ 28"
      "\<bar>wr_picos (servo_t4 v)\<bar> \<le> 10 ^ 28"
    using assms(1) unfolding seen_def soon_def by blast+
  have n: "near (servo_t1 v)" "near (servo_t2 v)" "near (servo_t3 v)" "near (servo_t4 v)"
    using far by (simp_all add: near_def)
  note a = ts_sub_ok [OF ok(4) n(4) ok(1) n(1)] and b = ts_sub_ok [OF ok(3) n(3) ok(2) n(2)]
    and c = ts_sub_ok [OF ok(1) n(1) ok(2) n(2)]
  have n': "near (ts_sub (servo_t4 v) (servo_t1 v))" "near (ts_sub (servo_t3 v) (servo_t2 v))" "near (ts_sub (servo_t1 v) (servo_t2 v))"
    using far by (simp_all add: near_def a b c)
  note m = ts_sub_ok [OF a(2) n'(1) b(2) n'(2), folded servo_mu_def]
  have f: "wr_picos ?m = delta_tx_m v + delta_tx_s v + delta_rx_m v + delta_rx_s v + (fwd L + bwd L)"
    using assms(1) by (simp add: m a b seen_def)
  have p: "\<bar>wr_picos ?m\<bar> \<le> 1000000000000" using assms(2,3) unfolding f by (auto simp: delays_small_def fibre_ok_def)
  have t: "ts_to_picos ?m = wr_picos ?m"
    using small_seconds [OF m(2) p] m(2) by (intro ts_to_picos_exact) (auto simp: ts_ok_def)
  have fp: "fibre_picos v ?m = fwd L + bwd L" by (simp add: fibre_picos_def t f)
  have e: "\<bar>estimate v L ph\<bar> \<le> 8589934592 \<and> sint (delay_ms_fix v ?m ph) = estimate v L ph"
    using delay_ms_exact [OF assms(2), of ?m ph] assms(3,4) p
    by (simp add: fp t fibre_ok_def estimate_def Let_def)
  then show d: "sint (delay_ms_fix v ?m ph) = estimate v L ph" by simp
  have "servo_offset v (delay_ms_fix v ?m ph) = ts_normal (wr_picos (ts_sub (servo_t1 v) (servo_t2 v)) + estimate v L ph)"
    unfolding servo_offset_def d by (rule ts_add_normal [OF c(2) n'(3) assms(5)]) (use e in linarith)
  moreover have "wr_picos (ts_sub (servo_t1 v) (servo_t2 v)) + estimate v L ph = excess v L ph - x"
    using assms(1) by (simp add: c excess_def seen_def)
  ultimately show "servo_hw v ph = hw_of (clock_period_ps v) (excess v L ph - x)"
    by (simp add: servo_hw_def hw_of_def)
qed

section \<open>What is commanded\<close>

text \<open>
  The commands of the servo in the log: seconds and nanoseconds added to the counters of the
  clock, and the phase shift, of which the last one set is in force.
\<close>

primrec counters :: "event list \<Rightarrow> int" where
  "counters [] = 0"
| "counters (e # es) = (case e of PpsCmd c v \<Rightarrow>
      if c = HEXP_PPSG_CMD_ADJUST_SEC then v * 1000000000000
      else if c = HEXP_PPSG_CMD_ADJUST_NSEC then v * 1000 else 0 | _ \<Rightarrow> 0) + counters es"

primrec shift :: "int \<Rightarrow> event list \<Rightarrow> int" where
  "shift p [] = p"
| "shift p (e # es) = shift (case e of PpsCmd c v \<Rightarrow> if c = HEXP_PPSG_CMD_ADJUST_PHASE then v else p | _ \<Rightarrow> p) es"

lemma commands_append [simp]:
  "counters (es @ fs) = counters es + counters fs" "shift p (es @ fs) = shift (shift p es) fs"
  by (induction es arbitrary: p) simp_all

text \<open>
  The servo and what it commands, as one state, and what an update does to it given the offset
  \<open>hw\<close> and the estimated delay \<open>d\<close>, with tracking enabled.
\<close>

record steering =
  l_now :: servo_state
  l_next :: servo_state
  l_miss :: int
  l_setpoint :: int
  l_prev :: int
  l_counters :: int
  l_shift :: int

definition steering_of :: "nat \<Rightarrow> sys \<Rightarrow> steering" where
  "steering_of i s = (let v = wr_servo_ds (ports s i) in \<lparr>l_now = state v, l_next = next_state v,
     l_miss = missed_iters v, l_setpoint = cur_setpoint v, l_prev = delta_ms_prev v,
     l_counters = counters (log s), l_shift = shift 0 (log s)\<rparr>)"

definition steer :: "wr_timestamp \<Rightarrow> int \<Rightarrow> steering \<Rightarrow> steering" where
  "steer hw d a = (case l_now a of
     WR_WAIT_SYNC_IDLE \<Rightarrow> a\<lparr>l_now := l_next a\<rparr>
   | WR_SYNC_TAI \<Rightarrow>
       if sec hw \<noteq> 0 then a\<lparr>l_counters := l_counters a + sec hw * 1000000000000, l_shift := 0,
         l_next := WR_SYNC_NSEC, l_now := WR_WAIT_SYNC_IDLE\<rparr>
       else a\<lparr>l_now := WR_SYNC_NSEC\<rparr>
   | WR_SYNC_NSEC \<Rightarrow>
       if nsec hw \<noteq> 0 then a\<lparr>l_counters := l_counters a + nsec hw * 1000,
         l_next := WR_SYNC_NSEC, l_now := WR_WAIT_SYNC_IDLE\<rparr>
       else a\<lparr>l_now := WR_SYNC_PHASE\<rparr>
   | WR_SYNC_PHASE \<Rightarrow>
       let p = s32 (phase hw + s32 (nsec hw * 1000))
       in a\<lparr>l_setpoint := p, l_shift := p, l_prev := d, l_next := WR_WAIT_OFFSET_STABLE, l_now := WR_WAIT_SYNC_IDLE\<rparr>
   | WR_WAIT_OFFSET_STABLE \<Rightarrow>
       let b = (if sec hw \<noteq> 0 \<or> nsec hw \<noteq> 0 then a\<lparr>l_now := WR_SYNC_TAI\<rparr>
                else if \<bar>s32 (ts_to_picos hw)\<bar> < 60 then a\<lparr>l_now := WR_TRACK_PHASE\<rparr>
                else a\<lparr>l_miss := s32 (l_miss a + 1)\<rparr>)
       in if l_miss b \<ge> 10 then b\<lparr>l_now := WR_SYNC_TAI\<rparr> else b
   | WR_TRACK_PHASE \<Rightarrow>
       let p = s32 (l_setpoint a + (d - l_prev a))
       in a\<lparr>l_setpoint := p, l_shift := p, l_prev := d, l_next := WR_TRACK_PHASE, l_now := WR_WAIT_SYNC_IDLE\<rparr>
   | WR_SERVO_NONE \<Rightarrow> a)"

lemma switch_steers:
  assumes "hal_idle s" "tracking_enabled s \<noteq> 0"
  shows "wp (servo_switch i tics hw) (\<lambda>_ s'. steering_of i s' = steer hw (delta_ms (wr_servo_ds (ports s i))) (steering_of i s)) s"
  using assms
  by (cases "state (wr_servo_ds (ports s i))")
    (simp_all add: servo_switch_def servo_cmd_defs wp_simps steering_of_def steer_def hal_idle_def Let_def)

lemma update_steers:
  assumes "servo_ready i s" "hal_idle s" "tracking_enabled s \<noteq> 0"
  shows "steering_of i (exec (wr_servo_update i) s) =
    steer (servo_hw (wr_servo_ds (ports s i)) (ph_adjust s))
      (sint (delay_ms_fix (wr_servo_ds (ports s i)) (servo_mu (wr_servo_ds (ports s i))) (ph_adjust s))) (steering_of i s)"
proof -
  have "wp (wr_servo_update i) (\<lambda>_ s'. steering_of i s' = steer (servo_hw (wr_servo_ds (ports s i)) (ph_adjust s))
      (sint (delay_ms_fix (wr_servo_ds (ports s i)) (servo_mu (wr_servo_ds (ports s i))) (ph_adjust s))) (steering_of i s)) s"
    using assms unfolding wr_servo_update_def servo_ready_def
    by (auto simp add: wp_simps upd_servo_def upd_es_def hal_defs Let_def servo_hw_def [symmetric]
      hal_idle_def intro!: wp_conseq [OF switch_steers]) (simp_all add: steering_of_def Let_def)
  then show ?thesis by (simp add: wp_exec)
qed

section \<open>The loop\<close>

text \<open>
  The clock of the slave runs with the clock it recovers from the link, so it lags by the delay of
  the fibre; \<open>k0\<close> is its lead over the master before anything is commanded and without the fibre.
\<close>

definition lead :: "int \<Rightarrow> fibre \<Rightarrow> sys \<Rightarrow> int" where
  "lead k0 L s = k0 + counters (log s) + shift 0 (log s) - fwd L"

text \<open>
  A round: the exchange begins at the master's time \<open>fst T\<close> and the answer at the slave's time
  \<open>snd T\<close>; \<open>rep\<close> writes a count of picoseconds as a timestamp; then the servo is updated.
\<close>

definition measured :: "nat \<Rightarrow> (int \<Rightarrow> wr_timestamp) \<Rightarrow> fibre \<Rightarrow> int \<times> int \<Rightarrow> int \<Rightarrow> sys \<Rightarrow> sys" where
  "measured i rep L T x s = (let v = wr_servo_ds (ports s i) in
     s\<lparr>got_sync := True, ports := (ports s)(i := (ports s i)\<lparr>wr_servo_ds := v\<lparr>
       servo_t1 := rep (fst T), servo_t2 := rep (fst T + delta_tx_m v + fwd L + delta_rx_s v + x),
       servo_t3 := rep (snd T), servo_t4 := rep (snd T + delta_tx_s v + bwd L + delta_rx_m v - x)\<rparr>\<rparr>)\<rparr>)"

definition link_round :: "nat \<Rightarrow> (int \<Rightarrow> wr_timestamp) \<Rightarrow> int \<Rightarrow> fibre \<Rightarrow> int \<times> int \<Rightarrow> sys \<Rightarrow> sys" where
  "link_round i rep k0 L T s = exec (wr_servo_update i) (measured i rep L T (lead k0 L s) s)"

primrec link_run :: "nat \<Rightarrow> (int \<Rightarrow> wr_timestamp) \<Rightarrow> int \<Rightarrow> (nat \<Rightarrow> fibre) \<Rightarrow> (nat \<Rightarrow> int \<times> int) \<Rightarrow> sys \<Rightarrow> nat \<Rightarrow> sys" where
  "link_run i rep k0 L T s 0 = s"
| "link_run i rep k0 L T s (Suc n) = link_round i rep k0 (L n) (T n) (link_run i rep k0 L T s n)"

definition clocks_ok :: "(int \<Rightarrow> wr_timestamp) \<Rightarrow> bool" where
  "clocks_ok rep \<longleftrightarrow> (\<forall>x. \<bar>x\<bar> \<le> 10 ^ 28 \<longrightarrow> ts_ok (rep x) \<and> wr_picos (rep x) = x \<and> correct (rep x) \<noteq> 0)"

definition times_ok :: "int \<times> int \<Rightarrow> bool" where
  "times_ok T \<longleftrightarrow> \<bar>fst T\<bar> \<le> 10 ^ 27 \<and> \<bar>snd T\<bar> \<le> 10 ^ 27"

text \<open>The settings an update leaves alone.\<close>

definition same_link :: "wr_servo_t \<Rightarrow> wr_servo_t \<Rightarrow> bool" where
  "same_link a b \<longleftrightarrow> delta_tx_m a = delta_tx_m b \<and> delta_rx_m a = delta_rx_m b \<and>
     delta_tx_s a = delta_tx_s b \<and> delta_rx_s a = delta_rx_s b \<and>
     fiber_fix_alpha a = fiber_fix_alpha b \<and> clock_period_ps a = clock_period_ps b"

definition plant :: "nat \<Rightarrow> wr_servo_t \<Rightarrow> int \<Rightarrow> sys \<Rightarrow> bool" where
  "plant i v ph s \<longleftrightarrow> hal_idle s \<and> tracking_enabled s \<noteq> 0 \<and> ph_adjust s = ph \<and> same_link v (wr_servo_ds (ports s i)) \<and>
     delays_small v \<and> period_ok (clock_period_ps v) \<and> \<bar>ph\<bar> \<le> 1000000000"

lemma same_link_estimate:
  "same_link a b \<Longrightarrow> estimate b L ph = estimate a L ph" "same_link a b \<Longrightarrow> excess b L ph = excess a L ph"
  "same_link a b \<Longrightarrow> delays_small b = delays_small a"
  by (simp_all add: same_link_def excess_def estimate_def delay_formula_def delays_small_def)

lemma round_steers:
  assumes p: "plant i v ph s" and L: "fibre_ok L" "0 \<le> estimate v L ph"
    and c: "clocks_ok rep" "times_ok T" "\<bar>lead k0 L s\<bar> \<le> 10 ^ 27"
  shows "plant i v ph (link_round i rep k0 L T s)"
    "steering_of i (link_round i rep k0 L T s) =
       steer (hw_of (clock_period_ps v) (excess v L ph - lead k0 L s)) (estimate v L ph) (steering_of i s)"
proof -
  let ?s = "measured i rep L T (lead k0 L s) s"
  let ?w = "wr_servo_ds (ports ?s i)"
  have w: "same_link v ?w" "hal_idle ?s" "tracking_enabled ?s \<noteq> 0" "ph_adjust ?s = ph" "delays_small ?w" "\<bar>ph\<bar> \<le> 1000000000"
    "clock_period_ps ?w = clock_period_ps v"
    using p same_link_estimate(3) [of v ?w] by (auto simp: plant_def measured_def same_link_def hal_idle_def Let_def)
  have d: "\<bar>delta_tx_m v\<bar> \<le> 500000000" "\<bar>delta_rx_m v\<bar> \<le> 500000000" "\<bar>delta_tx_s v\<bar> \<le> 500000000" "\<bar>delta_rx_s v\<bar> \<le> 500000000"
    using p by (simp_all add: plant_def delays_small_def)
  have r: "soon (rep y) \<and> wr_picos (rep y) = y \<and> correct (rep y) \<noteq> 0" if "\<bar>y\<bar> \<le> 10 ^ 28" for y
    using c(1) that by (auto simp: clocks_ok_def soon_def)
  have l: "delta_tx_m (wr_servo_ds (ports s i)) = delta_tx_m v" "delta_rx_m (wr_servo_ds (ports s i)) = delta_rx_m v"
    "delta_tx_s (wr_servo_ds (ports s i)) = delta_tx_s v" "delta_rx_s (wr_servo_ds (ports s i)) = delta_rx_s v"
    using p by (simp_all add: plant_def same_link_def)
  let ?x = "lead k0 L s"
  have t: "\<bar>fst T\<bar> \<le> 10 ^ 28" "\<bar>fst T + delta_tx_m v + fwd L + delta_rx_s v + ?x\<bar> \<le> 10 ^ 28"
    "\<bar>snd T\<bar> \<le> 10 ^ 28" "\<bar>snd T + delta_tx_s v + bwd L + delta_rx_m v - ?x\<bar> \<le> 10 ^ 28"
    using d L(1) c(2,3) by (auto simp: fibre_ok_def times_ok_def abs_le_iff)
  note y = r [OF t(1)] r [OF t(2)] r [OF t(3)] r [OF t(4)]
  have ready: "servo_ready i ?s" using y by (simp add: servo_ready_def measured_def Let_def l)
  have seen: "seen L ?x ?w" using y by (simp add: seen_def measured_def Let_def l)
  note m = offset_measured [OF seen w(5) L(1) w(6)]
  have e: "estimate ?w L ph = estimate v L ph" "excess ?w L ph = excess v L ph"
    using same_link_estimate [OF w(1)] by simp_all
  have st: "steering_of i ?s = steering_of i s" by (simp add: steering_of_def measured_def Let_def)
  show "steering_of i (link_round i rep k0 L T s) =
       steer (hw_of (clock_period_ps v) (excess v L ph - ?x)) (estimate v L ph) (steering_of i s)"
    using update_steers [OF ready w(2,3)] m L(2) unfolding link_round_def w(4) e st w(7) by simp
  have f: "round_post i ?s (link_round i rep k0 L T s)"
    unfolding link_round_def by (rule update_frame)
  then show "plant i v ph (link_round i rep k0 L T s)"
    using p w(1-4) by (auto simp: plant_def round_post_def servo_frame_def hal_idle_def same_link_def same_stamps_def)
qed

section \<open>From the start of the synchronisation\<close>

text \<open>
  How many updates the loop is from tracking, when nothing but the servo moves the clock: \<open>e\<close> is
  what the counters and the shift come to in the end, so the rest is the offset the next update sees.
\<close>

definition rest :: "int \<Rightarrow> steering \<Rightarrow> int" where
  "rest e a = e - l_counters a - l_shift a"

lemma rest_frame [simp]:
  "rest e (a\<lparr>l_now := x\<rparr>) = rest e a" "rest e (a\<lparr>l_next := x\<rparr>) = rest e a" "rest e (a\<lparr>l_miss := m\<rparr>) = rest e a"
  "rest e (a\<lparr>l_setpoint := m\<rparr>) = rest e a" "rest e (a\<lparr>l_prev := m\<rparr>) = rest e a"
  by (simp_all add: rest_def)

definition stage :: "int \<Rightarrow> int \<Rightarrow> int \<Rightarrow> nat \<Rightarrow> steering \<Rightarrow> bool" where
  "stage period d e k a \<longleftrightarrow> 0 \<le> l_miss a \<and> l_miss a < 10 \<and> \<bar>rest e a\<bar> \<le> 10 ^ 26 \<and>
     (k = 8 \<and> l_now a = WR_SYNC_TAI \<and> l_shift a = 0 \<or>
      k = 7 \<and> l_now a = WR_WAIT_SYNC_IDLE \<and> l_next a = WR_SYNC_NSEC \<and> l_shift a = 0 \<and> sec (hw_of period (rest e a)) = 0 \<or>
      k = 6 \<and> l_now a = WR_SYNC_NSEC \<and> l_shift a = 0 \<and> sec (hw_of period (rest e a)) = 0 \<or>
      k = 5 \<and> l_now a = WR_WAIT_SYNC_IDLE \<and> l_next a = WR_SYNC_NSEC \<and> l_shift a = 0 \<and> 0 \<le> rest e a \<and> rest e a < 1000 * cycle period \<or>
      k = 4 \<and> l_now a = WR_SYNC_NSEC \<and> l_shift a = 0 \<and> 0 \<le> rest e a \<and> rest e a < 1000 * cycle period \<or>
      k = 3 \<and> l_now a = WR_SYNC_PHASE \<and> l_shift a = 0 \<and> phase (hw_of period (rest e a)) = rest e a \<and>
        nsec (hw_of period (rest e a)) = 0 \<and> \<bar>rest e a\<bar> \<le> 1000 * cycle period \<or>
      k = 2 \<and> l_now a = WR_WAIT_SYNC_IDLE \<and> l_next a = WR_WAIT_OFFSET_STABLE \<and> rest e a = 0 \<and> l_prev a = d \<and>
        l_setpoint a = l_shift a \<and> \<bar>l_shift a\<bar> \<le> 1000000 \<or>
      k = 1 \<and> l_now a = WR_WAIT_OFFSET_STABLE \<and> rest e a = 0 \<and> l_prev a = d \<and>
        l_setpoint a = l_shift a \<and> \<bar>l_shift a\<bar> \<le> 1000000 \<or>
      k = 0 \<and> (l_now a = WR_TRACK_PHASE \<or> l_now a = WR_WAIT_SYNC_IDLE \<and> l_next a = WR_TRACK_PHASE) \<and>
        rest e a = 0 \<and> l_prev a = d \<and> l_setpoint a = l_shift a \<and> \<bar>l_shift a\<bar> \<le> 1000000)"

lemma hw_zero: "period_ok period \<Longrightarrow> sec (hw_of period 0) = 0 \<and> nsec (hw_of period 0) = 0 \<and> phase (hw_of period 0) = 0"
  using hw_parts [of period 0] cycle_bounds [of period] by auto

text \<open>The seconds, then the nanoseconds are corrected; what is left is less than a cycle.\<close>

lemma stage_seconds:
  assumes p: "period_ok period" and s: "stage period d e 8 a"
  shows "\<exists>j<8. stage period d e j (steer (hw_of period (rest e a)) d a)"
proof -
  let ?x = "rest e a" and ?a = "steer (hw_of period (rest e a)) d a"
  have st: "l_now a = WR_SYNC_TAI" "l_shift a = 0" and m: "0 \<le> l_miss a" "l_miss a < 10" "\<bar>?x\<bar> \<le> 10 ^ 26"
    using s by (simp_all add: stage_def)
  show ?thesis
  proof (cases "sec (hw_of period ?x) = 0")
    case True
    then have "stage period d e 6 ?a" using m st by (simp add: stage_def steer_def)
    then show ?thesis by (intro exI [of _ 6]) simp
  next
    case False
    then have r: "rest e ?a = ?x - sec (hw_of period ?x) * 1000000000000" using st by (simp add: steer_def rest_def)
    have "\<bar>?x\<bar> \<le> 10 ^ 29" using m(3) by simp
    from hw_parts(1) [OF p this] r False have b: "0 \<le> rest e ?a" "rest e ?a < 1000000000000" by auto
    then have "sec (hw_of period (rest e ?a)) = 0" by (intro hw_parts(2) [OF p]) auto
    moreover have "l_now ?a = WR_WAIT_SYNC_IDLE" "l_next ?a = WR_SYNC_NSEC" "l_shift ?a = 0" "l_miss ?a = l_miss a"
      using st False by (simp_all add: steer_def)
    ultimately have "stage period d e 7 ?a" using m b unfolding stage_def by simp
    then show ?thesis by (intro exI [of _ 7]) simp
  qed
qed

lemma stage_nanoseconds:
  assumes p: "period_ok period" and s: "stage period d e 6 a"
  shows "\<exists>j<6. stage period d e j (steer (hw_of period (rest e a)) d a)"
proof -
  let ?x = "rest e a" and ?a = "steer (hw_of period (rest e a)) d a"
  have st: "l_now a = WR_SYNC_NSEC" "l_shift a = 0" "sec (hw_of period ?x) = 0"
    and m: "0 \<le> l_miss a" "l_miss a < 10" "\<bar>?x\<bar> \<le> 10 ^ 26" using s by (simp_all add: stage_def)
  have "\<bar>?x\<bar> \<le> 10 ^ 29" using m(3) by simp
  note h = hw_parts(1) [OF p this]
  show ?thesis
  proof (cases "nsec (hw_of period ?x) = 0")
    case True
    then have "stage period d e 3 ?a" using m st h by (simp add: stage_def steer_def)
    then show ?thesis by (intro exI [of _ 3]) simp
  next
    case False
    then have r: "rest e ?a = ?x - nsec (hw_of period ?x) * 1000" using st by (simp add: steer_def rest_def)
    with h False st(3) have b: "0 \<le> rest e ?a" "rest e ?a < 1000 * cycle period" by auto
    moreover have "l_now ?a = WR_WAIT_SYNC_IDLE" "l_next ?a = WR_SYNC_NSEC" "l_shift ?a = 0" "l_miss ?a = l_miss a"
      using st False by (simp_all add: steer_def)
    ultimately have "stage period d e 5 ?a" using m cycle_bounds [OF p] unfolding stage_def by simp
    then show ?thesis by (intro exI [of _ 5]) simp
  qed
qed

lemma stage_waits:
  "stage period d e 7 a \<Longrightarrow> stage period d e 6 (steer hw d a)"
  "stage period d e 5 a \<Longrightarrow> stage period d e 4 (steer hw d a)"
  "stage period d e 2 a \<Longrightarrow> stage period d e 1 (steer hw d a)"
  by (auto simp: stage_def steer_def)

text \<open>The last cycle is left to the phase.\<close>

lemma stage_phase:
  assumes p: "period_ok period"
  shows "stage period d e 4 a \<Longrightarrow> stage period d e 3 (steer (hw_of period (rest e a)) d a)"
    "stage period d e 3 a \<Longrightarrow> stage period d e 2 (steer (hw_of period (rest e a)) d a)"
    "stage period d e 1 a \<Longrightarrow> stage period d e 0 (steer (hw_of period (rest e a)) d a)"
    "stage period d e 0 a \<Longrightarrow> stage period d e 0 (steer (hw_of period (rest e a)) d a)"
proof -
  let ?x = "rest e a" and ?a = "steer (hw_of period (rest e a)) d a"
  have s32: "s32 y = y" if "\<bar>y\<bar> \<le> 1000000" for y using that by (intro s32_id) auto
  {
    assume s: "stage period d e 4 a"
    then have "\<bar>?x\<bar> \<le> 10 ^ 29" by (auto simp: stage_def)
    from hw_parts(1,3) [OF p this] show "stage period d e 3 ?a" using s by (auto simp: stage_def steer_def)
  next
    assume s: "stage period d e 3 a"
    then have "\<bar>?x\<bar> \<le> 1000000" using cycle_bounds [OF p] by (simp add: stage_def)
    then show "stage period d e 2 ?a" using s by (simp add: stage_def steer_def s32 Let_def) (simp add: rest_def)
  next
    assume s: "stage period d e 1 a"
    then have "?a = a\<lparr>l_now := WR_TRACK_PHASE\<rparr>" using hw_zero [OF p]
      by (simp add: stage_def steer_def ts_to_picos_def s32 s64_id)
    then show "stage period d e 0 ?a" using s by (simp add: stage_def)
  next
    assume "stage period d e 0 a"
    then show "stage period d e 0 ?a" by (auto simp: stage_def steer_def s32 Let_def)
  }
qed

lemma stage_goes_on:
  assumes p: "period_ok period" and s: "stage period d e k a"
  shows "\<exists>j. stage period d e j (steer (hw_of period (rest e a)) d a) \<and> (j < k \<or> j = 0)"
proof -
  consider "k = 8" | "k = 6" | "k \<in> {7, 5, 2}" | "k \<in> {4, 3, 1, 0}"
    using s by (auto simp: stage_def)
  then show ?thesis
  proof cases
    case 1
    with s stage_seconds [OF p] show ?thesis by blast
  next
    case 2
    with s stage_nanoseconds [OF p] show ?thesis by blast
  next
    case 3
    have "(6::nat) < 7" "(4::nat) < 5" "(1::nat) < 2" by simp_all
    with 3 s stage_waits show ?thesis by blast
  next
    case 4
    have "(3::nat) < 4" "(2::nat) < 3" "(0::nat) < 1" by simp_all
    with 4 s stage_phase [OF p] show ?thesis by blast
  qed
qed

section \<open>Tracking\<close>

text \<open>
  In tracking the loop keeps the shift at the estimated delay of the last fibre it has corrected
  for, less a constant: \<open>D\<close> is the estimate it locked with.
\<close>

definition follows :: "int \<Rightarrow> int \<Rightarrow> int \<Rightarrow> steering \<Rightarrow> bool" where
  "follows z D d a \<longleftrightarrow> rest (d - z) a = 0 \<and> l_prev a = d \<and> l_setpoint a = l_shift a \<and> \<bar>l_shift a - (d - D)\<bar> \<le> 1000000"

lemma stage_follows: "stage period d (d - z) 0 a \<Longrightarrow> follows z d d a"
  by (simp add: stage_def follows_def)

lemma follows_waiting:
  "l_now a = WR_WAIT_SYNC_IDLE \<Longrightarrow> l_next a = WR_TRACK_PHASE \<Longrightarrow> follows z D d a \<Longrightarrow>
   l_now (steer hw d' a) = WR_TRACK_PHASE \<and> follows z D d (steer hw d' a)"
  by (simp add: steer_def follows_def)

lemma follows_tracking:
  assumes "l_now a = WR_TRACK_PHASE" "follows z D d a"
    and "0 \<le> d'" "d' \<le> 2000000000" "0 \<le> D" "D \<le> 2000000000"
  shows "l_now (steer hw d' a) = WR_WAIT_SYNC_IDLE \<and> l_next (steer hw d' a) = WR_TRACK_PHASE \<and>
    follows z D d' (steer hw d' a)"
proof -
  have f: "rest (d - z) a = 0" "l_prev a = d" "l_setpoint a = l_shift a" "\<bar>l_shift a - (d - D)\<bar> \<le> 1000000"
    using assms(2) by (simp_all add: follows_def)
  have s: "s32 (l_shift a + (d' - d)) = l_shift a + (d' - d)" using f(4) assms(3-6) by (intro s32_id) linarith+
  have "steer hw d' a = a\<lparr>l_setpoint := l_shift a + (d' - d), l_shift := l_shift a + (d' - d), l_prev := d',
      l_next := WR_TRACK_PHASE, l_now := WR_WAIT_SYNC_IDLE\<rparr>"
    using assms(1) by (simp add: steer_def f s Let_def)
  then show ?thesis using f by (simp add: follows_def rest_def)
qed

section \<open>The clock of the slave\<close>

text \<open>What the loop needs of the world, at every round \<open>n\<close>.\<close>

definition link_ok :: "wr_servo_t \<Rightarrow> int \<Rightarrow> (int \<Rightarrow> wr_timestamp) \<Rightarrow> (nat \<Rightarrow> fibre) \<Rightarrow> (nat \<Rightarrow> int \<times> int) \<Rightarrow> bool" where
  "link_ok v ph rep L T \<longleftrightarrow> clocks_ok rep \<and> (\<forall>n. times_ok (T n) \<and> fibre_ok (L n) \<and>
     0 \<le> estimate v (L n) ph \<and> estimate v (L n) ph \<le> 2000000000) \<and> (\<forall>n<8. L n = L 0)"

lemma lead_rest:
  "excess v L ph - lead k0 L s = rest (estimate v L ph - (delta_tx_m v + delta_rx_s v + k0)) (steering_of i s)"
  by (simp add: excess_def lead_def rest_def steering_of_def Let_def)

lemma estimate_fibre: "delays_small v \<Longrightarrow> \<bar>delta_tx_m v + delta_rx_s v\<bar> \<le> 1000000000"
  by (auto simp: delays_small_def)

lemma run_stages:
  assumes p: "plant i v ph s" and l: "link_ok v ph rep L T"
    and s: "stage (clock_period_ps v) (estimate v (L 0) ph) (estimate v (L 0) ph - (delta_tx_m v + delta_rx_s v + k0)) 8 (steering_of i s)"
  shows "n \<le> 8 \<Longrightarrow> plant i v ph (link_run i rep k0 L T s n) \<and> (\<exists>k. k + n \<le> 8 \<and>
    stage (clock_period_ps v) (estimate v (L 0) ph) (estimate v (L 0) ph - (delta_tx_m v + delta_rx_s v + k0)) k
      (steering_of i (link_run i rep k0 L T s n)))"
proof (induction n)
  case 0
  show ?case using p s by auto
next
  case (Suc n)
  let ?s = "link_run i rep k0 L T s n"
  let ?d = "estimate v (L 0) ph" and ?z = "delta_tx_m v + delta_rx_s v + k0"
  obtain k where k: "k + n \<le> 8" "stage (clock_period_ps v) ?d (?d - ?z) k (steering_of i ?s)" and q: "plant i v ph ?s"
    using Suc.IH Suc.prems by (auto simp only: Suc_leD)
  have n: "n < 8" using Suc.prems by simp
  have L: "L n = L 0" "times_ok (T n)" "fibre_ok (L 0)" "0 \<le> ?d" "?d \<le> 2000000000"
    using l n unfolding link_ok_def by blast+
  have c: "clocks_ok rep" using l by (simp add: link_ok_def)
  have v: "delays_small v" "period_ok (clock_period_ps v)" using p by (simp_all add: plant_def)
  note e = lead_rest [of v "L 0" ph k0 ?s i]
  have "\<bar>rest (?d - ?z) (steering_of i ?s)\<bar> \<le> 10 ^ 26" using k(2) by (simp add: stage_def)
  moreover have "\<bar>excess v (L 0) ph\<bar> \<le> 10000000000"
    using L(3-5) estimate_fibre [OF v(1)] by (simp add: excess_def fibre_ok_def) linarith
  ultimately have b: "\<bar>lead k0 (L 0) ?s\<bar> \<le> 10 ^ 27" using e by simp
  have run: "link_run i rep k0 L T s (Suc n) = link_round i rep k0 (L 0) (T n) ?s" by (simp add: L(1))
  note r = round_steers [OF q L(3,4) c L(2) b, folded run]
  obtain j where j: "stage (clock_period_ps v) ?d (?d - ?z) j (steering_of i (link_run i rep k0 L T s (Suc n)))" "j < k \<or> j = 0"
    using stage_goes_on [OF v(2) k(2)] unfolding r(2) e by blast
  have "j + Suc n \<le> 8" using j(2) k(1) Suc.prems by linarith
  with r(1) j(1) show ?case by blast
qed

text \<open>After the eighth update: the fibre the last correction was for is the one of the last round, or of the one before.\<close>

definition tracks :: "nat \<Rightarrow> wr_servo_t \<Rightarrow> int \<Rightarrow> int \<Rightarrow> (nat \<Rightarrow> fibre) \<Rightarrow> nat \<Rightarrow> steering \<Rightarrow> bool" where
  "tracks i v ph k0 L n a \<longleftrightarrow> (let z = delta_tx_m v + delta_rx_s v + k0; d = (\<lambda>m. estimate v (L m) ph) in
     l_now a = WR_WAIT_SYNC_IDLE \<and> l_next a = WR_TRACK_PHASE \<and> follows z (d 0) (d (n - 1)) a \<or>
     l_now a = WR_TRACK_PHASE \<and> follows z (d 0) (d (n - 2)) a)"

lemma run_tracks:
  assumes p: "plant i v ph s" and l: "link_ok v ph rep L T"
    and s: "stage (clock_period_ps v) (estimate v (L 0) ph) (estimate v (L 0) ph - (delta_tx_m v + delta_rx_s v + k0)) 8 (steering_of i s)"
  shows "plant i v ph (link_run i rep k0 L T s (8 + n)) \<and> tracks i v ph k0 L (8 + n) (steering_of i (link_run i rep k0 L T s (8 + n)))"
proof (induction n)
  case 0
  let ?a = "steering_of i (link_run i rep k0 L T s 8)" and ?d = "estimate v (L 0) ph"
  have still: "L m = L 0" if "m < 8" for m using l that unfolding link_ok_def by blast
  have L: "L 7 = L 0" "L 6 = L 0" by (rule still, simp)+
  from run_stages [OF p l s, of 8] have "plant i v ph (link_run i rep k0 L T s 8)"
    "stage (clock_period_ps v) ?d (?d - (delta_tx_m v + delta_rx_s v + k0)) 0 ?a" by auto
  moreover from this(2) have "follows (delta_tx_m v + delta_rx_s v + k0) ?d ?d ?a" by (rule stage_follows)
  moreover from calculation(2) have "l_now ?a = WR_TRACK_PHASE \<or> l_now ?a = WR_WAIT_SYNC_IDLE \<and> l_next ?a = WR_TRACK_PHASE"
    by (simp add: stage_def)
  ultimately show ?case
    unfolding tracks_def Let_def by (simp only: add_0_right L diff_numeral_special) (auto simp: L)
next
  case (Suc n)
  let ?s = "link_run i rep k0 L T s (8 + n)" and ?z = "delta_tx_m v + delta_rx_s v + k0"
  let ?d = "\<lambda>m. estimate v (L m) ph" and ?a = "steering_of i ?s"
  have q: "plant i v ph ?s" and t: "tracks i v ph k0 L (8 + n) ?a" using Suc by blast+
  have v: "delays_small v" using p by (simp add: plant_def)
  have c: "clocks_ok rep" and L: "\<And>m. fibre_ok (L m)" "\<And>m. times_ok (T m)" "\<And>m. 0 \<le> ?d m" "\<And>m. ?d m \<le> 2000000000"
    using l unfolding link_ok_def by blast+
  obtain m where m: "rest (?d m - ?z) ?a = 0" using t by (auto simp: tracks_def follows_def Let_def)
  have e: "excess v (L m) ph = lead k0 (L m) ?s"
    using lead_rest [of v "L m" ph k0 ?s i] m by simp
  have "\<bar>lead k0 (L (8 + n)) ?s\<bar> \<le> 10 ^ 27"
  proof -
    have "lead k0 (L (8 + n)) ?s = excess v (L m) ph + fwd (L m) - fwd (L (8 + n))"
      unfolding e by (simp add: lead_def)
    then show ?thesis
      using L(1) [of m] L(1) [of "8 + n"] L(3,4) [of m] estimate_fibre [OF v]
      by (simp add: excess_def fibre_ok_def) linarith
  qed
  note r = round_steers [OF q L(1) L(3) c L(2) this]
  have run: "link_run i rep k0 L T s (8 + Suc n) = link_round i rep k0 (L (8 + n)) (T (8 + n)) ?s"
    by (simp only: add_Suc_right link_run.simps)
  have "tracks i v ph k0 L (8 + Suc n) (steer hw (?d (8 + n)) ?a)" for hw
    using t follows_waiting [of ?a ?z "?d 0" "?d (7 + n)" hw "?d (8 + n)"]
      follows_tracking [of ?a ?z "?d 0" "?d (6 + n)" "?d (8 + n)" hw] L(3,4)
    by (auto simp: tracks_def Let_def)
  then show ?case using r(1) unfolding run r(2) by blast
qed


text \<open>
  Two clocks 3 s, 4567 ns and 890 ps apart on a fibre of 100 ns: after eight updates they agree to
  the picosecond.
\<close>

definition stamped :: "int \<Rightarrow> wr_timestamp" where
  "stamped x = (ts_normal x)\<lparr>correct := 1\<rparr>"

definition a_servo :: "servo_state \<Rightarrow> event list \<Rightarrow> sys" where
  "a_servo st es = sys_zero\<lparr>world := quiet_env\<lparr>env_pps_cmd := \<lambda>_. (0, 1)\<rparr>, log := es, ports := \<lambda>_. port_zero\<lparr>wr_servo_ds :=
     servo_zero\<lparr>state := st, clock_period_ps := 8000, delta_tx_m := 46407, delta_rx_m := 167843,
       delta_tx_s := 7000, delta_rx_s := 9000\<rparr>\<rparr>\<rparr>"

definition a_fibre :: fibre where
  "a_fibre = \<lparr>fwd = 100000, bwd = 100000\<rparr>"

lemma stamped_ok: "clocks_ok stamped"
proof -
  have "wr_picos (stamped x) = wr_picos (ts_normal x)" for x by (simp add: wr_picos_def stamped_def)
  moreover have "ts_ok (stamped x)" for x
  proof -
    have "ts_ok (ts_normal x)" unfolding ts_ok_def using ts_normal_parts(2-5) [of x] by linarith
    then show ?thesis by (simp only: ts_ok_def stamped_def) simp
  qed
  ultimately show ?thesis by (simp add: clocks_ok_def) (simp add: stamped_def)
qed

lemma a_servo_plant: "plant i (wr_servo_ds (ports (a_servo st es) i)) 0 (a_servo st es)"
  by (simp add: plant_def a_servo_def hal_idle_def same_link_def delays_small_def period_ok_def cycle_def)

lemma a_fibre_estimate:
  "fibre_ok a_fibre" "estimate (wr_servo_ds (ports (a_servo st es) i)) a_fibre 0 = 155407"
  "excess (wr_servo_ds (ports (a_servo st es) i)) a_fibre 0 = 0"
  by (simp_all add: fibre_ok_def excess_def estimate_def delay_formula_def a_fibre_def a_servo_def)




end
