(* ===== verification/Net.thy ===== *)
theory Net
  imports NetIf
begin

text \<open>
  PTPWRd/dep/net.c: the layer between the protocol and libptpnetif. The Ethernet addresses
  of a port are its own, the PTP multicast address and the "unicast" one; the interface names
  are indices of ports (see NetIf).
\<close>

section \<open>Definitions\<close>

definition PTP_MULTICAST_ADDR :: "u8 list" where
  "PTP_MULTICAST_ADDR = [0x01, 0x1b, 0x19, 0, 0, 0]"

definition PTP_UNICAST_ADDR :: "u8 list" where
  "PTP_UNICAST_ADDR = [0x01, 0x1b, 0x19, 0, 0, 0]"

definition ZERO_ADDR :: "u8 list" where
  "ZERO_ADDR = [0, 0, 0, 0, 1, 0]"

definition lookupCommunicationTechnology :: "u8 \<Rightarrow> u8" where
  "lookupCommunicationTechnology communicationTechnology = 1"

definition netStartup :: "bool cmd" where
  "netStartup = do {
     r \<leftarrow> ptpd_netif_init;
     State_Monad.return (\<not> r < 0) }"

definition netInit :: "nat \<Rightarrow> bool cmd" where
  "netInit i = do {
     n \<leftarrow> gp i (\<lambda>p. uint (portNumber (portIdentity p)));
     if n - 1 < 0 then State_Monad.return False
     else do {
       given \<leftarrow> go (\<lambda>r. opt_iface_given r (nat (n - 1)));
       whenM (\<not> given) (do { r \<leftarrow> ptpd_netif_get_ifName (n - 1); skip });
       ok \<leftarrow> ptpd_netif_create_socket i;
       if \<not> ok then State_Monad.return False
       else do {
         unicast \<leftarrow> go opt_unicast_given;
         cfg \<leftarrow> go opt_wrConfig;
         upd i (\<lambda>p. p\<lparr>netPath := (netPath p)\<lparr>
           unicastAddr := if unicast then PTP_UNICAST_ADDR else ZERO_ADDR,
           multicastAddr := PTP_MULTICAST_ADDR\<rparr>\<rparr>);
         upd i (\<lambda>p. p\<lparr>port_uuid_field := local_mac (netPath p),
           netPath := (netPath p)\<lparr>selfAddr := local_mac (netPath p)\<rparr>, wrConfig := cfg\<rparr>);
         State_Monad.return True } } }"

definition autoDetectPortWrConfig :: "nat \<Rightarrow> bool cmd" where
  "autoDetectPortWrConfig i = do {
     ps \<leftarrow> halexp_get_port_state i;
     let mode = hps_mode (snd ps);
     upd i (\<lambda>p. p\<lparr>wrConfig := if mode = 4 then WR_M_AND_S else if mode = 1 then WR_M_ONLY
                          else if mode = 2 then WR_S_ONLY else NON_WR\<rparr>);
     State_Monad.return (mode \<in> {1, 2, 3, 4}) }"

text \<open>
  The receive buffer of a port has 1024 octets, and \<open>netRecvMsg\<close> lets up to 1518 be written
  from its start; the list \<open>msgIbuf\<close> grows when they are, so an overflow of the C array is
  a list longer than 1024. \<open>recvfrom\<close> fills in the sender only with a frame; without one the
  length it returned is zero and the outcome is the same whatever the address is.
\<close>

definition netRecvMsg :: "nat \<Rightarrow> int cmd" where
  "netRecvMsg i = do {
     ts \<leftarrow> gp i current_rx_ts;
     r \<leftarrow> ptpd_netif_recvfrom i 1518 ts;
     let (ret, frame, ts') = r;
     upd i (\<lambda>p. p\<lparr>current_rx_ts := ts'\<rparr>);
     case frame of
       None \<Rightarrow> State_Monad.return (if ret < 0 then ret else 0)
     | Some f \<Rightarrow> do {
         upd i (\<lambda>p. p\<lparr>msgIbuf := pkt_data f @ drop (length (pkt_data f)) (msgIbuf p)\<rparr>);
         n \<leftarrow> gp i netPath;
         let drop = \<not> (memcmp (h_dest f) (selfAddr n) = 0 \<or> memcmp (h_dest f) (multicastAddr n) = 0 \<or>
                      memcmp (h_dest f) (unicastAddr n) = 0);
         State_Monad.return (if ret < 0 then ret else if drop then 0 else ret) } }"

text \<open>
  The four senders put \<open>len\<close> octets of the output buffer on the multicast address. The
  event ones hand back the transmit timestamp through \<open>current\_tx\_ts\<close>.
\<close>

definition netSendEvent :: "nat \<Rightarrow> u16 \<Rightarrow> wr_timestamp \<Rightarrow> (int \<times> wr_timestamp) cmd" where
  "netSendEvent i len current_tx_ts = do {
     b \<leftarrow> gp i msgObuf;
     to \<leftarrow> gp i (multicastAddr \<circ> netPath);
     ptpd_netif_sendto i to 0x88f7 (take (unat len) b) current_tx_ts }"

definition netSendGeneral :: "nat \<Rightarrow> u16 \<Rightarrow> int cmd" where
  "netSendGeneral i len = do {
     b \<leftarrow> gp i msgObuf;
     to \<leftarrow> gp i (multicastAddr \<circ> netPath);
     r \<leftarrow> ptpd_netif_sendto i to 0x88f7 (take (unat len) b) wrts_zero;
     State_Monad.return (fst r) }"

definition netSendPeerGeneral :: "nat \<Rightarrow> u16 \<Rightarrow> int cmd" where
  "netSendPeerGeneral i len = do {
     b \<leftarrow> gp i msgObuf;
     to \<leftarrow> gp i (multicastAddr \<circ> netPath);
     r \<leftarrow> ptpd_netif_sendto i to 0x88f7 (take (unat len) b) wrts_zero;
     State_Monad.return (fst r) }"

definition netSendPeerEvent :: "nat \<Rightarrow> u16 \<Rightarrow> wr_timestamp \<Rightarrow> (int \<times> wr_timestamp) cmd" where
  "netSendPeerEvent i len current_tx_ts = do {
     b \<leftarrow> gp i msgObuf;
     to \<leftarrow> gp i (multicastAddr \<circ> netPath);
     ptpd_netif_sendto i to 0x88f7 (take (unat len) b) current_tx_ts }"

definition netEnablePhaseTracking :: "nat \<Rightarrow> int cmd" where
  "netEnablePhaseTracking i = ptpd_netif_enable_phase_tracking i"

text \<open>
  \<open>fuel\<close> bounds the \<open>for(;;)\<close> over the ports of the HAL: the scan ends at the first port
  the HAL does not have, so one more than their number is enough.
\<close>

fun port_scan :: "nat \<Rightarrow> int \<Rightarrow> int cmd" where
  "port_scan 0 n = State_Monad.return n"
| "port_scan (Suc fuel) n = do {
     r \<leftarrow> ptpd_netif_get_ifName n;
     if r = PTPD_NETIF_OK then port_scan fuel (s32 (n + 1)) else State_Monad.return n }"

definition autoPortNumberDiscovery :: "nat \<Rightarrow> u16 cmd" where
  "autoPortNumberDiscovery fuel = do {
     n \<leftarrow> port_scan fuel 0;
     State_Monad.return (word_of_int n) }"

section \<open>Properties\<close>

lemma port_scan_result:
  assumes "\<And>k. env_query_ports (world s) k = N" "0 \<le> n" "n \<le> N" "N < 65536" "nat (N - n) < fuel"
  shows "fst (run_state (port_scan fuel n) s) = N"
  using assms
proof (induction fuel arbitrary: n s)
  case (Suc fuel)
  show ?case
  proof (cases "n < N")
    case True
    have "s32 (n + 1) = n + 1" using True Suc.prems(2,4) by (intro s32_id) auto
    moreover have "fst (run_state (port_scan fuel (n + 1)) (s\<lparr>ncall := Suc (ncall s)\<rparr>)) = N"
      using True Suc.prems by (intro Suc.IH) auto
    ultimately show ?thesis using True Suc.prems(1,2) by (simp add: ptpd_netif_get_ifName_def)
  qed (use Suc.prems in \<open>simp add: ptpd_netif_get_ifName_def\<close>)
qed simp

text \<open>
  C37. \<open>autoPortNumberDiscovery\<close> ends and returns the number of ports the HAL has: any fuel
  above that number gives the result.
\<close>
theorem autoPortNumberDiscovery_counts:
  assumes "\<And>k. env_query_ports (world s) k = N" "0 \<le> N" "N < 65536" "nat N < fuel"
  shows "uint (fst (run_state (autoPortNumberDiscovery fuel) s)) = N"
proof -
  have "fst (run_state (port_scan fuel 0) s) = N"
    using assms by (intro port_scan_result) auto
  moreover have "uint (word_of_int N :: u16) = N"
    using assms(2,3) by (simp only: uint_word_of_int) (rule mod_pos_pos_trivial, simp_all)
  ultimately show ?thesis
    by (simp add: autoPortNumberDiscovery_def split_beta)
qed

theorem autoPortNumberDiscovery_counts_witness:
  "uint (fst (run_state (autoPortNumberDiscovery 9) sys_zero)) = 1"
  by (rule autoPortNumberDiscovery_counts) simp_all

definition rx_length :: "rx_result \<Rightarrow> nat" where
  "rx_length r = (case r of RX_FRAME f \<Rightarrow> length (pkt_data f) | _ \<Rightarrow> 0)"

text \<open>
  C34. The receive buffer: a frame of at most 1024 octets leaves it 1024 octets long, and a
  longer one makes \<open>netRecvMsg\<close> write past it, since the length it passes to \<open>recvfrom\<close> is
  the 1518 of an Ethernet frame and not the size of the buffer.
\<close>
theorem netRecvMsg_buffer:
  assumes "length (msgIbuf (ports s i)) = 1024"
  shows "length (msgIbuf (ports (exec (netRecvMsg i) s) i)) =
    max 1024 (min 1518 (rx_length (env_recvmsg (world s) (ncall s))))"
proof -
  have "wp (netRecvMsg i) (\<lambda>_ s'. length (msgIbuf (ports s' i)) =
      max 1024 (min 1518 (rx_length (env_recvmsg (world s) (ncall s))))) s"
    using assms
    by (auto simp: netRecvMsg_def ptpd_netif_recvfrom_def update_dmtd_def tmo_expired_def get_tics_def
        tmo_restart_def halexp_get_port_state_def wp_simps Let_def rx_length_def
        split: rx_result.splits option.splits)
  then show ?thesis by (simp add: wp_exec)
qed

definition long_frame :: rx_frame where
  "long_frame = \<lparr>h_dest = PTP_MULTICAST_ADDR, h_source = replicate 6 1, h_proto = 0x88f7,
     pkt_data = replicate 1500 0, hwtimeraw = None\<rparr>"

theorem netRecvMsg_buffer_witness:
  "length (msgIbuf (ports (exec (netRecvMsg 0)
     (sys_zero\<lparr>world := quiet_env\<lparr>env_recvmsg := \<lambda>_. RX_FRAME long_frame\<rparr>\<rparr>)) 0)) = 1500"
  by (subst netRecvMsg_buffer) (simp_all add: rx_length_def long_frame_def)

end
