(* ===== verification/States.thy ===== *)
theory States
  imports Net Timer Msg Bmc Servo
begin

text \<open>
  Entering and leaving states: \<open>toState\<close> and \<open>issueWRSignalingMsg\<close> of PTPWRd/protocol.c,
  \<open>toWRState\<close>, \<open>wrTimetoutManage\<close> and \<open>initWrData\<close> of PTPWRd/wr\_protocol.c, and
  \<open>initDataPort\<close> of PTPWRd/bmc.c. In the code \<open>toState\<close>, \<open>toWRState\<close> and
  \<open>issueWRSignalingMsg\<close> call each other; \<open>issueWRSignalingMsg\<close> asks for PTP\_FAULTY only,
  and entering PTP\_FAULTY calls nothing, so the recursion stops after one turn.
  \<open>toState_with\<close> takes what it does to enter a White Rabbit state as an argument,
  \<open>toFaulty\<close> needs none, and \<open>toState_faulty\<close> shows it is \<open>toState PTP_FAULTY\<close>.
\<close>

unbundle bit_operations_syntax

section \<open>White Rabbit data\<close>

definition isPortUp :: "nat \<Rightarrow> bool cmd" where
  "isPortUp i = do {
     r \<leftarrow> ptpd_netif_get_port_state i;
     State_Monad.return (r = PTPD_NETIF_OK) }"

fun returnCurrentWRMainState :: "wr_state \<Rightarrow> wr_state" where
  "returnCurrentWRMainState WRS_S_LOCK_1 = WRS_S_LOCK"
| "returnCurrentWRMainState WRS_S_LOCK_2 = WRS_S_LOCK"
| "returnCurrentWRMainState WRS_CALIBRATION_1 = WRS_CALIBRATION"
| "returnCurrentWRMainState WRS_CALIBRATION_2 = WRS_CALIBRATION"
| "returnCurrentWRMainState WRS_CALIBRATION_3 = WRS_CALIBRATION"
| "returnCurrentWRMainState WRS_CALIBRATION_4 = WRS_CALIBRATION"
| "returnCurrentWRMainState WRS_CALIBRATION_5 = WRS_CALIBRATION"
| "returnCurrentWRMainState WRS_CALIBRATION_6 = WRS_CALIBRATION"
| "returnCurrentWRMainState WRS_CALIBRATION_7 = WRS_CALIBRATION"
| "returnCurrentWRMainState WRS_CALIBRATION_8 = WRS_CALIBRATION"
| "returnCurrentWRMainState WRS_RESP_CALIB_REQ_1 = WRS_RESP_CALIB_REQ"
| "returnCurrentWRMainState WRS_RESP_CALIB_REQ_2 = WRS_RESP_CALIB_REQ"
| "returnCurrentWRMainState WRS_RESP_CALIB_REQ_3 = WRS_RESP_CALIB_REQ"
| "returnCurrentWRMainState st = st"

text \<open>The states with a timer: those below WR\_TIMER\_ARRAY\_SIZE in the enumeration.\<close>

definition timed_states :: "wr_state list" where
  "timed_states = [WRS_PRESENT, WRS_S_LOCK, WRS_M_LOCK, WRS_LOCKED, WRS_CALIBRATION, WRS_CALIBRATED,
     WRS_RESP_CALIB_REQ, WRS_WR_LINK_ON]"

definition wrTimetoutManage :: "wr_state \<Rightarrow> wr_state \<Rightarrow> nat \<Rightarrow> unit cmd" where
  "wrTimetoutManage enteringState exitingState i = do {
     (if enteringState \<noteq> exitingState then upd i (\<lambda>p. p\<lparr>currentWRstateCnt := 0\<rparr>)
      else upd i (\<lambda>p. p\<lparr>currentWRstateCnt := currentWRstateCnt p + 1\<rparr>));
     whenM (exitingState \<noteq> WRS_IDLE) (timerStop (T_wr i exitingState));
     whenM (enteringState \<noteq> WRS_IDLE) (do {
       iv \<leftarrow> gp i (\<lambda>p. wrTimeouts p enteringState);
       timerStart (T_wr i enteringState) iv }) }"

text \<open>A fixed delay in picoseconds, scaled by 2^16, as its two 32-bit words.\<close>

definition scaled_delta :: "u64 \<Rightarrow> FixedDelta" where
  "scaled_delta d = \<lparr>delta_msb = ucast (drop_bit 16 d), delta_lsb = ucast (push_bit 16 d)\<rparr>"

text \<open>\<open>d_tx\<close> and \<open>d_rx\<close> stay uninitialised when the HAL has no calibration data.\<close>

definition initWrData :: "nat \<Rightarrow> init_mode \<Rightarrow> unit cmd" where
  "initWrData i mode = do {
     u_tx \<leftarrow> ext env_stack;
     u_rx \<leftarrow> ext env_stack;
     upd i (\<lambda>p. p\<lparr>wrModeON := False, wrPortState := WRS_IDLE,
                  calibrated := \<not> phyCalibrationRequired p\<rparr>);
     cal \<leftarrow> ptpd_netif_read_calibration_data i;
     let (d_tx, d_rx) = (case cal of None \<Rightarrow> (word_of_int u_tx, word_of_int u_rx)
                         | Some (tx, rx, _, _) \<Rightarrow> (tx, rx));
     upd i (\<lambda>p. if \<not> phyCalibrationRequired p
                then p\<lparr>deltaTx := scaled_delta d_tx, deltaRx := scaled_delta d_rx\<rparr>
                else p\<lparr>deltaTx := fd_zero, deltaRx := fd_zero\<rparr>);
     upd i (\<lambda>p. p\<lparr>parentWrConfig := NON_WR, parentWrModeON := False, parentCalibrated := False,
       otherNodeCalPeriod := 0, otherNodeCalRetry := 0, otherNodeCalSendPattern := 0,
       otherNodeDeltaTx := fd_zero, otherNodeDeltaRx := fd_zero,
       wrTimeouts := (\<lambda>st. if st = WRS_PRESENT then 1000
                           else if st = WRS_S_LOCK \<or> st = WRS_M_LOCK then 10000
                           else if st \<in> set timed_states then s32 (uint (wrStateTimeout p))
                           else wrTimeouts p st)\<rparr>);
     whenM (mode = INIT) (upd i (\<lambda>p. p\<lparr>wrMode := NON_WR, wrSlaveRole := NON_SLAVE\<rparr>)) }"

section \<open>The PTP state\<close>

definition leave_state :: "nat \<Rightarrow> unit cmd" where
  "leave_state i = do {
     st \<leftarrow> gp i portState;
     case st of
       PTP_MASTER \<Rightarrow> do {
         timerStop (T_sync i); timerStop (T_announceInterval i); timerStop (T_pdelayReq i) }
     | PTP_SLAVE \<Rightarrow> do {
         timerStop (T_announceReceipt i);
         e2e \<leftarrow> go E2E_mode;
         (if e2e then timerStop (T_delayReq i) else timerStop (T_pdelayReq i));
         upd i (\<lambda>p. p\<lparr>wrMode := NON_WR, wrModeON := False\<rparr>) }
     | PTP_PASSIVE \<Rightarrow> do { timerStop (T_pdelayReq i); timerStop (T_announceReceipt i) }
     | PTP_LISTENING \<Rightarrow> timerStop (T_announceReceipt i)
     | _ \<Rightarrow> skip }"

definition announce_timeout :: "PtpPortDS \<Rightarrow> int" where
  "announce_timeout p = s32 (uint (announceReceiptTimeout p) * 1000 * pow_2 (logAnnounceInterval p))"

text \<open>The port may become a White Rabbit slave of its parent.\<close>

definition wr_candidate :: "PtpPortDS \<Rightarrow> bool" where
  "wr_candidate p \<longleftrightarrow> wrMode p = WR_SLAVE \<and> (wrConfig p = WR_S_ONLY \<or> wrConfig p = WR_M_AND_S) \<and>
     (parentWrConfig p = WR_M_ONLY \<or> parentWrConfig p = WR_M_AND_S)"

definition enter_slave :: "nat \<Rightarrow> unit cmd" where
  "enter_slave i = do {
     r \<leftarrow> wr_servo_init i;
     upd i (\<lambda>p. p\<lparr>waitingForFollow := False,
       pdelay_req_send_time := (pdelay_req_send_time p)\<lparr>seconds := 0, nanoseconds := 0\<rparr>,
       pdelay_req_receive_time := (pdelay_req_receive_time p)\<lparr>seconds := 0, nanoseconds := 0\<rparr>,
       pdelay_resp_send_time := (pdelay_resp_send_time p)\<lparr>seconds := 0, nanoseconds := 0\<rparr>,
       pdelay_resp_receive_time := (pdelay_resp_receive_time p)\<lparr>seconds := 0, nanoseconds := 0\<rparr>\<rparr>);
     p \<leftarrow> gp i (\<lambda>p. p);
     timerStart (T_announceReceipt i) (announce_timeout p);
     e2e \<leftarrow> go E2E_mode;
     (if e2e then timerStart (T_delayReq i) (1000 * pow_2 (logMinDelayReqInterval p))
      else timerStart (T_pdelayReq i) (1000 * pow_2 (logMinPdelayReqInterval p)));
     upd i (\<lambda>p. p\<lparr>portState := PTP_SLAVE\<rparr>) }"

definition enter_state :: "(wr_state \<Rightarrow> nat \<Rightarrow> unit cmd) \<Rightarrow> ptp_state \<Rightarrow> nat \<Rightarrow> unit cmd" where
  "enter_state to_wr st i = do {
     p \<leftarrow> gp i (\<lambda>p. p);
     case st of
       PTP_INITIALIZING \<Rightarrow> upd i (\<lambda>p. p\<lparr>portState := PTP_INITIALIZING\<rparr>)
     | PTP_FAULTY \<Rightarrow> upd i (\<lambda>p. p\<lparr>portState := PTP_FAULTY\<rparr>)
     | PTP_DISABLED \<Rightarrow> upd i (\<lambda>p. p\<lparr>portState := PTP_DISABLED\<rparr>)
     | PTP_LISTENING \<Rightarrow> do {
         timerStart (T_announceReceipt i) (announce_timeout p);
         upd i (\<lambda>p. p\<lparr>portState := PTP_LISTENING\<rparr>) }
     | PTP_MASTER \<Rightarrow> do {
         timerStart (T_sync i) (1000 * pow_2 (logSyncInterval p));
         timerStart (T_announceInterval i) (1000 * pow_2 (logAnnounceInterval p));
         timerStart (T_pdelayReq i) (1000 * pow_2 (logMinPdelayReqInterval p));
         upd i (\<lambda>p. p\<lparr>portState := PTP_MASTER\<rparr>) }
     | PTP_PASSIVE \<Rightarrow> do {
         timerStart (T_pdelayReq i) (1000 * pow_2 (logMinPdelayReqInterval p));
         timerStart (T_announceInterval i) (announce_timeout p);
         upd i (\<lambda>p. p\<lparr>portState := PTP_PASSIVE\<rparr>) }
     | PTP_UNCALIBRATED \<Rightarrow>
         if wr_candidate p then
           if \<not> parentWrModeON p \<or> \<not> wrModeON p then do {
             to_wr WRS_PRESENT i;
             upd i (\<lambda>p. p\<lparr>portState := PTP_UNCALIBRATED\<rparr>) }
           else upd i (\<lambda>p. p\<lparr>portState := PTP_SLAVE\<rparr>)
         else upd i (\<lambda>p. p\<lparr>wrMode := NON_WR, portState := PTP_SLAVE\<rparr>)
     | PTP_SLAVE \<Rightarrow> enter_slave i
     | PTP_PRE_MASTER \<Rightarrow> skip }"

definition toState_with :: "(wr_state \<Rightarrow> nat \<Rightarrow> unit cmd) \<Rightarrow> ptp_state \<Rightarrow> nat \<Rightarrow> unit cmd" where
  "toState_with to_wr st i = do {
     w \<leftarrow> gp i wrPortState;
     if w \<noteq> WRS_IDLE then skip
     else do {
       upd i (\<lambda>p. p\<lparr>message_activity := True\<rparr>);
       leave_state i;
       enter_state to_wr st i } }"

definition toFaulty :: "nat \<Rightarrow> unit cmd" where
  "toFaulty i = toState_with (\<lambda>_ _. skip) PTP_FAULTY i"

section \<open>The White Rabbit state\<close>

definition issueWRSignalingMsg :: "u16 \<Rightarrow> nat \<Rightarrow> unit cmd" where
  "issueWRSignalingMsg wrMessageID i = do {
     p \<leftarrow> gp i (\<lambda>p. p);
     c \<leftarrow> gc (\<lambda>c. c);
     let (len, b) = msgPackWRSignalingMsg p c wrMessageID (msgObuf p);
     upd i (\<lambda>p. p\<lparr>msgObuf := b\<rparr>);
     r \<leftarrow> netSendGeneral i len;
     whenM (r = 0) (toFaulty i) }"

definition enter_S_LOCK :: "nat \<Rightarrow> unit cmd" where
  "enter_S_LOCK i = do {
     role \<leftarrow> gp i wrSlaveRole;
     whenM (role = PRIMARY_SLAVE \<or> role = SECONDARY_SLAVE) (do {
       r \<leftarrow> ptpd_netif_locking_enable i;
       upd i (\<lambda>p. p\<lparr>wrPortState := if r = PTPD_NETIF_OK then WRS_S_LOCK_1 else WRS_S_LOCK\<rparr>) }) }"

definition enter_CALIBRATION :: "nat \<Rightarrow> unit cmd" where
  "enter_CALIBRATION i = do {
     issueWRSignalingMsg CALIBRATE i;
     upd i (\<lambda>p. p\<lparr>wrTimeouts := (wrTimeouts p)(WRS_CALIBRATION :=
       s32 (uint (if calPeriod p > 0 then calPeriod p else wrStateTimeout p)))\<rparr>);
     cal \<leftarrow> gp i calibrated;
     if cal then upd i (\<lambda>p. p\<lparr>wrPortState := WRS_CALIBRATION_2\<rparr>)
     else do {
       r \<leftarrow> ptpd_netif_calibration_pattern_enable i;
       if r = PTPD_NETIF_OK then do {
         r \<leftarrow> ptpd_netif_calibrating_enable i;
         upd i (\<lambda>p. p\<lparr>wrPortState := if r = PTPD_NETIF_OK then WRS_CALIBRATION_2 else WRS_CALIBRATION_1\<rparr>) }
       else upd i (\<lambda>p. p\<lparr>wrPortState := WRS_CALIBRATION\<rparr>) } }"

definition enter_RESP_CALIB_REQ :: "nat \<Rightarrow> unit cmd" where
  "enter_RESP_CALIB_REQ i = do {
     send \<leftarrow> gp i otherNodeCalSendPattern;
     if send = 1 then do {
       upd i (\<lambda>p. p\<lparr>wrTimeouts := (wrTimeouts p)(WRS_RESP_CALIB_REQ :=
         s32 (uint (if otherNodeCalPeriod p > 0 then otherNodeCalPeriod p else wrStateTimeout p)))\<rparr>);
       r \<leftarrow> ptpd_netif_calibration_pattern_enable i;
       upd i (\<lambda>p. p\<lparr>wrPortState := if r = PTPD_NETIF_OK then WRS_RESP_CALIB_REQ_1 else WRS_RESP_CALIB_REQ\<rparr>) }
     else upd i (\<lambda>p. p\<lparr>wrPortState := WRS_RESP_CALIB_REQ_1\<rparr>) }"

definition enter_WR_LINK_ON :: "nat \<Rightarrow> unit cmd" where
  "enter_WR_LINK_ON i = do {
     upd i (\<lambda>p. p\<lparr>wrModeON := True\<rparr>);
     r \<leftarrow> netEnablePhaseTracking i;
     m \<leftarrow> gp i wrMode;
     whenM (m = WR_MASTER) (issueWRSignalingMsg WR_MODE_ON i);
     upd i (\<lambda>p. p\<lparr>parentWrModeON := True,
       foreign := (foreign p)[nat (foreign_record_best p) :=
         (foreign p ! nat (foreign_record_best p))\<lparr>fm_announce :=
            (fm_announce (foreign p ! nat (foreign_record_best p)))\<lparr>wr_flags :=
               wr_flags (fm_announce (foreign p ! nat (foreign_record_best p))) OR WR_IS_WR_MODE\<rparr>\<rparr>],
       parentCalibrated := True, wrPortState := WRS_WR_LINK_ON\<rparr>) }"

definition enter_wr_state :: "wr_state \<Rightarrow> nat \<Rightarrow> unit cmd" where
  "enter_wr_state st i =
    (case st of
       WRS_IDLE \<Rightarrow> upd i (\<lambda>p. p\<lparr>wrPortState := WRS_IDLE\<rparr>)
     | WRS_PRESENT \<Rightarrow> do {
         issueWRSignalingMsg SLAVE_PRESENT i; upd i (\<lambda>p. p\<lparr>wrPortState := WRS_PRESENT\<rparr>) }
     | WRS_S_LOCK \<Rightarrow> enter_S_LOCK i
     | WRS_LOCKED \<Rightarrow> do {
         issueWRSignalingMsg LOCKED i; upd i (\<lambda>p. p\<lparr>wrPortState := WRS_LOCKED\<rparr>) }
     | WRS_M_LOCK \<Rightarrow> do {
         issueWRSignalingMsg LOCK i; upd i (\<lambda>p. p\<lparr>wrPortState := WRS_M_LOCK\<rparr>) }
     | WRS_CALIBRATION \<Rightarrow> enter_CALIBRATION i
     | WRS_CALIBRATED \<Rightarrow> upd i (\<lambda>p. p\<lparr>wrPortState := WRS_CALIBRATED\<rparr>)
     | WRS_RESP_CALIB_REQ \<Rightarrow> enter_RESP_CALIB_REQ i
     | WRS_WR_LINK_ON \<Rightarrow> enter_WR_LINK_ON i
     | _ \<Rightarrow> skip)"

definition toWRState :: "wr_state \<Rightarrow> nat \<Rightarrow> unit cmd" where
  "toWRState enteringState i = do {
     w \<leftarrow> gp i wrPortState;
     let exitingState = returnCurrentWRMainState w;
     whenM (w = WRS_IDLE) (initWrData i RE_INIT);
     enter_wr_state enteringState i;
     wrTimetoutManage enteringState exitingState i }"

definition toState :: "ptp_state \<Rightarrow> nat \<Rightarrow> unit cmd" where
  "toState st i = toState_with toWRState st i"

lemma toState_faulty: "toState PTP_FAULTY i = toFaulty i"
  by (simp add: toState_def toFaulty_def toState_with_def enter_state_def cong: if_cong)

section \<open>Initialising a port\<close>

text \<open>
  The clock identity: the six octets of the MAC address around FF FE, with octet 5 replaced
  (and the remaining octets of the address moved up) by the override of the options.
\<close>

definition port_clock_identity :: "u8 \<Rightarrow> u8 list \<Rightarrow> u8 list" where
  "port_clock_identity override uuid =
    (if override \<noteq> 0
     then [uuid ! 0, uuid ! 1, uuid ! 2, 0xFF, 0xFE, override, uuid ! 3, uuid ! 4]
     else [uuid ! 0, uuid ! 1, uuid ! 2, 0xFF, 0xFE, uuid ! 3, uuid ! 4, uuid ! 5])"

definition initDataPort :: "nat \<Rightarrow> unit cmd" where
  "initDataPort i = do {
     r \<leftarrow> go (\<lambda>r. r);
     n \<leftarrow> gc numberPorts;
     upd i (\<lambda>p. p\<lparr>doRestart := False,
       port_clockIdentity := port_clock_identity (overrideClockIdentity r) (port_uuid_field p),
       wrConfig := opt_wrConfig r, phyCalibrationRequired := opt_phyCalibrationRequired r,
       wrStateTimeout := opt_wrStateTimeout r, wrStateRetry := opt_wrStateRetry r,
       calPeriod := opt_calPeriod r, calRetry := ucast (n + 2)\<rparr>);
     initWrData i INIT;
     upd i (\<lambda>p. p\<lparr>portIdentity := (portIdentity p)\<lparr>clockIdentity := port_clockIdentity p\<rparr>,
       logMinDelayReqInterval := 0,
       peerMeanPathDelay := (peerMeanPathDelay p)\<lparr>seconds := 0, nanoseconds := 0\<rparr>,
       logAnnounceInterval := opt_announceInterval r, announceReceiptTimeout := 6,
       logSyncInterval := opt_syncInterval r, delayMechanism := 1, logMinPdelayReqInterval := 1,
       versionNumber := 2, number_foreign_records := 0,
       max_foreign_records := opt_max_foreign_records r\<rparr>) }"

end
