(* ===== verification/Handlers.thy ===== *)
theory Handlers
  imports States Arith
begin

text \<open>
  The messages of PTPWRd/protocol.c: the \<open>issue\<close> functions that send one and the \<open>handle\<close>
  functions that act on one received, with the table of foreign masters. A handler gets
  the header \<open>handle\<close> has unpacked into \<open>msgTmpHeader\<close> by value, and finds the message in
  the port's \<open>msgIbuf\<close>.
\<close>

unbundle bit_operations_syntax

section \<open>Sending\<close>

definition issueAnnounce :: "nat \<Rightarrow> unit cmd" where
  "issueAnnounce i = do {
     p \<leftarrow> gp i (\<lambda>p. p);
     c \<leftarrow> gc (\<lambda>c. c);
     upd i (\<lambda>p. p\<lparr>msgObuf := msgPackAnnounce p c (msgObuf p)\<rparr>);
     r \<leftarrow> netSendGeneral i (if announces_wr p then WR_ANNOUNCE_LENGTH else ANNOUNCE_LENGTH);
     if r = 0 then toState PTP_FAULTY i
     else upd i (\<lambda>p. p\<lparr>sentAnnounceSequenceId := sentAnnounceSequenceId p + 1\<rparr>) }"

definition issueSync :: "nat \<Rightarrow> unit cmd" where
  "issueSync i = do {
     upd i (\<lambda>p. p\<lparr>msgObuf := msgPackSync ts_zero p (msgObuf p)\<rparr>);
     ts \<leftarrow> gp i synch_tx_ts;
     r \<leftarrow> netSendEvent i SYNC_LENGTH ts;
     upd i (\<lambda>p. p\<lparr>synch_tx_ts := snd r\<rparr>);
     if fst r = 0 then toState PTP_FAULTY i
     else upd i (\<lambda>p. p\<lparr>sentSyncSequenceId := sentSyncSequenceId p + 1\<rparr>) }"

definition issueFollowup :: "nat \<Rightarrow> unit cmd" where
  "issueFollowup i = do {
     upd i (\<lambda>p. p\<lparr>msgObuf := msgPackFollowUp p (msgObuf p)\<rparr>);
     r \<leftarrow> netSendGeneral i FOLLOW_UP_LENGTH;
     whenM (r = 0) (toState PTP_FAULTY i) }"

definition issueDelayReq :: "nat \<Rightarrow> unit cmd" where
  "issueDelayReq i = do {
     upd i (\<lambda>p. p\<lparr>msgObuf := msgPackDelayReq ts_zero p (msgObuf p)\<rparr>);
     ts \<leftarrow> gp i delayReq_tx_ts;
     r \<leftarrow> netSendEvent i DELAY_REQ_LENGTH ts;
     upd i (\<lambda>p. p\<lparr>delayReq_tx_ts := snd r\<rparr>);
     if fst r = 0 then toState PTP_FAULTY i
     else upd i (\<lambda>p. p\<lparr>sentDelayReqSequenceId := sentDelayReqSequenceId p + 1\<rparr>) }"

definition issuePDelayReq :: "nat \<Rightarrow> unit cmd" where
  "issuePDelayReq i = do {
     upd i (\<lambda>p. p\<lparr>msgObuf := msgPackPDelayReq ts_zero p (msgObuf p)\<rparr>);
     ts \<leftarrow> gp i pDelayReq_tx_ts;
     r \<leftarrow> netSendPeerEvent i PDELAY_REQ_LENGTH ts;
     upd i (\<lambda>p. p\<lparr>pDelayReq_tx_ts := snd r\<rparr>);
     if fst r = 0 then toState PTP_FAULTY i
     else upd i (\<lambda>p. p\<lparr>sentPDelayReqSequenceId := sentPDelayReqSequenceId p + 1\<rparr>) }"

text \<open>
  A local \<open>TimeInternal\<close> nothing has been written to: \<open>toInternalTime\<close> leaves it as it is
  when the value does not fit.
\<close>

definition uninit_time :: "TimeInternal cmd" where
  "uninit_time = do {
     a \<leftarrow> ext env_stack; b \<leftarrow> ext env_stack; c \<leftarrow> ext env_stack; d \<leftarrow> ext env_stack;
     State_Monad.return \<lparr>seconds = s32 a, nanoseconds = s32 b, ti_phase = s32 c, ti_correct = s32 d\<rparr> }"

text \<open>
  The \<open>Timestamp\<close> the two peer delay responses compute from \<open>time\<close> is not used: the packers
  take the hardware timestamps of the port instead.
\<close>

definition issuePDelayResp :: "TimeInternal \<Rightarrow> MsgHeader \<Rightarrow> nat \<Rightarrow> unit cmd" where
  "issuePDelayResp time header i = do {
     upd i (\<lambda>p. p\<lparr>msgObuf := msgPackPDelayResp header p (msgObuf p)\<rparr>);
     ts \<leftarrow> gp i pDelayResp_tx_ts;
     r \<leftarrow> netSendPeerEvent i PDELAY_RESP_LENGTH ts;
     upd i (\<lambda>p. p\<lparr>pDelayResp_tx_ts := snd r\<rparr>);
     whenM (fst r = 0) (toState PTP_FAULTY i) }"

definition issueDelayResp :: "MsgHeader \<Rightarrow> nat \<Rightarrow> unit cmd" where
  "issueDelayResp header i = do {
     upd i (\<lambda>p. p\<lparr>msgObuf := msgPackDelayResp header p (msgObuf p)\<rparr>);
     r \<leftarrow> netSendGeneral i PDELAY_RESP_LENGTH;
     whenM (r = 0) (toState PTP_FAULTY i) }"

definition issuePDelayRespFollowUp :: "TimeInternal \<Rightarrow> MsgHeader \<Rightarrow> nat \<Rightarrow> unit cmd" where
  "issuePDelayRespFollowUp time header i = do {
     upd i (\<lambda>p. p\<lparr>msgObuf := msgPackPDelayRespFollowUp header p (msgObuf p)\<rparr>);
     r \<leftarrow> netSendPeerGeneral i PDELAY_RESP_FOLLOW_UP_LENGTH;
     whenM (r = 0) (toState PTP_FAULTY i) }"

section \<open>Foreign masters\<close>

definition upd_record :: "nat \<Rightarrow> int \<Rightarrow> (ForeignMasterRecord \<Rightarrow> ForeignMasterRecord) \<Rightarrow> unit cmd" where
  "upd_record i j f = upd i (\<lambda>p. p\<lparr>foreign := (foreign p)[nat j := f (foreign p ! nat j)]\<rparr>)"

definition same_port :: "MsgHeader \<Rightarrow> PortIdentity \<Rightarrow> bool" where
  "same_port header pid \<longleftrightarrow>
     memcmp (clockIdentity (sourcePortIdentity header)) (clockIdentity pid) = 0 \<and>
     portNumber (sourcePortIdentity header) = portNumber pid"

text \<open>The search: at most \<open>fuel\<close> records from \<open>j\<close> on, around the \<open>n\<close> that are filled.\<close>

fun find_foreign :: "(int \<Rightarrow> bool) \<Rightarrow> int \<Rightarrow> int \<Rightarrow> nat \<Rightarrow> int option" where
  "find_foreign known n j 0 = None"
| "find_foreign known n j (Suc fuel) =
     (if known j then Some j else find_foreign known n ((j + 1) smod n) fuel)"

definition unpack_record :: "u8 list \<Rightarrow> ForeignMasterRecord \<Rightarrow> ForeignMasterRecord" where
  "unpack_record buf r = r\<lparr>fm_header := msgUnpackHeader buf, fm_announce := msgUnpackAnnounce buf (fm_announce r)\<rparr>"

text \<open>
  A remainder by \<open>max_foreign_records = 0\<close>, which a port has until \<open>initDataPort\<close>, is the end
  of the process.
\<close>

definition addForeign :: "MsgHeader \<Rightarrow> nat \<Rightarrow> unit cmd" where
  "addForeign header i = do {
     p \<leftarrow> gp i (\<lambda>p. p);
     let buf = msgIbuf p;
     case find_foreign (\<lambda>j. same_port header (fmPortIdentity (foreign p ! nat j)))
            (uint (number_foreign_records p)) (foreign_record_best p) (unat (number_foreign_records p)) of
       Some j \<Rightarrow> upd_record i j (\<lambda>r. unpack_record buf (r\<lparr>fmAnnounceMessages := fmAnnounceMessages r + 1\<rparr>))
     | None \<Rightarrow> do {
         whenM (uint (number_foreign_records p) < max_foreign_records p)
           (upd i (\<lambda>p. p\<lparr>number_foreign_records := number_foreign_records p + 1\<rparr>));
         let j = foreign_record_i p;
         upd_record i j (\<lambda>r. unpack_record buf
           (r\<lparr>fmPortIdentity := sourcePortIdentity header, fmAnnounceMessages := 0\<rparr>));
         if max_foreign_records p = 0 then emit (Exit SIGFPE)
         else do {
           upd i (\<lambda>p. p\<lparr>foreign_record_i := (foreign_record_i p + 1) smod max_foreign_records p\<rparr>);
           upd_record i j (\<lambda>r. r\<lparr>receptionPortNumber := portNumber (portIdentity p)\<rparr>) } } }"

definition clearForeignMasters :: "nat \<Rightarrow> unit cmd" where
  "clearForeignMasters i = do {
     n \<leftarrow> gp i number_foreign_records;
     forM [0..<unat n] (\<lambda>k. upd_record i (int k) (\<lambda>r. r\<lparr>receptionPortNumber := 0\<rparr>));
     upd i (\<lambda>p. p\<lparr>foreign_record_i := 0, number_foreign_records := 0, foreign_record_best := 0\<rparr>) }"

section \<open>Receiving\<close>

definition msgIsFromCurrentParent :: "MsgHeader \<Rightarrow> PtpClockDS \<Rightarrow> bool" where
  "msgIsFromCurrentParent header c \<longleftrightarrow>
     memcmp (clockIdentity (parentPortIdentity c)) (clockIdentity (sourcePortIdentity header)) = 0 \<and>
     portNumber (parentPortIdentity c) = portNumber (sourcePortIdentity header)"

definition restart_announceReceipt :: "nat \<Rightarrow> unit cmd" where
  "restart_announceReceipt i = do {
     p \<leftarrow> gp i (\<lambda>p. p);
     timerStart (T_announceReceipt i) (announce_timeout p) }"

definition handleAnnounce :: "MsgHeader \<Rightarrow> int \<Rightarrow> bool \<Rightarrow> nat \<Rightarrow> unit cmd" where
  "handleAnnounce header len isFromSelf i =
    (if len < ANNOUNCE_LENGTH then toState PTP_FAULTY i
     else do {
       p \<leftarrow> gp i (\<lambda>p. p);
       c \<leftarrow> gc (\<lambda>c. c);
       if portState p \<in> {PTP_INITIALIZING, PTP_FAULTY, PTP_DISABLED} then skip
       else if isFromSelf then skip
       else if portState p \<in> {PTP_UNCALIBRATED, PTP_SLAVE} then do {
         upd i (\<lambda>p. p\<lparr>record_update := True\<rparr>);
         (if msgIsFromCurrentParent header c then do {
            upd i (\<lambda>p. p\<lparr>msgTmp_announce := msgUnpackAnnounce (msgIbuf p) (msgTmp_announce p)\<rparr>);
            upd_record i (foreign_record_best p) (unpack_record (msgIbuf p)) }
          else addForeign header i);
         restart_announceReceipt i }
       else do {
         addForeign header i;
         upd i (\<lambda>p. p\<lparr>record_update := True\<rparr>) } })"

definition handleSync :: "MsgHeader \<Rightarrow> int \<Rightarrow> bool \<Rightarrow> nat \<Rightarrow> unit cmd" where
  "handleSync header len isFromSelf i =
    (if len < SYNC_LENGTH then toState PTP_FAULTY i
     else do {
       p \<leftarrow> gp i (\<lambda>p. p);
       c \<leftarrow> gc (\<lambda>c. c);
       whenM ((portState p = PTP_SLAVE \<or> portState p = PTP_UNCALIBRATED \<and> wrMode p = NON_WR) \<and>
              \<not> isFromSelf \<and> msgIsFromCurrentParent header c) (do {
         upd i (\<lambda>p. p\<lparr>sync_receive_time := \<lparr>seconds = s32 (sec (current_rx_ts p)),
           nanoseconds = nsec (current_rx_ts p), ti_phase = phase (current_rx_ts p),
           ti_correct = correct (current_rx_ts p)\<rparr>\<rparr>);
         if flagField header ! 0 AND 0x02 = TWO_STEP_FLAG then do {
           let cf = integer64_to_internalTime (correctionfield header) ti_zero;
           upd i (\<lambda>p. p\<lparr>waitingForFollow := True, recvSyncSequenceId := sequenceId header,
             lastSyncCorrectionField := (lastSyncCorrectionField p)\<lparr>seconds := seconds cf,
               nanoseconds := nanoseconds cf\<rparr>\<rparr>) }
         else
           upd i (\<lambda>p. p\<lparr>msgTmp_timestamp := msgUnpackSync (msgIbuf p), waitingForFollow := False\<rparr>) }) })"

definition handleFollowUp :: "MsgHeader \<Rightarrow> int \<Rightarrow> bool \<Rightarrow> nat \<Rightarrow> unit cmd" where
  "handleFollowUp header len isFromSelf i =
    (if len < FOLLOW_UP_LENGTH then toState PTP_FAULTY i
     else if isFromSelf then skip
     else do {
       p \<leftarrow> gp i (\<lambda>p. p);
       c \<leftarrow> gc (\<lambda>c. c);
       whenM ((portState p = PTP_SLAVE \<or> portState p = PTP_UNCALIBRATED \<and> wrMode p = NON_WR) \<and>
              msgIsFromCurrentParent header c \<and> waitingForFollow p \<and>
              recvSyncSequenceId p = sequenceId header) (do {
         upd i (\<lambda>p. p\<lparr>msgTmp_timestamp := msgUnpackFollowUp (msgIbuf p), waitingForFollow := False\<rparr>);
         u \<leftarrow> uninit_time;
         t \<leftarrow> gp i msgTmp_timestamp;
         rx \<leftarrow> gp i sync_receive_time;
         r \<leftarrow> wr_servo_got_sync i ((toInternalTime u t)\<lparr>ti_phase := 0\<rparr>) rx;
         issueDelayReq i }) })"

definition phase_to_cf_units :: "int \<Rightarrow> int" where
  "phase_to_cf_units ph = s32 (s64 (ph * 65536) sdiv 1000)"

definition handleDelayReq :: "MsgHeader \<Rightarrow> int \<Rightarrow> bool \<Rightarrow> nat \<Rightarrow> unit cmd" where
  "handleDelayReq header len isFromSelf i = do {
     e2e \<leftarrow> go E2E_mode;
     if \<not> e2e then skip
     else if len < DELAY_REQ_LENGTH then toState PTP_FAULTY i
     else do {
       st \<leftarrow> gp i portState;
       whenM (st = PTP_MASTER) (do {
         upd i (\<lambda>p. p\<lparr>delayReqHeader := (msgUnpackHeader (msgIbuf p))\<lparr>correctionfield :=
           \<lparr>i64_msb = 0, i64_lsb = word_of_int (phase_to_cf_units (phase (current_rx_ts p)))\<rparr>\<rparr>\<rparr>);
         h \<leftarrow> gp i delayReqHeader;
         issueDelayResp h i }) } }"

text \<open>The sequence id of the last request as the code compares it: \<open>sent - 1\<close> in \<open>int\<close>.\<close>

definition handleDelayResp :: "MsgHeader \<Rightarrow> int \<Rightarrow> bool \<Rightarrow> nat \<Rightarrow> unit cmd" where
  "handleDelayResp header len isFromSelf i = do {
     e2e \<leftarrow> go E2E_mode;
     if \<not> e2e then skip
     else if len < DELAY_RESP_LENGTH then toState PTP_FAULTY i
     else do {
       st \<leftarrow> gp i portState;
       whenM (st = PTP_SLAVE) (do {
         upd i (\<lambda>p. p\<lparr>msgTmp_resp := msgUnpackDelayResp (msgIbuf p)\<rparr>);
         p \<leftarrow> gp i (\<lambda>p. p);
         c \<leftarrow> gc (\<lambda>c. c);
         whenM (memcmp (clockIdentity (portIdentity p)) (clockIdentity (requestingPortIdentity (msgTmp_resp p))) = 0
                \<and> uint (sentDelayReqSequenceId p) - 1 = uint (sequenceId header)
                \<and> portNumber (portIdentity p) = portNumber (requestingPortIdentity (msgTmp_resp p))
                \<and> msgIsFromCurrentParent header c) (do {
           u \<leftarrow> uninit_time;
           upd i (\<lambda>p. p\<lparr>delay_req_receive_time := toInternalTime u (resp_timestamp (msgTmp_resp p))\<rparr>);
           r \<leftarrow> wr_servo_got_delay i (s32 (uint (i64_lsb (correctionfield header))));
           r \<leftarrow> wr_servo_update i;
           upd i (\<lambda>p. p\<lparr>logMinDelayReqInterval := logMessageInterval header\<rparr>) }) }) } }"

definition handlePDelayReq :: "MsgHeader \<Rightarrow> int \<Rightarrow> TimeInternal \<Rightarrow> bool \<Rightarrow> nat \<Rightarrow> unit cmd" where
  "handlePDelayReq header len time isFromSelf i = do {
     e2e \<leftarrow> go E2E_mode;
     if e2e then skip
     else if len < PDELAY_REQ_LENGTH then toState PTP_FAULTY i
     else do {
       st \<leftarrow> gp i portState;
       whenM (st \<in> {PTP_SLAVE, PTP_MASTER, PTP_PASSIVE})
         (if isFromSelf then do {
            out \<leftarrow> go outboundLatency;
            upd i (\<lambda>p. p\<lparr>pdelay_req_send_time :=
              (let t = (pdelay_req_send_time p)\<lparr>seconds := seconds time, nanoseconds := nanoseconds time\<rparr>
               in addTime t t out)\<rparr>) }
          else do {
            upd i (\<lambda>p. p\<lparr>PdelayReqHeader := msgUnpackHeader (msgIbuf p)\<rparr>);
            issuePDelayResp time header i }) } }"

definition handlePDelayResp :: "MsgHeader \<Rightarrow> TimeInternal \<Rightarrow> int \<Rightarrow> bool \<Rightarrow> nat \<Rightarrow> unit cmd" where
  "handlePDelayResp header time len isFromSelf i = do {
     e2e \<leftarrow> go E2E_mode;
     if e2e then skip
     else if len < PDELAY_RESP_LENGTH then toState PTP_FAULTY i
     else do {
       st \<leftarrow> gp i portState;
       whenM (st \<in> {PTP_SLAVE, PTP_MASTER})
         (if isFromSelf then do {
            out \<leftarrow> go outboundLatency;
            h \<leftarrow> gp i PdelayReqHeader;
            issuePDelayRespFollowUp (addTime time time out) h i }
          else do {
            upd i (\<lambda>p. p\<lparr>msgTmp_resp := msgUnpackPDelayResp (msgIbuf p)\<rparr>);
            p \<leftarrow> gp i (\<lambda>p. p);
            whenM (\<not> (sentPDelayReqSequenceId p = sequenceId header
                   \<and> memcmp (clockIdentity (portIdentity p)) (clockIdentity (requestingPortIdentity (msgTmp_resp p))) = 0
                   \<and> portNumber (portIdentity p) = portNumber (requestingPortIdentity (msgTmp_resp p)))) (do {
              upd i (\<lambda>p. p\<lparr>pdelay_resp_receive_time :=
                (pdelay_resp_receive_time p)\<lparr>seconds := seconds time, nanoseconds := nanoseconds time\<rparr>\<rparr>);
              whenM (flagField header ! 0 AND 0x02 = TWO_STEP_FLAG) (do {
                u \<leftarrow> uninit_time;
                let t2 = toInternalTime u (resp_timestamp (msgTmp_resp p));
                let cf = integer64_to_internalTime (correctionfield header) ti_zero;
                upd i (\<lambda>p. p\<lparr>pdelay_req_receive_time :=
                    (pdelay_req_receive_time p)\<lparr>seconds := seconds t2, nanoseconds := nanoseconds t2\<rparr>,
                  lastPdelayRespCorrectionField := (lastPdelayRespCorrectionField p)\<lparr>
                    seconds := seconds cf, nanoseconds := nanoseconds cf\<rparr>\<rparr>) }) }) }) } }"

definition handlePDelayRespFollowUp :: "MsgHeader \<Rightarrow> int \<Rightarrow> bool \<Rightarrow> nat \<Rightarrow> unit cmd" where
  "handlePDelayRespFollowUp header len isFromSelf i = do {
     e2e \<leftarrow> go E2E_mode;
     if e2e then skip
     else if len < PDELAY_RESP_FOLLOW_UP_LENGTH then toState PTP_FAULTY i
     else do {
       p \<leftarrow> gp i (\<lambda>p. p);
       whenM (portState p \<in> {PTP_SLAVE, PTP_MASTER} \<and>
              uint (sequenceId header) = uint (sentPDelayReqSequenceId p) - 1) (do {
         upd i (\<lambda>p. p\<lparr>msgTmp_resp := msgUnpackPDelayRespFollowUp (msgIbuf p)\<rparr>);
         u \<leftarrow> uninit_time;
         upd i (\<lambda>p. p\<lparr>pdelay_resp_send_time :=
           (let t = toInternalTime u (resp_timestamp (msgTmp_resp p))
            in (pdelay_resp_send_time p)\<lparr>seconds := seconds t, nanoseconds := nanoseconds t\<rparr>)\<rparr>) }) } }"

definition handleManagement :: "MsgHeader \<Rightarrow> int \<Rightarrow> bool \<Rightarrow> nat \<Rightarrow> unit cmd" where
  "handleManagement header len isFromSelf i = skip"

definition handleSignaling :: "MsgHeader \<Rightarrow> int \<Rightarrow> bool \<Rightarrow> nat \<Rightarrow> unit cmd" where
  "handleSignaling header len isFromSelf i =
    (if isFromSelf then skip
     else do {
       upd i (\<lambda>p. case msgUnpackWRSignalingMsg (msgIbuf p) (msgTmpWrMessageID p) p of
                  (target, mid, q) \<Rightarrow> q\<lparr>msgTmpWrMessageID := mid\<rparr>);
       p \<leftarrow> gp i (\<lambda>p. p);
       whenM (portState p = PTP_MASTER \<and> msgTmpWrMessageID p = SLAVE_PRESENT \<and>
              (wrConfig p = WR_M_ONLY \<or> wrConfig p = WR_M_AND_S)) (do {
         upd i (\<lambda>p. p\<lparr>wrMode := WR_MASTER\<rparr>);
         toWRState WRS_M_LOCK i }) })"

definition dispatch :: "MsgHeader \<Rightarrow> int \<Rightarrow> TimeInternal \<Rightarrow> bool \<Rightarrow> nat \<Rightarrow> unit cmd" where
  "dispatch header len time isFromSelf i =
    (if messageType header = MT_ANNOUNCE then handleAnnounce header len isFromSelf i
     else if messageType header = MT_SYNC then handleSync header len isFromSelf i
     else if messageType header = MT_FOLLOW_UP then handleFollowUp header len isFromSelf i
     else if messageType header = MT_DELAY_REQ then handleDelayReq header len isFromSelf i
     else if messageType header = MT_PDELAY_REQ then handlePDelayReq header len time isFromSelf i
     else if messageType header = MT_PDELAY_RESP then handlePDelayResp header time len isFromSelf i
     else if messageType header = MT_PDELAY_RESP_FOLLOW_UP then handlePDelayRespFollowUp header len isFromSelf i
     else if messageType header = MT_DELAY_RESP then handleDelayResp header len isFromSelf i
     else if messageType header = MT_MANAGEMENT then handleManagement header len isFromSelf i
     else if messageType header = MT_SIGNALING then handleSignaling header len isFromSelf i
     else skip)"

definition handle :: "nat \<Rightarrow> unit cmd" where
  "handle i = do {
     len \<leftarrow> netRecvMsg i;
     if len < 0 then toState PTP_FAULTY i
     else if len = 0 then skip
     else do {
       upd i (\<lambda>p. p\<lparr>message_activity := True\<rparr>);
       if len < HEADER_LENGTH then toState PTP_FAULTY i
       else do {
         upd i (\<lambda>p. p\<lparr>msgTmpHeader := msgUnpackHeader (msgIbuf p)\<rparr>);
         p \<leftarrow> gp i (\<lambda>p. p);
         dom \<leftarrow> gc domainNumber;
         inbound \<leftarrow> go inboundLatency;
         let h = msgTmpHeader p;
         if versionPTP h \<noteq> versionNumber p then skip
         else if hdr_domainNumber h \<noteq> dom then skip
         else do {
           let isFromSelf = (portNumber (portIdentity p) = portNumber (sourcePortIdentity h) \<and>
             memcmp (clockIdentity (sourcePortIdentity h)) (clockIdentity (portIdentity p)) = 0);
           let time = \<lparr>seconds = s32 (sec (current_rx_ts p)), nanoseconds = nsec (current_rx_ts p),
                       ti_phase = 0, ti_correct = 0\<rparr>;
           dispatch h len (if \<not> isFromSelf \<and> seconds time > 0 then subTime time time inbound else time)
             isFromSelf i } } } }"

end
