(* ===== verification/Foreign.thy ===== *)
theory Foreign
  imports Handlers
begin

text \<open>
  The table of foreign masters as a function of the port: what \<open>addForeign\<close> makes of it, and
  that its indices stay inside the table.
\<close>

abbreviation DEFAULT_MAX_FOREIGN_RECORDS :: int where "DEFAULT_MAX_FOREIGN_RECORDS \<equiv> 5"

definition known_at :: "MsgHeader \<Rightarrow> PtpPortDS \<Rightarrow> int option" where
  "known_at header p = find_foreign (\<lambda>j. same_port header (fmPortIdentity (foreign p ! nat j)))
     (uint (number_foreign_records p)) (foreign_record_best p) (unat (number_foreign_records p))"

definition new_record :: "MsgHeader \<Rightarrow> PtpPortDS \<Rightarrow> ForeignMasterRecord" where
  "new_record header p = (unpack_record (msgIbuf p) ((foreign p ! nat (foreign_record_i p))
     \<lparr>fmPortIdentity := sourcePortIdentity header, fmAnnounceMessages := 0\<rparr>))
     \<lparr>receptionPortNumber := portNumber (portIdentity p)\<rparr>"

definition add_record :: "MsgHeader \<Rightarrow> PtpPortDS \<Rightarrow> PtpPortDS" where
  "add_record header p =
    (case known_at header p of
       Some j \<Rightarrow> p\<lparr>foreign := (foreign p)[nat j := unpack_record (msgIbuf p)
         ((foreign p ! nat j)\<lparr>fmAnnounceMessages := fmAnnounceMessages (foreign p ! nat j) + 1\<rparr>)]\<rparr>
     | None \<Rightarrow> p\<lparr>number_foreign_records := if uint (number_foreign_records p) < max_foreign_records p
                    then number_foreign_records p + 1 else number_foreign_records p,
         foreign_record_i := (foreign_record_i p + 1) smod max_foreign_records p,
         foreign := (foreign p)[nat (foreign_record_i p) := new_record header p]\<rparr>)"

lemma update_twice:
  "xs[k := (xs[k := x] ! k)\<lparr>receptionPortNumber := n\<rparr>] = xs[k := x\<lparr>receptionPortNumber := n\<rparr>]"
  by (cases "k < length xs") (simp_all add: list_update_beyond)

lemma exec_addForeign:
  assumes "max_foreign_records (ports s i) \<noteq> 0"
  shows "exec (addForeign header i) s = s\<lparr>ports := (ports s)(i := add_record header (ports s i))\<rparr>"
  using assms
  by (auto simp: addForeign_def exec_def add_record_def known_at_def new_record_def upd_record_def
      Let_def whenM_def update_twice
      split: option.split)


section \<open>The search\<close>

lemma find_foreign_Some:
  "find_foreign known n j fuel = Some k \<Longrightarrow> 0 < n \<Longrightarrow> 0 \<le> j \<Longrightarrow> known k \<and> (k = j \<or> 0 \<le> k \<and> k < n)"
proof (induction fuel arbitrary: j)
  case (Suc fuel)
  have "0 \<le> (j + 1) smod n \<and> (j + 1) smod n < n" using Suc.prems by (simp add: smod_nonneg)
  then show ?case using Suc.prems Suc.IH [of "(j + 1) smod n"] by (auto split: if_splits)
qed simp

lemma find_foreign_None:
  "find_foreign known n j fuel = None \<Longrightarrow> 0 < n \<Longrightarrow> 0 \<le> j \<Longrightarrow> j < n \<Longrightarrow> m < fuel \<Longrightarrow>
   \<not> known ((j + int m) mod n)"
proof (induction fuel arbitrary: j m)
  case (Suc fuel)
  show ?case
  proof (cases m)
    case 0
    then show ?thesis using Suc.prems by (auto split: if_splits)
  next
    case (Suc m')
    have "find_foreign known n ((j + 1) mod n) fuel = None"
      using Suc.prems by (simp add: smod_nonneg split: if_splits)
    then have "\<not> known (((j + 1) mod n + int m') mod n)"
      using Suc.prems Suc by (intro Suc.IH) simp_all
    then show ?thesis using Suc by (simp add: mod_add_left_eq add.assoc)
  qed
qed simp

text \<open>The search finds a known master among the filled records whenever there is one.\<close>

lemma find_foreign_complete:
  assumes "find_foreign known n j (nat n) = None" "0 \<le> j" "j < n" "0 \<le> k" "k < n"
  shows "\<not> known k"
proof -
  have "\<not> known ((j + int (nat ((k - j) mod n))) mod n)"
    using assms by (intro find_foreign_None [of known n j "nat n"]) (simp_all add: nat_less_iff)
  moreover have "(j + int (nat ((k - j) mod n))) mod n = k"
    using assms by (simp add: mod_add_right_eq)
  ultimately show ?thesis by simp
qed


section \<open>The table\<close>

definition table_ok :: "PtpPortDS \<Rightarrow> bool" where
  "table_ok p \<longleftrightarrow> length (foreign p) = nat DEFAULT_MAX_FOREIGN_RECORDS \<and>
     max_foreign_records p \<in> {0, DEFAULT_MAX_FOREIGN_RECORDS} \<and>
     uint (number_foreign_records p) \<le> DEFAULT_MAX_FOREIGN_RECORDS \<and>
     0 \<le> foreign_record_i p \<and> foreign_record_i p < DEFAULT_MAX_FOREIGN_RECORDS \<and>
     0 \<le> foreign_record_best p \<and> foreign_record_best p < DEFAULT_MAX_FOREIGN_RECORDS"

lemma number_next: "uint (n :: u16) < 5 \<Longrightarrow> uint (n + 1) = uint n + 1"
  by (simp add: uint_word_ariths)

lemma table_next: "(0 :: int) \<le> k \<Longrightarrow> 0 \<le> (k + 1) smod 5 \<and> (k + 1) smod 5 < 5"
  by (simp add: smod_nonneg)

lemma add_record_ok: "table_ok p \<Longrightarrow> max_foreign_records p \<noteq> 0 \<Longrightarrow> table_ok (add_record h p)"
  by (auto simp: table_ok_def add_record_def table_next number_next split: option.split)

text \<open>
  C23. \<open>addForeign\<close>: a master the port already knows has its record (one of those that are
  filled) replaced by the new announcement and its count of messages increased; an unknown one
  is written, with a count of 0 and the port's own number as the reception port, over the record
  \<open>foreign\_record\_i\<close>, which moves on by one around the table, and the number of records grows
  up to the size of the table. No other record and no other port changes.
\<close>
theorem addForeign_correct:
  assumes "table_ok p" "p = ports s i" "max_foreign_records p \<noteq> 0"
    and "number_foreign_records p = 0 \<or> foreign_record_best p < uint (number_foreign_records p)"
    and "known = {k. k < unat (number_foreign_records p) \<and> same_port h (fmPortIdentity (foreign p ! k))}"
  shows "let s' = exec (addForeign h i) s; p' = ports s' i
     in (\<forall>k. k \<noteq> i \<longrightarrow> ports s' k = ports s k) \<and>
        (if known = {}
         then let j = nat (foreign_record_i p); r = foreign p' ! j
              in (\<forall>k. k \<noteq> j \<longrightarrow> foreign p' ! k = foreign p ! k) \<and>
                 fmPortIdentity r = sourcePortIdentity h \<and> fmAnnounceMessages r = 0 \<and>
                 receptionPortNumber r = portNumber (portIdentity p) \<and>
                 fm_header r = msgUnpackHeader (msgIbuf p) \<and>
                 fm_announce r = msgUnpackAnnounce (msgIbuf p) (fm_announce (foreign p ! j)) \<and>
                 uint (number_foreign_records p') = min (uint (number_foreign_records p) + 1) 5 \<and>
                 foreign_record_i p' = (foreign_record_i p + 1) mod 5
         else (\<exists>j\<in>known. foreign p' = (foreign p)[j := unpack_record (msgIbuf p)
                 ((foreign p ! j)\<lparr>fmAnnounceMessages := fmAnnounceMessages (foreign p ! j) + 1\<rparr>)] \<and>
                 number_foreign_records p' = number_foreign_records p))"
proof -
  let ?n = "uint (number_foreign_records p)" and ?b = "foreign_record_best p"
  have n: "nat ?n = unat (number_foreign_records p)" by simp
  have run: "exec (addForeign h i) s = s\<lparr>ports := (ports s)(i := add_record h p)\<rparr>"
    using exec_addForeign [of s i h] assms(2,3) by simp
  show ?thesis
  proof (cases "known_at h p")
    case None
    have "known = {}"
    proof (rule ccontr)
      assume "known \<noteq> {}"
      then obtain k where k: "k < unat (number_foreign_records p)"
        "same_port h (fmPortIdentity (foreign p ! k))" using assms(5) by auto
      have "\<not> same_port h (fmPortIdentity (foreign p ! nat (int k)))"
      proof (rule find_foreign_complete)
        show "find_foreign (\<lambda>j. same_port h (fmPortIdentity (foreign p ! nat j))) ?n ?b (nat ?n) = None"
          using None by (simp add: known_at_def)
        show "0 \<le> ?b" using assms(1) by (simp add: table_ok_def)
        show "?b < ?n" using assms(4) k(1) by auto
        show "int k < ?n" using k(1) n by linarith
      qed simp
      with k(2) show False by simp
    qed
    moreover have "max_foreign_records p = 5" using assms(1,3) by (auto simp: table_ok_def)
    ultimately show ?thesis using None assms(1)
      by (auto simp: run Let_def add_record_def new_record_def unpack_record_def table_ok_def
          number_next smod_nonneg)
  next
    case (Some j)
    then have "number_foreign_records p \<noteq> 0" by (auto simp: known_at_def)
    then have "0 < ?n" by (simp add: word_neq_0_conv word_less_def)
    with Some assms(1,4) have "same_port h (fmPortIdentity (foreign p ! nat j))" "0 \<le> j" "j < ?n"
      using find_foreign_Some [of _ ?n ?b _ j] by (auto simp: known_at_def table_ok_def)
    moreover from this have "nat j < unat (number_foreign_records p)"
      by (simp add: nat_less_eq_zless flip: nat_uint_eq)
    ultimately have "nat j \<in> known" using assms(5) by simp
    with Some show ?thesis by (auto simp: run Let_def add_record_def)
  qed
qed

text \<open>A port with an empty table, for examples.\<close>

definition empty_table :: sys where
  "empty_table = sys_zero\<lparr>ports := \<lambda>_. port_zero\<lparr>max_foreign_records := 5,
     foreign := replicate 5 foreign_zero\<rparr>\<rparr>"

theorem addForeign_correct_witness:
  "foreign_record_i (ports (exec (addForeign header_zero 0) empty_table) 0) = 1"
  using addForeign_correct [where p = "ports empty_table 0" and s = empty_table and i = 0
      and h = header_zero and known = "{}"]
  by (simp add: Let_def empty_table_def table_ok_def)

end
