(* ===== verification/WrFsm.thy ===== *)
theory WrFsm
  imports Handlers
begin

text \<open>
  The White Rabbit state machine of PTPWRd/wr\_protocol.c: \<open>doWRState\<close> and its timeouts. A case
  of the C \<open>switch\<close> that falls through to the next one is a definition that calls the
  definition of the next.
\<close>

section \<open>Timeouts\<close>

text \<open>How often a state may be repeated before White Rabbit is given up.\<close>

definition wr_retries :: "wr_state \<Rightarrow> PtpPortDS \<Rightarrow> u8" where
  "wr_retries currentState p =
    (if currentState = WRS_CALIBRATION \<and> calRetry p > 0 then calRetry p
     else if currentState = WRS_RESP_CALIB_REQ \<and> otherNodeCalRetry p > 0 then otherNodeCalRetry p
     else wrStateRetry p)"

definition wrTimerExpired :: "wr_state \<Rightarrow> u8 \<Rightarrow> nat \<Rightarrow> unit cmd" where
  "wrTimerExpired currentState mode i =
    (if currentState = WRS_IDLE then skip
     else do {
       e \<leftarrow> timerExpired (T_wr i currentState);
       whenM e (do {
         p \<leftarrow> gp i (\<lambda>p. p);
         if currentWRstateCnt p < wr_retries currentState p then toWRState currentState i
         else do {
           upd i (\<lambda>p. p\<lparr>wrModeON := False\<rparr>);
           toWRState WRS_IDLE i;
           nofallback \<leftarrow> go disableFallbackIfWRFails;
           (if nofallback then toState PTP_DISABLED i
            else if mode = WR_MASTER then toState PTP_MASTER i
            else toState PTP_SLAVE i);
           initWrData i INIT } }) })"

section \<open>The states\<close>

definition set_wr :: "nat \<Rightarrow> wr_state \<Rightarrow> unit cmd" where
  "set_wr i st = upd i (\<lambda>p. p\<lparr>wrPortState := st\<rparr>)"

definition is_slave_role :: "slave_role \<Rightarrow> bool" where
  "is_slave_role r \<longleftrightarrow> r = PRIMARY_SLAVE \<or> r = SECONDARY_SLAVE"

definition do_PRESENT :: "nat \<Rightarrow> unit cmd" where
  "do_PRESENT i = do {
     handle i;
     m \<leftarrow> gp i msgTmpWrMessageID;
     whenM (m = LOCK) (do {
       toWRState WRS_S_LOCK i;
       upd i (\<lambda>p. p\<lparr>msgTmpWrMessageID := NULL_WR_TLV\<rparr>) }) }"

definition do_S_LOCK_2 :: "nat \<Rightarrow> unit cmd" where
  "do_S_LOCK_2 i = do {
     role \<leftarrow> gp i wrSlaveRole;
     whenM (is_slave_role role) (do {
       r \<leftarrow> ptpd_netif_locking_disable i;
       whenM (r = PTPD_NETIF_OK) (toWRState WRS_LOCKED i) }) }"

definition do_S_LOCK_1 :: "nat \<Rightarrow> unit cmd" where
  "do_S_LOCK_1 i = do {
     role \<leftarrow> gp i wrSlaveRole;
     whenM (is_slave_role role) (do {
       r \<leftarrow> ptpd_netif_locking_poll i;
       whenM (r = PTPD_NETIF_READY) (do { set_wr i WRS_S_LOCK_2; do_S_LOCK_2 i }) }) }"

definition do_S_LOCK :: "nat \<Rightarrow> unit cmd" where
  "do_S_LOCK i = do {
     role \<leftarrow> gp i wrSlaveRole;
     whenM (is_slave_role role) (do {
       r \<leftarrow> ptpd_netif_locking_enable i;
       whenM (r = PTPD_NETIF_OK) (set_wr i WRS_S_LOCK_1) });
     w \<leftarrow> gp i wrPortState;
     whenM (w = WRS_S_LOCK_1) (do_S_LOCK_1 i) }"

definition do_M_LOCK :: "nat \<Rightarrow> unit cmd" where
  "do_M_LOCK i = do {
     handle i;
     m \<leftarrow> gp i msgTmpWrMessageID;
     whenM (m = LOCKED) (toWRState WRS_CALIBRATION i) }"

definition do_LOCKED :: "nat \<Rightarrow> unit cmd" where
  "do_LOCKED i = do {
     handle i;
     m \<leftarrow> gp i msgTmpWrMessageID;
     whenM (m = CALIBRATE) (toWRState WRS_RESP_CALIB_REQ i) }"

definition do_CALIBRATION_8 :: "nat \<Rightarrow> unit cmd" where
  "do_CALIBRATION_8 i = do {
     issueWRSignalingMsg CALIBRATED i;
     toWRState WRS_CALIBRATED i;
     upd i (\<lambda>p. p\<lparr>calibrated := True\<rparr>) }"

definition do_CALIBRATION_7 :: "nat \<Rightarrow> unit cmd" where
  "do_CALIBRATION_7 i = do {
     r \<leftarrow> ptpd_netif_calibrating_disable i;
     whenM (r = PTPD_NETIF_OK) (do { set_wr i WRS_CALIBRATION_8; do_CALIBRATION_8 i }) }"

definition do_CALIBRATION_6 :: "nat \<Rightarrow> unit cmd" where
  "do_CALIBRATION_6 i = do {
     r \<leftarrow> ptpd_netif_calibrating_poll i PTPD_NETIF_RX;
     whenM (fst r = PTPD_NETIF_READY) (do {
       upd i (\<lambda>p. p\<lparr>deltaRx := scaled_delta (snd r)\<rparr>);
       set_wr i WRS_CALIBRATION_7;
       do_CALIBRATION_7 i }) }"

definition do_CALIBRATION_5 :: "nat \<Rightarrow> unit cmd" where
  "do_CALIBRATION_5 i = do {
     r \<leftarrow> ptpd_netif_calibrating_enable i;
     whenM (r = PTPD_NETIF_OK) (do { set_wr i WRS_CALIBRATION_6; do_CALIBRATION_6 i }) }"

definition do_CALIBRATION_4 :: "nat \<Rightarrow> unit cmd" where
  "do_CALIBRATION_4 i = do {
     r \<leftarrow> ptpd_netif_calibration_pattern_disable i;
     whenM (r = PTPD_NETIF_OK) (do { set_wr i WRS_CALIBRATION_5; do_CALIBRATION_5 i }) }"

definition do_CALIBRATION_3 :: "nat \<Rightarrow> unit cmd" where
  "do_CALIBRATION_3 i = do {
     r \<leftarrow> ptpd_netif_calibrating_disable i;
     whenM (r = PTPD_NETIF_OK) (do { set_wr i WRS_CALIBRATION_4; do_CALIBRATION_4 i }) }"

definition do_CALIBRATION_2 :: "nat \<Rightarrow> unit cmd" where
  "do_CALIBRATION_2 i = do {
     r \<leftarrow> ptpd_netif_calibrating_poll i PTPD_NETIF_TX;
     whenM (fst r = PTPD_NETIF_READY) (do {
       upd i (\<lambda>p. p\<lparr>deltaTx := scaled_delta (snd r)\<rparr>);
       set_wr i WRS_CALIBRATION_3;
       do_CALIBRATION_3 i }) }"

definition do_CALIBRATION_1 :: "nat \<Rightarrow> unit cmd" where
  "do_CALIBRATION_1 i = do {
     r \<leftarrow> ptpd_netif_calibrating_enable i;
     whenM (r = PTPD_NETIF_OK) (do { set_wr i WRS_CALIBRATION_2; do_CALIBRATION_2 i }) }"

definition do_CALIBRATION :: "nat \<Rightarrow> unit cmd" where
  "do_CALIBRATION i = do {
     r \<leftarrow> ptpd_netif_calibration_pattern_enable i;
     whenM (r = PTPD_NETIF_OK) (do { set_wr i WRS_CALIBRATION_1; do_CALIBRATION_1 i }) }"

definition do_CALIBRATED :: "nat \<Rightarrow> unit cmd" where
  "do_CALIBRATED i = do {
     handle i;
     p \<leftarrow> gp i (\<lambda>p. p);
     whenM (msgTmpWrMessageID p = CALIBRATE \<and> wrMode p = WR_MASTER) (toWRState WRS_RESP_CALIB_REQ i);
     p \<leftarrow> gp i (\<lambda>p. p);
     whenM (msgTmpWrMessageID p = WR_MODE_ON \<and> wrMode p = WR_SLAVE) (toWRState WRS_WR_LINK_ON i) }"

definition do_RESP_CALIB_REQ_3 :: "nat \<Rightarrow> unit cmd" where
  "do_RESP_CALIB_REQ_3 i = do {
     m \<leftarrow> gp i wrMode;
     if m = WR_MASTER then toWRState WRS_WR_LINK_ON i
     else if m = WR_SLAVE then toWRState WRS_CALIBRATION i
     else toWRState WRS_IDLE i }"

definition do_RESP_CALIB_REQ_2 :: "nat \<Rightarrow> unit cmd" where
  "do_RESP_CALIB_REQ_2 i = do {
     r \<leftarrow> ptpd_netif_calibration_pattern_disable i;
     whenM (r = PTPD_NETIF_OK) (do { set_wr i WRS_RESP_CALIB_REQ_3; do_RESP_CALIB_REQ_3 i }) }"

definition do_RESP_CALIB_REQ_1 :: "nat \<Rightarrow> unit cmd" where
  "do_RESP_CALIB_REQ_1 i = do {
     handle i;
     p \<leftarrow> gp i (\<lambda>p. p);
     whenM (msgTmpWrMessageID p = CALIBRATED)
       (if otherNodeCalSendPattern p = 1 then do { set_wr i WRS_RESP_CALIB_REQ_2; do_RESP_CALIB_REQ_2 i }
        else do { set_wr i WRS_RESP_CALIB_REQ_3; do_RESP_CALIB_REQ_2 i }) }"

definition do_RESP_CALIB_REQ :: "nat \<Rightarrow> unit cmd" where
  "do_RESP_CALIB_REQ i = do {
     r \<leftarrow> ptpd_netif_calibration_pattern_enable i;
     whenM (r = PTPD_NETIF_OK) (do { set_wr i WRS_RESP_CALIB_REQ_1; do_RESP_CALIB_REQ_1 i }) }"

definition do_WR_LINK_ON :: "nat \<Rightarrow> unit cmd" where
  "do_WR_LINK_ON i = do {
     toWRState WRS_IDLE i;
     m \<leftarrow> gp i wrMode;
     if m = WR_SLAVE then toState PTP_SLAVE i
     else if m = WR_MASTER then toState PTP_MASTER i
     else skip }"

definition doWRState :: "nat \<Rightarrow> unit cmd" where
  "doWRState i = do {
     w \<leftarrow> gp i wrPortState;
     (case w of
        WRS_IDLE \<Rightarrow> skip
      | WRS_PRESENT \<Rightarrow> do_PRESENT i
      | WRS_S_LOCK \<Rightarrow> do_S_LOCK i
      | WRS_S_LOCK_1 \<Rightarrow> do_S_LOCK_1 i
      | WRS_S_LOCK_2 \<Rightarrow> do_S_LOCK_2 i
      | WRS_M_LOCK \<Rightarrow> do_M_LOCK i
      | WRS_LOCKED \<Rightarrow> do_LOCKED i
      | WRS_CALIBRATION \<Rightarrow> do_CALIBRATION i
      | WRS_CALIBRATION_1 \<Rightarrow> do_CALIBRATION_1 i
      | WRS_CALIBRATION_2 \<Rightarrow> do_CALIBRATION_2 i
      | WRS_CALIBRATION_3 \<Rightarrow> do_CALIBRATION_3 i
      | WRS_CALIBRATION_4 \<Rightarrow> do_CALIBRATION_4 i
      | WRS_CALIBRATION_5 \<Rightarrow> do_CALIBRATION_5 i
      | WRS_CALIBRATION_6 \<Rightarrow> do_CALIBRATION_6 i
      | WRS_CALIBRATION_7 \<Rightarrow> do_CALIBRATION_7 i
      | WRS_CALIBRATION_8 \<Rightarrow> do_CALIBRATION_8 i
      | WRS_CALIBRATED \<Rightarrow> do_CALIBRATED i
      | WRS_RESP_CALIB_REQ \<Rightarrow> do_RESP_CALIB_REQ i
      | WRS_RESP_CALIB_REQ_1 \<Rightarrow> do_RESP_CALIB_REQ_1 i
      | WRS_RESP_CALIB_REQ_2 \<Rightarrow> do_RESP_CALIB_REQ_2 i
      | WRS_RESP_CALIB_REQ_3 \<Rightarrow> do_RESP_CALIB_REQ_3 i
      | WRS_WR_LINK_ON \<Rightarrow> do_WR_LINK_ON i);
     w \<leftarrow> gp i wrPortState;
     m \<leftarrow> gp i wrMode;
     wrTimerExpired (returnCurrentWRMainState w) m i }"

end
