(* ===== verification/Protocol.thy ===== *)
theory Protocol
  imports WrFsm
begin

text \<open>
  The engine of PTPWRd/protocol.c: \<open>doInit\<close> and \<open>doState\<close> of a port, what is done once for
  all ports, and the loop. The array \<open>ptpPortDS\<close> starts at port 0; a function the code calls
  with the pointer to it gets \<open>base\<close>.
\<close>

section \<open>A port\<close>

definition doInit :: "nat \<Rightarrow> bool cmd" where
  "doInit i = do {
     initDataPort i;
     cfg \<leftarrow> gp i wrConfig;
     whenM (cfg = WR_MODE_AUTO) (do { r \<leftarrow> autoDetectPortWrConfig i; skip });
     cfg \<leftarrow> gp i wrConfig;
     whenM (cfg = WR_S_ONLY) wr_servo_reset;
     timerInit (T_sync i);
     timerInit (T_delayReq i);
     timerInit (T_pdelayReq i);
     timerInit (T_announceReceipt i);
     timerInit (T_announceInterval i);
     m1 i;
     c \<leftarrow> gc (\<lambda>c. c);
     upd i (\<lambda>p. p\<lparr>msgObuf := msgPackHeader p c (msgObuf p)\<rparr>);
     toState PTP_LISTENING i;
     State_Monad.return True }"

text \<open>The state decision event: the first \<open>switch\<close> of \<open>doState\<close>.\<close>

definition state_decision :: "nat \<Rightarrow> unit cmd" where
  "state_decision i = do {
     p \<leftarrow> gp i (\<lambda>p. p);
     event \<leftarrow> gc globalStateDecisionEvent;
     whenM (portState p \<in> {PTP_LISTENING, PTP_PASSIVE, PTP_SLAVE, PTP_MASTER} \<and>
            event \<and> wrPortState p = WRS_IDLE) (do {
       upd i (\<lambda>p. p\<lparr>record_update := False\<rparr>);
       st \<leftarrow> bmc i i;
       p \<leftarrow> gp i (\<lambda>p. p);
       if st \<noteq> portState p then
         if st = PTP_SLAVE \<and>
            portState p \<in> {PTP_LISTENING, PTP_PRE_MASTER, PTP_MASTER, PTP_PASSIVE, PTP_UNCALIBRATED}
         then do {
           upd i (\<lambda>p. p\<lparr>wrMode := WR_SLAVE, wrModeON := False\<rparr>);
           toState PTP_UNCALIBRATED i }
         else toState st i
       else whenM (linkUP p \<and> portState p = PTP_SLAVE \<and> wrMode p = WR_SLAVE \<and>
                   (\<not> parentWrModeON p \<or> \<not> wrModeON p))
              (toState PTP_UNCALIBRATED i) }) }"

definition do_LISTENING_SLAVE :: "nat \<Rightarrow> unit cmd" where
  "do_LISTENING_SLAVE i = do {
     handle i;
     e \<leftarrow> timerExpired (T_announceReceipt i);
     whenM e (do {
       upd i (\<lambda>p. p\<lparr>number_foreign_records := 0, foreign_record_i := 0, wrMode := NON_WR, wrModeON := False\<rparr>);
       p \<leftarrow> gp i (\<lambda>p. p);
       cl \<leftarrow> gc (\<lambda>c. clockClass (clockQuality c));
       if wrConfig p \<noteq> WR_S_ONLY \<and> cl \<noteq> 255 then do { m1 i; toState PTP_MASTER i }
       else whenM (portState p \<noteq> PTP_LISTENING) (toState PTP_LISTENING i) });
     e2e \<leftarrow> go E2E_mode;
     if e2e then do {
       e \<leftarrow> timerExpired (T_delayReq i);
       whenM e (issueDelayReq i) }
     else do {
       e \<leftarrow> timerExpired (T_pdelayReq i);
       whenM e (issuePDelayReq i) } }"

definition do_MASTER :: "nat \<Rightarrow> unit cmd" where
  "do_MASTER i = do {
     p \<leftarrow> gp i (\<lambda>p. p);
     if wrMode p = WR_MASTER \<and> wrPortState p \<noteq> WRS_IDLE then do {
       doWRState i;
       upd i (\<lambda>p. p\<lparr>msgTmpWrMessageID := NULL_WR_TLV\<rparr>) }
     else do {
       handle i;
       e \<leftarrow> timerExpired (T_sync i);
       whenM e (do {
         issueSync i;
         ts \<leftarrow> gp i synch_tx_ts;
         whenM (correct ts \<noteq> 0) (issueFollowup i) });
       e \<leftarrow> timerExpired (T_announceInterval i);
       whenM e (issueAnnounce i);
       e2e \<leftarrow> go E2E_mode;
       whenM (\<not> e2e) (do {
         e \<leftarrow> timerExpired (T_pdelayReq i);
         whenM e (issuePDelayReq i) });
       cfg \<leftarrow> gp i wrConfig;
       cl \<leftarrow> gc (\<lambda>c. clockClass (clockQuality c));
       whenM (cfg = WR_S_ONLY \<or> cl = 255) (toState PTP_LISTENING i) } }"

definition doState :: "nat \<Rightarrow> unit cmd" where
  "doState i = do {
     state_decision i;
     p \<leftarrow> gp i (\<lambda>p. p);
     case portState p of
       PTP_FAULTY \<Rightarrow> toState PTP_INITIALIZING i
     | PTP_UNCALIBRATED \<Rightarrow> do {
         (if wrMode p = WR_SLAVE then doWRState i else toState PTP_SLAVE i);
         upd i (\<lambda>p. p\<lparr>msgTmpWrMessageID := NULL_WR_TLV\<rparr>) }
     | PTP_LISTENING \<Rightarrow>
         if wrConfig p = WR_M_ONLY then do { m1 i; toState PTP_MASTER i } else do_LISTENING_SLAVE i
     | PTP_PASSIVE \<Rightarrow> do_LISTENING_SLAVE i
     | PTP_SLAVE \<Rightarrow> do_LISTENING_SLAVE i
     | PTP_MASTER \<Rightarrow> do_MASTER i
     | PTP_DISABLED \<Rightarrow> handle i
     | _ \<Rightarrow> skip }"

definition singlePortLoop :: "nat \<Rightarrow> unit cmd" where
  "singlePortLoop i = do {
     link_up \<leftarrow> isPortUp i;
     p \<leftarrow> gp i (\<lambda>p. p);
     let went_up = (link_up \<and> \<not> linkUP p);
     let went_down = (\<not> link_up \<and> linkUP p);
     upd i (\<lambda>p. p\<lparr>linkUP := link_up\<rparr>);
     (if went_up \<or> doRestart p then do {
        toState PTP_INITIALIZING i;
        r \<leftarrow> doInit i;
        cfg \<leftarrow> gp i wrConfig;
        whenM (cfg = WR_S_ONLY) (clearForeignMasters i);
        upd i (\<lambda>p. p\<lparr>doRestart := False\<rparr>) }
      else whenM went_down (do {
        whenM (wrConfig p = WR_S_ONLY) (clearForeignMasters i);
        whenM (wrMode p = WR_S_ONLY) wr_servo_reset }));
     whenM link_up (do {
       st \<leftarrow> gp i portState;
       if st \<noteq> PTP_INITIALIZING then doState i
       else do { r \<leftarrow> doInit i; skip } }) }"

section \<open>All ports\<close>

text \<open>
  The index of the loops is an \<open>Integer16\<close> compared with an unsigned number of ports; the
  model is the code for up to 32767 of them.
\<close>

fun update_loop :: "nat \<Rightarrow> nat list \<Rightarrow> bool \<Rightarrow> bool cmd" where
  "update_loop base [] returnValue = State_Monad.return returnValue"
| "update_loop base (k # ks) returnValue = do {
     u \<leftarrow> gp (base + k) record_update;
     if u then do { r \<leftarrow> ErBest (base + k) base; update_loop base ks True }
     else update_loop base ks returnValue }"

definition globalBestForeignMastersUpdate :: "nat \<Rightarrow> bool cmd" where
  "globalBestForeignMastersUpdate base = do {
     n \<leftarrow> gc numberPorts;
     u \<leftarrow> update_loop base [0..<unat n] False;
     whenM u (do { r \<leftarrow> EBest base; skip });
     State_Monad.return u }"

definition globalSecondSlavesUpdate :: "nat \<Rightarrow> bool cmd" where
  "globalSecondSlavesUpdate base = do {
     ps \<leftarrow> gets (\<lambda>s k. ports s (base + k));
     n \<leftarrow> gc (\<lambda>c. unat (numberPorts c));
     let first = length (takeWhile (\<lambda>k. wrSlaveRole (ps k) \<noteq> SECONDARY_SLAVE) [0..<n]);
     if first = n then State_Monad.return False
     else do {
       let best = best_scan (\<lambda>A B. compare_records (ps 0) A B < 0) (\<lambda>k. secondaryForeignMaster (ps k))
                    first (filter (\<lambda>k. wrSlaveRole (ps k) = SECONDARY_SLAVE) [first + 1..<n]);
       updc (\<lambda>c. c\<lparr>secondarySlavePortNumber := portNumber (portIdentity (ps best)),
                    secondBestForeign := Some (base + best)\<rparr>);
       State_Monad.return True } }"

definition checkClockClassValidity :: "unit cmd" where
  "checkClockClassValidity = do {
     cl \<leftarrow> gc (\<lambda>c. clockClass (clockQuality c));
     whenM (cl = 6) (do {
       e \<leftarrow> timerExpired T_clockClassValidity;
       whenM (e \<and> \<not> extsrcLocked)
         (updc (\<lambda>c. c\<lparr>clockQuality := (clockQuality c)\<lparr>clockClass := 7\<rparr>\<rparr>)) }) }"

definition sharedPortsLoop :: "nat \<Rightarrow> unit cmd" where
  "sharedPortsLoop base = do {
     event \<leftarrow> gc globalStateDecisionEvent;
     whenM event (do {
       r \<leftarrow> globalSecondSlavesUpdate base;
       updc (\<lambda>c. c\<lparr>globalStateDecisionEvent := False\<rparr>) });
     u \<leftarrow> globalBestForeignMastersUpdate base;
     updc (\<lambda>c. c\<lparr>globalStateDecisionEvent := u\<rparr>);
     checkClockClassValidity }"

section \<open>The loop\<close>

text \<open>
  \<open>init_ports\<close> is the first loop of \<open>multiProtocol\<close>: it stops the daemon at the first port
  whose socket cannot be opened. \<open>turns\<close> are the turns of the endless loop, each with the
  remote commands \<open>ptpd\_handle\_wripc\<close> serves in it.
\<close>

fun init_ports :: "nat list \<Rightarrow> bool cmd" where
  "init_ports [] = State_Monad.return True"
| "init_ports (i # is) = do {
     ok \<leftarrow> netInit i;
     if \<not> ok then do { emit (Exit (- 1)); State_Monad.return False }
     else do { upd i (\<lambda>p. p\<lparr>linkUP := False\<rparr>); init_ports is } }"

definition protocol_turn :: "(int \<times> int) list \<Rightarrow> unit cmd" where
  "protocol_turn cmds = do {
     n \<leftarrow> go opt_portNumber;
     forM [0..<unat n] singlePortLoop;
     sharedPortsLoop 0;
     forM cmds (\<lambda>(c, v). do { r \<leftarrow> ptpdexp_cmd c v; skip }) }"

definition multiProtocol :: "(int \<times> int) list list \<Rightarrow> unit cmd" where
  "multiProtocol turns = do {
     modify (\<lambda>s. s\<lparr>rtOpts := (rtOpts s)\<lparr>opt_wrConfig := WR_MODE_AUTO\<rparr>\<rparr>);
     n \<leftarrow> go opt_portNumber;
     ok \<leftarrow> init_ports [0..<unat n];
     whenM ok (forM turns protocol_turn) }"

text \<open>
  The loop for one port that \<open>multiProtocol\<close> has replaced. It ends when \<open>doInit\<close> fails, or at the
  end of the turns that are looked at.
\<close>

fun protocol_loop :: "nat \<Rightarrow> (int \<times> int) list list \<Rightarrow> unit cmd" where
  "protocol_loop i [] = skip"
| "protocol_loop i (cmds # turns) = do {
     forM cmds (\<lambda>(c, v). do { r \<leftarrow> ptpdexp_cmd c v; skip });
     st \<leftarrow> gp i portState;
     ok \<leftarrow> (if st \<noteq> PTP_INITIALIZING then do { doState i; State_Monad.return True } else doInit i);
     whenM ok (do { sharedPortsLoop i; protocol_loop i turns }) }"

definition protocol :: "nat \<Rightarrow> (int \<times> int) list list \<Rightarrow> unit cmd" where
  "protocol i turns = do {
     updc (\<lambda>c. c\<lparr>globalStateDecisionEvent := False\<rparr>);
     toState PTP_INITIALIZING i;
     protocol_loop i turns }"

end
