(* ===== verification/Frames.thy ===== *)
theory Frames
  imports Protocol
begin

text \<open>
  What keeps an invariant of the ports. The locale \<open>comm_frame\<close> is a predicate on a port
  that does not depend on the members the port communicates and measures with (buffers,
  timestamps, timers, sequence numbers, servo); \<open>state_frame\<close> extends it by the members of
  the two state machines, \<open>table_frame\<close> by the table of foreign masters. Each proves once
  that the commands which write only such members keep the predicate.
\<close>

lemma keeps_case_ptp [keeps_intros]:
  assumes "keeps P a" "keeps P b" "keeps P c" "keeps P d" "keeps P e" "keeps P f" "keeps P g"
    "keeps P h" "keeps P k"
  shows "keeps P (case st of PTP_INITIALIZING \<Rightarrow> a | PTP_FAULTY \<Rightarrow> b | PTP_DISABLED \<Rightarrow> c
    | PTP_LISTENING \<Rightarrow> d | PTP_PRE_MASTER \<Rightarrow> e | PTP_MASTER \<Rightarrow> f | PTP_PASSIVE \<Rightarrow> g
    | PTP_UNCALIBRATED \<Rightarrow> h | PTP_SLAVE \<Rightarrow> k)"
  using assms by (cases st) simp_all

lemma keeps_case_rx [keeps_intros]:
  "keeps P a \<Longrightarrow> (\<And>r. keeps P (b r)) \<Longrightarrow> (\<And>f. keeps P (c f)) \<Longrightarrow>
   keeps P (case x of RX_EAGAIN \<Rightarrow> a | RX_FAIL r \<Rightarrow> b r | RX_FRAME f \<Rightarrow> c f)"
  by (cases x) simp_all

lemma keeps_global [keeps_intros]:
  "keeps (port_inv Q R) (modify (\<lambda>s. s\<lparr>cur_servo_state := f s\<rparr>))"
  "keeps (port_inv Q R) (modify (\<lambda>s. s\<lparr>servo_state_valid := b s\<rparr>))"
  "keeps (port_inv Q R) (modify (\<lambda>s. s\<lparr>tracking_enabled := k s\<rparr>))"
  "keeps (port_inv Q R) (modify (\<lambda>s. s\<lparr>got_sync := g s\<rparr>))"
  "keeps (port_inv Q R) (modify (\<lambda>s. s\<lparr>ph_adjust := a s\<rparr>))"
  by (simp_all add: keeps_def port_inv_def)

lemma decision_result:
  "wp (bmcStateDecision header announce reception i)
     (\<lambda>r s'. (r = PTP_MASTER \<longrightarrow> wrConfig (ports s' i) \<noteq> WR_S_ONLY)) s"
  by (simp add: decision_defs wp_simps split_beta)

lemma bmc_result:
  "wp (bmc f i) (\<lambda>r s'. r = PTP_MASTER \<longrightarrow>
     portState (ports s' i) = PTP_MASTER \<or> wrConfig (ports s' i) \<noteq> WR_S_ONLY) s"
  unfolding bmc_def by (simp add: wp_simps wp_conseq [OF decision_result] wp_exec)

lemma keeps_bind_post:
  assumes "\<And>s. P s \<Longrightarrow> wp m (\<lambda>a s'. P s' \<longrightarrow> P (exec (f a) s')) s" "keeps P m"
  shows "keeps P (State_Monad.bind m f)"
proof (rule keepsI)
  fix s assume "P s"
  with assms(1) [of s] keepsD [OF assms(2), of s] show "P (exec (State_Monad.bind m f) s)"
    by (simp add: wp_def split_beta exec_bind flip: exec_def)
qed

section \<open>Communication\<close>

locale comm_frame =
  fixes Q :: "nat \<Rightarrow> PtpPortDS \<Rightarrow> bool" and R :: "RunTimeOpts \<Rightarrow> bool"
  assumes comm [simp]:
    "Q i (p\<lparr>netPath := net\<rparr>) = Q i p"
    "Q i (p\<lparr>timers := tms\<rparr>) = Q i p"
    "Q i (p\<lparr>wrTimers := wtms\<rparr>) = Q i p"
    "Q i (p\<lparr>msgObuf := buf\<rparr>) = Q i p"
    "Q i (p\<lparr>msgIbuf := buf\<rparr>) = Q i p"
    "Q i (p\<lparr>current_rx_ts := ts\<rparr>) = Q i p"
    "Q i (p\<lparr>synch_tx_ts := ts\<rparr>) = Q i p"
    "Q i (p\<lparr>delayReq_tx_ts := ts\<rparr>) = Q i p"
    "Q i (p\<lparr>pDelayReq_tx_ts := ts\<rparr>) = Q i p"
    "Q i (p\<lparr>pDelayResp_tx_ts := ts\<rparr>) = Q i p"
    "Q i (p\<lparr>sentAnnounceSequenceId := n\<rparr>) = Q i p"
    "Q i (p\<lparr>sentSyncSequenceId := n\<rparr>) = Q i p"
    "Q i (p\<lparr>sentDelayReqSequenceId := n\<rparr>) = Q i p"
    "Q i (p\<lparr>sentPDelayReqSequenceId := n\<rparr>) = Q i p"
    "Q i (p\<lparr>recvSyncSequenceId := n\<rparr>) = Q i p"
    "Q i (p\<lparr>waitingForFollow := b\<rparr>) = Q i p"
    "Q i (p\<lparr>message_activity := b\<rparr>) = Q i p"
    "Q i (p\<lparr>wr_servo_ds := srv\<rparr>) = Q i p"
    "Q i (p\<lparr>doRestart := b\<rparr>) = Q i p"
    "Q i (p\<lparr>msgTmpHeader := hdr\<rparr>) = Q i p"
    "Q i (p\<lparr>PdelayReqHeader := hdr\<rparr>) = Q i p"
    "Q i (p\<lparr>delayReqHeader := hdr\<rparr>) = Q i p"
    "Q i (p\<lparr>msgTmp_announce := ann\<rparr>) = Q i p"
    "Q i (p\<lparr>msgTmp_timestamp := tst\<rparr>) = Q i p"
    "Q i (p\<lparr>msgTmp_resp := resp\<rparr>) = Q i p"
    "Q i (p\<lparr>sync_receive_time := t\<rparr>) = Q i p"
    "Q i (p\<lparr>delay_req_receive_time := t\<rparr>) = Q i p"
    "Q i (p\<lparr>pdelay_req_send_time := t\<rparr>) = Q i p"
    "Q i (p\<lparr>pdelay_req_receive_time := t\<rparr>) = Q i p"
    "Q i (p\<lparr>pdelay_resp_send_time := t\<rparr>) = Q i p"
    "Q i (p\<lparr>pdelay_resp_receive_time := t\<rparr>) = Q i p"
    "Q i (p\<lparr>lastSyncCorrectionField := t\<rparr>) = Q i p"
    "Q i (p\<lparr>lastPdelayRespCorrectionField := t\<rparr>) = Q i p"
    "Q i (p\<lparr>logMinDelayReqInterval := k\<rparr>) = Q i p"
begin

abbreviation "kept c \<equiv> keeps (port_inv Q R) c"

lemma netif [keeps_intros]:
  "kept (halexp_lock_cmd i k)" "kept (halexp_pps_cmd k v)" "kept (halexp_get_port_state i)"
  "kept get_tics" "kept ptpd_netif_get_msec_tics"
  "kept (tmo_restart i)" "kept (tmo_init i ms)" "kept (tmo_expired i)"
  by (auto simp: halexp_lock_cmd_def halexp_pps_cmd_def halexp_get_port_state_def get_tics_def
      ptpd_netif_get_msec_tics_def tmo_restart_def tmo_init_def tmo_expired_def
      intro!: keeps_intros keeps_upd)

lemma netif2 [keeps_intros]:
  "kept (update_dmtd i)" "kept (poll_tx_timestamp i ts)"
  "kept (ptpd_netif_locking_enable i)" "kept (ptpd_netif_locking_disable i)"
  "kept (ptpd_netif_locking_poll i)" "kept (ptpd_netif_enable_phase_tracking i)"
  "kept (ptpd_netif_calibration_pattern_enable i)" "kept (ptpd_netif_calibration_pattern_disable i)"
  "kept (ptpd_netif_calibrating_enable i)" "kept (ptpd_netif_calibrating_disable i)"
  "kept (ptpd_netif_read_calibration_data i)" "kept (ptpd_netif_get_port_state i)"
  "kept (ptpd_netif_get_ifName k)" "kept (ptpd_netif_adjust_phase v)"
  "kept ptpd_netif_adjust_in_progress" "kept (ptpd_netif_enable_timing_output v)"
  "kept (ptpd_netif_adjust_counters v w)"
  by (auto simp: update_dmtd_def poll_tx_timestamp_def ptpd_netif_locking_enable_def
      ptpd_netif_locking_disable_def ptpd_netif_locking_poll_def ptpd_netif_enable_phase_tracking_def
      ptpd_netif_calibration_pattern_enable_def ptpd_netif_calibration_pattern_disable_def
      ptpd_netif_calibrating_enable_def ptpd_netif_calibrating_disable_def
      ptpd_netif_read_calibration_data_def ptpd_netif_get_port_state_def ptpd_netif_get_ifName_def
      ptpd_netif_adjust_phase_def ptpd_netif_adjust_in_progress_def
      ptpd_netif_enable_timing_output_def ptpd_netif_adjust_counters_def
      intro!: keeps_intros keeps_upd)

lemma netif3 [keeps_intros]:
  "kept (ptpd_netif_calibrating_poll i k)"
  "kept (ptpd_netif_sendto i to et data ts)"
  "kept (ptpd_netif_recvfrom i n ts)"
  "kept (ptpd_netif_create_socket i)"
  by (auto simp: ptpd_netif_calibrating_poll_def ptpd_netif_sendto_def ptpd_netif_recvfrom_def
      ptpd_netif_create_socket_def Let_def intro!: keeps_intros keeps_upd)

lemma net [keeps_intros]:
  "kept (netRecvMsg i)" "kept (netSendEvent i len ts)" "kept (netSendGeneral i len)"
  "kept (netSendPeerGeneral i len)" "kept (netSendPeerEvent i len ts)"
  "kept (netEnablePhaseTracking i)" "kept (isPortUp i)"
  by (auto simp: netRecvMsg_def netSendEvent_def netSendGeneral_def netSendPeerGeneral_def
      netSendPeerEvent_def netEnablePhaseTracking_def isPortUp_def Let_def
      intro!: keeps_intros keeps_upd)

lemma timer [keeps_intros]:
  "kept (timerInit r)" "kept (timerStart r iv)" "kept (timerStop r)" "kept (timerExpired r)"
  by (cases r; auto simp: timerInit_def timerStart_def timerStop_def timerExpired_def
      intro!: keeps_intros keeps_upd)+

lemma servo [keeps_intros]:
  "kept wr_servo_reset" "kept (wr_servo_init i)" "kept (wr_servo_got_sync i t1 t2)"
  "kept (wr_servo_got_delay i cf)" "kept (ptpdexp_cmd k v)"
  by (auto simp: wr_servo_reset_def wr_servo_init_def wr_servo_got_sync_def wr_servo_got_delay_def
      ptpdexp_cmd_def wr_servo_enable_tracking_def wr_servo_man_adjust_phase_def upd_es_def
      upd_servo_def intro!: keeps_intros keeps_upd)

lemma keeps_case_servo:
  "(\<And>x. kept (f x)) \<Longrightarrow> kept (f (state s))"
  by simp

lemma switch: "kept (servo_switch i tics hw)"
  unfolding servo_switch_def upd_es_def upd_servo_def
  by (intro keeps_intros) (auto split: servo_state.split intro!: keeps_intros keeps_upd)

lemma servo_update [keeps_intros]: "kept (wr_servo_update i)"
  by (auto simp: wr_servo_update_def upd_es_def upd_servo_def Let_def
      intro!: keeps_intros keeps_upd switch)

end


section \<open>The state machines\<close>

text \<open>
  \<open>handshake_frame\<close>: a predicate that moreover does not depend on what the White Rabbit
  handshake keeps in the port, and that a port of any state or White Rabbit mode may satisfy as
  far as it is not the master's. A port may only be or become a master when it is not slave-only.
\<close>

locale handshake_frame = comm_frame +
  assumes handshake [simp]:
    "Q i (p\<lparr>record_update := b\<rparr>) = Q i p"
    "Q i (p\<lparr>linkUP := b\<rparr>) = Q i p"
    "Q i (p\<lparr>wrPortState := ws\<rparr>) = Q i p"
    "Q i (p\<lparr>currentWRstateCnt := cnt\<rparr>) = Q i p"
    "Q i (p\<lparr>wrTimeouts := tmo\<rparr>) = Q i p"
    "Q i (p\<lparr>wrModeON := b\<rparr>) = Q i p"
    "Q i (p\<lparr>calibrated := b\<rparr>) = Q i p"
    "Q i (p\<lparr>deltaTx := dl\<rparr>) = Q i p"
    "Q i (p\<lparr>deltaRx := dl\<rparr>) = Q i p"
    "Q i (p\<lparr>otherNodeDeltaTx := dl\<rparr>) = Q i p"
    "Q i (p\<lparr>otherNodeDeltaRx := dl\<rparr>) = Q i p"
    "Q i (p\<lparr>otherNodeCalSendPattern := snd_pat\<rparr>) = Q i p"
    "Q i (p\<lparr>otherNodeCalPeriod := per\<rparr>) = Q i p"
    "Q i (p\<lparr>otherNodeCalRetry := rty\<rparr>) = Q i p"
    "Q i (p\<lparr>parentWrConfig := cfg\<rparr>) = Q i p"
    "Q i (p\<lparr>parentIsWRnode := b\<rparr>) = Q i p"
    "Q i (p\<lparr>parentWrModeON := b\<rparr>) = Q i p"
    "Q i (p\<lparr>parentCalibrated := b\<rparr>) = Q i p"
    "Q i (p\<lparr>msgTmpWrMessageID := mid\<rparr>) = Q i p"
    "Q i (p\<lparr>wrSlaveRole := rl\<rparr>) = Q i p"
    "Q i (p\<lparr>secondaryForeignMaster := fm\<rparr>) = Q i p"
  and records: "length fms = length (foreign p) \<Longrightarrow> Q i (p\<lparr>foreign := fms\<rparr>) = Q i p"
  and no_master: "Q i p \<Longrightarrow> st \<noteq> PTP_MASTER \<Longrightarrow> Q i (p\<lparr>portState := st\<rparr>)"
    "Q i p \<Longrightarrow> md \<noteq> WR_MASTER \<Longrightarrow> Q i (p\<lparr>wrMode := md\<rparr>)"
  and master: "Q i p \<Longrightarrow> wrConfig p \<noteq> WR_S_ONLY \<Longrightarrow> Q i (p\<lparr>portState := PTP_MASTER\<rparr>)"
    "Q i p \<Longrightarrow> wrConfig p \<noteq> WR_S_ONLY \<Longrightarrow> Q i (p\<lparr>wrMode := WR_MASTER\<rparr>)"
  and master_mode: "Q i p \<Longrightarrow> wrMode p = WR_MASTER \<Longrightarrow> wrConfig p \<noteq> WR_S_ONLY"
begin

lemma records_upd [keeps_intros]: "kept (upd_record i j f)"
  by (auto simp: upd_record_def records intro!: keeps_upd)

lemma leave [keeps_intros]: "kept (leave_state i)"
  unfolding leave_state_def
  by (intro keeps_intros) (auto intro!: keeps_upd no_master)

lemma enter_slave_kept [keeps_intros]: "kept (enter_slave i)"
  unfolding enter_slave_def
  by (intro keeps_intros) (auto intro!: keeps_upd no_master)

lemma enter:
  assumes "\<And>ws. kept (to_wr ws i)" "st \<noteq> PTP_MASTER"
  shows "kept (enter_state to_wr st i)"
  using assms(2) by (cases st) (auto simp: enter_state_def intro!: keeps_intros keeps_upd no_master assms(1))

lemma with_kept:
  assumes "\<And>ws. kept (to_wr ws i)" "st \<noteq> PTP_MASTER"
  shows "kept (toState_with to_wr st i)"
  unfolding toState_with_def
  by (intro keeps_intros keeps_upd enter assms) simp

lemma faulty [keeps_intros]: "kept (toFaulty i)"
  unfolding toFaulty_def by (rule with_kept) (simp_all add: keeps_skip)

lemma signalling [keeps_intros]: "kept (issueWRSignalingMsg w i)"
  by (auto simp: issueWRSignalingMsg_def Let_def intro!: keeps_intros keeps_upd)

lemma wr_init [keeps_intros]: "kept (initWrData i mode)"
  unfolding initWrData_def
  by (intro keeps_intros) (auto intro!: keeps_upd no_master)

lemma wr_timeout [keeps_intros]: "kept (wrTimetoutManage st st' i)"
  unfolding wrTimetoutManage_def by (intro keeps_intros) (auto intro!: keeps_upd)

lemma keeps_case_wr:
  "kept (enter_wr_state st i)"
  unfolding enter_wr_state_def
  by (cases st) (auto simp: enter_S_LOCK_def enter_CALIBRATION_def enter_RESP_CALIB_REQ_def
      enter_WR_LINK_ON_def records intro!: keeps_intros keeps_upd)

lemma toWR [keeps_intros]: "kept (toWRState st i)"
  unfolding toWRState_def Let_def by (intro keeps_intros keeps_case_wr)


lemma to_state [keeps_intros]: "st \<noteq> PTP_MASTER \<Longrightarrow> kept (toState st i)"
  unfolding toState_def by (rule with_kept) (rule toWR)

lemma run_m1_kept [keeps_intros]: "kept (m1 i)"
  unfolding m1_def by (intro keeps_intros) (auto intro!: keeps_upd)

lemma retry [keeps_intros]: "mode \<noteq> WR_MASTER \<Longrightarrow> kept (wrTimerExpired st mode i)"
  unfolding wrTimerExpired_def by (intro keeps_intros) (auto intro!: keeps_intros keeps_upd)

text \<open>Becoming a master.\<close>

lemma capable_kept:
  assumes "\<And>p. Q i p \<Longrightarrow> wrConfig p \<noteq> WR_S_ONLY"
  shows "kept (toState st i)" "kept (wrTimerExpired ws mode i)"
proof -
  show m: "kept (toState st i)" for st
  proof (cases "st = PTP_MASTER")
    case True
    have "kept (enter_state toWRState PTP_MASTER i)"
      using assms by (auto simp: enter_state_def intro!: keeps_intros keeps_upd master(1))
    with True show ?thesis
      unfolding toState_def toState_with_def by (auto intro!: keeps_intros keeps_upd)
  qed (rule to_state)
  show "kept (wrTimerExpired ws mode i)"
    unfolding wrTimerExpired_def by (intro keeps_intros m) (auto intro!: keeps_intros keeps_upd)
qed

end

definition master_capable :: "(nat \<Rightarrow> PtpPortDS \<Rightarrow> bool) \<Rightarrow> nat \<Rightarrow> nat \<Rightarrow> PtpPortDS \<Rightarrow> bool" where
  "master_capable Q k = (\<lambda>i p. Q i p \<and> (i = k \<longrightarrow> wrConfig p \<noteq> WR_S_ONLY))"

context handshake_frame
begin

lemma capable_frame: "handshake_frame (master_capable Q k)"
  by unfold_locales (auto simp: master_capable_def records no_master master master_mode)


lemma capable_at:
  assumes "port_inv Q R s" "wrConfig (ports s k) \<noteq> WR_S_ONLY" "keeps (port_inv (master_capable Q k) R) m"
  shows "port_inv Q R (exec m s)"
proof -
  have "port_inv (master_capable Q k) R s"
    using assms(1,2) by (auto simp: port_inv_def master_capable_def)
  then have "port_inv (master_capable Q k) R (exec m s)" by (rule keepsD [OF assms(3)])
  then show ?thesis by (auto simp: port_inv_def master_capable_def)
qed

lemma capable_keeps:
  "keeps (port_inv (master_capable Q k) R) (toState st k)"
  "keeps (port_inv (master_capable Q k) R) (wrTimerExpired ws mode k)"
  "keeps (port_inv (master_capable Q k) R) (m1 k)"
proof -
  have c: "\<And>p. master_capable Q k k p \<Longrightarrow> wrConfig p \<noteq> WR_S_ONLY" by (simp add: master_capable_def)
  show "keeps (port_inv (master_capable Q k) R) (toState st k)"
    by (rule handshake_frame.capable_kept(1) [OF capable_frame c])
  show "keeps (port_inv (master_capable Q k) R) (wrTimerExpired ws mode k)"
    by (rule handshake_frame.capable_kept(2) [OF capable_frame c])
  show "keeps (port_inv (master_capable Q k) R) (m1 k)"
    by (rule handshake_frame.run_m1_kept [OF capable_frame])
qed

lemma to_master:
  "port_inv Q R s \<Longrightarrow> wrConfig (ports s i) \<noteq> WR_S_ONLY \<Longrightarrow> port_inv Q R (exec (toState st i) s)"
  by (rule capable_at [OF _ _ capable_keeps(1)])

lemma become_master:
  "port_inv Q R s \<Longrightarrow> wrConfig (ports s i) \<noteq> WR_S_ONLY \<Longrightarrow>
   port_inv Q R (exec (do { m1 i; toState st i }) s)"
  by (rule capable_at [where k = i]) (auto intro!: keeps_intros capable_keeps)

text \<open>The White Rabbit state machine, around what its states do with a received message.\<close>

lemma retry_mode: "kept (do { m \<leftarrow> gp i wrMode; wrTimerExpired st m i })"
proof (rule keepsI)
  fix s assume inv: "port_inv Q R s"
  have "port_inv Q R (exec (wrTimerExpired st (wrMode (ports s i)) i) s)"
  proof (cases "wrMode (ports s i) = WR_MASTER")
    case True
    then have "wrConfig (ports s i) \<noteq> WR_S_ONLY" using master_mode inv by (auto simp: port_inv_def)
    with inv show ?thesis by (rule capable_at [OF _ _ capable_keeps(2)])
  next
    case False
    with inv show ?thesis by (intro keepsD [OF retry])
  qed
  then show "port_inv Q R (exec (do { m \<leftarrow> gp i wrMode; wrTimerExpired st m i }) s)"
    by (simp add: exec_bind) (simp add: exec_def)
qed

lemma link_on [keeps_intros]: "kept (do_WR_LINK_ON i)"
proof -
  have "kept (do { m \<leftarrow> gp i wrMode; if m = WR_SLAVE then toState PTP_SLAVE i
      else if m = WR_MASTER then toState PTP_MASTER i else skip })" (is "kept ?m")
  proof (rule keepsI)
    fix s assume inv: "port_inv Q R s"
    have "wrMode (ports s i) = WR_MASTER \<Longrightarrow> wrConfig (ports s i) \<noteq> WR_S_ONLY"
      using master_mode inv by (auto simp: port_inv_def)
    with inv show "port_inv Q R (exec ?m s)"
      by (auto simp: exec_bind exec_def [of "gp _ _"] intro: to_master keepsD [OF to_state])
  qed
  then show ?thesis unfolding do_WR_LINK_ON_def by (rule keeps_bind [OF toWR])
qed

end

section \<open>The handlers\<close>

text \<open>
  \<open>handler_frame\<close>: a predicate that a fault keeps and so does what an Announce does to the
  table of foreign masters. Then every message is sent and handled without breaking it, but for
  the signalling messages, which move the White Rabbit state machine.
\<close>

locale handler_frame = comm_frame +
  assumes fault: "keeps (port_inv Q R) (toFaulty i)"
    and announced: "keeps (port_inv Q R) (addForeign h i)" "keeps (port_inv Q R) (upd_record i j f)"
      "Q i (p\<lparr>record_update := b\<rparr>) = Q i p"
begin

lemma fault_state [keeps_intros]: "kept (toState PTP_FAULTY i)"
  unfolding toState_faulty by (rule fault)

lemma issue [keeps_intros]:
  "kept (issueAnnounce i)" "kept (issueSync i)" "kept (issueFollowup i)" "kept (issueDelayReq i)"
  "kept (issuePDelayReq i)" "kept (issuePDelayResp t h i)" "kept (issueDelayResp h i)"
  "kept (issuePDelayRespFollowUp t h i)" "kept uninit_time"
  by (auto simp: issueAnnounce_def issueSync_def issueFollowup_def issueDelayReq_def
      issuePDelayReq_def issuePDelayResp_def issueDelayResp_def issuePDelayRespFollowUp_def
      uninit_time_def intro!: keeps_intros keeps_upd)

lemma restart [keeps_intros]: "kept (restart_announceReceipt i)"
  unfolding restart_announceReceipt_def by (intro keeps_intros)

lemma handlers1 [keeps_intros]:
  "kept (handleAnnounce h len self i)" "kept (handleSync h len self i)"
  "kept (handleFollowUp h len self i)" "kept (handleDelayReq h len self i)"
  unfolding handleAnnounce_def handleSync_def handleFollowUp_def handleDelayReq_def Let_def
  by (auto simp: announced(3) intro!: keeps_intros keeps_upd announced(1) announced(2))

lemma handlers2 [keeps_intros]:
  "kept (handleDelayResp h len self i)" "kept (handlePDelayReq h len t self i)"
  "kept (handlePDelayResp h t len self i)" "kept (handlePDelayRespFollowUp h len self i)"
  "kept (handleManagement h len self i)"
  unfolding handleDelayResp_def handlePDelayReq_def handlePDelayResp_def
    handlePDelayRespFollowUp_def handleManagement_def Let_def
  by (auto intro!: keeps_intros keeps_upd)

end

locale engine_frame = handshake_frame +
  assumes foreign_table: "keeps (port_inv Q R) (addForeign h i)"
    "Q i p \<Longrightarrow> Q i (p\<lparr>foreign_record_i := 0, number_foreign_records := 0, foreign_record_best := 0\<rparr>)"
    "Q i p \<Longrightarrow> Q i (p\<lparr>number_foreign_records := 0, foreign_record_i := 0\<rparr>)"
    "keeps (port_inv Q R) (ErBest j i)"
  and init: "keeps (port_inv Q R) (doInit i)"
begin

end

sublocale engine_frame \<subseteq> handler_frame
  by unfold_locales (auto intro: foreign_table(1) faulty records_upd)

context engine_frame
begin

lemma unpack_signalling:
  "msgUnpackWRSignalingMsg buf m p = (target, mid, q) \<Longrightarrow>
   Q i q = Q i p"
  by (auto simp: msgUnpackWRSignalingMsg_def Let_def split: if_splits)

lemma signalling_handler [keeps_intros]: "kept (handleSignaling h len self i)"
proof -
  have "kept (do { p \<leftarrow> gp i (\<lambda>p. p);
       whenM (portState p = PTP_MASTER \<and> msgTmpWrMessageID p = SLAVE_PRESENT \<and>
              (wrConfig p = WR_M_ONLY \<or> wrConfig p = WR_M_AND_S)) (do {
         upd i (\<lambda>p. p\<lparr>wrMode := WR_MASTER\<rparr>);
         toWRState WRS_M_LOCK i }) })" (is "kept ?m")
  proof (rule keepsI)
    fix s assume inv: "port_inv Q R s"
    show "port_inv Q R (exec ?m s)"
    proof (cases "wrConfig (ports s i) = WR_M_ONLY \<or> wrConfig (ports s i) = WR_M_AND_S")
      case True
      then have "wrConfig (ports s i) \<noteq> WR_S_ONLY" by auto
      then have "port_inv Q R (exec (upd i (\<lambda>p. p\<lparr>wrMode := WR_MASTER\<rparr>)) s)"
        using inv by (auto simp: port_inv_def exec_def intro: master(2))
      then have "port_inv Q R (exec (toWRState WRS_M_LOCK i) (exec (upd i (\<lambda>p. p\<lparr>wrMode := WR_MASTER\<rparr>)) s))"
        by (rule keepsD [OF toWR])
      with inv show ?thesis by (auto simp: exec_bind exec_def [of "gp _ _"] exec_when)
    qed (use inv in \<open>auto simp: exec_bind exec_def [of "gp _ _"] exec_when\<close>)
  qed
  moreover have "kept (upd i (\<lambda>p. case msgUnpackWRSignalingMsg (msgIbuf p) (msgTmpWrMessageID p) p of
                  (target, mid, q) \<Rightarrow> q\<lparr>msgTmpWrMessageID := mid\<rparr>))"
    by (rule keeps_upd) (auto simp: unpack_signalling split: prod.split)
  ultimately show ?thesis
    unfolding handleSignaling_def by (intro keeps_if keeps_skip keeps_bind [of _ _ "\<lambda>_. ?m"])
qed

lemma handle_kept [keeps_intros]: "kept (handle i)"
  unfolding handle_def dispatch_def Let_def
  by (auto intro!: keeps_intros keeps_upd)

lemma wr_states [keeps_intros]:
  "kept (set_wr i st)" "kept (do_PRESENT i)" "kept (do_S_LOCK_2 i)" "kept (do_S_LOCK_1 i)"
  "kept (do_S_LOCK i)" "kept (do_M_LOCK i)" "kept (do_LOCKED i)"
  unfolding set_wr_def do_PRESENT_def do_S_LOCK_2_def do_S_LOCK_1_def do_S_LOCK_def
    do_M_LOCK_def do_LOCKED_def
  by (auto intro!: keeps_intros keeps_upd)

lemma wr_calibration [keeps_intros]:
  "kept (do_CALIBRATION_8 i)" "kept (do_CALIBRATION_7 i)" "kept (do_CALIBRATION_6 i)"
  "kept (do_CALIBRATION_5 i)" "kept (do_CALIBRATION_4 i)" "kept (do_CALIBRATION_3 i)"
  "kept (do_CALIBRATION_2 i)" "kept (do_CALIBRATION_1 i)" "kept (do_CALIBRATION i)"
  unfolding do_CALIBRATION_8_def do_CALIBRATION_7_def do_CALIBRATION_6_def do_CALIBRATION_5_def
    do_CALIBRATION_4_def do_CALIBRATION_3_def do_CALIBRATION_2_def do_CALIBRATION_1_def
    do_CALIBRATION_def
  by (auto intro!: keeps_intros keeps_upd)

lemma wr_responses [keeps_intros]:
  "kept (do_CALIBRATED i)" "kept (do_RESP_CALIB_REQ_3 i)" "kept (do_RESP_CALIB_REQ_2 i)"
  "kept (do_RESP_CALIB_REQ_1 i)" "kept (do_RESP_CALIB_REQ i)"
  unfolding do_CALIBRATED_def do_RESP_CALIB_REQ_3_def do_RESP_CALIB_REQ_2_def
    do_RESP_CALIB_REQ_1_def do_RESP_CALIB_REQ_def
  by (auto intro!: keeps_intros keeps_upd)

lemma wr_machine [keeps_intros]: "kept (doWRState i)"
proof -
  have "kept (case w of WRS_IDLE \<Rightarrow> skip | WRS_PRESENT \<Rightarrow> do_PRESENT i | WRS_S_LOCK \<Rightarrow> do_S_LOCK i
    | WRS_S_LOCK_1 \<Rightarrow> do_S_LOCK_1 i | WRS_S_LOCK_2 \<Rightarrow> do_S_LOCK_2 i | WRS_M_LOCK \<Rightarrow> do_M_LOCK i
    | WRS_LOCKED \<Rightarrow> do_LOCKED i | WRS_CALIBRATION \<Rightarrow> do_CALIBRATION i
    | WRS_CALIBRATION_1 \<Rightarrow> do_CALIBRATION_1 i | WRS_CALIBRATION_2 \<Rightarrow> do_CALIBRATION_2 i
    | WRS_CALIBRATION_3 \<Rightarrow> do_CALIBRATION_3 i | WRS_CALIBRATION_4 \<Rightarrow> do_CALIBRATION_4 i
    | WRS_CALIBRATION_5 \<Rightarrow> do_CALIBRATION_5 i | WRS_CALIBRATION_6 \<Rightarrow> do_CALIBRATION_6 i
    | WRS_CALIBRATION_7 \<Rightarrow> do_CALIBRATION_7 i | WRS_CALIBRATION_8 \<Rightarrow> do_CALIBRATION_8 i
    | WRS_CALIBRATED \<Rightarrow> do_CALIBRATED i | WRS_RESP_CALIB_REQ \<Rightarrow> do_RESP_CALIB_REQ i
    | WRS_RESP_CALIB_REQ_1 \<Rightarrow> do_RESP_CALIB_REQ_1 i | WRS_RESP_CALIB_REQ_2 \<Rightarrow> do_RESP_CALIB_REQ_2 i
    | WRS_RESP_CALIB_REQ_3 \<Rightarrow> do_RESP_CALIB_REQ_3 i | WRS_WR_LINK_ON \<Rightarrow> do_WR_LINK_ON i)" for w
    by (cases w) (auto intro!: keeps_intros)
  then show ?thesis
    unfolding doWRState_def by (intro keeps_bind keeps_port_inv retry_mode)
qed

text \<open>The engine of a port.\<close>

lemma decision_kept [keeps_intros]: "kept (bmcStateDecision header announce reception i)"
  unfolding bmcStateDecision_def s1_def s2_def m3_def p1_def Let_def
  by (auto intro!: keeps_intros keeps_upd split: prod.split)

lemma bmc_kept [keeps_intros]: "kept (bmc f i)"
  unfolding bmc_def by (intro keeps_intros)

lemma decided:
  assumes "port_inv Q R s" "st = PTP_MASTER \<longrightarrow> portState (ports s i) = PTP_MASTER \<or> wrConfig (ports s i) \<noteq> WR_S_ONLY"
    and "st \<noteq> portState (ports s i)"
  shows "port_inv Q R (exec (toState st i) s)"
  using assms by (cases "st = PTP_MASTER") (auto intro: to_master keepsD [OF to_state])

lemma decision [keeps_intros]: "kept (state_decision i)"
proof -
  have slave: "kept (do { upd i (\<lambda>p. p\<lparr>wrMode := WR_SLAVE, wrModeON := False\<rparr>); toState PTP_UNCALIBRATED i })"
    by (auto intro!: keeps_intros keeps_upd no_master)
  have "kept (do { st \<leftarrow> bmc i i;
       p \<leftarrow> gp i (\<lambda>p. p);
       if st \<noteq> portState p then
         if st = PTP_SLAVE \<and>
            portState p \<in> {PTP_LISTENING, PTP_PRE_MASTER, PTP_MASTER, PTP_PASSIVE, PTP_UNCALIBRATED}
         then do {
           upd i (\<lambda>p. p\<lparr>wrMode := WR_SLAVE, wrModeON := False\<rparr>);
           toState PTP_UNCALIBRATED i }
         else toState st i
       else whenM (linkUP p \<and> portState p = PTP_SLAVE \<and> wrMode p = WR_SLAVE \<and>
                   (\<not> parentWrModeON p \<or> \<not> wrModeON p))
              (toState PTP_UNCALIBRATED i) })" (is "kept (do { st \<leftarrow> bmc i i; ?f st })")
  proof (rule keeps_bind_post)
    show "wp (bmc i i) (\<lambda>a s'. port_inv Q R s' \<longrightarrow> port_inv Q R (exec (?f a) s')) s" for s
      by (rule wp_conseq [OF bmc_result])
        (auto simp: exec_bind exec_def [of "gp _ _"] exec_when
          intro: decided keepsD [OF slave, unfolded exec_bind] keepsD [OF to_state])
  qed (rule bmc_kept)
  then show ?thesis unfolding state_decision_def
    by (auto intro!: keeps_intros keeps_upd)
qed

lemma listening_slave [keeps_intros]: "kept (do_LISTENING_SLAVE i)"
proof -
  have "kept (do { p \<leftarrow> gp i (\<lambda>p. p);
       cl \<leftarrow> gc (\<lambda>c. clockClass (clockQuality c));
       if wrConfig p \<noteq> WR_S_ONLY \<and> cl \<noteq> 255 then do { m1 i; toState PTP_MASTER i }
       else whenM (portState p \<noteq> PTP_LISTENING) (toState PTP_LISTENING i) })" (is "kept ?m")
  proof (rule keepsI)
    fix s assume inv: "port_inv Q R s"
    then have "wrConfig (ports s i) \<noteq> WR_S_ONLY \<Longrightarrow>
        port_inv Q R (exec (toState PTP_MASTER i) (exec (m1 i) s))"
      using become_master [of s i PTP_MASTER] by (simp add: exec_bind)
    with inv show "port_inv Q R (exec ?m s)"
      by (auto simp: exec_bind exec_def [of "gp _ _"] exec_def [of "gc _"] exec_when
        intro: keepsD [OF to_state])
  qed
  then show ?thesis
    unfolding do_LISTENING_SLAVE_def
    by (auto intro!: keeps_intros keeps_upd no_master foreign_table(3))
qed

lemma master_state [keeps_intros]: "kept (do_MASTER i)"
  unfolding do_MASTER_def by (auto intro!: keeps_intros keeps_upd)

lemma engine [keeps_intros]: "kept (doState i)"
proof -
  have "kept (do { p \<leftarrow> gp i (\<lambda>p. p);
     case portState p of
       PTP_FAULTY \<Rightarrow> toState PTP_INITIALIZING i
     | PTP_UNCALIBRATED \<Rightarrow> do {
         (if wrMode p = WR_SLAVE then doWRState i else toState PTP_SLAVE i);
         upd i (\<lambda>p. p\<lparr>msgTmpWrMessageID := NULL_WR_TLV\<rparr>) }
     | PTP_LISTENING \<Rightarrow>
         if wrConfig p = WR_M_ONLY then do { m1 i; toState PTP_MASTER i } else do_LISTENING_SLAVE i
     | PTP_PASSIVE \<Rightarrow> do_LISTENING_SLAVE i
     | PTP_SLAVE \<Rightarrow> do_LISTENING_SLAVE i
     | PTP_MASTER \<Rightarrow> do_MASTER i
     | PTP_DISABLED \<Rightarrow> handle i
     | _ \<Rightarrow> skip })" (is "kept ?m")
  proof (rule keepsI)
    fix s assume inv: "port_inv Q R s"
    have m: "wrConfig (ports s i) = WR_M_ONLY \<Longrightarrow>
        port_inv Q R (exec (do { m1 i; toState PTP_MASTER i }) s)"
      using inv by (intro become_master) auto
    have u: "kept (do { doWRState i; upd i (\<lambda>p. p\<lparr>msgTmpWrMessageID := NULL_WR_TLV\<rparr>) })"
      "kept (do { toState PTP_SLAVE i; upd i (\<lambda>p. p\<lparr>msgTmpWrMessageID := NULL_WR_TLV\<rparr>) })"
      by (auto intro!: keeps_intros keeps_upd)
    show "port_inv Q R (exec ?m s)"
      using inv m
      by (cases "portState (ports s i)")
        (auto simp: exec_bind [of "gp _ _"] exec_def [of "gp _ _"] intro!: keepsD [OF u(1)] keepsD [OF u(2)]
          keepsD [OF to_state] keepsD [OF listening_slave] keepsD [OF master_state] keepsD [OF handle_kept])
  qed
  then show ?thesis unfolding doState_def by (rule keeps_bind [OF decision])
qed

lemma clear [keeps_intros]: "kept (clearForeignMasters i)"
  unfolding clearForeignMasters_def
  by (intro keeps_intros) (auto intro!: keeps_upd foreign_table(2))

lemma port_loop [keeps_intros]: "kept (singlePortLoop i)"
  unfolding singlePortLoop_def Let_def
  by (auto intro!: keeps_intros keeps_upd init)

lemma update_loop_kept: "kept (update_loop base ks b)"
  by (induction ks arbitrary: b) (auto intro!: keeps_intros foreign_table(4))

lemma shared [keeps_intros]: "kept (sharedPortsLoop base)"
  unfolding sharedPortsLoop_def globalSecondSlavesUpdate_def globalBestForeignMastersUpdate_def
    checkClockClassValidity_def EBest_def Let_def
  by (auto intro!: keeps_intros update_loop_kept)

lemma turn: "kept (protocol_turn cmds)"
  unfolding protocol_turn_def by (intro keeps_intros)

end

end
