(* ===== verification/Startup.thy ===== *)
theory Startup
  imports Protocol
begin

text \<open>
  How the daemon comes up: the default options and \<open>main\<close> of PTPWRd/ptpd.c, and the parsing of
  the command line and the allocation of the ports in \<open>ptpdStartup\<close> of PTPWRd/dep/startup.c.
  The command line is the list of options \<open>getopt\<close> returns, each with its argument; \<open>long\<close>
  has 64 bits. PTPD\_DBG is not defined. What only concerns the terminal (usage text, output
  file, signals) is left out; whether \<open>calloc\<close> and \<open>daemon\<close> succeed is an argument.
\<close>

section \<open>Reading numbers\<close>

definition isspace :: "char \<Rightarrow> bool" where
  "isspace c \<longleftrightarrow> of_char c = (32 :: nat) \<or> (9 :: nat) \<le> of_char c \<and> of_char c \<le> (13 :: nat)"

definition digit_value :: "char \<Rightarrow> nat" where
  "digit_value c = (let n = of_char c in
     if 48 \<le> n \<and> n \<le> 57 then n - 48
     else if 97 \<le> n \<and> n \<le> 122 then n - 87
     else if 65 \<le> n \<and> n \<le> 90 then n - 55
     else 36)"

fun read_digits :: "nat \<Rightarrow> int \<Rightarrow> string \<Rightarrow> int \<times> string" where
  "read_digits base acc [] = (acc, [])"
| "read_digits base acc (c # cs) =
     (if digit_value c < base then read_digits base (acc * int base + int (digit_value c)) cs
      else (acc, c # cs))"

text \<open>\<open>strtol(s, \<dots>, 0)\<close>: the number and what follows it (the whole string when there is none).\<close>

definition strtol :: "string \<Rightarrow> int \<times> string" where
  "strtol s =
    (let t = dropWhile isspace s;
         (neg, u) = (case t of c # cs \<Rightarrow> if c = CHR ''-'' then (True, cs)
                                 else if c = CHR ''+'' then (False, cs) else (False, t)
                     | [] \<Rightarrow> (False, t));
         (base, body) = (case u of
             z # x # h # cs \<Rightarrow>
               if z = CHR ''0'' \<and> (x = CHR ''x'' \<or> x = CHR ''X'') \<and> digit_value h < 16
               then (16, h # cs) else if z = CHR ''0'' then (8, u) else (10, u)
           | z # cs \<Rightarrow> if z = CHR ''0'' then (8, u) else (10, u)
           | [] \<Rightarrow> (10, u))
     in if body = [] \<or> base \<le> digit_value (hd body) then (0, s)
        else let (v, rest) = read_digits base 0 body;
                 k = (if neg then - v else v)
             in (max (- 9223372036854775808) (min 9223372036854775807 k), rest))"

section \<open>The options\<close>

definition default_opts :: RunTimeOpts where
  "default_opts = opts_zero\<lparr>opt_announceInterval := 1, opt_syncInterval := 0,
     opt_clockQuality := \<lparr>clockClass = 187, clockAccuracy = 0xFE,
       offsetScaledLogVariance = word_of_int (- 4000)\<rparr>,
     opt_priority1 := 128, opt_priority2 := 128, opt_domainNumber := 0, opt_currentUtcOffset := 0,
     noResetClock := False, noAdjust := False, opt_s := 6, opt_ap := 10, opt_ai := 1000,
     opt_max_foreign_records := 5, autoPortDiscovery := True, primarySource := False,
     opt_portNumber := 2, opt_calPeriod := 3000, E2E_mode := True, opt_wrConfig := WR_MODE_AUTO,
     opt_wrStateRetry := 3, opt_wrStateTimeout := 300, opt_phyCalibrationRequired := False,
     masterOnly := False, disableFallbackIfWRFails := True\<rparr>"

datatype startup_mode = DAEMONE_MODE | NONDAEMONE_MODE

definition set_iface :: "nat \<Rightarrow> string \<Rightarrow> RunTimeOpts \<Rightarrow> RunTimeOpts" where
  "set_iface k arg r = r\<lparr>opt_iface_given := (opt_iface_given r)(k := arg \<noteq> [])\<rparr>"

text \<open>
  One option: \<open>Inl ret\<close> leaves \<open>ptpdStartup\<close> with \<open>*ret\<close> set to \<open>ret\<close>, or not set at all.
  The cases that fall through into the next one are written out: \<open>-d\<close> into \<open>-c\<close> and \<open>-s\<close>
  into \<open>-1\<close>.
\<close>

definition startup_option ::
    "char \<Rightarrow> string \<Rightarrow> RunTimeOpts \<times> startup_mode \<Rightarrow> int option + (RunTimeOpts \<times> startup_mode)" where
  "startup_option c arg = (\<lambda>(r, mode).
     let num = fst (strtol arg); rest = snd (strtol arg); set = (\<lambda>r'. Inr (r', mode)) in
     if c = CHR ''?'' then Inl (Some 0)
     else if c = CHR ''f'' then Inr (r, mode)
     else if c = CHR ''d'' then Inr (r, NONDAEMONE_MODE)
     else if c = CHR ''c'' then Inr (r, NONDAEMONE_MODE)
     else if c = CHR ''D'' then set (r\<lparr>displayStats := True, csvStats := True\<rparr>)
     else if c = CHR ''x'' then set (r\<lparr>noResetClock := True\<rparr>)
     else if c = CHR ''t'' then set (r\<lparr>noAdjust := True\<rparr>)
     else if c = CHR ''a'' then
       set (r\<lparr>opt_ap := s16 num,
              opt_ai := if rest \<noteq> [] then s16 (fst (strtol (tl rest))) else opt_ai r\<rparr>)
     else if c = CHR ''w'' then set (r\<lparr>opt_s := s16 num\<rparr>)
     else if c = CHR ''b'' then set ((set_iface 0 arg r)\<lparr>opt_portNumber := 1, autoPortDiscovery := False\<rparr>)
     else if c = CHR ''u'' then set (r\<lparr>opt_unicast_given := arg \<noteq> []\<rparr>)
     else if c = CHR ''l'' then
       set (r\<lparr>inboundLatency := (inboundLatency r)\<lparr>nanoseconds := s32 num\<rparr>,
              outboundLatency := if rest \<noteq> [] then (outboundLatency r)\<lparr>nanoseconds := s32 (fst (strtol (tl rest)))\<rparr>
                                 else outboundLatency r\<rparr>)
     else if c = CHR ''o'' then set (r\<lparr>opt_currentUtcOffset := s16 num\<rparr>)
     else if c = CHR ''i'' then set (r\<lparr>opt_domainNumber := word_of_int num\<rparr>)
     else if c = CHR ''y'' then set (r\<lparr>opt_syncInterval := s8 num\<rparr>)
     else if c = CHR ''n'' then set (r\<lparr>opt_announceInterval := s8 num\<rparr>)
     else if c = CHR ''g'' then set (r\<lparr>disableFallbackIfWRFails := num \<noteq> 0\<rparr>)
     else if c = CHR ''r'' then
       set (r\<lparr>opt_clockQuality := (opt_clockQuality r)\<lparr>clockAccuracy := word_of_int num\<rparr>\<rparr>)
     else if c = CHR ''v'' then
       set (r\<lparr>opt_clockQuality := (opt_clockQuality r)\<lparr>clockClass := word_of_int num\<rparr>\<rparr>)
     else if c = CHR ''p'' then set (r\<lparr>opt_priority1 := word_of_int num\<rparr>)
     else if c = CHR ''q'' then set (r\<lparr>overrideClockIdentity := word_of_int num\<rparr>)
     else if c = CHR ''e'' then Inl None
     else if c = CHR ''h'' then set (r\<lparr>E2E_mode := False\<rparr>)
     else if c = CHR ''A'' then
       set (r\<lparr>opt_portNumber := 32, opt_wrConfig := WR_MODE_AUTO, autoPortDiscovery := True\<rparr>)
     else if c = CHR ''M'' then
       set (r\<lparr>autoPortDiscovery := False, masterOnly := True, opt_portNumber := 1, opt_wrConfig := WR_M_ONLY\<rparr>)
     else if c = CHR ''m'' then
       set ((set_iface 0 arg r)\<lparr>autoPortDiscovery := False, masterOnly := True, opt_portNumber := 1,
              opt_wrConfig := WR_M_ONLY\<rparr>)
     else if c = CHR ''B'' then set (r\<lparr>opt_wrConfig := WR_M_AND_S\<rparr>)
     else if c = CHR ''N'' then set (r\<lparr>opt_wrConfig := NON_WR\<rparr>)
     else if c = CHR ''P'' then set (r\<lparr>primarySource := True\<rparr>)
     else if c = CHR ''S'' then
       set (r\<lparr>autoPortDiscovery := False, opt_portNumber := 1, opt_wrConfig := WR_S_ONLY\<rparr>)
     else if c = CHR ''s'' then
       set ((set_iface 0 arg r)\<lparr>autoPortDiscovery := False, opt_wrConfig := WR_S_ONLY, opt_portNumber := 1\<rparr>)
     else if c = CHR ''1'' then set ((set_iface 0 arg r)\<lparr>opt_portNumber := 1, autoPortDiscovery := False\<rparr>)
     else if c = CHR ''2'' then set ((set_iface 1 arg r)\<lparr>opt_portNumber := 2, autoPortDiscovery := False\<rparr>)
     else if c = CHR ''3'' then set ((set_iface 2 arg r)\<lparr>opt_portNumber := 3, autoPortDiscovery := False\<rparr>)
     else Inl (Some 1))"

fun parse_options ::
    "(char \<times> string) list \<Rightarrow> RunTimeOpts \<times> startup_mode \<Rightarrow> int option + (RunTimeOpts \<times> startup_mode)" where
  "parse_options [] st = Inr st"
| "parse_options ((c, arg) # args) st =
     (case startup_option c arg st of Inl ret \<Rightarrow> Inl ret | Inr st' \<Rightarrow> parse_options args st')"

section \<open>Allocation\<close>

abbreviation MAX_PORT_NUMBER :: nat where "MAX_PORT_NUMBER \<equiv> 32"

text \<open>
  The array is zeroed, each port gets its number and its table of foreign masters. What lies
  behind the array is what it was.
\<close>

definition new_port :: "RunTimeOpts \<Rightarrow> nat \<Rightarrow> PtpPortDS" where
  "new_port r i = port_zero\<lparr>portIdentity := pid_zero\<lparr>portNumber := word_of_nat (i + 1)\<rparr>,
     foreign := replicate (nat (opt_max_foreign_records r)) foreign_zero\<rparr>"

definition discover_ports :: "nat \<Rightarrow> unit cmd" where
  "discover_ports fuel = do {
     auto_ports \<leftarrow> go autoPortDiscovery;
     whenM auto_ports (do {
       n \<leftarrow> autoPortNumberDiscovery fuel;
       modify (\<lambda>s. s\<lparr>rtOpts := (rtOpts s)\<lparr>opt_portNumber := n\<rparr>\<rparr>) }) }"

text \<open>
  The result: whether a pointer to the ports is returned, and \<open>*ret\<close> where it is set.
  \<open>alloc k\<close> is the success of the \<open>k\<close>-th call of \<open>calloc\<close>, \<open>fuel\<close> that of the discovery.
\<close>

definition allocate_ports :: "(nat \<Rightarrow> bool) \<Rightarrow> startup_mode \<Rightarrow> bool \<Rightarrow> (bool \<times> int option) cmd" where
  "allocate_ports alloc mode daemonised =
    (if \<not> list_all alloc [1..<MAX_PORT_NUMBER + 1] then State_Monad.return (False, Some 2)
     else do {
       modify (\<lambda>s. s\<lparr>ports := (\<lambda>i. if i < MAX_PORT_NUMBER then new_port (rtOpts s) i else ports s i)\<rparr>);
       r \<leftarrow> go (\<lambda>r. r);
       if opt_portNumber r > 1 \<and> masterOnly r then State_Monad.return (False, None)
       else if mode = DAEMONE_MODE \<and> \<not> daemonised then State_Monad.return (False, Some 3)
       else State_Monad.return (True, Some 0) })"

definition ptpdStartup ::
    "(char \<times> string) list \<Rightarrow> nat \<Rightarrow> (nat \<Rightarrow> bool) \<Rightarrow> bool \<Rightarrow> (bool \<times> int option) cmd" where
  "ptpdStartup args fuel alloc daemonised = do {
     r \<leftarrow> go (\<lambda>r. r);
     case parse_options args (r, DAEMONE_MODE) of
       Inl ret \<Rightarrow> State_Monad.return (False, ret)
     | Inr (r', mode) \<Rightarrow> do {
         modify (\<lambda>s. s\<lparr>rtOpts := r'\<rparr>);
         if \<not> alloc 0 then State_Monad.return (False, Some 2)
         else do { discover_ports fuel; allocate_ports alloc mode daemonised } } }"

text \<open>
  \<open>main\<close> and its exit status (never reached when the ports run): \<open>ret\<close> is an uninitialised
  local where \<open>ptpdStartup\<close> does not set it, and so is the clock data set.
\<close>

definition ptpd_main ::
    "(char \<times> string) list \<Rightarrow> nat \<Rightarrow> (nat \<Rightarrow> bool) \<Rightarrow> bool \<Rightarrow> (int \<times> int) list list \<Rightarrow> int cmd" where
  "ptpd_main args fuel alloc daemonised turns = do {
     up \<leftarrow> netStartup;
     if \<not> up then State_Monad.return (- 1)
     else do {
       st \<leftarrow> ptpdStartup args fuel alloc daemonised;
       if \<not> fst st then
         (case snd st of Some ret \<Rightarrow> State_Monad.return ret
          | None \<Rightarrow> do { u \<leftarrow> ext env_stack; State_Monad.return (s16 u) })
       else do {
         initDataClock;
         n \<leftarrow> go opt_portNumber;
         whenM (n > 0) (multiProtocol turns);
         State_Monad.return 1 } } }"

text \<open>The process as it is loaded: the default options, and a clock data set of any content.\<close>

definition loaded :: "env \<Rightarrow> PtpClockDS \<Rightarrow> sys" where
  "loaded w c = sys_zero\<lparr>rtOpts := default_opts, world := w, clk := c\<rparr>"

end
