(* ===== verification/Invariants.thy ===== *)
theory Invariants
  imports Frames Startup Foreign
begin

text \<open>
  What holds of every port in every turn of the daemon: \<open>role_ok\<close>, a slave-only port is no
  master, and \<open>table_ok\<close>, the indices of the table of foreign masters lie inside it. The frame
  locales are interpreted on the conjunction, and the run of \<open>ptpd_main\<close> starts in it.
\<close>

definition role_ok :: "PtpPortDS \<Rightarrow> bool" where
  "role_ok p \<longleftrightarrow> (wrConfig p = WR_S_ONLY \<longrightarrow> portState p \<noteq> PTP_MASTER \<and> wrMode p \<noteq> WR_MASTER)"

definition sound_port :: "nat \<Rightarrow> PtpPortDS \<Rightarrow> bool" where
  "sound_port i p \<longleftrightarrow> role_ok p \<and> (i < MAX_PORT_NUMBER \<longrightarrow> table_ok p)"

definition opts_ok :: "RunTimeOpts \<Rightarrow> bool" where
  "opts_ok r \<longleftrightarrow> opt_max_foreign_records r = DEFAULT_MAX_FOREIGN_RECORDS"

lemmas ok_defs = sound_port_def role_ok_def table_ok_def opts_ok_def

interpretation ok: handshake_frame sound_port opts_ok
  by unfold_locales (auto simp: ok_defs)

lemma add_record_role [simp]: "role_ok (add_record h p) = role_ok p"
  by (simp add: role_ok_def add_record_def split: option.split)


lemma addForeign_ok: "keeps (port_inv sound_port opts_ok) (addForeign h i)"
proof (rule keepsI)
  fix s assume inv: "port_inv sound_port opts_ok s"
  show "port_inv sound_port opts_ok (exec (addForeign h i) s)"
  proof (cases "max_foreign_records (ports s i) = 0")
    case True
    have "wp (addForeign h i) (\<lambda>_. port_inv sound_port opts_ok) s"
      using inv True
      by (auto simp: addForeign_def wp_simps Let_def upd_record_def port_inv_def ok_defs
          uint_lt_0 split: option.split)
    then show ?thesis by (simp add: wp_exec)
  next
    case False
    with inv show ?thesis
      by (auto simp: exec_addForeign port_inv_def sound_port_def add_record_ok)
  qed
qed


section \<open>Initialising a port\<close>

text \<open>
  Port \<open>i\<close> between \<open>initDataPort\<close> and the end of \<open>doInit\<close>: out of White Rabbit, whatever its
  configuration becomes.
\<close>

definition initialising :: "nat \<Rightarrow> nat \<Rightarrow> PtpPortDS \<Rightarrow> bool" where
  "initialising i k p \<longleftrightarrow> (k < MAX_PORT_NUMBER \<longrightarrow> table_ok p) \<and>
     (if k = i then wrPortState p = WRS_IDLE \<and> wrMode p = NON_WR else role_ok p)"

interpretation init: comm_frame "initialising i" opts_ok for i
  by unfold_locales (auto simp: initialising_def role_ok_def table_ok_def)

lemma initDataPort_starts:
  "port_inv sound_port opts_ok s \<Longrightarrow> port_inv (initialising i) opts_ok (exec (initDataPort i) s)"
proof -
  assume inv: "port_inv sound_port opts_ok s"
  have "wp (initDataPort i) (\<lambda>_. port_inv (initialising i) opts_ok) s"
    using inv
    by (auto simp: initDataPort_def initWrData_def ptpd_netif_read_calibration_data_def
        halexp_get_port_state_def wp_simps Let_def port_inv_def initialising_def sound_port_def
        opts_ok_def table_ok_def role_ok_def split: option.split prod.split)
  then show ?thesis by (simp add: wp_exec)
qed

lemma init_steps [keeps_intros]:
  "keeps (port_inv (initialising i) opts_ok) (autoDetectPortWrConfig i)"
  "keeps (port_inv (initialising i) opts_ok) (m1 i)"
  unfolding autoDetectPortWrConfig_def m1_def
  by (auto intro!: keeps_intros keeps_upd simp: initialising_def table_ok_def role_ok_def)

definition same_table :: "PtpPortDS \<Rightarrow> PtpPortDS \<Rightarrow> bool" where
  "same_table p q \<longleftrightarrow> foreign q = foreign p \<and> max_foreign_records q = max_foreign_records p \<and>
     number_foreign_records q = number_foreign_records p \<and> foreign_record_i q = foreign_record_i p \<and>
     foreign_record_best q = foreign_record_best p"

lemma same_table_ok: "same_table p q \<Longrightarrow> table_ok q = table_ok p"
  by (simp add: same_table_def table_ok_def)

lemma init_listening:
  assumes "port_inv (initialising i) opts_ok s"
  shows "port_inv sound_port opts_ok (exec (toState PTP_LISTENING i) s)"
proof -
  let ?Q = "\<lambda>s'. (\<forall>k. k \<noteq> i \<longrightarrow> ports s' k = ports s k) \<and> rtOpts s' = rtOpts s \<and>
      same_table (ports s i) (ports s' i) \<and> portState (ports s' i) = PTP_LISTENING \<and>
      wrMode (ports s' i) = NON_WR"
  have i: "wrPortState (ports s i) = WRS_IDLE" "wrMode (ports s i) = NON_WR"
    using assms by (simp_all add: port_inv_def initialising_def)
  have "wp (toState PTP_LISTENING i) (\<lambda>_. ?Q) s"
    using i
    by (cases "portState (ports s i)") (simp_all add: toState_def toState_with_def enter_state_def
        leave_state_def timerStart_def timerStop_def wp_simps same_table_def)
  then have r: "?Q (exec (toState PTP_LISTENING i) s)" by (rule wp_exec [where P = ?Q, THEN iffD1])
  have "role_ok (ports (exec (toState PTP_LISTENING i) s) i)" using r by (simp add: role_ok_def)
  then have "sound_port k (ports (exec (toState PTP_LISTENING i) s) k)" for k
    using r assms same_table_ok [of "ports s i"]
    by (cases "k = i") (simp_all add: port_inv_def sound_port_def initialising_def)
  then show ?thesis using r assms by (simp add: port_inv_def)
qed

lemma doInit_ok: "keeps (port_inv sound_port opts_ok) (doInit i)"
proof (rule keepsI)
  fix s assume inv: "port_inv sound_port opts_ok s"
  have "keeps (port_inv (initialising i) opts_ok) (do {
     cfg \<leftarrow> gp i wrConfig;
     whenM (cfg = WR_MODE_AUTO) (do { r \<leftarrow> autoDetectPortWrConfig i; skip });
     cfg \<leftarrow> gp i wrConfig;
     whenM (cfg = WR_S_ONLY) wr_servo_reset;
     timerInit (T_sync i);
     timerInit (T_delayReq i);
     timerInit (T_pdelayReq i);
     timerInit (T_announceReceipt i);
     timerInit (T_announceInterval i);
     m1 i;
     c \<leftarrow> gc (\<lambda>c. c);
     upd i (\<lambda>p. p\<lparr>msgObuf := msgPackHeader p c (msgObuf p)\<rparr>) })" (is "keeps _ ?m")
    by (auto intro!: keeps_intros keeps_upd init.timer init.servo)
  then have "port_inv (initialising i) opts_ok (exec ?m (exec (initDataPort i) s))"
    by (rule keepsD) (rule initDataPort_starts [OF inv])
  then have "port_inv sound_port opts_ok
      (exec (toState PTP_LISTENING i) (exec ?m (exec (initDataPort i) s)))"
    by (rule init_listening)
  then show "port_inv sound_port opts_ok (exec (doInit i) s)"
    by (simp add: doInit_def exec_bind)
qed


section \<open>The run of the daemon\<close>

lemma exec_ErBest:
  "\<exists>b. exec (ErBest j i) s = s\<lparr>ports := (ports s)(i := (ports s i)\<lparr>foreign_record_best := b\<rparr>)\<rparr> \<and>
       0 \<le> b \<and> (b = 0 \<or> b < uint (number_foreign_records (ports s i)))"
proof (cases "number_foreign_records (ports s i) = 0")
  case True
  then have "exec (ErBest j i) s = s\<lparr>ports := (ports s)(i := (ports s i)\<lparr>foreign_record_best := 0\<rparr>)\<rparr>"
    by (simp add: ErBest_def exec_def)
  then show ?thesis by auto
next
  case False
  define n where "n = unat (number_foreign_records (ports s i))"
  define b where "b = best_scan (\<lambda>A B. compare_records (ports s i) A B < 0)
      (\<lambda>k. foreign (ports s j) ! k) 0 [1..<n]"
  have "0 < n" using False by (simp add: n_def unat_gt_0)
  then have "b < n"
    using bmc_scan.scan_in [of "ports s i" "\<lambda>k. foreign (ports s j) ! k" 0 "[1..<n]"]
    by (auto simp: b_def)
  moreover have "int n = uint (number_foreign_records (ports s i))" by (simp add: n_def)
  ultimately have "int b < uint (number_foreign_records (ports s i))" by linarith
  moreover have "exec (ErBest j i) s = s\<lparr>ports := (ports s)(i := (ports s i)\<lparr>foreign_record_best := int b\<rparr>)\<rparr>"
    using False by (simp add: ErBest_def exec_def Let_def b_def n_def)
  ultimately show ?thesis by (intro exI [of _ "int b"]) simp
qed

lemma ErBest_ok: "keeps (port_inv sound_port opts_ok) (ErBest j i)"
proof (rule keepsI)
  fix s assume inv: "port_inv sound_port opts_ok s"
  obtain b where run: "exec (ErBest j i) s = s\<lparr>ports := (ports s)(i := (ports s i)\<lparr>foreign_record_best := b\<rparr>)\<rparr>"
    and b: "0 \<le> b" "b = 0 \<or> b < uint (number_foreign_records (ports s i))"
    using exec_ErBest by blast
  have "sound_port i ((ports s i)\<lparr>foreign_record_best := b\<rparr>)"
    using inv b by (auto simp: port_inv_def sound_port_def role_ok_def table_ok_def)
  with inv show "port_inv sound_port opts_ok (exec (ErBest j i) s)"
    by (simp add: run port_inv_def)
qed

interpretation ok: engine_frame sound_port opts_ok
  by unfold_locales
    (auto simp: addForeign_ok ErBest_ok doInit_ok, auto simp: ok_defs)

text \<open>The ports from their allocation to the first turn.\<close>

definition fresh :: "nat \<Rightarrow> PtpPortDS \<Rightarrow> bool" where
  "fresh i p \<longleftrightarrow> portState p = PTP_INITIALIZING \<and> wrMode p = NON_WR \<and> (i < MAX_PORT_NUMBER \<longrightarrow> table_ok p)"

interpretation fresh: comm_frame fresh opts_ok
  by unfold_locales (auto simp: fresh_def table_ok_def)

lemma fresh_upd [simp]:
  "fresh i (p\<lparr>wrConfig := cfg\<rparr>) = fresh i p"
  "fresh i (p\<lparr>port_uuid_field := mac\<rparr>) = fresh i p"
  "fresh i (p\<lparr>linkUP := b\<rparr>) = fresh i p"
  by (simp_all add: fresh_def table_ok_def)

lemma fresh_ok: "port_inv fresh opts_ok s \<Longrightarrow> port_inv sound_port opts_ok s"
  by (auto simp: port_inv_def fresh_def sound_port_def role_ok_def)

lemma new_port_fresh: "opts_ok r \<Longrightarrow> table_ok (new_port r i) \<and> portState (new_port r i) = PTP_INITIALIZING \<and>
    wrMode (new_port r i) = NON_WR"
  by (simp add: new_port_def table_ok_def opts_ok_def)

lemma init_ports_fresh: "keeps (port_inv fresh opts_ok) (init_ports is)"
proof (induction "is")
  case (Cons i "is")
  have "keeps (port_inv fresh opts_ok) (netInit i)"
    unfolding netInit_def
    by (auto intro!: keeps_intros keeps_upd fresh.netif3 fresh.netif2)
  with Cons show ?case by (auto intro!: keeps_intros keeps_upd)
qed (simp add: keeps_return)

lemma keeps_opts: "(\<And>r. opts_ok r \<Longrightarrow> opts_ok (f r)) \<Longrightarrow>
    keeps (port_inv Q opts_ok) (modify (\<lambda>s. s\<lparr>rtOpts := f (rtOpts s)\<rparr>))"
  by (simp add: keeps_def port_inv_def)

lemma initDataClock_fresh: "keeps (port_inv fresh opts_ok) initDataClock"
  unfolding initDataClock_def
  by (auto intro!: keeps_intros keeps_opts fresh.timer simp: opts_ok_def)

lemma turns_ok: "keeps (port_inv sound_port opts_ok) (forM turns protocol_turn)"
  by (intro keeps_forM ok.turn)

lemma multiProtocol_ok:
  assumes "port_inv fresh opts_ok s"
  shows "port_inv sound_port opts_ok (exec (multiProtocol turns) s)"
proof -
  let ?start = "do { modify (\<lambda>s. s\<lparr>rtOpts := (rtOpts s)\<lparr>opt_wrConfig := WR_MODE_AUTO\<rparr>\<rparr>);
     n \<leftarrow> go opt_portNumber; init_ports [0..<unat n] }"
  have "keeps (port_inv fresh opts_ok) ?start"
    by (auto intro!: keeps_intros keeps_opts init_ports_fresh simp: opts_ok_def)
  then have "port_inv sound_port opts_ok (exec ?start s)" using assms by (intro fresh_ok) (rule keepsD)
  then have "port_inv sound_port opts_ok (exec (whenM b (forM turns protocol_turn)) (exec ?start s))" for b
    by (intro keepsD [OF keeps_when [OF turns_ok]])
  then show ?thesis by (simp add: multiProtocol_def exec_bind)
qed

lemma option_keeps_table:
  "startup_option c arg (r, m) = Inr (r', m') \<Longrightarrow> opt_max_foreign_records r' = opt_max_foreign_records r"
  unfolding startup_option_def Let_def set_iface_def
  by (simp split: if_splits) (auto)

lemma options_keep_table:
  "parse_options args (r, m) = Inr (r', m') \<Longrightarrow> opt_max_foreign_records r' = opt_max_foreign_records r"
proof (induction args arbitrary: r m)
  case (Cons a args)
  then show ?case
    by (cases a) (auto dest!: option_keeps_table split: sum.splits)
qed simp

abbreviation unborn :: "sys \<Rightarrow> bool" where
  "unborn \<equiv> port_inv (\<lambda>_ p. p = port_zero) opts_ok"

lemma discovery_unborn: "keeps unborn (autoPortNumberDiscovery fuel)"
proof -
  have "keeps unborn (port_scan fuel n)" for n
    by (induction fuel arbitrary: n) (auto intro!: keeps_intros simp: ptpd_netif_get_ifName_def)
  then show ?thesis unfolding autoPortNumberDiscovery_def by (intro keeps_intros)
qed

lemma born: "unborn s \<Longrightarrow> port_inv fresh opts_ok
    (s\<lparr>ports := (\<lambda>i. if i < MAX_PORT_NUMBER then new_port (rtOpts s) i else ports s i)\<rparr>)"
  by (auto simp: port_inv_def fresh_def new_port_fresh)

lemma discover_unborn: "keeps unborn (discover_ports fuel)"
  unfolding discover_ports_def
  by (auto intro!: keeps_intros keeps_opts discovery_unborn simp: opts_ok_def)

lemma allocated: "unborn s \<Longrightarrow>
   wp (allocate_ports alloc mode daemonised) (\<lambda>r s'. unborn s' \<and> \<not> fst r \<or> port_inv fresh opts_ok s') s"
  using born [of s] by (simp add: allocate_ports_def wp_simps)

lemma startup_ports:
  assumes "unborn s"
  shows "wp (ptpdStartup args fuel alloc daemonised)
     (\<lambda>r s'. unborn s' \<and> \<not> fst r \<or> port_inv fresh opts_ok s') s"
proof (cases "parse_options args (rtOpts s, DAEMONE_MODE)")
  case (Inl ret)
  with assms show ?thesis by (simp add: ptpdStartup_def wp_simps)
next
  case (Inr st)
  obtain r' mode where st: "st = (r', mode)" by (cases st)
  have "opts_ok r'"
    using assms options_keep_table [of args "rtOpts s" DAEMONE_MODE r' mode] Inr st
    by (simp add: port_inv_def opts_ok_def)
  then have u: "unborn (s\<lparr>rtOpts := r'\<rparr>)" using assms by (simp add: port_inv_def)
  have "wp (discover_ports fuel) (\<lambda>_. unborn) (s\<lparr>rtOpts := r'\<rparr>)"
    unfolding wp_exec by (rule keepsD [OF discover_unborn u])
  then have "wp (discover_ports fuel) (\<lambda>_. wp (allocate_ports alloc mode daemonised)
      (\<lambda>r s'. unborn s' \<and> \<not> fst r \<or> port_inv fresh opts_ok s')) (s\<lparr>rtOpts := r'\<rparr>)"
    by (rule wp_conseq) (rule allocated)
  then show ?thesis using u Inr st
    by (simp add: ptpdStartup_def wp_simps)
qed

lemma port_inv_ncall: "port_inv Q R (s\<lparr>ncall := n\<rparr>) = port_inv Q R s"
  by (simp add: port_inv_def)

text \<open>The daemon runs the ports it allocated, or ends before there are any.\<close>

lemma connect_unborn: "keeps unborn (halexp_client_try_connect fuel retries)"
  by (induction fuel arbitrary: retries) (auto intro!: keeps_intros)

lemma main_ports:
  "wp (ptpd_main args fuel alloc daemonised turns)
     (\<lambda>_ s'. unborn s' \<or> port_inv sound_port opts_ok s') (loaded w c)"
proof -
  have l: "unborn (loaded w c)" by (simp add: loaded_def port_inv_def opts_ok_def default_opts_def)
  have net: "keeps unborn netStartup"
    unfolding netStartup_def ptpd_netif_init_def by (intro keeps_intros connect_unborn)
  have run: "wp (do { initDataClock; n \<leftarrow> go opt_portNumber; whenM (n > 0) (multiProtocol turns);
      State_Monad.return (1 :: int) }) (\<lambda>_ s'. unborn s' \<or> port_inv sound_port opts_ok s') s1"
    if "port_inv fresh opts_ok s1" for s1
  proof -
    have "wp initDataClock (\<lambda>_. port_inv fresh opts_ok) s1"
      unfolding wp_exec by (rule keepsD [OF initDataClock_fresh that])
    moreover have "wp (multiProtocol turns) (\<lambda>_ s'. unborn s' \<or> port_inv sound_port opts_ok s') s2"
      if "port_inv fresh opts_ok s2" for s2
      unfolding wp_exec using that by (rule disjI2 [OF multiProtocol_ok])
    then have "wp (do { n \<leftarrow> go opt_portNumber; whenM (n > 0) (multiProtocol turns);
        State_Monad.return (1 :: int) }) (\<lambda>_ s'. unborn s' \<or> port_inv sound_port opts_ok s') s2"
      if "port_inv fresh opts_ok s2" for s2
      using that by (simp add: wp_simps wp_return_eta fresh_ok)
    ultimately show ?thesis unfolding wp_bind [of initDataClock] by (rule wp_conseq)
  qed
  have up: "wp (ptpdStartup args fuel alloc daemonised) (\<lambda>st. wp (if \<not> fst st then
        (case snd st of Some ret \<Rightarrow> State_Monad.return ret
          | None \<Rightarrow> do { u \<leftarrow> ext env_stack; State_Monad.return (s16 u) })
       else do { initDataClock; n \<leftarrow> go opt_portNumber; whenM (n > 0) (multiProtocol turns);
         State_Monad.return 1 }) (\<lambda>_ s'. unborn s' \<or> port_inv sound_port opts_ok s')) s1" (is "wp _ ?Q' s1")
    if "unborn s1" for s1
  proof (rule wp_conseq [OF startup_ports [OF that]])
    fix st :: "bool \<times> int option" and s2
    assume st: "unborn s2 \<and> \<not> fst st \<or> port_inv fresh opts_ok s2"
    have ended: "wp (case snd st of Some ret \<Rightarrow> State_Monad.return ret
        | None \<Rightarrow> do { u \<leftarrow> ext env_stack; State_Monad.return (s16 u) })
        (\<lambda>_ s'. unborn s' \<or> port_inv sound_port opts_ok s') s2"
      using st fresh_ok [of s2] by (cases "snd st") (auto simp: wp_simps port_inv_ncall)
    show "?Q' st s2" using st ended run [of s2] by (cases "fst st") simp_all
  qed
  have "wp netStartup (\<lambda>_. unborn) (loaded w c)" unfolding wp_exec by (rule keepsD [OF net l])
  then show ?thesis unfolding ptpd_main_def wp_bind [of netStartup]
  proof (rule wp_conseq, goal_cases)
    case (1 a s')
    from up [OF 1] 1 show ?case
      by (cases a) (simp_all add: wp_return wp_bind [of "ptpdStartup args fuel alloc daemonised"])
  qed
qed

text \<open>
  C3. A slave-only port is never a master: whatever the command line, the world (the HAL may
  change the configuration of a port between turns), the messages received, and the content of
  the clock data set at the start, after any number of turns a port configured as slave-only is
  neither in PTP\_MASTER nor in the White Rabbit master mode.
\<close>
theorem slave_only_never_master:
  "role_ok (ports (exec (ptpd_main args fuel alloc daemonised turns) (loaded w c)) i)"
proof -
  have "role_ok port_zero" by (simp add: role_ok_def)
  then show ?thesis
    using main_ports [of args fuel alloc daemonised turns w c]
    by (auto simp: wp_exec port_inv_def sound_port_def)
qed

text \<open>
  C6. The table of foreign masters is never left: in any run of the daemon as above, either
  the daemon ended before it had allocated its ports, or every port of the array has its table of
  five records, at most five of them filled, and both the index of the record to write next and
  the index of the best record point into it. So no record is read or written outside of it.
\<close>
theorem foreign_table_bounds:
  "let s = exec (ptpd_main args fuel alloc daemonised turns) (loaded w c)
   in ports s = (\<lambda>_. port_zero) \<or> (\<forall>i<MAX_PORT_NUMBER. table_ok (ports s i))"
  using main_ports [of args fuel alloc daemonised turns w c]
  by (auto simp: Let_def wp_exec port_inv_def sound_port_def)

theorem foreign_table_bounds_witness:
  "let s = exec (ptpd_main [(CHR ''S'', [])] 0 (\<lambda>_. True) True [[], []]) (loaded quiet_env clock_zero)
   in ports s = (\<lambda>_. port_zero) \<or> table_ok (ports s 0)"
  using foreign_table_bounds [of "[(CHR ''S'', [])]" 0 "\<lambda>_. True" True "[[], []]" quiet_env clock_zero]
  by (auto simp: Let_def)

end
