(* ===== verification/Handshake.thy ===== *)
theory Handshake
  imports Frames
begin

text \<open>
  The White Rabbit handshake as an abstract machine: \<open>wr_after\<close> says where the function of a
  state may leave the port, \<open>handshake_step\<close> adds the retry and the end of the retries, and
  \<open>doWRState\<close> is shown to make only such steps. \<open>wr_frame\<close> is a predicate on the White Rabbit
  state and the message id received last.
\<close>

section \<open>Triples about a port\<close>

definition holds :: "nat \<Rightarrow> (PtpPortDS \<Rightarrow> bool) \<Rightarrow> (sys, 'a) State_Monad.state \<Rightarrow> (PtpPortDS \<Rightarrow> bool) \<Rightarrow> bool" where
  "holds i P m Q \<longleftrightarrow> (\<forall>s. P (ports s i) \<longrightarrow> Q (ports (exec m s) i))"

lemma holds_bind:
  "holds i P m Q \<Longrightarrow> (\<And>a. holds i Q (f a) S) \<Longrightarrow> holds i P (State_Monad.bind m f) S"
  by (simp add: holds_def exec_bind)

lemma holds_gp:
  "(\<And>x. holds i (\<lambda>p. P p \<and> f p = x) (g x) Q) \<Longrightarrow> holds i P (State_Monad.bind (gp i f) g) Q"
  by (auto simp: holds_def exec_bind exec_def [of "gp i f"])

lemma holds_upd: "(\<And>p. P p \<Longrightarrow> Q (h p)) \<Longrightarrow> holds i P (upd i h) Q"
  by (simp add: holds_def exec_def)

lemma holds_when:
  "(b \<Longrightarrow> holds i P m Q) \<Longrightarrow> (\<And>p. \<not> b \<Longrightarrow> P p \<Longrightarrow> Q p) \<Longrightarrow> holds i P (whenM b m) Q"
  by (simp add: holds_def exec_when)

lemma holds_if:
  "(b \<Longrightarrow> holds i P m Q) \<Longrightarrow> (\<not> b \<Longrightarrow> holds i P n Q) \<Longrightarrow> holds i P (if b then m else n) Q"
  by simp

lemma holds_skip: "(\<And>p. P p \<Longrightarrow> Q p) \<Longrightarrow> holds i P skip Q"
  by (simp add: holds_def)

lemma holds_conseq:
  "holds i P m Q \<Longrightarrow> (\<And>p. P' p \<Longrightarrow> P p) \<Longrightarrow> (\<And>p. Q p \<Longrightarrow> Q' p) \<Longrightarrow> holds i P' m Q'"
  by (auto simp: holds_def)

lemma holds_keeps:
  assumes "keeps (port_inv (\<lambda>j p. j = i \<longrightarrow> P p) (\<lambda>_. True)) m"
  shows "holds i P m P"
  using assms by (auto simp: holds_def keeps_def port_inv_def)

section \<open>What keeps the White Rabbit state\<close>

locale wr_frame = comm_frame +
  assumes indep [simp]:
    "Q i (p\<lparr>portState := st\<rparr>) = Q i p"
    "Q i (p\<lparr>wrMode := md\<rparr>) = Q i p"
    "Q i (p\<lparr>wrModeON := b\<rparr>) = Q i p"
    "Q i (p\<lparr>record_update := b\<rparr>) = Q i p"
    "Q i (p\<lparr>foreign := fms\<rparr>) = Q i p"
    "Q i (p\<lparr>number_foreign_records := nf\<rparr>) = Q i p"
    "Q i (p\<lparr>foreign_record_i := k\<rparr>) = Q i p"
    "Q i (p\<lparr>currentWRstateCnt := cnt\<rparr>) = Q i p"
    "Q i (p\<lparr>wrTimeouts := tmo\<rparr>) = Q i p"
    "Q i (p\<lparr>calibrated := b\<rparr>) = Q i p"
    "Q i (p\<lparr>deltaTx := dl\<rparr>) = Q i p"
    "Q i (p\<lparr>deltaRx := dl\<rparr>) = Q i p"
    "Q i (p\<lparr>otherNodeDeltaTx := dl\<rparr>) = Q i p"
    "Q i (p\<lparr>otherNodeDeltaRx := dl\<rparr>) = Q i p"
    "Q i (p\<lparr>otherNodeCalSendPattern := w16\<rparr>) = Q i p"
    "Q i (p\<lparr>otherNodeCalPeriod := w32\<rparr>) = Q i p"
    "Q i (p\<lparr>otherNodeCalRetry := w8\<rparr>) = Q i p"
    "Q i (p\<lparr>parentWrConfig := w8\<rparr>) = Q i p"
    "Q i (p\<lparr>parentWrModeON := b\<rparr>) = Q i p"
    "Q i (p\<lparr>parentCalibrated := b\<rparr>) = Q i p"
    "Q i (p\<lparr>wrSlaveRole := rl\<rparr>) = Q i p"
begin

lemma leaving [keeps_intros]: "kept (leave_state i)"
  unfolding leave_state_def by (intro keeps_intros keeps_upd) simp_all

lemma faulted [keeps_intros]: "kept (toFaulty i)"
proof -
  have "kept (enter_state (\<lambda>_ _. skip) PTP_FAULTY i)"
    by (auto simp: enter_state_def intro!: keeps_intros keeps_upd)
  then show ?thesis
    unfolding toFaulty_def toState_with_def by (intro keeps_intros keeps_upd) simp_all
qed

lemma record_set [keeps_intros]: "kept (upd_record i j f)"
  unfolding upd_record_def by (rule keeps_upd) simp

lemma announced_record [keeps_intros]: "kept (addForeign h i)"
  unfolding addForeign_def Let_def by (intro keeps_intros keeps_upd) simp_all

lemma signalled [keeps_intros]: "kept (issueWRSignalingMsg w i)"
  unfolding issueWRSignalingMsg_def Let_def by (intro keeps_intros keeps_upd) simp_all

lemma timeouts [keeps_intros]: "kept (wrTimetoutManage st st' i)"
  unfolding wrTimetoutManage_def by (intro keeps_intros keeps_upd) simp_all

end

sublocale wr_frame \<subseteq> handler_frame
  by unfold_locales (auto intro: faulted announced_record record_set)

text \<open>Port \<open>i\<close> is in a White Rabbit state and has received a message id that satisfy \<open>P\<close>.\<close>

definition wr_at :: "(wr_state \<Rightarrow> u16 \<Rightarrow> bool) \<Rightarrow> PtpPortDS \<Rightarrow> bool" where
  "wr_at P p = P (wrPortState p) (msgTmpWrMessageID p)"

interpretation at: wr_frame "\<lambda>j p. j = i \<longrightarrow> wr_at P p" "\<lambda>_. True" for i P
  by unfold_locales (simp_all add: wr_at_def)

lemma at_keeps:
  "keeps (port_inv (\<lambda>j p. j = i \<longrightarrow> wr_at P p) (\<lambda>_. True)) m \<Longrightarrow>
   (\<And>w x. P' w x \<Longrightarrow> P w x) \<Longrightarrow> (\<And>w x. P w x \<Longrightarrow> Q w x) \<Longrightarrow> holds i (wr_at P') m (wr_at Q)"
  by (rule holds_conseq [OF holds_keeps], assumption) (auto simp: wr_at_def)

lemma at_first:
  "keeps (port_inv (\<lambda>j p. j = i \<longrightarrow> wr_at P p) (\<lambda>_. True)) m \<Longrightarrow>
   (\<And>a. holds i (wr_at P) (f a) Q) \<Longrightarrow> holds i (wr_at P) (State_Monad.bind m f) Q"
  by (rule holds_bind [OF holds_keeps])

lemma at_upd:
  "(\<And>p. wr_at P p \<Longrightarrow> wr_at Q (h p)) \<Longrightarrow> holds i (wr_at P) (upd i h) (wr_at Q)"
  by (rule holds_upd)

section \<open>Entering a state\<close>

text \<open>The states \<open>toWRState st\<close> may leave a port in that was in \<open>w\<close>.\<close>

fun wr_entry :: "wr_state \<Rightarrow> wr_state \<Rightarrow> wr_state set" where
  "wr_entry w WRS_S_LOCK = {WRS_S_LOCK, WRS_S_LOCK_1, w}"
| "wr_entry w WRS_CALIBRATION = {WRS_CALIBRATION, WRS_CALIBRATION_1, WRS_CALIBRATION_2}"
| "wr_entry w WRS_RESP_CALIB_REQ = {WRS_RESP_CALIB_REQ, WRS_RESP_CALIB_REQ_1}"
| "wr_entry w st = {st}"

definition main_state :: "wr_state \<Rightarrow> bool" where
  "main_state st \<longleftrightarrow> st = WRS_IDLE \<or> st \<in> set timed_states"

lemma init_idle:
  "holds i (wr_at (\<lambda>w m. R m)) (initWrData i mode) (wr_at (\<lambda>w m. w = WRS_IDLE \<and> R m))"
proof -
  have "wp (initWrData i mode) (\<lambda>_ s'. wrPortState (ports s' i) = WRS_IDLE \<and>
      msgTmpWrMessageID (ports s' i) = msgTmpWrMessageID (ports s i)) s" for s
    by (simp add: initWrData_def ptpd_netif_read_calibration_data_def halexp_get_port_state_def
        wp_simps Let_def split: option.split prod.split)
  then show ?thesis by (simp add: wp_exec holds_def wr_at_def)
qed

lemma at_last:
  "keeps (port_inv (\<lambda>j p. j = i \<longrightarrow> wr_at P p) (\<lambda>_. True)) m \<Longrightarrow> (\<And>a p. wr_at P p \<Longrightarrow> wr_at Q (h a p)) \<Longrightarrow>
   holds i (wr_at P) (do { a \<leftarrow> m; upd i (h a) }) (wr_at Q)"
  by (rule at_first) (auto intro: at_upd)

text \<open>\<open>at w0 R\<close>: the port is in \<open>w0\<close> and the message id satisfies \<open>R\<close>.\<close>

abbreviation in_state :: "wr_state set \<Rightarrow> (u16 \<Rightarrow> bool) \<Rightarrow> PtpPortDS \<Rightarrow> bool" where
  "in_state W R \<equiv> wr_at (\<lambda>w m. w \<in> W \<and> R m)"

lemma entry_simple:
  assumes "st \<in> {WRS_IDLE, WRS_PRESENT, WRS_LOCKED, WRS_M_LOCK, WRS_CALIBRATED}"
  shows "holds i (in_state W R) (enter_wr_state st i) (in_state {st} R)"
  using assms
  by (auto simp: enter_wr_state_def intro!: at_last at_upd at.signalled) (simp_all add: wr_at_def)

lemma entry_S_LOCK: "holds i (in_state {w} R) (enter_S_LOCK i) (in_state {WRS_S_LOCK, WRS_S_LOCK_1, w} R)"
  unfolding enter_S_LOCK_def
  by (intro at_first keeps_intros holds_when at_last at.netif2) (auto simp: wr_at_def)

lemma entry_CALIBRATION: "holds i (in_state {w} R) (enter_CALIBRATION i)
    (in_state {WRS_CALIBRATION, WRS_CALIBRATION_1, WRS_CALIBRATION_2} R)"
  unfolding enter_CALIBRATION_def
  by (intro at_first keeps_intros holds_if at_last at_upd at.netif2 keeps_upd) (auto simp: wr_at_def)

lemma entry_RESP_CALIB_REQ: "holds i (in_state {w} R) (enter_RESP_CALIB_REQ i)
    (in_state {WRS_RESP_CALIB_REQ, WRS_RESP_CALIB_REQ_1} R)"
  unfolding enter_RESP_CALIB_REQ_def
  by (intro at_first keeps_intros holds_if at_last at_upd at.netif2 keeps_upd) (auto simp: wr_at_def)

lemma entry_WR_LINK_ON: "holds i (in_state {w} R) (enter_WR_LINK_ON i) (in_state {WRS_WR_LINK_ON} R)"
  unfolding enter_WR_LINK_ON_def
  by (intro at_first keeps_intros at_upd keeps_upd) (auto simp: wr_at_def)

lemma entry_state:
  "main_state st \<Longrightarrow> holds i (in_state {w} R) (enter_wr_state st i) (in_state (wr_entry w st) R)"
  using entry_simple [where st = st and W = "{w}" and R = R] entry_S_LOCK [where w = w and R = R] entry_CALIBRATION [where w = w and R = R]
    entry_RESP_CALIB_REQ [where w = w and R = R] entry_WR_LINK_ON [where w = w and R = R]
  by (cases st) (simp_all add: main_state_def timed_states_def enter_wr_state_def)

lemma main_of_state [simp]: "main_state (returnCurrentWRMainState w)"
  by (cases w) (simp_all add: main_state_def timed_states_def)

lemma holds_case: "(\<And>x. holds i (\<lambda>p. P p \<and> g p = x) m Q) \<Longrightarrow> holds i P m Q"
  by (simp add: holds_def)

lemma to_wr_state:
  assumes "main_state st"
  shows "holds i (in_state {w} R) (toWRState st i) (in_state (wr_entry w st) R)"
proof -
  have reinit: "holds i (in_state {w} R) (whenM (w = WRS_IDLE) (initWrData i RE_INIT)) (in_state {w} R)"
    by (rule holds_when, rule holds_conseq [OF init_idle [where R = R]]) (auto simp: wr_at_def)
  have rest: "holds i (in_state {w} R) (do {
      whenM (w = WRS_IDLE) (initWrData i RE_INIT);
      enter_wr_state st i;
      wrTimetoutManage st w' i }) (in_state (wr_entry w st) R)" for w'
    by (intro holds_bind [OF reinit] holds_bind [OF entry_state [OF assms]] holds_keeps at.timeouts)
  show ?thesis unfolding toWRState_def Let_def
  proof (rule holds_gp)
    fix x
    show "holds i (\<lambda>p. in_state {w} R p \<and> wrPortState p = x) (do {
      whenM (x = WRS_IDLE) (initWrData i RE_INIT);
      enter_wr_state st i;
      wrTimetoutManage st (returnCurrentWRMainState x) i }) (in_state (wr_entry w st) R)"
    proof (cases "x = w")
      case True
      then show ?thesis by (auto intro: holds_conseq [OF rest])
    qed (auto simp: holds_def wr_at_def)
  qed
qed

section \<open>Receiving\<close>

text \<open>
  A message that is handled may change the id held, and it restarts the handshake of a master
  only with SLAVE\_PRESENT.
\<close>

definition received :: "wr_state \<Rightarrow> PtpPortDS \<Rightarrow> bool" where
  "received w = wr_at (\<lambda>w' m. w' = w \<or> w' = WRS_M_LOCK \<and> m = SLAVE_PRESENT)"

lemma unpack_keeps_state:
  "msgUnpackWRSignalingMsg buf m p = (target, mid, q) \<Longrightarrow> wrPortState q = wrPortState p"
  by (auto simp: msgUnpackWRSignalingMsg_def Let_def split: if_splits)

lemma signalling_received: "holds i (in_state {w} (\<lambda>_. True)) (handleSignaling h len self i) (received w)"
proof -
  have lock: "holds i (in_state {w} (\<lambda>m. m = SLAVE_PRESENT)) (do {
      upd i (\<lambda>p. p\<lparr>wrMode := WR_MASTER\<rparr>); toWRState WRS_M_LOCK i }) (received w)"
    by (rule at_first, rule keeps_upd, simp add: wr_at_def,
        rule holds_conseq [OF to_wr_state [where w = w and R = "\<lambda>m. m = SLAVE_PRESENT"]])
      (auto simp: main_state_def timed_states_def wr_at_def received_def)
  have unpack: "holds i (in_state {w} (\<lambda>_. True)) (upd i (\<lambda>p. case msgUnpackWRSignalingMsg (msgIbuf p)
      (msgTmpWrMessageID p) p of (target, mid, q) \<Rightarrow> q\<lparr>msgTmpWrMessageID := mid\<rparr>)) (in_state {w} (\<lambda>_. True))"
    by (rule at_upd) (auto simp: wr_at_def unpack_keeps_state split: prod.split)
  have act: "holds i (in_state {w} (\<lambda>_. True)) (do { p \<leftarrow> gp i (\<lambda>p. p);
       whenM (portState p = PTP_MASTER \<and> msgTmpWrMessageID p = SLAVE_PRESENT \<and>
              (wrConfig p = WR_M_ONLY \<or> wrConfig p = WR_M_AND_S)) (do {
         upd i (\<lambda>p. p\<lparr>wrMode := WR_MASTER\<rparr>);
         toWRState WRS_M_LOCK i }) }) (received w)"
    by (rule holds_gp, rule holds_when, rule holds_conseq [OF lock]) (auto simp: wr_at_def received_def)
  show ?thesis unfolding handleSignaling_def
    by (intro holds_if holds_skip holds_bind [OF unpack act]) (auto simp: wr_at_def received_def)
qed

abbreviation any_id :: "u16 \<Rightarrow> bool" where "any_id \<equiv> \<lambda>_. True"

lemma received_weaken:
  "keeps (port_inv (\<lambda>j p. j = i \<longrightarrow> in_state {w} any_id p) (\<lambda>_. True)) m \<Longrightarrow>
   holds i (in_state {w} any_id) m (received w)"
  unfolding received_def by (rule at_keeps, assumption) auto

lemma received_skip: "holds i (in_state {w} any_id) skip (received w)"
  by (rule received_weaken) (rule keeps_skip)

lemma dispatch_received: "holds i (in_state {w} any_id) (dispatch h len t self i) (received w)"
  unfolding dispatch_def
  by (intro holds_if signalling_received received_skip received_weaken at.handlers1 at.handlers2)

lemma handle_received: "holds i (in_state {w} any_id) (handle i) (received w)"
  unfolding handle_def Let_def
  by (intro at_first at.net holds_if received_skip received_weaken dispatch_received at.fault_state
      keeps_intros keeps_upd) (simp_all add: wr_at_def)

lemma after_handle:
  assumes "\<And>p. holds i (\<lambda>q. q = p \<and> (in_state {w} any_id p \<or> in_state {WRS_M_LOCK} (\<lambda>m. m = SLAVE_PRESENT) p)) (act p) Q"
  shows "holds i (in_state {w} any_id) (do { handle i; p \<leftarrow> gp i (\<lambda>p. p); act p }) Q"
proof (rule holds_bind [OF handle_received])
  show "holds i (received w) (gp i (\<lambda>p. p) \<bind> act) Q"
    by (rule holds_gp, rule holds_conseq [OF assms]) (auto simp: received_def wr_at_def)
qed

section \<open>The states\<close>

text \<open>
  Where the function of a state may leave the port: the calibration falls through its states as
  long as the HAL is ready, the other states wait for a message.
\<close>

definition calibration_chain :: "wr_state list" where
  [simp]: "calibration_chain = [WRS_CALIBRATION, WRS_CALIBRATION_1, WRS_CALIBRATION_2, WRS_CALIBRATION_3,
     WRS_CALIBRATION_4, WRS_CALIBRATION_5, WRS_CALIBRATION_6, WRS_CALIBRATION_7, WRS_CALIBRATED]"

definition response_chain :: "wr_state list" where
  [simp]: "response_chain = [WRS_RESP_CALIB_REQ, WRS_RESP_CALIB_REQ_1, WRS_RESP_CALIB_REQ_2, WRS_RESP_CALIB_REQ_3,
     WRS_WR_LINK_ON, WRS_CALIBRATION, WRS_CALIBRATION_1, WRS_CALIBRATION_2, WRS_IDLE]"

fun wr_after :: "wr_state \<Rightarrow> wr_state set" where
  "wr_after WRS_PRESENT = {WRS_PRESENT, WRS_S_LOCK, WRS_S_LOCK_1, WRS_M_LOCK}"
| "wr_after WRS_S_LOCK = {WRS_S_LOCK, WRS_S_LOCK_1, WRS_S_LOCK_2, WRS_LOCKED}"
| "wr_after WRS_S_LOCK_1 = {WRS_S_LOCK_1, WRS_S_LOCK_2, WRS_LOCKED}"
| "wr_after WRS_S_LOCK_2 = {WRS_S_LOCK_2, WRS_LOCKED}"
| "wr_after WRS_M_LOCK = {WRS_M_LOCK, WRS_CALIBRATION, WRS_CALIBRATION_1, WRS_CALIBRATION_2}"
| "wr_after WRS_LOCKED = {WRS_LOCKED, WRS_RESP_CALIB_REQ, WRS_RESP_CALIB_REQ_1, WRS_M_LOCK}"
| "wr_after WRS_CALIBRATION = set calibration_chain"
| "wr_after WRS_CALIBRATION_1 = set (drop 1 calibration_chain)"
| "wr_after WRS_CALIBRATION_2 = set (drop 2 calibration_chain)"
| "wr_after WRS_CALIBRATION_3 = set (drop 3 calibration_chain)"
| "wr_after WRS_CALIBRATION_4 = set (drop 4 calibration_chain)"
| "wr_after WRS_CALIBRATION_5 = set (drop 5 calibration_chain)"
| "wr_after WRS_CALIBRATION_6 = set (drop 6 calibration_chain)"
| "wr_after WRS_CALIBRATION_7 = set (drop 7 calibration_chain)"
| "wr_after WRS_CALIBRATION_8 = set (drop 8 calibration_chain)"
| "wr_after WRS_CALIBRATED = {WRS_CALIBRATED, WRS_RESP_CALIB_REQ, WRS_RESP_CALIB_REQ_1, WRS_WR_LINK_ON, WRS_M_LOCK}"
| "wr_after WRS_RESP_CALIB_REQ = insert WRS_M_LOCK (set response_chain)"
| "wr_after WRS_RESP_CALIB_REQ_1 = insert WRS_M_LOCK (set (drop 1 response_chain))"
| "wr_after WRS_RESP_CALIB_REQ_2 = set (drop 2 response_chain)"
| "wr_after WRS_RESP_CALIB_REQ_3 = set (drop 4 response_chain)"
| "wr_after WRS_WR_LINK_ON = {WRS_IDLE}"
| "wr_after WRS_IDLE = {WRS_IDLE}"

lemma enter_on:
  "main_state st \<Longrightarrow> wr_entry w st \<subseteq> W \<Longrightarrow> holds i (in_state {w} R) (toWRState st i) (in_state W any_id)"
  by (rule holds_conseq [OF to_wr_state]) (auto simp: wr_at_def)

lemma entry_main: "main_state WRS_IDLE" "main_state WRS_S_LOCK" "main_state WRS_LOCKED"
  "main_state WRS_CALIBRATION" "main_state WRS_CALIBRATED" "main_state WRS_RESP_CALIB_REQ"
  "main_state WRS_WR_LINK_ON"
  by (simp_all add: main_state_def timed_states_def)

lemma after_when:
  "(\<And>p. b p \<Longrightarrow> wr_at (\<lambda>_ m. m \<noteq> SLAVE_PRESENT) p) \<Longrightarrow> holds i (in_state {w} any_id) act (in_state W any_id) \<Longrightarrow>
   {w, WRS_M_LOCK} \<subseteq> W \<Longrightarrow>
   holds i (in_state {w} any_id) (do { handle i; p \<leftarrow> gp i (\<lambda>p. p); whenM (b p) act }) (in_state W any_id)"
  by (rule after_handle, rule holds_when, erule holds_conseq) (auto simp: wr_at_def)

lemma id_when:
  "(do { m \<leftarrow> gp i msgTmpWrMessageID; whenM (m = k) act }) =
   (do { p \<leftarrow> gp i (\<lambda>p. p); whenM (msgTmpWrMessageID p = k) act })"
  by (simp add: gp_def gets_def State_Monad.bind_def)

lemma do_PRESENT_after: "holds i (in_state {WRS_PRESENT} any_id) (do_PRESENT i) (in_state (wr_after WRS_PRESENT) any_id)"
  unfolding do_PRESENT_def id_when
  by (intro after_when holds_bind [OF enter_on [where W = "wr_after WRS_PRESENT"]] at_upd entry_main)
    (auto simp: wr_at_def)

lemma do_M_LOCK_after: "holds i (in_state {WRS_M_LOCK} any_id) (do_M_LOCK i) (in_state (wr_after WRS_M_LOCK) any_id)"
  unfolding do_M_LOCK_def id_when
  by (intro after_when enter_on entry_main) (auto simp: wr_at_def)

lemma do_LOCKED_after: "holds i (in_state {WRS_LOCKED} any_id) (do_LOCKED i) (in_state (wr_after WRS_LOCKED) any_id)"
  unfolding do_LOCKED_def id_when
  by (intro after_when enter_on entry_main) (auto simp: wr_at_def)

lemma set_wr_next:
  "holds i (in_state {w'} any_id) m (in_state W any_id) \<Longrightarrow>
   holds i (in_state {w} any_id) (do { set_wr i w'; m }) (in_state W any_id)"
  unfolding set_wr_def by (rule holds_bind [OF at_upd]) (auto simp: wr_at_def)

text \<open>A step of a chain: ask the HAL, and go on to the next state when it is ready.\<close>

lemma hal_step:
  assumes "keeps (port_inv (\<lambda>j p. j = i \<longrightarrow> in_state {w} any_id p) (\<lambda>_. True)) ask"
    and "\<And>r. ready r \<Longrightarrow> holds i (in_state {w} any_id) (act r) (in_state W any_id)" "w \<in> W"
  shows "holds i (in_state {w} any_id) (do { r \<leftarrow> ask; whenM (ready r) (act r) }) (in_state W any_id)"
  by (rule at_first [OF assms(1)], rule holds_when [OF assms(2)]) (use assms(3) in \<open>auto simp: wr_at_def\<close>)

lemma do_S_LOCK_2_after: "w \<in> {WRS_S_LOCK_2} \<Longrightarrow> holds i (in_state {w} any_id) (do_S_LOCK_2 i) (in_state (wr_after w) any_id)"
  unfolding do_S_LOCK_2_def
  by (intro hal_step enter_on keeps_intros at.netif2 entry_main) auto

lemma after_mono: "holds i P m (in_state W any_id) \<Longrightarrow> W \<subseteq> W' \<Longrightarrow> holds i P m (in_state W' any_id)"
  by (erule holds_conseq) (auto simp: wr_at_def)

lemma do_S_LOCK_1_after: "holds i (in_state {WRS_S_LOCK_1} any_id) (do_S_LOCK_1 i) (in_state (wr_after WRS_S_LOCK_1) any_id)"
  unfolding do_S_LOCK_1_def
  by (intro hal_step set_wr_next after_mono [OF do_S_LOCK_2_after] keeps_intros at.netif2) auto

lemma do_S_LOCK_after: "holds i (in_state {WRS_S_LOCK} any_id) (do_S_LOCK i) (in_state (wr_after WRS_S_LOCK) any_id)"
proof -
  have "holds i (in_state {WRS_S_LOCK} any_id) (do {
     role \<leftarrow> gp i wrSlaveRole;
     whenM (is_slave_role role) (do {
       r \<leftarrow> ptpd_netif_locking_enable i;
       whenM (r = PTPD_NETIF_OK) (set_wr i WRS_S_LOCK_1) }) })
     (in_state {WRS_S_LOCK, WRS_S_LOCK_1} any_id)" (is "holds _ _ ?m _")
    unfolding set_wr_def by (intro hal_step at_upd keeps_intros at.netif2) (auto simp: wr_at_def)
  moreover have "holds i (in_state {WRS_S_LOCK, WRS_S_LOCK_1} any_id) (do {
     w \<leftarrow> gp i wrPortState; whenM (w = WRS_S_LOCK_1) (do_S_LOCK_1 i) }) (in_state (wr_after WRS_S_LOCK) any_id)"
    by (rule holds_gp, rule holds_when, rule holds_conseq [OF do_S_LOCK_1_after]) (auto simp: wr_at_def)
  ultimately have "holds i (in_state {WRS_S_LOCK} any_id) (do { ?m; do {
     w \<leftarrow> gp i wrPortState; whenM (w = WRS_S_LOCK_1) (do_S_LOCK_1 i) } }) (in_state (wr_after WRS_S_LOCK) any_id)"
    by (rule holds_bind)
  then show ?thesis by (simp add: do_S_LOCK_def)
qed

lemma do_CALIBRATION_8_after: "holds i (in_state {WRS_CALIBRATION_8} any_id) (do_CALIBRATION_8 i) (in_state (wr_after WRS_CALIBRATION_8) any_id)"
  unfolding do_CALIBRATION_8_def
  by (intro at_first at.signalled holds_bind [OF enter_on [where W = "{WRS_CALIBRATED}"]] at_upd entry_main)
    (auto simp: wr_at_def)

lemma delta_next:
  "(\<And>p. wrPortState (h p) = wrPortState p) \<Longrightarrow> holds i (in_state {w'} any_id) m (in_state W any_id) \<Longrightarrow>
   holds i (in_state {w} any_id) (do { upd i h; set_wr i w'; m }) (in_state W any_id)"
  by (rule holds_bind [OF at_upd [where Q = "\<lambda>w'' m. w'' \<in> {w} \<and> any_id m"] set_wr_next]) (auto simp: wr_at_def)

lemma calibration_tail:
  "holds i (in_state {WRS_CALIBRATION_7} any_id) (do_CALIBRATION_7 i) (in_state (wr_after WRS_CALIBRATION_7) any_id)"
  "holds i (in_state {WRS_CALIBRATION_6} any_id) (do_CALIBRATION_6 i) (in_state (wr_after WRS_CALIBRATION_6) any_id)"
  "holds i (in_state {WRS_CALIBRATION_5} any_id) (do_CALIBRATION_5 i) (in_state (wr_after WRS_CALIBRATION_5) any_id)"
  "holds i (in_state {WRS_CALIBRATION_4} any_id) (do_CALIBRATION_4 i) (in_state (wr_after WRS_CALIBRATION_4) any_id)"
  "holds i (in_state {WRS_CALIBRATION_3} any_id) (do_CALIBRATION_3 i) (in_state (wr_after WRS_CALIBRATION_3) any_id)"
proof -
  note step = hal_step set_wr_next delta_next keeps_intros at.netif2 at.netif3
  show 7: "holds i (in_state {WRS_CALIBRATION_7} any_id) (do_CALIBRATION_7 i) (in_state (wr_after WRS_CALIBRATION_7) any_id)"
    unfolding do_CALIBRATION_7_def by (intro step after_mono [OF do_CALIBRATION_8_after]) auto
  show 6: "holds i (in_state {WRS_CALIBRATION_6} any_id) (do_CALIBRATION_6 i) (in_state (wr_after WRS_CALIBRATION_6) any_id)"
    unfolding do_CALIBRATION_6_def by (intro step after_mono [OF 7]) auto
  show 5: "holds i (in_state {WRS_CALIBRATION_5} any_id) (do_CALIBRATION_5 i) (in_state (wr_after WRS_CALIBRATION_5) any_id)"
    unfolding do_CALIBRATION_5_def by (intro step after_mono [OF 6]) auto
  show 4: "holds i (in_state {WRS_CALIBRATION_4} any_id) (do_CALIBRATION_4 i) (in_state (wr_after WRS_CALIBRATION_4) any_id)"
    unfolding do_CALIBRATION_4_def by (intro step after_mono [OF 5]) auto
  show "holds i (in_state {WRS_CALIBRATION_3} any_id) (do_CALIBRATION_3 i) (in_state (wr_after WRS_CALIBRATION_3) any_id)"
    unfolding do_CALIBRATION_3_def by (intro step after_mono [OF 4]) auto
qed

lemma calibration_head:
  "holds i (in_state {WRS_CALIBRATION_2} any_id) (do_CALIBRATION_2 i) (in_state (wr_after WRS_CALIBRATION_2) any_id)"
  "holds i (in_state {WRS_CALIBRATION_1} any_id) (do_CALIBRATION_1 i) (in_state (wr_after WRS_CALIBRATION_1) any_id)"
  "holds i (in_state {WRS_CALIBRATION} any_id) (do_CALIBRATION i) (in_state (wr_after WRS_CALIBRATION) any_id)"
proof -
  note step = hal_step set_wr_next delta_next keeps_intros at.netif2 at.netif3
  show 2: "holds i (in_state {WRS_CALIBRATION_2} any_id) (do_CALIBRATION_2 i) (in_state (wr_after WRS_CALIBRATION_2) any_id)"
    unfolding do_CALIBRATION_2_def by (intro step after_mono [OF calibration_tail(5)]) auto
  show 1: "holds i (in_state {WRS_CALIBRATION_1} any_id) (do_CALIBRATION_1 i) (in_state (wr_after WRS_CALIBRATION_1) any_id)"
    unfolding do_CALIBRATION_1_def by (intro step after_mono [OF 2]) auto
  show "holds i (in_state {WRS_CALIBRATION} any_id) (do_CALIBRATION i) (in_state (wr_after WRS_CALIBRATION) any_id)"
    unfolding do_CALIBRATION_def by (intro step after_mono [OF 1]) auto
qed

lemma do_RESP_CALIB_REQ_3_after: "holds i (in_state {w} any_id) (do_RESP_CALIB_REQ_3 i) (in_state (wr_after WRS_RESP_CALIB_REQ_3) any_id)"
  unfolding do_RESP_CALIB_REQ_3_def
  by (intro at_first keeps_intros holds_if enter_on entry_main) auto

lemma do_RESP_CALIB_REQ_2_after: "w \<in> {WRS_RESP_CALIB_REQ_2, WRS_RESP_CALIB_REQ_3} \<Longrightarrow>
   holds i (in_state {w} any_id) (do_RESP_CALIB_REQ_2 i) (in_state (wr_after WRS_RESP_CALIB_REQ_2) any_id)"
  unfolding do_RESP_CALIB_REQ_2_def
  by (intro hal_step set_wr_next keeps_intros at.netif2 after_mono [OF do_RESP_CALIB_REQ_3_after]) auto

lemma do_RESP_CALIB_REQ_1_after: "holds i (in_state {WRS_RESP_CALIB_REQ_1} any_id) (do_RESP_CALIB_REQ_1 i) (in_state (wr_after WRS_RESP_CALIB_REQ_1) any_id)"
proof -
  have answer: "holds i (in_state {WRS_RESP_CALIB_REQ_1} any_id)
      (if b then do { set_wr i WRS_RESP_CALIB_REQ_2; do_RESP_CALIB_REQ_2 i }
       else do { set_wr i WRS_RESP_CALIB_REQ_3; do_RESP_CALIB_REQ_2 i })
      (in_state (wr_after WRS_RESP_CALIB_REQ_1) any_id)" for b
    by (intro holds_if set_wr_next after_mono [OF do_RESP_CALIB_REQ_2_after]) auto
  show ?thesis unfolding do_RESP_CALIB_REQ_1_def
    by (rule after_handle, rule holds_when, rule holds_conseq [OF answer]) (auto simp: wr_at_def)
qed

lemma do_RESP_CALIB_REQ_after: "holds i (in_state {WRS_RESP_CALIB_REQ} any_id) (do_RESP_CALIB_REQ i) (in_state (wr_after WRS_RESP_CALIB_REQ) any_id)"
  unfolding do_RESP_CALIB_REQ_def
  by (intro hal_step set_wr_next keeps_intros at.netif2 after_mono [OF do_RESP_CALIB_REQ_1_after]) auto

lemma do_CALIBRATED_after: "holds i (in_state {WRS_CALIBRATED} any_id) (do_CALIBRATED i) (in_state (wr_after WRS_CALIBRATED) any_id)"
proof -
  let ?M = "\<lambda>w m. w = WRS_CALIBRATED \<or> w = WRS_M_LOCK \<and> m = SLAVE_PRESENT \<or>
      w \<in> {WRS_RESP_CALIB_REQ, WRS_RESP_CALIB_REQ_1} \<and> m = CALIBRATE"
  have first: "holds i (in_state {WRS_CALIBRATED} any_id) (do { handle i; p \<leftarrow> gp i (\<lambda>p. p);
      whenM (msgTmpWrMessageID p = CALIBRATE \<and> wrMode p = WR_MASTER) (toWRState WRS_RESP_CALIB_REQ i) }) (wr_at ?M)"
    by (rule after_handle, rule holds_when, rule holds_conseq [OF to_wr_state
        [where w = WRS_CALIBRATED and R = "\<lambda>m. m = CALIBRATE"]])
      (auto simp: wr_at_def main_state_def timed_states_def)
  have second: "holds i (wr_at ?M) (do { p \<leftarrow> gp i (\<lambda>p. p);
      whenM (msgTmpWrMessageID p = WR_MODE_ON \<and> wrMode p = WR_SLAVE) (toWRState WRS_WR_LINK_ON i) })
      (in_state (wr_after WRS_CALIBRATED) any_id)"
    by (rule holds_gp, rule holds_when, rule holds_conseq [OF enter_on [where w = WRS_CALIBRATED]])
      (auto simp: wr_at_def main_state_def timed_states_def)
  have "do_CALIBRATED i = do { do { handle i; p \<leftarrow> gp i (\<lambda>p. p);
      whenM (msgTmpWrMessageID p = CALIBRATE \<and> wrMode p = WR_MASTER) (toWRState WRS_RESP_CALIB_REQ i) };
      do { p \<leftarrow> gp i (\<lambda>p. p);
      whenM (msgTmpWrMessageID p = WR_MODE_ON \<and> wrMode p = WR_SLAVE) (toWRState WRS_WR_LINK_ON i) } }"
    by (simp add: do_CALIBRATED_def)
  with holds_bind [OF first second] show ?thesis by simp
qed

lemma holds_any: "(\<And>p. Q p) \<Longrightarrow> holds i P m Q"
  by (simp add: holds_def)

lemma do_WR_LINK_ON_after: "holds i (in_state {w} any_id) (do_WR_LINK_ON i) (in_state {WRS_IDLE} any_id)"
proof -
  have "holds i (in_state {WRS_IDLE} any_id) (toState st i) (in_state {WRS_IDLE} any_id)"
    if "st \<in> {PTP_SLAVE, PTP_MASTER}" for st
  proof (rule holds_keeps)
    have "at.kept i (\<lambda>w m. w \<in> {WRS_IDLE} \<and> any_id m) (enter_state toWRState st i)"
      using that unfolding enter_state_def
      by (elim insertE emptyE; simp add: enter_slave_def; intro keeps_intros keeps_upd; simp add: wr_at_def)
    then show "at.kept i (\<lambda>w m. w \<in> {WRS_IDLE} \<and> any_id m) (toState st i)"
      unfolding toState_def toState_with_def by (intro keeps_intros keeps_upd) (auto simp: wr_at_def)
  qed
  then show ?thesis
    unfolding do_WR_LINK_ON_def
    by (intro holds_bind [OF enter_on [where W = "{WRS_IDLE}"]] entry_main at_first keeps_intros holds_if holds_skip)
      auto
qed

section \<open>Timeouts\<close>

lemma timeout_after:
  "holds i (in_state {w} any_id) (wrTimerExpired (returnCurrentWRMainState w) mode i)
     (in_state ({w, WRS_IDLE} \<union> wr_entry w (returnCurrentWRMainState w)) any_id)"
proof -
  have "holds i (wr_at (\<lambda>w m. True)) (initWrData i INIT)
      (in_state ({w, WRS_IDLE} \<union> wr_entry w (returnCurrentWRMainState w)) any_id)"
    by (rule holds_conseq [OF init_idle [where R = any_id]]) (auto simp: wr_at_def)
  then have give_up: "holds i P (do { upd i (\<lambda>p. p\<lparr>wrModeON := False\<rparr>);
           toWRState WRS_IDLE i;
           nofallback \<leftarrow> go disableFallbackIfWRFails;
           (if nofallback then toState PTP_DISABLED i
            else if mode = WR_MASTER then toState PTP_MASTER i
            else toState PTP_SLAVE i);
           initWrData i INIT })
      (in_state ({w, WRS_IDLE} \<union> wr_entry w (returnCurrentWRMainState w)) any_id)" for P
    by (intro holds_bind [OF holds_any, where Q = "wr_at (\<lambda>w m. True)"]) (auto simp: wr_at_def)
  have again: "holds i (in_state {w} any_id) (toWRState (returnCurrentWRMainState w) i)
      (in_state ({w, WRS_IDLE} \<union> wr_entry w (returnCurrentWRMainState w)) any_id)"
    by (intro enter_on) auto
  show ?thesis unfolding wrTimerExpired_def
    by (intro holds_if holds_skip at_first at.timer keeps_intros holds_when give_up again)
      (auto simp: wr_at_def)
qed

section \<open>The machine\<close>

text \<open>
  The handshake as an abstract machine: the function of the state moves it on, a timeout makes
  it enter the main state again it is in then, and the last timeout ends it.
\<close>

inductive handshake_step :: "wr_state \<Rightarrow> wr_state \<Rightarrow> bool" where
  advance: "w' \<in> wr_after w \<Longrightarrow> handshake_step w w'"
| retry: "mid \<in> wr_after w \<Longrightarrow> w' \<in> wr_entry mid (returnCurrentWRMainState mid) \<Longrightarrow> handshake_step w w'"
| give_up: "handshake_step w WRS_IDLE"

inductive_cases handshake_stepE: "handshake_step w w'"

lemma state_function:
  "holds i (in_state {w} any_id)
     (case w of
        WRS_IDLE \<Rightarrow> skip
      | WRS_PRESENT \<Rightarrow> do_PRESENT i
      | WRS_S_LOCK \<Rightarrow> do_S_LOCK i
      | WRS_S_LOCK_1 \<Rightarrow> do_S_LOCK_1 i
      | WRS_S_LOCK_2 \<Rightarrow> do_S_LOCK_2 i
      | WRS_M_LOCK \<Rightarrow> do_M_LOCK i
      | WRS_LOCKED \<Rightarrow> do_LOCKED i
      | WRS_CALIBRATION \<Rightarrow> do_CALIBRATION i
      | WRS_CALIBRATION_1 \<Rightarrow> do_CALIBRATION_1 i
      | WRS_CALIBRATION_2 \<Rightarrow> do_CALIBRATION_2 i
      | WRS_CALIBRATION_3 \<Rightarrow> do_CALIBRATION_3 i
      | WRS_CALIBRATION_4 \<Rightarrow> do_CALIBRATION_4 i
      | WRS_CALIBRATION_5 \<Rightarrow> do_CALIBRATION_5 i
      | WRS_CALIBRATION_6 \<Rightarrow> do_CALIBRATION_6 i
      | WRS_CALIBRATION_7 \<Rightarrow> do_CALIBRATION_7 i
      | WRS_CALIBRATION_8 \<Rightarrow> do_CALIBRATION_8 i
      | WRS_CALIBRATED \<Rightarrow> do_CALIBRATED i
      | WRS_RESP_CALIB_REQ \<Rightarrow> do_RESP_CALIB_REQ i
      | WRS_RESP_CALIB_REQ_1 \<Rightarrow> do_RESP_CALIB_REQ_1 i
      | WRS_RESP_CALIB_REQ_2 \<Rightarrow> do_RESP_CALIB_REQ_2 i
      | WRS_RESP_CALIB_REQ_3 \<Rightarrow> do_RESP_CALIB_REQ_3 i
      | WRS_WR_LINK_ON \<Rightarrow> do_WR_LINK_ON i) (in_state (wr_after w) any_id)"
proof (cases w)
  case WRS_IDLE
  then show ?thesis by (auto intro: holds_skip)
qed (simp_all only: wr_state.case do_PRESENT_after do_S_LOCK_after do_S_LOCK_1_after
    do_S_LOCK_2_after [OF insertI1] do_M_LOCK_after do_LOCKED_after calibration_head calibration_tail
    do_CALIBRATION_8_after do_CALIBRATED_after do_RESP_CALIB_REQ_after do_RESP_CALIB_REQ_1_after
    do_RESP_CALIB_REQ_2_after [OF insertI1] do_RESP_CALIB_REQ_3_after
    do_WR_LINK_ON_after [folded wr_after.simps(21)])

lemma timeouts_after:
  "holds i (in_state W any_id)
     (do { w \<leftarrow> gp i wrPortState; m \<leftarrow> gp i wrMode; wrTimerExpired (returnCurrentWRMainState w) m i })
     (\<lambda>p. \<exists>mid\<in>W. wrPortState p \<in> {mid, WRS_IDLE} \<union> wr_entry mid (returnCurrentWRMainState mid))"
proof (rule holds_gp)
  fix x
  show "holds i (\<lambda>p. in_state W any_id p \<and> wrPortState p = x)
      (do { m \<leftarrow> gp i wrMode; wrTimerExpired (returnCurrentWRMainState x) m i })
      (\<lambda>p. \<exists>mid\<in>W. wrPortState p \<in> {mid, WRS_IDLE} \<union> wr_entry mid (returnCurrentWRMainState mid))"
  proof (cases "x \<in> W")
    case True
    have "holds i (in_state {x} any_id) (do { m \<leftarrow> gp i wrMode; wrTimerExpired (returnCurrentWRMainState x) m i })
        (in_state ({x, WRS_IDLE} \<union> wr_entry x (returnCurrentWRMainState x)) any_id)"
      by (rule at_first [OF _ timeout_after]) (rule keeps_intros)
    then show ?thesis by (rule holds_conseq) (use True in \<open>auto simp: wr_at_def\<close>)
  qed (auto simp: holds_def wr_at_def)
qed

lemma doWRState_steps:
  "handshake_step (wrPortState (ports s i)) (wrPortState (ports (exec (doWRState i) s) i))"
proof -
  let ?w = "wrPortState (ports s i)"
  have "holds i (\<lambda>p. wrPortState p = ?w) (doWRState i)
     (\<lambda>p. \<exists>mid\<in>wr_after ?w. wrPortState p \<in> {mid, WRS_IDLE} \<union> wr_entry mid (returnCurrentWRMainState mid))"
    unfolding doWRState_def
  proof (rule holds_gp, goal_cases)
    case (1 x)
    show ?case
    proof (cases "x = ?w")
      case True
      then show ?thesis
        using holds_conseq [OF holds_bind [OF state_function timeouts_after]] by (auto simp: wr_at_def)
    qed (auto simp: holds_def)
  qed
  then obtain mid where "mid \<in> wr_after ?w" "wrPortState (ports (exec (doWRState i) s) i)
      \<in> {mid, WRS_IDLE} \<union> wr_entry mid (returnCurrentWRMainState mid)"
    by (auto simp only: holds_def)
  then show ?thesis by (auto intro: handshake_step.intros)
qed


lemma retry_link_on: "WRS_WR_LINK_ON \<in> wr_entry mid (returnCurrentWRMainState mid) \<Longrightarrow> mid = WRS_WR_LINK_ON"
  by (cases mid) simp_all

lemma after_link_on:
  "WRS_WR_LINK_ON \<in> wr_after w \<Longrightarrow> w \<in> {WRS_CALIBRATED, WRS_RESP_CALIB_REQ, WRS_RESP_CALIB_REQ_1,
    WRS_RESP_CALIB_REQ_2, WRS_RESP_CALIB_REQ_3}"
  by (cases w) simp_all

text \<open>
  In particular the link is switched on only after a calibration.
\<close>

lemma link_on_after_calibration:
  assumes "wrPortState (ports (exec (doWRState i) s) i) = WRS_WR_LINK_ON"
  shows "wrPortState (ports s i) \<in> {WRS_CALIBRATED, WRS_RESP_CALIB_REQ, WRS_RESP_CALIB_REQ_1,
    WRS_RESP_CALIB_REQ_2, WRS_RESP_CALIB_REQ_3}"
proof -
  have "handshake_step (wrPortState (ports s i)) WRS_WR_LINK_ON"
    using doWRState_steps [of s i] assms by simp
  then show ?thesis
    by (rule handshake_stepE)
      (blast dest: after_link_on, metis after_link_on retry_link_on, simp)
qed

end
