(* ===== verification/Sockq.thy ===== *)
theory Sockq
  imports NetIf
begin

text \<open>
  The sockets of the freestanding port (libposix/net.c): a ring buffer of octets per socket that
  \<open>update_rx_queues\<close> fills with the frames of the network card and \<open>ptpd_netif_recvfrom\<close>
  empties. \<open>N\<close> is NET\_SKBUF\_SIZE and \<open>H\<close> the size of \<open>struct hw_timestamp\<close>, both of headers
  outside of this repository; the members of the latter are read by the argument \<open>hw\<close>.
  16-bit members are naturals reduced by \<open>w16\<close>.
\<close>

section \<open>The ring\<close>

definition w16 :: "nat \<Rightarrow> nat" where
  "w16 n = n mod 65536"

record sockq =
  q_buf :: "u8 list"
  q_head :: nat
  q_tail :: nat
  q_avail :: nat
  q_n :: nat

fun wrap_copy_in :: "nat \<Rightarrow> nat \<Rightarrow> sockq \<Rightarrow> u8 list \<times> sockq" where
  "wrap_copy_in N 0 q = ([], q)"
| "wrap_copy_in N (Suc len) q =
    (let b = q_buf q ! q_tail q;
         t = w16 (q_tail q + 1);
         (bs, q') = wrap_copy_in N len (q\<lparr>q_tail := if t = N then 0 else t\<rparr>)
     in (b # bs, q'))"

fun wrap_copy_out :: "nat \<Rightarrow> u8 list \<Rightarrow> sockq \<Rightarrow> sockq" where
  "wrap_copy_out N [] q = q"
| "wrap_copy_out N (b # bs) q =
    (let h = w16 (q_head q + 1)
     in wrap_copy_out N bs (q\<lparr>q_buf := (q_buf q)[q_head q := b], q_head := if h = N then 0 else h\<rparr>))"

text \<open>A frame: the Ethernet header (14 octets), the hardware timestamp and the payload.\<close>

record rx_packet =
  pk_hdr :: "u8 list"
  pk_hwts :: "u8 list"
  pk_payload :: "u8 list"

abbreviation ETHHDR :: nat where "ETHHDR \<equiv> 14"

definition put_size :: "nat \<Rightarrow> u8 list" where
  "put_size n = [word_of_nat (n div 256), word_of_nat n]"

definition get_size :: "u8 list \<Rightarrow> nat" where
  "get_size bs = unat (bs ! 0) * 256 + unat (bs ! 1)"

text \<open>\<open>q->avail -= wrap_copy_out(\<dots>)\<close> and \<open>q->avail += wrap_copy_in(\<dots>)\<close>.\<close>

definition store :: "nat \<Rightarrow> u8 list \<Rightarrow> sockq \<Rightarrow> sockq" where
  "store N bs q = (let q' = wrap_copy_out N bs q in q'\<lparr>q_avail := w16 (q_avail q' + 65536 - length bs)\<rparr>)"

definition fetch :: "nat \<Rightarrow> nat \<Rightarrow> sockq \<Rightarrow> u8 list \<times> sockq" where
  "fetch N len q = (let (bs, q') = wrap_copy_in N len q in (bs, q'\<lparr>q_avail := w16 (q_avail q' + len)\<rparr>))"

definition sockq_put :: "nat \<Rightarrow> nat \<Rightarrow> rx_packet \<Rightarrow> sockq \<Rightarrow> sockq" where
  "sockq_put N H f q =
    (let recvd = length (pk_payload f); required = ETHHDR + recvd + H + 2
     in if q_avail q < required then q
        else let q = store N (put_size (w16 recvd)) q;
                 q = store N (pk_hdr f) q;
                 q = store N (pk_hwts f) q;
                 q = store N (take (w16 recvd) (pk_payload f)) q
             in q\<lparr>q_n := w16 (q_n q + 1)\<rparr>)"

definition sockq_get :: "nat \<Rightarrow> nat \<Rightarrow> nat \<Rightarrow> sockq \<Rightarrow> rx_packet option \<times> sockq" where
  "sockq_get N H data_length q =
    (if q_n q = 0 then (None, q)
     else let q = q\<lparr>q_n := q_n q - 1\<rparr>;
              (size, q) = fetch N 2 q;
              (hdr, q) = fetch N ETHHDR q;
              (hwts, q) = fetch N H q;
              (data, q) = fetch N (min (get_size size) data_length) q
          in (Some \<lparr>pk_hdr = hdr, pk_hwts = hwts, pk_payload = data\<rparr>, q))"

section \<open>The sockets\<close>

record my_socket =
  in_use :: bool
  bind_mac :: "u8 list"
  bind_ethertype :: u16
  so_local_mac :: "u8 list"
  so_phase_transition :: u32
  so_dmtd_phase :: u32
  so_queue :: sockq

definition empty_queue :: "sockq \<Rightarrow> nat \<Rightarrow> sockq" where
  "empty_queue q N = q\<lparr>q_head := 0, q_tail := 0, q_avail := w16 N, q_n := 0\<rparr>"

text \<open>
  \<open>create_socket\<close>: the index of the first free socket, set up with what the HAL says of the
  port (\<open>pstate\<close>, \<open>None\<close> when it cannot be asked) and the address \<open>mac\<close> of the card.
\<close>

definition fs_create_socket ::
    "nat \<Rightarrow> bool \<Rightarrow> u8 list \<Rightarrow> u16 \<Rightarrow> hexp_port_state option \<Rightarrow> u8 list \<Rightarrow> my_socket list \<Rightarrow>
     nat option \<times> my_socket list" where
  "fs_create_socket N raw_ethernet mac_to ethertype pstate mac socks =
    (let k = length (takeWhile in_use socks)
     in if k = length socks then (None, socks)
        else if \<not> raw_ethernet then (None, socks)
        else case pstate of
          None \<Rightarrow> (None, socks)
        | Some ps \<Rightarrow> (Some k, socks[k := (socks ! k)\<lparr>bind_mac := mac_to, bind_ethertype := ethertype,
            so_local_mac := mac, so_phase_transition := hps_t2_phase_transition ps,
            so_dmtd_phase := hps_phase_val ps, so_queue := empty_queue (so_queue (socks ! k)) N,
            in_use := True\<rparr>]))"

definition fs_close_socket :: "nat option \<Rightarrow> my_socket list \<Rightarrow> my_socket list" where
  "fs_close_socket sock socks = (case sock of None \<Rightarrow> socks | Some k \<Rightarrow> socks[k := (socks ! k)\<lparr>in_use := False\<rparr>])"

definition hdr_dst :: "u8 list \<Rightarrow> u8 list" where "hdr_dst h = take 6 h"
definition hdr_src :: "u8 list \<Rightarrow> u8 list" where "hdr_src h = take 6 (drop 6 h)"
definition hdr_type :: "u8 list \<Rightarrow> u16" where
  "hdr_type h = word_of_nat (unat (h ! 12) * 256 + unat (h ! 13))"

definition matches :: "u8 list \<Rightarrow> my_socket \<Rightarrow> bool" where
  "matches hdr s \<longleftrightarrow> in_use s \<and> memcmp (hdr_dst hdr) (bind_mac s) = 0 \<and> hdr_type hdr = bind_ethertype s"

definition update_rx_queues :: "nat \<Rightarrow> nat \<Rightarrow> rx_packet option \<Rightarrow> my_socket list \<Rightarrow> my_socket list" where
  "update_rx_queues N H rx socks =
    (case rx of None \<Rightarrow> socks
     | Some f \<Rightarrow>
         if pk_payload f = [] then socks
         else let k = length (takeWhile (\<lambda>s. \<not> matches (pk_hdr f) s) socks)
              in if k = length socks then socks
                 else socks[k := (socks ! k)\<lparr>so_queue := sockq_put N H f (so_queue (socks ! k))\<rparr>])"

text \<open>
  \<open>ptpd_netif_recvfrom\<close> on socket \<open>k\<close>: its value, the sender (address, destination,
  Ethertype), the data and the timestamp. \<open>hw\<close> reads \<open>struct hw_timestamp\<close>, \<open>tracker\<close> is what
  the phase tracker says and \<open>period\<close> REF\_CLOCK\_PERIOD\_PS.
\<close>

record hw_stamp =
  hs_sec :: int
  hs_nsec :: int
  hs_ahead :: bool
  hs_valid :: int

definition fs_rx_timestamp :: "hw_stamp \<Rightarrow> int \<Rightarrow> int \<Rightarrow> my_socket \<Rightarrow> wr_timestamp \<Rightarrow> wr_timestamp" where
  "fs_rx_timestamp h tracker period s ts =
     ptpd_netif_linearize_rx_timestamp
       (ts\<lparr>raw_nsec := hs_nsec h, raw_ahead := (if hs_ahead h then 1 else 0), raw_phase := tracker,
          sec := hs_sec h, nsec := hs_nsec h, phase := 0, correct := hs_valid h\<rparr>)
       tracker (hs_ahead h) (s32 (uint (so_phase_transition s))) period"

definition fs_recvfrom ::
    "nat \<Rightarrow> nat \<Rightarrow> (u8 list \<Rightarrow> hw_stamp) \<Rightarrow> int \<Rightarrow> int \<Rightarrow> nat \<Rightarrow> nat \<Rightarrow> wr_timestamp \<Rightarrow> my_socket list \<Rightarrow>
     (int \<times> (u8 list \<times> u8 list \<times> u16) option \<times> u8 list \<times> wr_timestamp) \<times> my_socket list" where
  "fs_recvfrom N H hw tracker period k data_length ts socks =
    (let s = socks ! k; (r, q) = sockq_get N H data_length (so_queue s);
         socks' = socks[k := s\<lparr>so_queue := q\<rparr>]
     in case r of
       None \<Rightarrow> ((0, None, [], ts), socks')
     | Some f \<Rightarrow> ((int (length (pk_payload f)),
           Some (hdr_src (pk_hdr f), hdr_dst (pk_hdr f), hdr_type (pk_hdr f)), pk_payload f,
           fs_rx_timestamp (hw (pk_hwts f)) tracker period s ts), socks'))"

text \<open>\<open>tx\<close> is \<open>minic_tx_frame\<close>: its value and the timestamp, for a header and the data.\<close>

definition fs_sendto ::
    "(u8 list \<Rightarrow> u8 list \<Rightarrow> int \<times> hw_stamp) \<Rightarrow> my_socket \<Rightarrow> u8 list \<Rightarrow> u16 \<Rightarrow> u8 list \<Rightarrow> wr_timestamp \<Rightarrow> int \<times> wr_timestamp" where
  "fs_sendto tx s mac ethertype data ts =
    (let hdr = take 6 mac @ take 6 (so_local_mac s) @ put_size (unat ethertype);
         (rval, h) = tx hdr data
     in (rval, ts\<lparr>sec := hs_sec h, nsec := hs_nsec h, phase := 0, correct := hs_valid h\<rparr>))"

section \<open>The content of the ring\<close>

definition ring :: "nat \<Rightarrow> sockq \<Rightarrow> u8 list \<Rightarrow> bool" where
  "ring N q cs \<longleftrightarrow> 0 < N \<and> N < 65536 \<and> length (q_buf q) = N \<and> q_tail q < N \<and>
     q_head q = (q_tail q + length cs) mod N \<and> length cs + q_avail q = N \<and>
     (\<forall>k<length cs. q_buf q ! ((q_tail q + k) mod N) = cs ! k)"

lemma next_index: "t < N \<Longrightarrow> N < 65536 \<Longrightarrow> (if w16 (t + 1) = N then 0 else w16 (t + 1)) = (t + 1) mod N"
  by (auto simp: w16_def mod_if)

lemma copy_in_ring:
  assumes "0 < N" "N < 65536" "q_tail q < N"
  shows "length (fst (wrap_copy_in N len q)) = len"
    and "k < len \<Longrightarrow> fst (wrap_copy_in N len q) ! k = q_buf q ! ((q_tail q + k) mod N)"
    and "snd (wrap_copy_in N len q) = q\<lparr>q_tail := (q_tail q + len) mod N\<rparr>"
proof -
  have "length (fst (wrap_copy_in N len q)) = len \<and>
      (\<forall>k<len. fst (wrap_copy_in N len q) ! k = q_buf q ! ((q_tail q + k) mod N)) \<and>
      snd (wrap_copy_in N len q) = q\<lparr>q_tail := (q_tail q + len) mod N\<rparr>"
    using assms(3)
  proof (induction len arbitrary: q)
    case (Suc len)
    let ?q = "q\<lparr>q_tail := (q_tail q + 1) mod N\<rparr>"
    have IH: "length (fst (wrap_copy_in N len ?q)) = len \<and>
        (\<forall>k<len. fst (wrap_copy_in N len ?q) ! k = q_buf q ! ((q_tail q + Suc k) mod N)) \<and>
        snd (wrap_copy_in N len ?q) = q\<lparr>q_tail := (q_tail q + Suc len) mod N\<rparr>"
      using Suc.IH [of ?q] assms(1) by (simp add: mod_simps)
    have step: "wrap_copy_in N (Suc len) q =
        (q_buf q ! q_tail q # fst (wrap_copy_in N len ?q), snd (wrap_copy_in N len ?q))"
      unfolding wrap_copy_in.simps Let_def next_index [OF Suc.prems assms(2)]
      by (simp add: split_beta)
    show ?case using IH Suc.prems unfolding step by (auto simp: nth_Cons split: nat.split)
  qed simp
  then show "length (fst (wrap_copy_in N len q)) = len"
    and "k < len \<Longrightarrow> fst (wrap_copy_in N len q) ! k = q_buf q ! ((q_tail q + k) mod N)"
    and "snd (wrap_copy_in N len q) = q\<lparr>q_tail := (q_tail q + len) mod N\<rparr>"
    by auto
qed

lemma copy_out_frame [simp]:
  "q_tail (wrap_copy_out N bs q) = q_tail q" "q_avail (wrap_copy_out N bs q) = q_avail q"
  "q_n (wrap_copy_out N bs q) = q_n q" "length (q_buf (wrap_copy_out N bs q)) = length (q_buf q)"
  by (induction N bs q rule: wrap_copy_out.induct) (simp_all add: Let_def)

lemma index_inj: "h < N \<Longrightarrow> j < N \<Longrightarrow> k < N \<Longrightarrow> (h + j) mod N = (h + k) mod N \<Longrightarrow> j = (k :: nat)"
  by (auto simp: mod_if split: if_splits)

lemma copy_out_ring:
  assumes "0 < N" "N < 65536" "q_head q < N" "length (q_buf q) = N" "length bs \<le> N"
  shows "q_head (wrap_copy_out N bs q) = (q_head q + length bs) mod N \<and>
    (\<forall>k<N. q_buf (wrap_copy_out N bs q) ! ((q_head q + k) mod N) =
       (if k < length bs then bs ! k else q_buf q ! ((q_head q + k) mod N)))"
  using assms(3-5)
proof (induction bs arbitrary: q)
  case (Cons b bs)
  let ?q = "q\<lparr>q_buf := (q_buf q)[q_head q := b], q_head := (q_head q + 1) mod N\<rparr>"
  have IH: "q_head (wrap_copy_out N bs ?q) = (q_head q + Suc (length bs)) mod N"
    "\<forall>k<N. q_buf (wrap_copy_out N bs ?q) ! ((q_head q + Suc k) mod N) =
       (if k < length bs then bs ! k else q_buf ?q ! ((q_head q + Suc k) mod N))"
    using Cons.IH [of ?q] Cons.prems assms(1) by (simp_all add: mod_simps)
  have step: "wrap_copy_out N (b # bs) q = wrap_copy_out N bs ?q"
    unfolding wrap_copy_out.simps Let_def next_index [OF Cons.prems(1) assms(2)] ..
  have "q_buf (wrap_copy_out N bs ?q) ! ((q_head q + k) mod N) =
      (if k < length (b # bs) then (b # bs) ! k else q_buf q ! ((q_head q + k) mod N))" if "k < N" for k
  proof (cases k)
    case 0
    have "q_buf (wrap_copy_out N bs ?q) ! ((q_head q + Suc (N - 1)) mod N) =
        q_buf ?q ! ((q_head q + Suc (N - 1)) mod N)"
      using spec [OF IH(2), of "N - 1"] Cons.prems(3) assms(1) by auto
    moreover have "(q_head q + Suc (N - 1)) mod N = q_head q" using Cons.prems(1) assms(1) by simp
    ultimately show ?thesis using 0 Cons.prems assms(1) by simp
  next
    case (Suc k')
    then have "(q_head q + k) mod N \<noteq> q_head q"
      using index_inj [of "q_head q" N k 0] that Cons.prems(1) by auto
    then show ?thesis using IH(2) Suc that by auto
  qed
  then show ?case unfolding step using IH(1) by simp
qed simp

text \<open>Writing appends to the content, reading takes from its front.\<close>

lemma store_ring:
  assumes "ring N q cs" "length bs \<le> q_avail q"
  shows "ring N (store N bs q) (cs @ bs)"
proof -
  let ?q = "wrap_copy_out N bs q"
  have h: "q_head q < N" "length bs \<le> N" using assms by (auto simp: ring_def)
  have head: "q_head q = (q_tail q + length cs) mod N" using assms(1) by (simp add: ring_def)
  have out: "q_head ?q = (q_head q + length bs) mod N"
    and w: "\<And>k. k < N \<Longrightarrow> q_buf ?q ! ((q_head q + k) mod N) =
      (if k < length bs then bs ! k else q_buf q ! ((q_head q + k) mod N))"
    using copy_out_ring [of N q bs] assms(1) h by (auto simp: ring_def)
  have pos: "(q_tail q + k) mod N = (q_head q + (k + N - length cs)) mod N" if "length cs \<le> N" for k
  proof -
    have "(q_head q + (k + N - length cs)) mod N = (q_tail q + length cs + (k + N - length cs)) mod N"
      by (simp only: head mod_add_left_eq)
    also have "q_tail q + length cs + (k + N - length cs) = q_tail q + k + N" using that by simp
    finally show ?thesis by simp
  qed
  have c: "q_buf ?q ! ((q_tail q + k) mod N) = (cs @ bs) ! k" if k: "k < length (cs @ bs)" for k
  proof (cases "k < length cs")
    case True
    have "length cs + length bs \<le> N" using assms by (auto simp: ring_def)
    with True have m: "\<not> k + N - length cs < length bs" "k + N - length cs < N" by auto
    have "q_buf ?q ! ((q_head q + (k + N - length cs)) mod N) = q_buf q ! ((q_head q + (k + N - length cs)) mod N)"
      by (simp only: w [OF m(2)] m(1) if_False)
    moreover have "(q_head q + (k + N - length cs)) mod N = (q_tail q + k) mod N"
      using pos [of k] assms(1) by (simp add: ring_def)
    ultimately show ?thesis using True assms(1) by (simp add: ring_def nth_append)
  next
    case False
    have e: "(q_tail q + k) mod N = (q_head q + (k - length cs)) mod N"
    proof -
      have "(q_head q + (k - length cs)) mod N = (q_tail q + length cs + (k - length cs)) mod N"
        by (simp only: head mod_add_left_eq)
      then show ?thesis using False by simp
    qed
    have j: "k - length cs < length bs" "k - length cs < N" using False k h by auto
    have "q_buf ?q ! ((q_head q + (k - length cs)) mod N) = bs ! (k - length cs)"
      by (simp only: w [OF j(2)] j(1) if_True)
    then show ?thesis unfolding e using False by (simp add: nth_append)
  qed
  have t: "q_head ?q = (q_tail q + length (cs @ bs)) mod N"
    unfolding out head by (simp add: mod_add_left_eq add.assoc)
  have "w16 (q_avail q + 65536 - length bs) = q_avail q - length bs"
  proof -
    have e: "q_avail q + 65536 - length bs = (q_avail q - length bs) + 65536"
      using assms(2) by linarith
    have "q_avail q - length bs < 65536" using assms(1) by (simp only: ring_def) linarith
    then show ?thesis unfolding w16_def e mod_add_self2 by (rule mod_less)
  qed
  then have st: "store N bs q = ?q\<lparr>q_avail := q_avail q - length bs\<rparr>"
    by (simp add: store_def Let_def)
  have r: "0 < N" "N < 65536" "length (q_buf q) = N" "q_tail q < N" "length cs + q_avail q = N"
    using assms(1) by (simp_all add: ring_def)
  have l: "length (cs @ bs) + (q_avail q - length bs) = N" using r(5) assms(2) by simp
  show ?thesis unfolding st ring_def
    using r(1-4) l t c by (simp del: length_append)
qed

lemma fetch_ring:
  assumes "ring N q (bs @ cs)" "len = length bs"
  shows "fst (fetch N len q) = bs" "ring N (snd (fetch N len q)) cs"
    "q_n (snd (fetch N len q)) = q_n q"
proof -
  have t: "0 < N" "N < 65536" "q_tail q < N" using assms(1) by (auto simp: ring_def)
  note in' = copy_in_ring [OF t, where len = len]
  show "fst (fetch N len q) = bs"
  proof (rule nth_equalityI)
    show "length (fst (fetch N len q)) = length bs" using in'(1) assms(2) by (simp add: fetch_def split_beta)
    fix k assume "k < length (fst (fetch N len q))"
    then have k: "k < length bs" using in'(1) assms(2) by (simp add: fetch_def split_beta)
    then have "q_buf q ! ((q_tail q + k) mod N) = bs ! k" using assms(1) by (auto simp: ring_def nth_append)
    then show "fst (fetch N len q) ! k = bs ! k" using in'(2) [of k] k assms(2)
      by (simp add: fetch_def split_beta)
  qed
  have "q_buf q ! (((q_tail q + len) mod N + k) mod N) = cs ! k" if "k < length cs" for k
    using assms that by (auto simp: ring_def mod_simps add.assoc nth_append
      dest: spec [of _ "length bs + k"])
  then show "ring N (snd (fetch N len q)) cs"
    using assms in'(3) by (auto simp: ring_def fetch_def split_beta w16_def mod_simps add.assoc)
  show "q_n (snd (fetch N len q)) = q_n q"
    using in'(3) by (simp add: fetch_def split_beta)
qed

section \<open>A bounded queue\<close>

text \<open>
  What the callers of a queue rely on, and what follows for any sequence of operations: the
  elements come out in the order they were accepted in.
\<close>

datatype 'a queue_op = Put 'a | Get

fun queue_run :: "('a \<Rightarrow> 'q \<Rightarrow> bool) \<Rightarrow> ('a \<Rightarrow> 'q \<Rightarrow> 'q) \<Rightarrow> ('q \<Rightarrow> 'a option \<times> 'q) \<Rightarrow> 'a queue_op list \<Rightarrow>
    'q \<Rightarrow> 'a list \<times> 'a list \<times> 'q" where
  "queue_run room put get [] q = ([], [], q)"
| "queue_run room put get (Put f # ops) q =
    (let (acc, del, q') = queue_run room put get ops (put f q)
     in (if room f q then f # acc else acc, del, q'))"
| "queue_run room put get (Get # ops) q =
    (let (r, q1) = get q; (acc, del, q') = queue_run room put get ops q1
     in (acc, (case r of None \<Rightarrow> del | Some f \<Rightarrow> f # del), q'))"

locale bounded_queue =
  fixes repr :: "'q \<Rightarrow> 'a list \<Rightarrow> bool"
    and room :: "'a \<Rightarrow> 'q \<Rightarrow> bool"
    and put :: "'a \<Rightarrow> 'q \<Rightarrow> 'q"
    and get :: "'q \<Rightarrow> 'a option \<times> 'q"
    and ok :: "'a \<Rightarrow> bool"
  assumes put_room: "repr q fs \<Longrightarrow> ok f \<Longrightarrow> room f q \<Longrightarrow> repr (put f q) (fs @ [f])"
    and put_full: "\<not> room f q \<Longrightarrow> put f q = q"
    and get_empty: "repr q [] \<Longrightarrow> get q = (None, q)"
    and get_front: "repr q (f # fs) \<Longrightarrow> fst (get q) = Some f \<and> repr (snd (get q)) fs"
begin

lemma in_order:
  assumes "repr q fs" "\<And>f. Put f \<in> set ops \<Longrightarrow> ok f" "queue_run room put get ops q = (acc, del, q')"
  shows "\<exists>rest. repr q' rest \<and> fs @ acc = del @ rest"
  using assms
proof (induction ops arbitrary: q fs acc del)
  case Nil
  then show ?case by auto
next
  case (Cons x ops)
  show ?case
  proof (cases x)
    case (Put f)
    obtain acc1 where run: "queue_run room put get ops (put f q) = (acc1, del, q')"
      and acc: "acc = (if room f q then f # acc1 else acc1)"
      using Cons.prems(3) Put by (auto simp: Let_def split: prod.splits)
    have "repr (put f q) (if room f q then fs @ [f] else fs)"
      using Cons.prems(1,2) Put put_room put_full by auto
    from Cons.IH [OF this _ run] Cons.prems(2) acc show ?thesis by (auto split: if_splits)
  next
    case Get
    obtain r q1 del1 where get: "get q = (r, q1)" and run: "queue_run room put get ops q1 = (acc, del1, q')"
      and del: "del = (case r of None \<Rightarrow> del1 | Some f \<Rightarrow> f # del1)"
      using Cons.prems(3) Get by (auto simp: Let_def split: prod.splits)
    show ?thesis
    proof (cases fs)
      case Nil
      then show ?thesis using Cons.IH [OF _ _ run, of "[]"] Cons.prems(1,2) get get_empty [of q] del by auto
    next
      case (Cons f fs')
      then have "r = Some f" "repr q1 fs'" using get get_front [of q f fs'] \<open>repr q fs\<close> by auto
      then show ?thesis using Cons.IH [OF _ _ run, of fs'] Cons.prems(2) del Cons by auto
    qed
  qed
qed

end

section \<open>The queue of a socket\<close>

definition frame_ok :: "nat \<Rightarrow> nat \<Rightarrow> rx_packet \<Rightarrow> bool" where
  "frame_ok H len f \<longleftrightarrow> length (pk_hdr f) = ETHHDR \<and> length (pk_hwts f) = H \<and>
     length (pk_payload f) < 65536 \<and> length (pk_payload f) \<le> len"

definition stored :: "rx_packet \<Rightarrow> u8 list" where
  "stored f = put_size (length (pk_payload f)) @ pk_hdr f @ pk_hwts f @ pk_payload f"

text \<open>The queue holds the frames \<open>fs\<close>, none longer than the \<open>len\<close> octets a reader asks for.\<close>

definition queued :: "nat \<Rightarrow> nat \<Rightarrow> nat \<Rightarrow> sockq \<Rightarrow> rx_packet list \<Rightarrow> bool" where
  "queued N H len q fs \<longleftrightarrow> ring N q (concat (map stored fs)) \<and> q_n q = length fs \<and> (\<forall>f\<in>set fs. frame_ok H len f)"

definition has_room :: "nat \<Rightarrow> rx_packet \<Rightarrow> sockq \<Rightarrow> bool" where
  "has_room H f q \<longleftrightarrow> ETHHDR + length (pk_payload f) + H + 2 \<le> q_avail q"

lemma size_roundtrip: "n < 65536 \<Longrightarrow> get_size (put_size n) = n"
  by (simp add: get_size_def put_size_def unat_of_nat take_bit_eq_mod)

lemma stored_length: "frame_ok H len f \<Longrightarrow> length (stored f) = ETHHDR + length (pk_payload f) + H + 2"
  by (simp add: stored_def frame_ok_def put_size_def)

lemma store_frame [simp]: "q_n (store N bs q) = q_n q" "q_avail (store N bs q) = w16 (q_avail q + 65536 - length bs)"
  by (simp_all add: store_def Let_def)

lemma queue_length: "length fs \<le> length (concat (map stored fs))"
  by (induction fs) (simp_all add: stored_def put_size_def)

lemma ring_avail: "ring N q cs \<Longrightarrow> q_avail q = N - length cs \<and> length cs \<le> N \<and> N < 65536"
  unfolding ring_def by auto

lemma put_queued:
  assumes q: "queued N H len q fs" and f: "frame_ok H len f" and room: "has_room H f q"
  shows "queued N H len (sockq_put N H f q) (fs @ [f])"
proof -
  let ?cs = "concat (map stored fs)"
  let ?q1 = "store N (put_size (length (pk_payload f))) q"
  let ?q2 = "store N (pk_hdr f) ?q1"
  let ?q3 = "store N (pk_hwts f) ?q2"
  let ?q4 = "store N (pk_payload f) ?q3"
  have r0: "ring N q ?cs" and n: "q_n q = length fs" using q by (simp_all add: queued_def)
  have len: "length (pk_hdr f) = ETHHDR" "length (pk_hwts f) = H" "length (put_size k) = 2" for k
    using f by (simp_all add: frame_ok_def put_size_def)
  have need: "length ?cs + (2 + ETHHDR + H + length (pk_payload f)) \<le> N"
    using room ring_avail [OF r0] by (simp add: has_room_def)
  have r1: "ring N ?q1 (?cs @ put_size (length (pk_payload f)))"
    using ring_avail [OF r0] need by (intro store_ring r0) (simp add: len)
  have r2: "ring N ?q2 ((?cs @ put_size (length (pk_payload f))) @ pk_hdr f)"
    using ring_avail [OF r1] need by (intro store_ring r1) (simp add: len)
  have r3: "ring N ?q3 (((?cs @ put_size (length (pk_payload f))) @ pk_hdr f) @ pk_hwts f)"
    using ring_avail [OF r2] need by (intro store_ring r2) (simp add: len)
  have r4: "ring N ?q4 ((((?cs @ put_size (length (pk_payload f))) @ pk_hdr f) @ pk_hwts f) @ pk_payload f)"
    using ring_avail [OF r3] need by (intro store_ring r3) (simp add: len)
  have "w16 (length (pk_payload f)) = length (pk_payload f)"
    using f unfolding w16_def frame_ok_def by (intro mod_less) simp
  then have put: "sockq_put N H f q = ?q4\<lparr>q_n := w16 (q_n q + 1)\<rparr>"
    using room by (simp add: sockq_put_def Let_def has_room_def)
  have "length fs + 1 < 65536"
    using queue_length [of fs] need ring_avail [OF r0] by simp
  then have "w16 (q_n q + 1) = length (fs @ [f])"
    unfolding w16_def n by (subst mod_less) simp_all
  moreover have "ring N (?q4\<lparr>q_n := k\<rparr>) (concat (map stored (fs @ [f])))" for k
    using r4 by (simp add: ring_def stored_def)
  ultimately show ?thesis using q f unfolding queued_def put by simp
qed

lemma ring_n [simp]: "ring N (q\<lparr>q_n := k\<rparr>) cs = ring N q cs"
  by (simp add: ring_def)

lemma get_queued:
  assumes "queued N H len q (f # fs)"
  shows "fst (sockq_get N H len q) = Some f \<and> queued N H len (snd (sockq_get N H len q)) fs"
proof -
  let ?rest = "concat (map stored fs)"
  let ?size = "put_size (length (pk_payload f))"
  define q0 where "q0 = q\<lparr>q_n := length fs\<rparr>"
  have f: "frame_ok H len f" and n: "q_n q = length fs + 1" using assms by (simp_all add: queued_def)
  have len: "length (pk_hdr f) = ETHHDR" "length (pk_hwts f) = H" "length ?size = 2"
    "min (get_size ?size) len = length (pk_payload f)"
    using f by (simp_all add: frame_ok_def put_size_def [of "length _"] size_roundtrip [unfolded put_size_def])
  have r0: "ring N q0 (?size @ pk_hdr f @ pk_hwts f @ pk_payload f @ ?rest)"
    using assms by (simp add: queued_def stored_def q0_def)
  note s1 = fetch_ring [OF r0 len(3) [symmetric]]
  note s2 = fetch_ring [OF s1(2) len(1) [symmetric]]
  note s3 = fetch_ring [OF s2(2) len(2) [symmetric]]
  note s4 = fetch_ring [OF s3(2) len(4)]
  have "sockq_get N H len q = (Some f, snd (fetch N (length (pk_payload f))
      (snd (fetch N H (snd (fetch N ETHHDR (snd (fetch N 2 q0))))))))"
    using n s1(1) s2(1) s3(1) s4(1) len(4)
    by (simp add: sockq_get_def Let_def split_beta flip: q0_def)
  then show ?thesis
    using s1(3) s2(3) s3(3) s4(2,3) len(4) assms n by (simp add: queued_def q0_def)
qed

interpretation sockq: bounded_queue "queued N H len" "has_room H" "sockq_put N H" "sockq_get N H len"
    "frame_ok H len" for N H len
proof unfold_locales
  show "queued N H len q [] \<Longrightarrow> sockq_get N H len q = (None, q)" for q
    by (simp add: queued_def sockq_get_def)
  show "\<not> has_room H f q \<Longrightarrow> sockq_put N H f q = q" for f q
    by (simp add: has_room_def sockq_put_def Let_def)
qed (simp_all add: put_queued get_queued)

text \<open>
  C12. The queue of a socket of the freestanding port is first in, first out, across every
  wrap-around of the ring: from an empty queue of \<open>N < 65536\<close> octets, for any interleaving of
  arriving frames (none longer than the \<open>len\<close> octets a reader asks for) and reads, the frames
  delivered are the frames accepted, in order, with header, timestamp and payload unchanged, up to
  those still queued; a frame that does not fit is dropped whole and changes nothing.
\<close>
theorem sockq_in_order:
  assumes "0 < N" "N < 65536" "length (q_buf q) = N"
    and "\<And>f. Put f \<in> set ops \<Longrightarrow> frame_ok H len f"
    and "queue_run (has_room H) (sockq_put N H) (sockq_get N H len) ops (empty_queue q N) = (acc, del, q')"
  shows "\<exists>rest. acc = del @ rest \<and> queued N H len q' rest"
proof -
  have "w16 N = N" using assms(2) unfolding w16_def by (rule mod_less)
  then have "queued N H len (empty_queue q N) []"
    using assms(1-3) by (simp add: queued_def ring_def empty_queue_def)
  from sockq.in_order [OF this assms(4,5)] show ?thesis by auto
qed

text \<open>Two frames through a ring of 40 octets, that holds only one of them at a time.\<close>

definition tiny_frame :: "u8 \<Rightarrow> rx_packet" where
  "tiny_frame b = \<lparr>pk_hdr = replicate 14 0, pk_hwts = [1, 2], pk_payload = [b, b, b]\<rparr>"

definition tiny_queue :: sockq where
  "tiny_queue = \<lparr>q_buf = replicate 40 0, q_head = 0, q_tail = 0, q_avail = 0, q_n = 0\<rparr>"

abbreviation tiny_ops :: "rx_packet queue_op list" where
  "tiny_ops \<equiv> [Put (tiny_frame 7), Put (tiny_frame 8), Get, Put (tiny_frame 9), Get, Get]"

theorem sockq_in_order_witness:
  "\<exists>acc del q' rest. queue_run (has_room 2) (sockq_put 40 2) (sockq_get 40 2 1500) tiny_ops
      (empty_queue tiny_queue 40) = (acc, del, q') \<and> acc = del @ rest \<and> queued 40 2 1500 q' rest"
proof -
  obtain acc del q' where run: "queue_run (has_room 2) (sockq_put 40 2) (sockq_get 40 2 1500) tiny_ops
      (empty_queue tiny_queue 40) = (acc, del, q')"
    by (rule prod_cases3)
  have "\<exists>rest. acc = del @ rest \<and> queued 40 2 1500 q' rest"
    by (rule sockq_in_order [OF _ _ _ _ run]) (auto simp: tiny_frame_def tiny_queue_def frame_ok_def)
  with run show ?thesis by blast
qed

text \<open>
  Reading less than a frame holds leaves the rest of it in the ring, where the next read takes it
  for the size of a frame: \<open>ptpd\_netif\_recvfrom\<close> drops the frame from the count but not its
  remaining octets.
\<close>

lemma short_read_leaves_octets:
  assumes "ring N q (stored f @ cs)" "q_n q = Suc n" "frame_ok H (length (pk_payload f)) f"
    and "len < length (pk_payload f)"
  shows "ring N (snd (sockq_get N H len q)) (drop len (pk_payload f) @ cs)"
proof -
  let ?size = "put_size (length (pk_payload f))"
  define q0 where "q0 = q\<lparr>q_n := n\<rparr>"
  have len: "length (pk_hdr f) = ETHHDR" "length (pk_hwts f) = H" "length ?size = 2"
    "min (get_size ?size) len = length (take len (pk_payload f))"
    using assms(3,4) by (simp_all add: frame_ok_def put_size_def [of "length _"] size_roundtrip [unfolded put_size_def])
  have r0: "ring N q0 (?size @ pk_hdr f @ pk_hwts f @ take len (pk_payload f) @ drop len (pk_payload f) @ cs)"
  proof -
    have e: "take len (pk_payload f) @ drop len (pk_payload f) @ cs = pk_payload f @ cs"
      by (simp only: append_take_drop_id flip: append_assoc)
    show ?thesis using assms(1) by (simp only: stored_def q0_def ring_n e append_assoc)
  qed
  note s1 = fetch_ring [OF r0 len(3) [symmetric]]
  note s2 = fetch_ring [OF s1(2) len(1) [symmetric]]
  note s3 = fetch_ring [OF s2(2) len(2) [symmetric]]
  note s4 = fetch_ring [OF s3(2) len(4)]
  then show ?thesis using assms(2) s1(1) by (simp add: sockq_get_def Let_def split_beta q0_def)
qed

end
