(* ===== verification/Exchange.thy ===== *)
theory Exchange
  imports WrFsm
begin

text \<open>
  Two ports that talk to each other: what the messages of one bring about in the other. The
  ports belong to two daemons, so each has a state of its own; a message is the octets one of
  them has packed into \<open>msgObuf\<close>, put at the start of \<open>msgIbuf\<close> of the other.
\<close>

section \<open>A message from one port to another\<close>

definition receive :: "nat \<Rightarrow> nat \<Rightarrow> u8 list \<Rightarrow> sys \<Rightarrow> sys" where
  "receive i n b s =
    (let s = exec (upd i (\<lambda>p. p\<lparr>msgIbuf := take n b @ drop n (msgIbuf p)\<rparr>)) s
     in exec (dispatch (msgUnpackHeader (msgIbuf (ports s i))) (int n) ti_zero False i) s)"

text \<open>Every frame the daemon hands to the kernel is taken.\<close>

definition sends :: "sys \<Rightarrow> bool" where
  "sends s \<longleftrightarrow> (\<forall>n. env_sendto (world s) n \<noteq> 0)"

text \<open>Nothing but the counter of calls and the log differs.\<close>

definition only_world :: "sys \<Rightarrow> sys \<Rightarrow> bool" where
  "only_world s s' \<longleftrightarrow> (\<exists>n l. s' = s\<lparr>ncall := n, log := l\<rparr>)"

lemma only_worldE:
  assumes "only_world s s'"
  obtains n l where "s' = s\<lparr>ncall := n, log := l\<rparr>"
  using assms by (auto simp: only_world_def)

lemma sendto_world:
  "wp (ptpd_netif_sendto i to et data ts)
     (\<lambda>r s'. only_world s s' \<and> (sends s \<longrightarrow> fst r \<noteq> 0)) s"
proof -
  have "\<exists>n l. s\<lparr>log := l', ncall := n'\<rparr> = s\<lparr>ncall := n, log := l\<rparr>" for n' l'
    by (intro exI [of _ n'] exI [of _ l']) simp
  moreover have "\<exists>n l. s = s\<lparr>ncall := n, log := l\<rparr>"
    by (intro exI [of _ "ncall s"] exI [of _ "log s"]) simp
  ultimately show ?thesis
    by (simp add: ptpd_netif_sendto_def poll_tx_timestamp_def wp_simps wp_return_eta only_world_def sends_def)
qed

lemma send_world:
  assumes "sends s" and "\<And>r n l. fst r \<noteq> 0 \<Longrightarrow> Q r (s\<lparr>ncall := n, log := l\<rparr>)"
  shows "wp (netSendEvent i len ts) Q s"
  using sendto_world [of i "multicastAddr (netPath (ports s i))" "0x88f7" "take (unat len) (msgObuf (ports s i))" ts s] assms
  by (auto simp: netSendEvent_def wp_simps only_world_def elim!: wp_conseq)

lemma send_general_world:
  assumes "sends s" and "\<And>r n l. r \<noteq> 0 \<Longrightarrow> Q r (s\<lparr>ncall := n, log := l\<rparr>)"
  shows "wp (netSendGeneral i len) Q s"
  using sendto_world [of i "multicastAddr (netPath (ports s i))" "0x88f7" "take (unat len) (msgObuf (ports s i))" wrts_zero s] assms
  by (auto simp: netSendGeneral_def wp_simps only_world_def elim!: wp_conseq)

subsection \<open>The octets that arrive\<close>

lemma arrived:
  assumes "n \<le> length b"
  shows "q < n \<Longrightarrow> get_u8 q (take n b @ c) = get_u8 q b"
    "q + 2 \<le> n \<Longrightarrow> get_be16 q (take n b @ c) = get_be16 q b"
    "q + 4 \<le> n \<Longrightarrow> get_be32 q (take n b @ c) = get_be32 q b"
    "q + k \<le> n \<Longrightarrow> get_block k q (take n b @ c) = get_block k q b"
  using assms by (auto simp: get_u8_def get_be16_def get_be32_def get_block_def nth_append)

lemma header_arrived: "34 \<le> n \<Longrightarrow> n \<le> length b \<Longrightarrow> msgUnpackHeader (take n b @ c) = msgUnpackHeader b"
  by (simp add: msgUnpackHeader_def arrived)

lemma timestamp_arrived: "44 \<le> n \<Longrightarrow> n \<le> length b \<Longrightarrow> get_timestamp 34 (take n b @ c) = get_timestamp 34 b"
  by (simp add: get_timestamp_def arrived)

lemma resp_arrived: "54 \<le> n \<Longrightarrow> n \<le> length b \<Longrightarrow> get_resp (take n b @ c) = get_resp b"
  by (simp add: get_resp_def arrived timestamp_arrived)

lemma signalling_arrived:
  assumes "72 \<le> n" "n \<le> length b"
  shows "msgUnpackWRSignalingMsg (take n b @ c) i p = msgUnpackWRSignalingMsg b i p"
  using assms by (simp add: msgUnpackWRSignalingMsg_def arrived Let_def tlv_organizationID_def
      tlv_magicNumber_def tlv_versionNumber_def cong: if_cong)

subsection \<open>What a sender leaves of the header it was initialised with\<close>

lemma type_nibble:
  "((x :: u8) AND 240) AND 15 = 0" "((x AND 240) OR t) AND 15 = t AND 15"
proof -
  show c: "((x :: u8) AND 240) AND 15 = 0" by (simp add: and.assoc)
  show "((x AND 240) OR t) AND 15 = t AND 15" by (simp add: bit.conj_disj_distrib2 c)
qed

lemma sent_fields:
  assumes "length b = 1024"
  shows "messageType (msgUnpackHeader (msgPackSync t p b)) = MT_SYNC"
    "sourcePortIdentity (msgUnpackHeader (msgPackSync t p b)) = sourcePortIdentity (msgUnpackHeader b)"
    "flagField (msgUnpackHeader (msgPackSync t p b)) = flagField (msgUnpackHeader b)"
    "sequenceId (msgUnpackHeader (msgPackSync t p b)) = sentSyncSequenceId p"
    "messageType (msgUnpackHeader (msgPackFollowUp p b)) = MT_FOLLOW_UP"
    "sourcePortIdentity (msgUnpackHeader (msgPackFollowUp p b)) = sourcePortIdentity (msgUnpackHeader b)"
    "sequenceId (msgUnpackHeader (msgPackFollowUp p b)) = sentSyncSequenceId p - 1"
    "msgUnpackFollowUp (msgPackFollowUp p b) = wr_to_Timestamp (synch_tx_ts p)"
    "messageType (msgUnpackHeader (msgPackDelayReq t p b)) = MT_DELAY_REQ"
    "sourcePortIdentity (msgUnpackHeader (msgPackDelayReq t p b)) = sourcePortIdentity (msgUnpackHeader b)"
    "sequenceId (msgUnpackHeader (msgPackDelayReq t p b)) = sentDelayReqSequenceId p"
    "messageType (msgUnpackHeader (msgPackDelayResp h p b)) = MT_DELAY_RESP"
    "sourcePortIdentity (msgUnpackHeader (msgPackDelayResp h p b)) = sourcePortIdentity (msgUnpackHeader b)"
    "sequenceId (msgUnpackHeader (msgPackDelayResp h p b)) = sequenceId h"
    "i64_lsb (correctionfield (msgUnpackHeader (msgPackDelayResp h p b))) = i64_lsb (correctionfield h)"
    "length (clockIdentity (sourcePortIdentity h)) = 8 \<Longrightarrow> msgUnpackDelayResp (msgPackDelayResp h p b) =
       \<lparr>resp_timestamp = wr_to_Timestamp (current_rx_ts p), requestingPortIdentity = sourcePortIdentity h\<rparr>"
  using assms by (simp_all add: pack_defs unpack_defs msg_simps type_nibble)

lemma pack_long: "length b = 1024 \<Longrightarrow> n \<le> 1024 \<Longrightarrow> n \<le> length (msgPackSync t p b)"
  "length b = 1024 \<Longrightarrow> n \<le> 1024 \<Longrightarrow> n \<le> length (msgPackFollowUp p b)"
  "length b = 1024 \<Longrightarrow> n \<le> 1024 \<Longrightarrow> n \<le> length (msgPackDelayReq t p b)"
  "length b = 1024 \<Longrightarrow> n \<le> 1024 \<Longrightarrow> n \<le> length (msgPackDelayResp h p b)"
  by simp_all

lemma wire_time:
  assumes "0 \<le> sec t" "sec t < INT_MAX" "0 \<le> nsec t" "nsec t < 2147483648"
  shows "toInternalTime u (wr_to_Timestamp t) = u\<lparr>seconds := sec t, nanoseconds := nsec t\<rparr>"
proof -
  have "(0xFFFFFFFF :: int) = mask 32" by (simp add: mask_eq_exp_minus_1)
  then have "sec t AND 0xFFFFFFFF = sec t"
    using assms(1,2) by (simp only: flip: take_bit_eq_mask) (simp add: take_bit_int_eq_self INT_MAX_def)
  then show ?thesis
    using assms by (simp add: toInternalTime_def wr_to_Timestamp_def INT_MAX_def uint_word_of_int s32_id)
qed

text \<open>
  The phase of the receive timestamp travels in the correction field in units of 2^-16 ns, so
  it loses less than a picosecond.
\<close>

lemma phase_over_wire:
  assumes "0 \<le> ph" "ph < 32767999"
  shows "let cf = s32 (uint (word_of_int (phase_to_cf_units ph) :: u32))
         in s32 (s64 (cf * 1000) sdiv 65536) \<in> {ph - 1, ph}"
proof -
  define q where "q = ph * 65536 div 1000"
  have q: "0 \<le> q" "q < 2147483648" using assms by (auto simp: q_def)
  have "s64 (ph * 65536) = ph * 65536" using assms by (intro s64_id) auto
  then have cf: "phase_to_cf_units ph = q"
    using assms q by (simp add: phase_to_cf_units_def sdiv_nonneg q_def s32_id)
  have "uint (word_of_int q :: u32) = q" using q by (simp add: uint_word_of_int)
  then have "s32 (uint (word_of_int q :: u32)) = q" using q by (simp add: s32_id)
  moreover have "s64 (q * 1000) = q * 1000" using q by (intro s64_id) auto
  moreover have "q * 1000 div 65536 \<in> {ph - 1, ph}"
    using assms unfolding q_def by (auto; presburger)
  moreover have "s32 (q * 1000 div 65536) = q * 1000 div 65536"
    using q by (intro s32_id) auto
  ultimately show ?thesis using q unfolding cf Let_def by (simp add: sdiv_nonneg)
qed

section \<open>Sync and Follow\_Up\<close>

definition sync_exchange :: "nat \<Rightarrow> sys \<Rightarrow> nat \<Rightarrow> sys \<Rightarrow> sys" where
  "sync_exchange k sm i ss =
    (let sm1 = exec (issueSync k) sm;
         ss1 = receive i 44 (msgObuf (ports sm1 k)) ss;
         sm2 = exec (issueFollowup k) sm1
     in receive i 44 (msgObuf (ports sm2 k)) ss1)"

lemma sync_issued:
  assumes "sends s"
  shows "wp (issueSync k) (\<lambda>_ s'. (\<exists>tx. ports s' = (ports s)(k := (ports s k)\<lparr>
      msgObuf := msgPackSync ts_zero (ports s k) (msgObuf (ports s k)), synch_tx_ts := tx,
      sentSyncSequenceId := sentSyncSequenceId (ports s k) + 1\<rparr>)) \<and> sends s') s"
  using assms unfolding issueSync_def
  by (simp add: wp_simps wp_return_eta)
    (rule send_world; simp add: wp_simps wp_return_eta sends_def; rule exI, rule refl)

lemma followup_issued:
  assumes "sends s"
  shows "wp (issueFollowup k) (\<lambda>_ s'. ports s' = (ports s)(k := (ports s k)\<lparr>
    msgObuf := msgPackFollowUp (ports s k) (msgObuf (ports s k))\<rparr>)) s"
  using assms unfolding issueFollowup_def
  by (simp add: wp_simps wp_return_eta)
    (rule send_general_world; simp add: wp_simps wp_return_eta sends_def)

lemma delay_req_issued:
  assumes "sends s"
  shows "wp (issueDelayReq i) (\<lambda>_ s'. (\<exists>tx. ports s' = (ports s)(i := (ports s i)\<lparr>
      msgObuf := msgPackDelayReq ts_zero (ports s i) (msgObuf (ports s i)), delayReq_tx_ts := tx,
      sentDelayReqSequenceId := sentDelayReqSequenceId (ports s i) + 1\<rparr>)) \<and>
      sends s' \<and> clk s' = clk s \<and> rtOpts s' = rtOpts s \<and> got_sync s' = got_sync s) s"
  using assms unfolding issueDelayReq_def
  by (simp add: wp_simps wp_return_eta)
    (rule send_world; simp add: wp_simps wp_return_eta sends_def; rule exI, rule refl)

lemma exec_upd [simp]: "exec (upd i f) s = s\<lparr>ports := (ports s)(i := f (ports s i))\<rparr>"
  by (simp add: exec_def)

lemma receive_wp:
  "34 \<le> n \<Longrightarrow> n \<le> length b \<Longrightarrow> P (receive i n b s) =
   wp (dispatch (msgUnpackHeader b) (int n) ti_zero False i) (\<lambda>_. P)
     (s\<lparr>ports := (ports s)(i := (ports s i)\<lparr>msgIbuf := take n b @ drop n (msgIbuf (ports s i))\<rparr>)\<rparr>)"
  by (simp add: receive_def wp_exec header_arrived)

text \<open>The timestamp of a frame that arrives, as the slave keeps it until the Follow\_Up.\<close>

definition rx_time :: "wr_timestamp \<Rightarrow> TimeInternal" where
  "rx_time t = \<lparr>seconds = s32 (sec t), nanoseconds = nsec t, ti_phase = phase t, ti_correct = correct t\<rparr>"

lemma sync_received:
  assumes "messageType (msgUnpackHeader b) = MT_SYNC" "44 \<le> length b"
    and "portState (ports s i) = PTP_SLAVE" "msgIsFromCurrentParent (msgUnpackHeader b) (clk s)"
    and "flagField (msgUnpackHeader b) ! 0 AND 0x02 = TWO_STEP_FLAG"
  shows "\<exists>buf cf. receive i 44 b s = s\<lparr>ports := (ports s)(i := (ports s i)\<lparr>msgIbuf := buf,
    sync_receive_time := rx_time (current_rx_ts (ports s i)), waitingForFollow := True,
    recvSyncSequenceId := sequenceId (msgUnpackHeader b), lastSyncCorrectionField := cf\<rparr>)\<rparr>"
  using assms
  by (subst receive_wp [where n = 44 and P = "\<lambda>s'. \<exists>buf cf. s' = f s buf cf" for f])
    (auto simp: dispatch_def handleSync_def wp_simps wp_return_eta rx_time_def Let_def)

definition follow_up_done :: "nat \<Rightarrow> wr_timestamp \<Rightarrow> TimeInternal \<Rightarrow> sys \<Rightarrow> bool" where
  "follow_up_done i tx rx s \<longleftrightarrow>
     servo_t1 (wr_servo_ds (ports s i)) = (ts_make (sec tx) (nsec tx) 0)\<lparr>correct := 1\<rparr> \<and>
     servo_t2 (wr_servo_ds (ports s i)) = (timeint_to_wr rx)\<lparr>correct := ti_correct rx\<rparr> \<and>
     \<not> waitingForFollow (ports s i) \<and> got_sync s"

lemma follow_up_received:
  assumes "messageType (msgUnpackHeader b) = MT_FOLLOW_UP" "44 \<le> length b"
    and "portState (ports s i) = PTP_SLAVE" "msgIsFromCurrentParent (msgUnpackHeader b) (clk s)"
    and "waitingForFollow (ports s i)" "recvSyncSequenceId (ports s i) = sequenceId (msgUnpackHeader b)"
    and "msgUnpackFollowUp b = wr_to_Timestamp tx"
    and tx: "0 \<le> sec tx" "sec tx < INT_MAX" "0 \<le> nsec tx" "nsec tx < 2147483648" and "sends s"
  shows "follow_up_done i tx (sync_receive_time (ports s i)) (receive i 44 b s)"
proof -
  have "msgUnpackFollowUp (take 44 b @ c) = wr_to_Timestamp tx" for c
    using assms(2,7) by (simp add: msgUnpackFollowUp_def timestamp_arrived)
  then show ?thesis
    using assms
    by (simp add: receive_wp dispatch_def handleFollowUp_def wp_simps wp_return_eta Let_def
        uninit_time_def wire_time [OF tx] wr_servo_got_sync_def upd_servo_def)
      (rule wp_conseq [OF delay_req_issued]; clarsimp simp: sends_def follow_up_done_def timeint_to_wr_def)
qed

text \<open>The master's octets are those of a port of this identity that announces two-step Syncs.\<close>

definition two_step_header :: "u8 list \<Rightarrow> bool" where
  "two_step_header b \<longleftrightarrow> length b = 1024 \<and> flagField (msgUnpackHeader b) ! 0 AND 0x02 = TWO_STEP_FLAG"

lemma parent_same: "sourcePortIdentity h = sourcePortIdentity h' \<Longrightarrow>
  msgIsFromCurrentParent h c = msgIsFromCurrentParent h' c"
  by (simp add: msgIsFromCurrentParent_def)


definition master_demo :: sys where
  "master_demo = sys_zero\<lparr>rtOpts := opts_zero\<lparr>E2E_mode := True\<rparr>,
     world := quiet_env\<lparr>env_recv_errqueue := \<lambda>_. (1, Some \<lparr>tv_sec = 5, tv_nsec = 7\<rparr>)\<rparr>,
     ports := \<lambda>_. port_zero\<lparr>portState := PTP_MASTER, msgObuf :=
       msgPackHeader port_zero (clock_zero\<lparr>twoStepFlag := True\<rparr>) (replicate 1024 0),
       current_rx_ts := (ts_make 9 3 4000)\<lparr>correct := 1\<rparr>\<rparr>\<rparr>"

definition slave_demo :: sys where
  "slave_demo = sys_zero\<lparr>rtOpts := opts_zero\<lparr>E2E_mode := True\<rparr>, ports := \<lambda>_. port_zero\<lparr>portState := PTP_SLAVE,
     msgObuf := msgPackHeader port_zero clock_zero (replicate 1024 0),
     current_rx_ts := (ts_make 6 8 9)\<lparr>correct := 1\<rparr>\<rparr>\<rparr>"

lemma demo_header:
  "msgUnpackHeader (msgPackHeader port_zero c (replicate 1024 0)) = sent_header port_zero c (replicate 1024 0)"
  by (rule msgUnpackHeader_msgPackHeader) (simp_all add: port_ok_def)

lemma demo_two_step: "two_step_header (msgObuf (ports master_demo k))"
  by (simp add: master_demo_def two_step_header_def demo_header sent_header_def)

lemma demo_sync_time:
  "synch_tx_ts (ports (exec (issueSync 0) master_demo) 0) = (ts_make 5 7 0)\<lparr>correct := 1\<rparr>"
proof -
  have "wp (issueSync 0) (\<lambda>_ s. synch_tx_ts (ports s 0) = (ts_make 5 7 0)\<lparr>correct := 1\<rparr>) master_demo"
    by (simp add: issueSync_def wp_simps wp_return_eta netSendEvent_def ptpd_netif_sendto_def
        poll_tx_timestamp_def master_demo_def hw_sec_def ts_make_def s32_id)
  then show ?thesis by (simp add: wp_exec)
qed


section \<open>Delay\_Req and Delay\_Resp\<close>

definition delay_exchange :: "nat \<Rightarrow> sys \<Rightarrow> nat \<Rightarrow> sys \<Rightarrow> sys" where
  "delay_exchange k sm i ss =
    (let ss1 = exec (issueDelayReq i) ss;
         sm1 = receive k 44 (msgObuf (ports ss1 i)) sm
     in receive i 54 (msgObuf (ports sm1 k)) ss1)"

lemma delay_req_received:
  assumes "messageType (msgUnpackHeader b) = MT_DELAY_REQ" "44 \<le> length b" "sends s"
    and "E2E_mode (rtOpts s)" "portState (ports s k) = PTP_MASTER"
  shows "msgObuf (ports (receive k 44 b s) k) = msgPackDelayResp
    ((msgUnpackHeader b)\<lparr>correctionfield :=
      \<lparr>i64_msb = 0, i64_lsb = word_of_int (phase_to_cf_units (phase (current_rx_ts (ports s k))))\<rparr>\<rparr>)
    (ports s k) (msgObuf (ports s k))"
  using assms
  by (subst receive_wp [where n = 44 and P = "\<lambda>s'. msgObuf (ports s' k) = x" for x])
    (auto simp: dispatch_def handleDelayReq_def issueDelayResp_def wp_simps wp_return_eta
      header_arrived msgPackDelayResp_def sends_def intro!: send_general_world)

lemma update_stamps: "wp (wr_servo_update i) (\<lambda>_ s'. same_stamps (wr_servo_ds (ports s i)) (wr_servo_ds (ports s' i))) s"
  using update_frame [of i s] by (simp add: wp_exec round_post_def)

definition delay_done :: "PtpPortDS \<Rightarrow> wr_timestamp \<Rightarrow> int \<Rightarrow> wr_servo_t \<Rightarrow> bool" where
  "delay_done p rx cf v \<longleftrightarrow> servo_t3 v = delayReq_tx_ts p \<and>
     servo_t4 v = (ts_make (sec rx) (nsec rx) (s32 (s64 (cf * 1000) sdiv 65536)))\<lparr>correct := 1\<rparr>"

lemma delay_resp_received:
  assumes "messageType (msgUnpackHeader b) = MT_DELAY_RESP" "54 \<le> length b"
    and "E2E_mode (rtOpts s)" "portState (ports s i) = PTP_SLAVE"
    and "msgIsFromCurrentParent (msgUnpackHeader b) (clk s)"
    and "msgUnpackDelayResp b = \<lparr>resp_timestamp = wr_to_Timestamp rx, requestingPortIdentity = portIdentity (ports s i)\<rparr>"
    and rx: "0 \<le> sec rx" "sec rx < INT_MAX" "0 \<le> nsec rx" "nsec rx < 2147483648"
  shows "let v = wr_servo_ds (ports (receive i 54 b s) i)
    in if uint (sentDelayReqSequenceId (ports s i)) - 1 = uint (sequenceId (msgUnpackHeader b))
       then delay_done (ports s i) rx (s32 (uint (i64_lsb (correctionfield (msgUnpackHeader b))))) v
       else v = wr_servo_ds (ports s i)"
proof -
  have "msgUnpackDelayResp (take 54 b @ c) = msgUnpackDelayResp b" for c
    using assms(2) by (simp add: msgUnpackDelayResp_def resp_arrived)
  then show ?thesis
    using assms(1-6)
    by (subst receive_wp [where n = 54 and P = "\<lambda>s'. let v = wr_servo_ds (ports s' i) in Q v" for Q])
      (simp_all add: dispatch_def handleDelayResp_def wp_simps wp_return_eta Let_def
        uninit_time_def wire_time [OF rx] wr_servo_got_delay_def, intro impI,
       rule wp_conseq [OF update_stamps],
       auto simp: same_stamps_def delay_done_def timeint_to_wr_def ts_make_def wp_simps)
qed

lemma sequence_next: "uint ((n :: u16) + 1) - 1 = uint n \<longleftrightarrow> n \<noteq> 65535"
proof -
  have n: "0 \<le> uint n" "uint n < 65536" using uint_lt2p [of n] by simp_all
  have "uint (n + 1) = (uint n + 1) mod 65536" by (simp add: uint_word_ariths)
  moreover have "n = 65535 \<longleftrightarrow> uint n = 65535" by (simp add: word_uint_eq_iff)
  ultimately show ?thesis using n by (cases "uint n = 65535") (simp_all add: mod_pos_pos_trivial)
qed

text \<open>
  C10. A Delay\_Req and the answer to it give the servo of the slave the other two timestamps:
  \<open>t3\<close>, the slave's own transmit timestamp of the request, and \<open>t4\<close>, the master's receive
  timestamp of it, exact in seconds and nanoseconds and less than a picosecond short in its
  phase. The exception is the 65536th request of a port: its sequence number is 65535, the
  counter is then 0, the code compares \<open>0 - 1\<close> with it in \<open>int\<close>, and the answer is dropped.
\<close>
theorem delay_exchange_timestamps:
  assumes "sends sm" "sends ss" "E2E_mode (rtOpts sm)" "E2E_mode (rtOpts ss)"
    and "portState (ports sm k) = PTP_MASTER" "portState (ports ss i) = PTP_SLAVE"
    and "length (msgObuf (ports sm k)) = 1024" "length (msgObuf (ports ss i)) = 1024"
    and "msgIsFromCurrentParent (msgUnpackHeader (msgObuf (ports sm k))) (clk ss)"
    and "sourcePortIdentity (msgUnpackHeader (msgObuf (ports ss i))) = portIdentity (ports ss i)"
    and "rx = current_rx_ts (ports sm k)" "tx = delayReq_tx_ts (ports (exec (issueDelayReq i) ss) i)"
    and "0 \<le> sec rx" "sec rx < INT_MAX" "0 \<le> nsec rx" "nsec rx < 2147483648"
    and "0 \<le> phase rx" "phase rx < 32767999"
  shows "let v = wr_servo_ds (ports (delay_exchange k sm i ss) i)
    in if sentDelayReqSequenceId (ports ss i) = 65535 then v = wr_servo_ds (ports ss i)
       else servo_t3 v = tx \<and> sec (servo_t4 v) = sec rx \<and> nsec (servo_t4 v) = nsec rx \<and>
            phase (servo_t4 v) \<in> {phase rx - 1, phase rx} \<and> correct (servo_t4 v) = 1"
proof -
  let ?p = "ports ss i" and ?s1 = "exec (issueDelayReq i) ss"
  define n where "n = sentDelayReqSequenceId ?p"
  define b1 where "b1 = msgPackDelayReq ts_zero ?p (msgObuf ?p)"
  obtain t where s1: "ports ?s1 = (ports ss)(i := ?p\<lparr>msgObuf := b1, delayReq_tx_ts := t,
      sentDelayReqSequenceId := n + 1\<rparr>)" "clk ?s1 = clk ss" "rtOpts ?s1 = rtOpts ss"
    using delay_req_issued [OF assms(2), of i] unfolding wp_exec b1_def n_def by blast
  define h where "h = (msgUnpackHeader b1)\<lparr>correctionfield :=
      \<lparr>i64_msb = 0, i64_lsb = word_of_int (phase_to_cf_units (phase rx))\<rparr>\<rparr>"
  define b2 where "b2 = msgPackDelayResp h (ports sm k) (msgObuf (ports sm k))"
  note f1 = sent_fields(9-11) [OF assms(8), of ts_zero ?p, folded b1_def n_def]
  have b2: "msgObuf (ports (receive k 44 b1 sm) k) = b2"
    using delay_req_received [of b1 sm k] f1 assms(1,3,5,8,11) by (simp add: b2_def h_def b1_def)
  have "length (clockIdentity (sourcePortIdentity h)) = 8"
    by (simp add: h_def msgUnpackHeader_def)
  note f2 = sent_fields(12-15) [OF assms(7), of h "ports sm k", folded b2_def]
    sent_fields(16) [OF assms(7) this, of "ports sm k", folded b2_def]
  have par: "msgIsFromCurrentParent (msgUnpackHeader b2) (clk ?s1)"
    using assms(9) parent_same f2(2) unfolding s1(2) by metis
  have id: "sourcePortIdentity h = portIdentity (ports ?s1 i)"
    using f1(2) assms(10) by (simp add: h_def s1(1))
  have l: "54 \<le> length b2" using assms(7) by (simp add: b2_def)
  have "let v = wr_servo_ds (ports (receive i 54 b2 ?s1) i)
    in if n \<noteq> 65535 then delay_done (ports ?s1 i) rx (s32 (uint (i64_lsb (correctionfield h)))) v
       else v = wr_servo_ds (ports ss i)"
    using delay_resp_received [of b2 ?s1 i rx] l f1(3) f2 par id assms(4,6,11,13-16)
    by (simp only: Let_def) (simp add: s1 sequence_next h_def cong: if_cong)
  then show ?thesis
    using phase_over_wire [OF assms(17,18)] assms(12)
    unfolding delay_exchange_def Let_def b2 n_def [symmetric]
    by (auto simp: delay_done_def h_def ts_make_def s1 b2)
qed

theorem delay_exchange_timestamps_witness:
  "let v = wr_servo_ds (ports (delay_exchange 0 master_demo 0 slave_demo) 0)
   in sec (servo_t4 v) = 9 \<and> nsec (servo_t4 v) = 3 \<and> phase (servo_t4 v) \<in> {3999, 4000}"
  using delay_exchange_timestamps [where sm = master_demo and ss = slave_demo and k = 0 and i = 0,
      OF _ _ _ _ _ _ _ _ _ _ refl refl]
  by (simp add: Let_def sends_def slave_demo_def master_demo_def msgIsFromCurrentParent_def demo_header
     sent_header_def INT_MAX_def)

section \<open>The handover of the fixed delays\<close>

lemma scaled_delta_ps:
  assumes "uint d < 2147483648"
  shows "delta_ps (scaled_delta d) = uint d"
proof -
  have m: "(0xFFFF :: u32) = mask 16" by (simp add: mask_eq_exp_minus_1)
  have w: "((drop_bit 16 (delta_lsb (scaled_delta d))) AND 0xFFFF) OR push_bit 16 (delta_msb (scaled_delta d)) =
      (word_of_int (uint d) :: u32)"
    unfolding m scaled_delta_def
    by (rule bit_word_eqI) (auto simp: bit_simps not_less intro: ccontr)
  show ?thesis unfolding delta_ps_def w
    using assms uint_ge_0 [of d] by (intro sint_of_s32) linarith+
qed

definition calibration_exchange :: "nat \<Rightarrow> sys \<Rightarrow> nat \<Rightarrow> sys \<Rightarrow> sys" where
  "calibration_exchange k sm i ss =
    receive i 72 (msgObuf (ports (exec (issueWRSignalingMsg CALIBRATED k) sm) k)) ss"

lemma signalling_length: "length (snd (msgPackWRSignalingMsg p c w b)) = length b"
  by (simp add: msgPackWRSignalingMsg_def Let_def msg_simps)

lemma signalling_issued:
  assumes "sends s"
  shows "wp (issueWRSignalingMsg w k) (\<lambda>_ s'. msgObuf (ports s' k) =
    snd (msgPackWRSignalingMsg (ports s k) (clk s) w (msgObuf (ports s k)))) s"
  using assms unfolding issueWRSignalingMsg_def
  by (simp add: wp_simps wp_return_eta Let_def split_beta)
    (rule send_general_world; simp add: wp_simps wp_return_eta sends_def)

text \<open>The HAL has the calibration data of a port.\<close>

definition hal_calibrated :: "sys \<Rightarrow> bool" where
  "hal_calibrated s \<longleftrightarrow> (\<forall>n. let st = snd (env_port_state (world s) n)
     in hps_valid st \<and> hps_tx_calibrated st \<and> hps_rx_calibrated st)"

lemma servo_init_deltas:
  assumes "hal_calibrated s"
  shows "wp (wr_servo_init i) (\<lambda>r s'. r = 0 \<and> (let v = wr_servo_ds (ports s' i); p = ports s i in
    delta_tx_m v = delta_ps (otherNodeDeltaTx p) \<and> delta_rx_m v = delta_ps (otherNodeDeltaRx p) \<and>
    delta_tx_s v = delta_ps (deltaTx p) \<and> delta_rx_s v = delta_ps (deltaRx p) \<and>
    state v = WR_SYNC_TAI)) s"
  using assms
  by (simp add: wr_servo_init_def ptpd_netif_read_calibration_data_def halexp_get_port_state_def
      wp_simps wp_return_eta hal_calibrated_def Let_def upd_servo_def upd_es_def
      ptpd_netif_enable_timing_output_def halexp_pps_cmd_def)

lemma calibrated_received:
  assumes "messageType (msgUnpackHeader b) = MT_SIGNALING" "72 \<le> length b"
    and "\<And>i q. msgUnpackWRSignalingMsg b i q = (t, CALIBRATED, q\<lparr>otherNodeDeltaTx := x, otherNodeDeltaRx := y\<rparr>)"
  shows "\<exists>buf. receive i 72 b s = s\<lparr>ports := (ports s)(i := (ports s i)\<lparr>msgIbuf := buf,
    otherNodeDeltaTx := x, otherNodeDeltaRx := y, msgTmpWrMessageID := CALIBRATED\<rparr>)\<rparr>"
  using assms
  by (subst receive_wp [where n = 72 and P = "\<lambda>s'. \<exists>buf. s' = f s buf" for f])
    (auto simp: dispatch_def handleSignaling_def wp_simps wp_return_eta signalling_arrived)

text \<open>
  C11. The fixed delays a node has measured reach the servo of the other one unchanged: after
  the CALIBRATED message of a calibrated port has been received (which, whatever state the
  receiver is in, moves nothing but the received delays and the message id), initialising the
  servo puts the sender's two delays and the receiver's own, in picoseconds, into the four
  variables of the link's asymmetry. Delays below 2^31 ps are exact.
\<close>
theorem calibration_reaches_servo:
  assumes "sends sm" "hal_calibrated ss" "wrMode (ports sm k) \<noteq> NON_WR"
    and "length (msgObuf (ports sm k)) = 1024" "length (clockIdentity (parentPortIdentity (clk sm))) = 8"
    and "deltaTx (ports sm k) = scaled_delta txm" "deltaRx (ports sm k) = scaled_delta rxm"
    and "deltaTx (ports ss i) = scaled_delta txs" "deltaRx (ports ss i) = scaled_delta rxs"
    and "uint txm < 2147483648" "uint rxm < 2147483648" "uint txs < 2147483648" "uint rxs < 2147483648"
  shows "let s' = calibration_exchange k sm i ss; (r, s'') = run_state (wr_servo_init i) s';
             v = wr_servo_ds (ports s'' i)
    in wrPortState (ports s' i) = wrPortState (ports ss i) \<and>
       portState (ports s' i) = portState (ports ss i) \<and> msgTmpWrMessageID (ports s' i) = CALIBRATED \<and>
       r = 0 \<and> delta_tx_m v = uint txm \<and> delta_rx_m v = uint rxm \<and>
       delta_tx_s v = uint txs \<and> delta_rx_s v = uint rxs \<and> state v = WR_SYNC_TAI"
proof -
  let ?p = "ports sm k"
  obtain n m where nm: "msgPackWRSignalingMsg ?p (clk sm) CALIBRATED (msgObuf ?p) = (n, m)"
    by (cases "msgPackWRSignalingMsg ?p (clk sm) CALIBRATED (msgObuf ?p)")
  have m: "msgObuf (ports (exec (issueWRSignalingMsg CALIBRATED k) sm) k) = m"
    using signalling_issued [OF assms(1), of CALIBRATED k] by (simp add: wp_exec nm)
  have id: "CALIBRATED \<noteq> ANN_SUFIX" by simp
  note read = wr_signaling_read [OF assms(4,5,3) id nm]
  have un: "msgUnpackWRSignalingMsg m w q = (parentPortIdentity (clk sm), CALIBRATED,
      q\<lparr>otherNodeDeltaTx := deltaTx ?p, otherNodeDeltaRx := deltaRx ?p\<rparr>)" for w q
    unfolding read(2) signalled_def by simp
  have len: "72 \<le> length m"
    using signalling_length [of ?p "clk sm" CALIBRATED "msgObuf ?p"] assms(4) by (simp add: nm)
  obtain buf where s': "calibration_exchange k sm i ss = ss\<lparr>ports := (ports ss)(i := (ports ss i)\<lparr>msgIbuf := buf,
      otherNodeDeltaTx := deltaTx ?p, otherNodeDeltaRx := deltaRx ?p, msgTmpWrMessageID := CALIBRATED\<rparr>)\<rparr>"
    using calibrated_received [OF read(1) len un, of i ss] unfolding calibration_exchange_def m by blast
  have "hal_calibrated (calibration_exchange k sm i ss)" using assms(2) by (simp add: s' hal_calibrated_def)
  from servo_init_deltas [OF this, of i] show ?thesis
    using assms(10-13) unfolding wp_def
    by (simp add: s' assms(6-9) scaled_delta_ps Let_def split: prod.splits)
qed

theorem calibration_reaches_servo_witness:
  "delta_tx_m (wr_servo_ds (ports (exec (wr_servo_init 0) (calibration_exchange 0
     (sys_zero\<lparr>ports := \<lambda>_. port_zero\<lparr>wrMode := WR_MASTER, deltaTx := scaled_delta 46407,
        deltaRx := scaled_delta 167843\<rparr>\<rparr>) 0
     (sys_zero\<lparr>ports := \<lambda>_. port_zero\<lparr>deltaTx := scaled_delta 7, deltaRx := scaled_delta 9\<rparr>\<rparr>))) 0)) = 46407"
  using calibration_reaches_servo [where sm = "sys_zero\<lparr>ports := \<lambda>_. port_zero\<lparr>wrMode := WR_MASTER,
       deltaTx := scaled_delta 46407, deltaRx := scaled_delta 167843\<rparr>\<rparr>" and
     ss = "sys_zero\<lparr>ports := \<lambda>_. port_zero\<lparr>deltaTx := scaled_delta 7, deltaRx := scaled_delta 9\<rparr>\<rparr>" and
     k = 0 and i = 0 and txm = 46407 and rxm = 167843 and txs = 7 and rxs = 9]
  by (simp add: sends_def hal_calibrated_def hps_idle_def Let_def exec_def split_beta)

end
