(* ===== verification/Recovery.thy ===== *)
theory Recovery
  imports Handshake Exchange
begin

text \<open>
  What a port does when a state ends: the outcome of \<open>toState\<close>, White Rabbit lost and
  not found again, and a handshake given up after its retries.
\<close>

section \<open>A change of state\<close>

definition silent :: "PtpPortDS \<Rightarrow> bool" where
  "silent p \<longleftrightarrow> interval (tm_sync (timers p)) = 0 \<and> interval (tm_announceInterval (timers p)) = 0"

lemma send_general_any:
  assumes "\<And>r n l. Q r (s\<lparr>ncall := n, log := l\<rparr>)"
  shows "wp (netSendGeneral i len) Q s"
  using sendto_world [of i "multicastAddr (netPath (ports s i))" "0x88f7" "take (unat len) (msgObuf (ports s i))" wrts_zero s] assms
  by (auto simp: netSendGeneral_def wp_simps only_world_def elim!: wp_conseq)

definition left_port :: "PtpPortDS \<Rightarrow> PtpPortDS \<Rightarrow> bool" where
  "left_port p q \<longleftrightarrow> portState q = portState p \<and> wrPortState q = wrPortState p \<and>
     logSyncInterval q = logSyncInterval p \<and> logAnnounceInterval q = logAnnounceInterval p \<and>
     announceReceiptTimeout q = announceReceiptTimeout p \<and>
     wrConfig q = wrConfig p \<and> parentWrConfig q = parentWrConfig p \<and> parentWrModeON q = parentWrModeON p \<and>
     wrMode q = (if portState p = PTP_SLAVE then NON_WR else wrMode p) \<and>
     wrModeON q = (portState p \<noteq> PTP_SLAVE \<and> wrModeON p) \<and>
     (portState p = PTP_MASTER \<longrightarrow> silent q)"

lemma leave_wp: "wp (leave_state i) (\<lambda>_ s'. left_port (ports s i) (ports s' i) \<and> log s' = log s) s"
  by (cases "portState (ports s i)")
    (simp_all add: leave_state_def timerStop_def timer_stop_def wp_simps left_port_def silent_def)

text \<open>The state \<open>toState st\<close> ends in.\<close>

definition next_port_state :: "ptp_state \<Rightarrow> PtpPortDS \<Rightarrow> ptp_state" where
  "next_port_state st p =
    (case st of
       PTP_UNCALIBRATED \<Rightarrow>
         if portState p \<noteq> PTP_SLAVE \<and> wr_candidate p \<and> (\<not> parentWrModeON p \<or> \<not> wrModeON p)
         then PTP_UNCALIBRATED else PTP_SLAVE
     | PTP_PRE_MASTER \<Rightarrow> portState p
     | _ \<Rightarrow> st)"

text \<open>The timers of the new state run, and a port that was a master has stopped sending.\<close>

definition entered :: "ptp_state \<Rightarrow> PtpPortDS \<Rightarrow> PtpPortDS \<Rightarrow> bool" where
  "entered st p q \<longleftrightarrow> portState q = next_port_state st p \<and>
     (st = PTP_MASTER \<longrightarrow> interval (tm_sync (timers q)) = s32 (1000 * pow_2 (logSyncInterval p)) \<and>
        interval (tm_announceInterval (timers q)) = s32 (1000 * pow_2 (logAnnounceInterval p))) \<and>
     (portState p = PTP_MASTER \<longrightarrow> st \<noteq> PTP_MASTER \<longrightarrow> interval (tm_sync (timers q)) = 0 \<and>
        interval (tm_announceInterval (timers q)) = (if st = PTP_PASSIVE then announce_timeout p else 0)) \<and>
     (st \<in> {PTP_LISTENING, PTP_SLAVE} \<longrightarrow> interval (tm_announceReceipt (timers q)) = announce_timeout p)"

lemma faulty_silent: "silent (ports s i) \<Longrightarrow> wp (toFaulty i) (\<lambda>_ s'. silent (ports s' i)) s"
  by (cases "portState (ports s i)")
    (simp_all add: toFaulty_def toState_with_def enter_state_def leave_state_def timerStop_def
      timer_stop_def wp_simps wp_return_eta silent_def)

lemma keeps_wp: "(\<And>s. P s \<Longrightarrow> wp m (\<lambda>_. P) s) \<Longrightarrow> keeps P m"
  by (simp add: keeps_def wp_exec)

lemma keeps_silent [keeps_intros]:
  "keeps (\<lambda>s. silent (ports s i)) (initWrData i mode)"
  "keeps (\<lambda>s. silent (ports s i)) (issueWRSignalingMsg w i)"
  "keeps (\<lambda>s. silent (ports s i)) (wrTimetoutManage a b i)"
  by (rule keeps_wp, simp add: initWrData_def ptpd_netif_read_calibration_data_def
      halexp_get_port_state_def wp_simps silent_def Let_def split: option.split prod.split,
    rule keeps_wp, auto simp: issueWRSignalingMsg_def Let_def split_beta wp_simps wp_return_eta silent_def
      intro!: send_general_any faulty_silent [unfolded silent_def],
    rule keeps_wp, auto simp: wrTimetoutManage_def wp_simps wp_return_eta silent_def timerStop_def
        timer_stop_def timerStart_def timer_start_def)

lemma present_silent: "silent (ports s i) \<Longrightarrow> wp (toWRState WRS_PRESENT i) (\<lambda>_ s'. silent (ports s' i)) s"
proof -
  have "keeps (\<lambda>s. silent (ports s i)) (toWRState WRS_PRESENT i)"
    unfolding toWRState_def enter_wr_state_def Let_def wr_state.case
    by (intro keeps_intros) (simp_all add: keeps_def silent_def)
  then show "silent (ports s i) \<Longrightarrow> ?thesis" by (simp add: keeps_def wp_exec)
qed

lemma announce_timeout_range [simp]: "s32 (announce_timeout p) = announce_timeout p"
  by (simp add: announce_timeout_def)

lemma wp_upd_eta: "wp (upd i g) Q = (\<lambda>s. Q () (s\<lparr>ports := (ports s)(i := g (ports s i))\<rparr>))"
  by (simp add: fun_eq_iff wp_simps)

lemma enter_wp:
  assumes "left_port p (ports s i)"
  shows "wp (enter_state toWRState st i) (\<lambda>_ s'. entered st p (ports s' i)) s"
proof (cases "st = PTP_UNCALIBRATED")
  case False
  with assms show ?thesis
    by (cases st) (auto simp: enter_state_def enter_slave_def wr_servo_init_def timerStart_def timer_start_def
        ptpd_netif_read_calibration_data_def halexp_get_port_state_def upd_servo_def upd_es_def
        ptpd_netif_enable_timing_output_def halexp_pps_cmd_def
        wp_simps wp_return_eta entered_def next_port_state_def left_port_def silent_def announce_timeout_def Let_def
        split: option.splits)
next
  case True
  have w: "wr_candidate (ports s i) \<longleftrightarrow> portState p \<noteq> PTP_SLAVE \<and> wr_candidate p"
    "parentWrModeON (ports s i) = parentWrModeON p" "portState p \<noteq> PTP_SLAVE \<Longrightarrow> wrModeON (ports s i) = wrModeON p"
    using assms by (auto simp: left_port_def wr_candidate_def)
  show ?thesis
  proof (cases "next_port_state st p = PTP_UNCALIBRATED")
    case present: True
    have "wp (toWRState WRS_PRESENT i) (\<lambda>_ s'. portState p = PTP_MASTER \<longrightarrow> silent (ports s' i)) s"
      using assms present_silent [of s i]
      by (cases "portState p = PTP_MASTER") (simp_all add: left_port_def wp_def split: prod.splits)
    then have "wp (toWRState WRS_PRESENT i) (\<lambda>_ s'. entered st p ((ports s' i)\<lparr>portState := PTP_UNCALIBRATED\<rparr>)) s"
      by (rule wp_conseq) (simp add: True present [unfolded True] entered_def silent_def)
    moreover have "enter_state toWRState st i = enter_state toWRState PTP_UNCALIBRATED i" by (simp add: True)
    ultimately show ?thesis
      using present w by (auto simp: True enter_state_def wp_simps wp_upd_eta next_port_state_def split: if_splits)
  next
    case False
    with assms w show ?thesis
      by (auto simp: True enter_state_def wp_simps wp_upd_eta entered_def next_port_state_def left_port_def
          silent_def split: if_splits)
  qed
qed

lemma toState_entered:
  assumes "wrPortState (ports s i) = WRS_IDLE"
  shows "wp (toState st i) (\<lambda>_ s'. entered st (ports s i) (ports s' i)) s"
proof -
  have act: "left_port (p\<lparr>message_activity := True\<rparr>) q = left_port p q" for p q
    by (simp add: left_port_def)
  define t where "t = s\<lparr>ports := (ports s)(i := (ports s i)\<lparr>message_activity := True\<rparr>)\<rparr>"
  have "wp (leave_state i) (\<lambda>_ s'. wp (enter_state toWRState st i) (\<lambda>_ s''. entered st (ports s i) (ports s'' i)) s') t"
    by (rule wp_conseq [OF leave_wp]) (auto simp: t_def act intro: enter_wp)
  then show ?thesis
    using assms by (simp add: toState_def toState_with_def wp_simps wp_return_eta t_def)
qed

text \<open>
  C15. A change of state of a port: nothing happens at all while a White Rabbit handshake is
  under way; otherwise the port ends in the state asked for, except that UNCALIBRATED is only
  kept by a port that starts a handshake (a White Rabbit slave of a White Rabbit master that is
  not both in White Rabbit mode already, and was not in SLAVE) and is SLAVE for all others. A
  new master sends Sync and Announce at its intervals; a port that was a master sends no Sync
  any more and no Announce but in PASSIVE, where that timer runs with the receipt timeout;
  LISTENING and SLAVE wait the receipt timeout for an Announce.
\<close>
theorem toState_outcome:
  "let s' = exec (toState st i) s; p = ports s i
   in if wrPortState p \<noteq> WRS_IDLE then s' = s else entered st p (ports s' i)"
  using toState_entered [of s i st]
  by (auto simp: wp_exec Let_def toState_def toState_with_def exec_bind exec_def)

section \<open>White Rabbit lost\<close>

text \<open>
  C25. A slave that finds White Rabbit lost does not get it back: \<open>doState\<close> sends it from SLAVE
  to UNCALIBRATED to run the handshake again, but leaving SLAVE clears its White Rabbit mode
  first, so that the port is back in SLAVE at once, in no White Rabbit mode, and has sent no
  SLAVE\_PRESENT.
\<close>
theorem resync_falls_back:
  assumes "portState (ports s i) = PTP_SLAVE" "wrPortState (ports s i) = WRS_IDLE"
  shows "let s' = exec (toState PTP_UNCALIBRATED i) s; p = ports s' i
    in portState p = PTP_SLAVE \<and> wrMode p = NON_WR \<and> \<not> wrModeON p \<and> wrPortState p = WRS_IDLE \<and>
       log s' = log s"
proof -
  have "wp (toState PTP_UNCALIBRATED i) (\<lambda>_ s'. portState (ports s' i) = PTP_SLAVE \<and>
      wrMode (ports s' i) = NON_WR \<and> \<not> wrModeON (ports s' i) \<and> wrPortState (ports s' i) = WRS_IDLE \<and>
      log s' = log s) s"
    using assms by (simp add: toState_def toState_with_def leave_state_def enter_state_def timerStop_def
        timer_stop_def wp_simps wp_return_eta wr_candidate_def)
  then show ?thesis by (simp add: wp_exec Let_def)
qed

theorem resync_falls_back_witness:
  "let p = ports (exec (toState PTP_UNCALIBRATED 0) (sys_zero\<lparr>ports := \<lambda>_. port_zero\<lparr>portState := PTP_SLAVE, wrPortState := WRS_IDLE,
      wrMode := WR_SLAVE, wrConfig := WR_M_AND_S, parentWrConfig := WR_M_ONLY\<rparr>\<rparr>)) 0
   in portState p = PTP_SLAVE \<and> wrMode p = NON_WR"
  using resync_falls_back [of "sys_zero\<lparr>ports := \<lambda>_. port_zero\<lparr>portState := PTP_SLAVE, wrPortState := WRS_IDLE,
      wrMode := WR_SLAVE, wrConfig := WR_M_AND_S, parentWrConfig := WR_M_ONLY\<rparr>\<rparr>" 0]
  by (simp add: Let_def)

section \<open>The retries of the handshake\<close>

text \<open>A port in a handshake: whatever it sends, it stays in its state and in its mode.\<close>

definition busy :: "ptp_state \<Rightarrow> u8 \<Rightarrow> u8 \<Rightarrow> PtpPortDS \<Rightarrow> bool" where
  "busy st m n p \<longleftrightarrow> portState p = st \<and> wrMode p = m \<and> currentWRstateCnt p = n \<and> wrPortState p \<noteq> WRS_IDLE"

interpretation busy: comm_frame "\<lambda>j p. j = i \<longrightarrow> busy st m n p" "\<lambda>_. True" for i st m n
  by unfold_locales (simp_all add: busy_def)

lemma busy_faulty [keeps_intros]: "keeps (port_inv (\<lambda>j p. j = i \<longrightarrow> busy st m n p) (\<lambda>_. True)) (toFaulty i)"
  by (rule keepsI) (auto simp: toFaulty_def toState_with_def exec_bind exec_def port_inv_def busy_def)

lemma busy_signal [keeps_intros]:
  "keeps (port_inv (\<lambda>j p. j = i \<longrightarrow> busy st m n p) (\<lambda>_. True)) (issueWRSignalingMsg w i)"
  unfolding issueWRSignalingMsg_def Let_def by (intro keeps_intros keeps_upd) (simp_all add: busy_def)

lemma busy_enter:
  "w \<noteq> WRS_IDLE \<Longrightarrow> keeps (port_inv (\<lambda>j p. j = i \<longrightarrow> busy st m n p) (\<lambda>_. True)) (enter_wr_state w i)"
  unfolding enter_wr_state_def enter_S_LOCK_def enter_CALIBRATION_def enter_RESP_CALIB_REQ_def enter_WR_LINK_ON_def
  by (cases w; simp only: wr_state.case simp_thms; intro keeps_intros keeps_upd; simp add: busy_def)

lemma busy_again:
  assumes "busy st m n (ports s i)" "returnCurrentWRMainState (wrPortState (ports s i)) = w" "w \<noteq> WRS_IDLE"
  shows "busy st m (n + 1) (ports (exec (toWRState w i) s) i)"
proof -
  let ?t = "exec (enter_wr_state w i) s"
  have "port_inv (\<lambda>j p. j = i \<longrightarrow> busy st m n p) (\<lambda>_. True) s" using assms(1) by (simp add: port_inv_def)
  from keepsD [OF busy_enter [OF assms(3)] this] have "busy st m n (ports ?t i)" by (simp add: port_inv_def)
  then have "wp (wrTimetoutManage w w i) (\<lambda>_ s'. busy st m (n + 1) (ports s' i)) ?t"
    by (auto simp: wrTimetoutManage_def wp_simps wp_return_eta busy_def timerStop_def timer_stop_def
        timerStart_def timer_start_def)
  moreover have "wrPortState (ports s i) \<noteq> WRS_IDLE" using assms(1) by (simp add: busy_def)
  ultimately have "wp (toWRState w i) (\<lambda>_ s'. busy st m (n + 1) (ports s' i)) s"
    using assms(2) by (simp add: wp_simps toWRState_def Let_def wp_exec [of "enter_wr_state w i"])
  then show ?thesis by (simp add: wp_exec)
qed

lemma initWrData_after:
  "wp (initWrData i mode) (\<lambda>_ s'. portState (ports s' i) = portState (ports s i) \<and>
     wrPortState (ports s' i) = WRS_IDLE \<and> \<not> wrModeON (ports s' i) \<and>
     (mode = INIT \<longrightarrow> wrMode (ports s' i) = NON_WR \<and> wrSlaveRole (ports s' i) = NON_SLAVE)) s"
  by (simp add: initWrData_def ptpd_netif_read_calibration_data_def halexp_get_port_state_def
      wp_simps Let_def split: option.split prod.split)

definition fallback_state :: "bool \<Rightarrow> u8 \<Rightarrow> ptp_state" where
  "fallback_state nofallback m =
    (if nofallback then PTP_DISABLED else if m = WR_MASTER then PTP_MASTER else PTP_SLAVE)"

lemma gives_up:
  assumes "returnCurrentWRMainState (wrPortState (ports s i)) = w" "w \<noteq> WRS_IDLE"
  shows "wp (do {
      upd i (\<lambda>p. p\<lparr>wrModeON := False\<rparr>);
      toWRState WRS_IDLE i;
      nofallback \<leftarrow> go disableFallbackIfWRFails;
      (if nofallback then toState PTP_DISABLED i
       else if m = WR_MASTER then toState PTP_MASTER i
       else toState PTP_SLAVE i);
      initWrData i INIT })
    (\<lambda>_ s'. wrPortState (ports s' i) = WRS_IDLE \<and> wrMode (ports s' i) = NON_WR \<and>
       wrSlaveRole (ports s' i) = NON_SLAVE \<and> \<not> wrModeON (ports s' i) \<and>
       portState (ports s' i) = fallback_state (disableFallbackIfWRFails (rtOpts s)) m) s"
proof -
  have busy: "wrPortState (ports s i) \<noteq> WRS_IDLE" using assms by auto
  have idle: "wp (do { toState st i; initWrData i INIT }) (\<lambda>_ s'. wrPortState (ports s' i) = WRS_IDLE \<and>
      wrMode (ports s' i) = NON_WR \<and> wrSlaveRole (ports s' i) = NON_SLAVE \<and> \<not> wrModeON (ports s' i) \<and>
      portState (ports s' i) = st) t"
    if "wrPortState (ports t i) = WRS_IDLE" "st \<in> {PTP_DISABLED, PTP_MASTER, PTP_SLAVE}" for t st
    using that(2) unfolding wp_bind
    by (intro wp_conseq [OF toState_entered [OF that(1)]] wp_conseq [OF initWrData_after])
      (auto simp: entered_def next_port_state_def)
  show ?thesis
    using busy assms(2) idle [unfolded wp_bind]
    by (simp add: assms(1) toWRState_def enter_wr_state_def wrTimetoutManage_def timerStop_def timer_stop_def
        wp_simps Let_def fallback_state_def)
qed

text \<open>
  C13. A handshake does not wait for ever: in every main state of it, an expiry of that state's
  timer enters the state again while it has been repeated less often than its retries allow,
  with the count one higher and the port still in the handshake, in its state and mode; after
  that it is given up: the handshake is idle, the port in no White Rabbit mode and role, and in
  the state of an ordinary PTP port, MASTER for a White Rabbit master and SLAVE for a slave, or
  DISABLED where the fallback is disabled. Before the timer expires nothing happens.
\<close>
theorem handshake_retries:
  assumes "w \<noteq> WRS_IDLE" "returnCurrentWRMainState (wrPortState (ports s i)) = w"
  shows "let p = ports s i; (fired, s1) = run_state (timerExpired (T_wr i w)) s;
             s' = exec (wrTimerExpired w m i) s; p' = ports s' i
    in if \<not> fired then s' = s1
       else if currentWRstateCnt p < wr_retries w p
       then currentWRstateCnt p' = currentWRstateCnt p + 1 \<and> portState p' = portState p \<and>
            wrMode p' = wrMode p \<and> wrPortState p' \<noteq> WRS_IDLE
       else wrPortState p' = WRS_IDLE \<and> wrMode p' = NON_WR \<and> wrSlaveRole p' = NON_SLAVE \<and>
            \<not> wrModeON p' \<and>
            portState p' = fallback_state (disableFallbackIfWRFails (rtOpts s)) m"
proof -
  define fired where "fired = fst (run_state (timerExpired (T_wr i w)) s)"
  define s1 where "s1 = exec (timerExpired (T_wr i w)) s"
  have s1: "\<exists>tms. ports s1 i = (ports s i)\<lparr>wrTimers := tms\<rparr>" "rtOpts s1 = rtOpts s"
    by (auto simp: s1_def timerExpired_def exec_bind exec_def)
  then obtain tms where p1: "ports s1 i = (ports s i)\<lparr>wrTimers := tms\<rparr>" by blast
  then have r: "wr_retries w (ports s1 i) = wr_retries w (ports s i)"
    "returnCurrentWRMainState (wrPortState (ports s1 i)) = w"
    using assms(2) by (simp_all add: wr_retries_def)
  define give_up where "give_up = do {
      upd i (\<lambda>p. p\<lparr>wrModeON := False\<rparr>);
      toWRState WRS_IDLE i;
      nofallback \<leftarrow> go disableFallbackIfWRFails;
      (if nofallback then toState PTP_DISABLED i
       else if m = WR_MASTER then toState PTP_MASTER i
       else toState PTP_SLAVE i);
      initWrData i INIT }"
  have "wrTimerExpired w m i = do {
      e \<leftarrow> timerExpired (T_wr i w);
      whenM e (do {
        p \<leftarrow> gp i (\<lambda>p. p);
        if currentWRstateCnt p < wr_retries w p then toWRState w i else give_up }) }"
    using assms(1) by (simp only: wrTimerExpired_def give_up_def if_False)
  then have ex: "exec (wrTimerExpired w m i) s = (if \<not> fired then s1
    else if currentWRstateCnt (ports s i) < wr_retries w (ports s i) then exec (toWRState w i) s1
    else exec give_up s1)"
    by (simp add: exec_bind exec_when fired_def [symmetric] s1_def [symmetric] r(1)
        exec_def [of "gp i (\<lambda>p. p)"]) (simp add: p1)
  have busy: "busy (portState (ports s i)) (wrMode (ports s i)) (currentWRstateCnt (ports s i)) (ports s1 i)"
    using assms by (auto simp: busy_def p1)
  have run: "run_state (timerExpired (T_wr i w)) s = (fired, s1)"
    by (simp add: fired_def s1_def run_state_exec [symmetric])
  show ?thesis
    using busy_again [OF busy r(2) assms(1)] gives_up [OF r(2) assms(1), of m, folded give_up_def] s1(2)
    unfolding run Let_def prod.case ex wp_exec busy_def by auto
qed

definition retry_demo :: sys where
  "retry_demo = sys_zero\<lparr>world := quiet_env\<lparr>env_gettimeofday := \<lambda>_. 1000000\<rparr>,
     ports := \<lambda>_. port_zero\<lparr>wrPortState := WRS_M_LOCK, portState := PTP_MASTER, wrMode := WR_MASTER,
       wrStateRetry := 3, currentWRstateCnt := 3, wrTimers := \<lambda>_. \<lparr>t_start = 0, interval = 5\<rparr>\<rparr>\<rparr>"

theorem handshake_retries_witness:
  "let p = ports (exec (wrTimerExpired WRS_M_LOCK WR_MASTER 0) retry_demo) 0
   in wrPortState p = WRS_IDLE \<and> portState p = PTP_MASTER \<and> wrMode p = NON_WR"
  using handshake_retries [of WRS_M_LOCK retry_demo 0 WR_MASTER]
  by (simp add: retry_demo_def timerExpired_def timer_check_def Let_def fallback_state_def wr_retries_def)

end
