(* ===== verification/Linkup.thy ===== *)
theory Linkup
  imports Recovery
begin

text \<open>
  A White Rabbit link comes up: two nodes whose ports take turns, each receiving what the other
  has sent in its last turn, go through the whole handshake, from SLAVE\_PRESENT to a master and a
  slave with White Rabbit on and a servo that computes with the delays both have measured.
\<close>

section \<open>Turns\<close>

text \<open>
  \<open>hear\<close> is the world in which the next reception finds the first of the frames; \<open>sent\<close> are the
  frames handed to the kernel between two states. A frame is its destination and its octets; it
  arrives without a hardware timestamp, which the handshake does not use.
\<close>

type_synonym frame = "u8 list \<times> u8 list"

definition arrival :: "frame list \<Rightarrow> rx_result" where
  "arrival fs = (case fs of [] \<Rightarrow> RX_EAGAIN
     | (dest, d) # _ \<Rightarrow> RX_FRAME \<lparr>h_dest = dest, h_source = [], h_proto = 0x88f7, pkt_data = d, hwtimeraw = None\<rparr>)"

definition hear :: "frame list \<Rightarrow> sys \<Rightarrow> sys" where
  "hear fs s = s\<lparr>world := (world s)\<lparr>env_recvmsg := (\<lambda>_. arrival fs)\<rparr>\<rparr>"

definition frames :: "event list \<Rightarrow> frame list" where
  "frames es = concat (map (\<lambda>e. case e of Sent i dest et d \<Rightarrow> [(dest, d)] | _ \<Rightarrow> []) es)"

definition sent :: "sys \<Rightarrow> sys \<Rightarrow> frame list" where
  "sent s s' = frames (drop (length (log s)) (log s'))"

definition turn :: "nat \<Rightarrow> frame list \<Rightarrow> sys \<Rightarrow> sys" where
  "turn i fs s = exec (doState i) (hear fs s)"

text \<open>
  The master's port \<open>k\<close> and the slave's port \<open>i\<close> take a turn each. At most one frame is
  received in a turn; others would be lost.
\<close>

definition both_turns :: "nat \<Rightarrow> nat \<Rightarrow> sys \<times> sys \<times> frame list \<Rightarrow> sys \<times> sys \<times> frame list" where
  "both_turns k i = (\<lambda>(sm, ss, fs).
     let sm' = turn k fs sm; ss' = turn i (sent sm sm') ss in (sm', ss', sent ss ss'))"

section \<open>Commands as functions of the state\<close>

lemma wp_fun:
  "wp (State_Monad.return a) Q = Q a"
  "wp (State_Monad.bind m f) Q' = wp m (\<lambda>a. wp (f a) Q')"
  "wp skip R = R ()"
  "wp (modify j) R = (\<lambda>s. R () (j s))"
  "wp (emit e) R = (\<lambda>s. R () (s\<lparr>log := log s @ [e]\<rparr>))"
  "wp (gp i g) S = (\<lambda>s. S (g (ports s i)) s)"
  "wp (upd i h) R = (\<lambda>s. R () (s\<lparr>ports := (ports s)(i := h (ports s i))\<rparr>))"
  "wp (gc gc') T = (\<lambda>s. T (gc' (clk s)) s)"
  "wp (go go') U = (\<lambda>s. U (go' (rtOpts s)) s)"
  "wp (whenM b n) R = (if b then wp n R else R ())"
  "wp (ext e') V = (\<lambda>s. V (e' (world s) (ncall s)) (s\<lparr>ncall := Suc (ncall s)\<rparr>))"
  by (simp_all add: fun_eq_iff wp_simps)

lemma wp_timer_fun:
  "wp (timerStop r) R = (\<lambda>s. R () (exec (timer_put r timer_stop) s))"
  "wp (timerStart r iv) R = (\<lambda>s. R () (exec (timer_put r (timer_start (env_gettimeofday (world s) (ncall s) div 1000) (s32 iv)))
     (s\<lparr>ncall := Suc (ncall s)\<rparr>)))"
  by (simp_all add: fun_eq_iff timerStop_def timerStart_def wp_simps)

text \<open>A timer that was started at \<open>now\<close> is not due at \<open>now\<close>.\<close>

definition due :: "u64 \<Rightarrow> IntervalTimer \<Rightarrow> bool" where
  "due t x = fst (timer_check (t div 1000) x)"

lemma due_started:
  assumes "0 < iv" "iv < 2147483648"
  shows "\<not> due t (timer_start (t div 1000) (s32 iv) x)"
proof -
  have "uint (t div 1000 + word_of_int iv :: u64) = uint (t div 1000) + iv"
    using u64_msec [of t] assms
    by (subst uint_word_arith_bintrs(1)) (simp add: take_bit_int_eq_self_iff uint_word_of_int_eq take_bit_int_eq_self)
  then show ?thesis
    using assms by (simp add: due_def timer_check_def timer_start_def s32_id Let_def word_le_def)
qed

lemma not_due: "\<not> due t x \<Longrightarrow> timer_check (t div 1000) x = (False, x)"
  by (auto simp: due_def timer_check_def Let_def split: if_splits)

lemma timer_put_same: "f (timer_get r s) = timer_get r s \<Longrightarrow> exec (timer_put r f) s = s"
  by (cases r) (simp_all add: exec_def)

lemma wp_not_due:
  assumes "\<And>n. env_gettimeofday (world s) n = t" "\<not> due t (timer_get r s)"
  shows "wp (timerExpired r) Q s = Q False (s\<lparr>ncall := Suc (ncall s)\<rparr>)"
  using assms
  by (simp add: timerExpired_def wp_simps timer_get_ncall not_due timer_put_same)

section \<open>A message between the two\<close>

text \<open>The fields of the header that the output buffer keeps from its initialisation.\<close>

definition headed :: "PortIdentity \<Rightarrow> u8 \<Rightarrow> u8 list \<Rightarrow> bool" where
  "headed me dn b \<longleftrightarrow> length b = 1024 \<and> versionPTP (msgUnpackHeader b) = 2 \<and>
     hdr_domainNumber (msgUnpackHeader b) = dn \<and> sourcePortIdentity (msgUnpackHeader b) = me"

lemma headed_signalling:
  assumes "headed me dn b"
  shows "headed me dn (snd (msgPackWRSignalingMsg p c w b))"
proof -
  let ?m = "snd (msgPackWRSignalingMsg p c w b)"
  have "get_u8 1 ?m = get_u8 1 b" "get_u8 4 ?m = get_u8 4 b" "get_block 8 20 ?m = get_block 8 20 b"
    "get_be16 28 ?m = get_be16 28 b"
    by (simp_all add: msgPackWRSignalingMsg_def Let_def msg_simps)
  with assms show ?thesis
    by (simp add: headed_def msgUnpackHeader_def signalling_length)
qed

text \<open>
  A frame that says \<open>w\<close>: whatever follows it in the receive buffer, it is read as a signalling
  message of \<open>me\<close> with that id, and \<open>f\<close> is what it does to the port that reads it.
\<close>

definition says :: "PortIdentity \<Rightarrow> u8 \<Rightarrow> u16 \<Rightarrow> (PtpPortDS \<Rightarrow> PtpPortDS) \<Rightarrow> frame list \<Rightarrow> bool" where
  "says me dn w f fs \<longleftrightarrow> (\<exists>d. fs = [(PTP_MULTICAST_ADDR, d)] \<and> 34 \<le> length d \<and> length d \<le> 1024 \<and>
     (\<forall>rest. let h = msgUnpackHeader (d @ rest) in messageType h = MT_SIGNALING \<and> versionPTP h = 2 \<and>
        hdr_domainNumber h = dn \<and> sourcePortIdentity h = me) \<and>
     (\<forall>rest u q. \<exists>t. msgUnpackWRSignalingMsg (d @ rest) u q = (t, w, f q)))"

lemma short_arrived:
  assumes "56 \<le> n" "n \<le> length b" "get_be16 54 b = CALIBRATE \<Longrightarrow> 62 \<le> n" "get_be16 54 b = CALIBRATED \<Longrightarrow> 72 \<le> n"
  shows "msgUnpackWRSignalingMsg (take n b @ c) u p = msgUnpackWRSignalingMsg b u p"
proof -
  let ?a = "take n b @ c"
  have head: "get_block 8 34 ?a = get_block 8 34 b" "get_be16 42 ?a = get_be16 42 b" "get_be16 44 ?a = get_be16 44 b"
    "get_be16 54 ?a = get_be16 54 b" "tlv_organizationID 48 ?a = tlv_organizationID 48 b"
    "tlv_magicNumber 48 ?a = tlv_magicNumber 48 b" "tlv_versionNumber 48 ?a = tlv_versionNumber 48 b"
    using assms(1,2) by (simp_all add: arrived tlv_organizationID_def tlv_magicNumber_def tlv_versionNumber_def)
  have cal: "get_be16 56 ?a = get_be16 56 b" "get_be32 58 ?a = get_be32 58 b" if "get_be16 54 b = CALIBRATE"
    using assms(2) assms(3) [OF that] by (simp_all add: arrived)
  have "get_be32 56 ?a = get_be32 56 b" "get_be32 60 ?a = get_be32 60 b" "get_be32 64 ?a = get_be32 64 b"
    "get_be32 68 ?a = get_be32 68 b" if "get_be16 54 b = CALIBRATED"
    using assms(2) assms(4) [OF that] by (simp_all add: arrived)
  then show ?thesis
    unfolding msgUnpackWRSignalingMsg_def Let_def head
    by (cases "get_be16 54 b = CALIBRATE"; cases "get_be16 54 b = CALIBRATED") (simp_all only: cal if_False if_True refl)
qed

lemma signalling_says:
  assumes "headed me dn (msgObuf p)" "length (clockIdentity (parentPortIdentity c)) = 8"
    and "wrMode p \<noteq> NON_WR" "w \<noteq> ANN_SUFIX" and nm: "msgPackWRSignalingMsg p c w (msgObuf p) = (n, m)"
  shows "says me dn w (signalled p w) [(PTP_MULTICAST_ADDR, take (unat n) m @ replicate (46 - length (take (unat n) m)) 0)]"
    and "unat n \<le> 72"
proof -
  have b: "length (msgObuf p) = 1024" using assms(1) by (simp add: headed_def)
  note read = wr_signaling_read [OF b assms(2-5)]
  have len: "length m = 1024" using signalling_length [of p c w "msgObuf p"] b by (simp add: nm)
  have "n = (if w = CALIBRATE then 68 else if w = CALIBRATED then 72 else 56)"
    using assms(3-5) unfolding msgPackWRSignalingMsg_def Let_def by (simp split: if_splits)
  then have n: "56 \<le> unat n" "unat n \<le> 72" "w = CALIBRATE \<Longrightarrow> 62 \<le> unat n" "w = CALIBRATED \<Longrightarrow> 72 \<le> unat n"
    by simp_all
  have id: "get_be16 54 m = w" by (rule wr_signaling_fields(9) [OF b assms(2-5)])
  have h: "msgUnpackHeader (take (unat n) m @ rest) = msgUnpackHeader m" for rest
    using n len by (intro header_arrived) auto
  have u: "msgUnpackWRSignalingMsg (take (unat n) m @ rest) i q = (parentPortIdentity c, w, signalled p w q)" for rest i q
    using short_arrived [OF n(1), of m rest i q] n len id by (simp add: read(2))
  have "headed me dn m" using headed_signalling [OF assms(1), of p c w] by (simp add: nm)
  then show "says me dn w (signalled p w) [(PTP_MULTICAST_ADDR, take (unat n) m @ replicate (46 - length (take (unat n) m)) 0)]"
    using n(1,2) len read(1) by (simp add: says_def h u headed_def Let_def min_def)
  show "unat n \<le> 72" by (rule n(2))
qed

section \<open>A port and its world\<close>

text \<open>
  What the handshake needs of the world and never changes: frames are sent, the HAL locks and has
  the calibration data, the clock stands still (no timer fires while the two keep answering).
\<close>

definition good_world :: "u64 \<Rightarrow> u32 \<Rightarrow> u32 \<Rightarrow> env \<Rightarrow> bool" where
  "good_world t tx rx w \<longleftrightarrow> (\<forall>n. env_sendto w n \<noteq> 0 \<and> env_lock_cmd w n = (0, 0) \<and> env_gettimeofday w n = t \<and>
     hps_valid (snd (env_port_state w n)) \<and> hps_tx_calibrated (snd (env_port_state w n)) \<and>
     hps_rx_calibrated (snd (env_port_state w n)) \<and> hps_delta_tx (snd (env_port_state w n)) = tx \<and>
     hps_delta_rx (snd (env_port_state w n)) = rx)"

text \<open>What a port has been configured to, and the header in its output buffer.\<close>

definition good_port :: "PortIdentity \<Rightarrow> u8 \<Rightarrow> PtpPortDS \<Rightarrow> bool" where
  "good_port me dn p \<longleftrightarrow> portIdentity p = me \<and> versionNumber p = 2 \<and> headed me dn (msgObuf p) \<and>
     multicastAddr (netPath p) = PTP_MULTICAST_ADDR \<and> \<not> phyCalibrationRequired p \<and>
     0 < wrStateTimeout p \<and> uint (wrStateTimeout p) < 2147483648 \<and> uint (calPeriod p) < 2147483648"

definition good_clock :: "u8 \<Rightarrow> PtpClockDS \<Rightarrow> bool" where
  "good_clock dn c \<longleftrightarrow> domainNumber c = dn \<and> length (clockIdentity (parentPortIdentity c)) = 8"


text \<open>The constants of a node: its clock, the delays of its HAL, its identity and domain.\<close>

record who =
  w_time :: u64
  w_tx :: u32
  w_rx :: u32
  w_me :: PortIdentity
  w_domain :: u8

definition wr_node :: "who \<Rightarrow> nat \<Rightarrow> sys \<Rightarrow> bool" where
  "wr_node c i s \<longleftrightarrow> good_world (w_time c) (w_tx c) (w_rx c) (world s) \<and> good_clock (w_domain c) (clk s) \<and>
     good_port (w_me c) (w_domain c) (ports s i)"

text \<open>The steps of a handshake as rules: what holds of the state they leave holds of the call.\<close>

lemma issue_wp:
  assumes "good_world t tx rx (world s)" "good_clock dn (clk s)" "good_port me dn (ports s i)"
    and "wrMode (ports s i) \<noteq> NON_WR" "w \<noteq> ANN_SUFIX"
    and "\<And>n b d. headed me dn b \<Longrightarrow> says me dn w (signalled (ports s i) w) [(PTP_MULTICAST_ADDR, d)] \<Longrightarrow>
      Q () (s\<lparr>ports := (ports s)(i := (ports s i)\<lparr>msgObuf := b\<rparr>),
             log := log s @ [Sent i PTP_MULTICAST_ADDR 0x88f7 d], ncall := n\<rparr>)"
  shows "wp (issueWRSignalingMsg w i) Q s"
proof -
  let ?p = "ports s i"
  obtain n m where nm: "msgPackWRSignalingMsg ?p (clk s) w (msgObuf ?p) = (n, m)" by (cases "msgPackWRSignalingMsg ?p (clk s) w (msgObuf ?p)")
  have p: "headed me dn (msgObuf ?p)" "multicastAddr (netPath ?p) = PTP_MULTICAST_ADDR"
    and c: "length (clockIdentity (parentPortIdentity (clk s))) = 8"
    using assms(2,3) by (auto simp: good_port_def good_clock_def)
  note told = signalling_says [OF p(1) c assms(4,5) nm]
  have h: "headed me dn m" using headed_signalling [OF p(1), of ?p "clk s" w] by (simp add: nm)
  have snd: "env_sendto (world s) x \<noteq> 0" for x using assms(1) by (simp add: good_world_def)
  have "\<not> 1510 < unat n" using told(2) by simp
  then show ?thesis
    using assms(6) [OF h told(1)]
    by (simp add: issueWRSignalingMsg_def wp_fun nm Let_def netSendGeneral_def ptpd_netif_sendto_def p(2) snd
        poll_tx_timestamp_def split_beta)
qed

lemma handle_nothing:
  assumes "\<And>n. env_recvmsg (world s) n = RX_EAGAIN" "\<And>n. Q () (s\<lparr>ncall := n\<rparr>)"
  shows "wp (handle i) Q s"
proof -
  have "(ports s)(i := (ports s i)\<lparr>current_rx_ts := current_rx_ts (ports s i)\<rparr>) = ports s" by simp
  then show ?thesis
    using assms by (simp add: handle_def netRecvMsg_def ptpd_netif_recvfrom_def wp_fun)
qed

definition stranger :: "PortIdentity \<Rightarrow> PortIdentity \<Rightarrow> bool" where
  "stranger you me \<longleftrightarrow> portNumber me \<noteq> portNumber you \<or> memcmp (clockIdentity you) (clockIdentity me) \<noteq> 0"

text \<open>A port that reads the other's message; \<open>SLAVE_PRESENT\<close> restarts the handshake of a master.\<close>

definition presented :: "nat \<Rightarrow> unit cmd" where
  "presented i = do {
     p \<leftarrow> gp i (\<lambda>p. p);
     whenM (portState p = PTP_MASTER \<and> msgTmpWrMessageID p = SLAVE_PRESENT \<and>
            (wrConfig p = WR_M_ONLY \<or> wrConfig p = WR_M_AND_S)) (do {
       upd i (\<lambda>p. p\<lparr>wrMode := WR_MASTER\<rparr>);
       toWRState WRS_M_LOCK i }) }"

lemma handle_hears:
  assumes "good_clock dn (clk s)" "good_port me dn (ports s i)" "stranger you me" "says you dn w f fs"
    and "\<And>n. env_recvmsg (world s) n = arrival fs"
    and "\<And>n ts buf h. wp (presented i) Q (s\<lparr>ncall := n, ports := (ports s)(i := (f ((ports s i)\<lparr>current_rx_ts := ts,
       msgIbuf := buf, message_activity := True, msgTmpHeader := h\<rparr>))\<lparr>msgTmpWrMessageID := w\<rparr>)\<rparr>)"
  shows "wp (handle i) Q s"
proof -
  obtain d where fs: "fs = [(PTP_MULTICAST_ADDR, d)]" "34 \<le> length d" "length d \<le> 1024"
    and h: "messageType (msgUnpackHeader (d @ rest)) = MT_SIGNALING" "versionPTP (msgUnpackHeader (d @ rest)) = 2"
      "hdr_domainNumber (msgUnpackHeader (d @ rest)) = dn" "sourcePortIdentity (msgUnpackHeader (d @ rest)) = you"
    and u: "\<exists>t. msgUnpackWRSignalingMsg (d @ rest) x q = (t, w, f q)" for rest x q
    using assms(4) unfolding says_def Let_def by blast
  let ?p = "ports s i"
  define ts where "ts = (current_rx_ts ?p)\<lparr>correct := 0\<rparr>"
  define buf where "buf = d @ drop (length d) (msgIbuf ?p)"
  define q where "q = ?p\<lparr>current_rx_ts := ts, msgIbuf := buf, message_activity := True, msgTmpHeader := msgUnpackHeader buf\<rparr>"
  obtain t where t: "msgUnpackWRSignalingMsg buf (msgTmpWrMessageID ?p) q = (t, w, f q)"
    using u unfolding buf_def by blast
  have p: "portIdentity ?p = me" "versionNumber ?p = 2" "multicastAddr (netPath ?p) = PTP_MULTICAST_ADDR"
    using assms(2) by (auto simp: good_port_def)
  have c: "domainNumber (clk s) = dn" using assms(1) by (simp add: good_clock_def)
  have self: "\<not> (portNumber me = portNumber you \<and> memcmp (clockIdentity you) (clockIdentity me) = 0)"
    using assms(3) by (auto simp: stranger_def)
  have d: "d \<noteq> []" using fs(2) by auto
  have signalled: "wp (handleSignaling (msgUnpackHeader buf) l False i) Q (s\<lparr>ncall := n, ports := (ports s)(i := q)\<rparr>)" for n l
    using assms(6) [where n = n and ts = ts and buf = buf and h = "msgUnpackHeader buf"] unfolding presented_def
    by (simp add: handleSignaling_def wp_fun t [unfolded q_def] q_def)
  have "wp (handle i) Q s = wp (handleSignaling (msgUnpackHeader buf) (int (length d)) False i) Q
      (s\<lparr>ncall := Suc (ncall s), ports := (ports s)(i := q)\<rparr>)"
    using fs(2,3) d self h [of "drop (length d) (msgIbuf ?p)"]
    by (cases "portNumber me = portNumber you") (simp_all add: handle_def netRecvMsg_def ptpd_netif_recvfrom_def wp_fun assms(5) fs(1) arrival_def p c Let_def
        dispatch_def buf_def q_def ts_def)
  then show ?thesis by (simp add: signalled)
qed

section \<open>A port in the handshake\<close>

text \<open>
  The port is in the states given; its timeouts are positive, the timer of its state is not due,
  and it is calibrated with the delays of its HAL.
\<close>

definition running :: "who \<Rightarrow> PtpPortDS \<Rightarrow> bool" where
  "running c p \<longleftrightarrow> (\<forall>st\<in>set timed_states. 0 < wrTimeouts p st \<and> wrTimeouts p st < 2147483648) \<and>
     (wrPortState p \<noteq> WRS_IDLE \<longrightarrow> \<not> due (w_time c) (wrTimers p (returnCurrentWRMainState (wrPortState p)))) \<and>
     calibrated p \<and> deltaTx p = scaled_delta (ucast (w_tx c)) \<and> deltaRx p = scaled_delta (ucast (w_rx c))"

definition stands :: "who \<Rightarrow> nat \<Rightarrow> ptp_state \<Rightarrow> u8 \<Rightarrow> wr_state \<Rightarrow> sys \<Rightarrow> bool" where
  "stands c i st md w s \<longleftrightarrow> wr_node c i s \<and> running c (ports s i) \<and>
     portState (ports s i) = st \<and> wrMode (ports s i) = md \<and> wrPortState (ports s i) = w \<and>
     (md = WR_SLAVE \<longrightarrow> is_slave_role (wrSlaveRole (ports s i)))"

lemma wp_slave_turn:
  assumes "stands c i PTP_UNCALIBRATED WR_SLAVE w s"
  shows "wp (doState i) Q s = wp (doWRState i) (\<lambda>_ s'. Q () (s'\<lparr>ports := (ports s')(i := (ports s' i)\<lparr>
    msgTmpWrMessageID := NULL_WR_TLV\<rparr>)\<rparr>)) s"
  using assms by (simp add: doState_def state_decision_def wp_fun stands_def)

lemma wp_master_turn:
  assumes "stands c i PTP_MASTER WR_MASTER w s" "w \<noteq> WRS_IDLE"
  shows "wp (doState i) Q s = wp (doWRState i) (\<lambda>_ s'. Q () (s'\<lparr>ports := (ports s')(i := (ports s' i)\<lparr>
    msgTmpWrMessageID := NULL_WR_TLV\<rparr>)\<rparr>)) s"
  using assms by (simp add: doState_def do_MASTER_def state_decision_def wp_fun stands_def)

lemma wp_on_time:
  assumes "good_world t tx rx (world s)" "w \<noteq> WRS_IDLE \<Longrightarrow> \<not> due t (wrTimers (ports s i) w)"
    and "\<And>n. Q () (s\<lparr>ncall := n\<rparr>)"
  shows "wp (wrTimerExpired w m i) Q s"
proof (cases "w = WRS_IDLE")
  case True
  with assms(3) [of "ncall s"] show ?thesis by (simp add: wrTimerExpired_def wp_fun)
next
  case False
  with assms show ?thesis
    by (simp add: wrTimerExpired_def wp_bind wp_fun wp_not_due good_world_def)
qed

lemma wp_idle: "wp (wrTimerExpired WRS_IDLE m i) Q = Q ()"
  by (simp add: wrTimerExpired_def wp_fun)

lemmas handshake_defs = halexp_lock_cmd_def netEnablePhaseTracking_def ptpd_netif_enable_phase_tracking_def
  ptpd_netif_locking_enable_def ptpd_netif_locking_poll_def ptpd_netif_locking_disable_def
  ptpd_netif_calibrating_disable_def ptpd_netif_calibrating_enable_def ptpd_netif_calibration_pattern_enable_def
  ptpd_netif_calibration_pattern_disable_def ptpd_netif_calibrating_poll_def ptpd_netif_read_calibration_data_def
  halexp_get_port_state_def wp_fun wp_timer_fun

lemma standsD:
  assumes "stands c i st md w s"
  shows "good_world (w_time c) (w_tx c) (w_rx c) (world s)" "good_clock (w_domain c) (clk s)"
    "good_port (w_me c) (w_domain c) (ports s i)" "running c (ports s i)"
    "portState (ports s i) = st" "wrMode (ports s i) = md" "wrPortState (ports s i) = w"
    "md = WR_SLAVE \<Longrightarrow> is_slave_role (wrSlaveRole (ports s i))"
  using assms by (simp_all add: stands_def wr_node_def)

lemma stands_node: "stands c i st md w s \<Longrightarrow> wr_node c i s"
  by (simp add: stands_def)

lemma worldD:
  assumes "good_world t tx rx w"
  shows "env_sendto w n \<noteq> 0" "env_lock_cmd w n = (0, 0)" "env_gettimeofday w n = t"
    "hps_valid (snd (env_port_state w n))" "hps_tx_calibrated (snd (env_port_state w n))"
    "hps_rx_calibrated (snd (env_port_state w n))" "hps_delta_tx (snd (env_port_state w n)) = tx"
    "hps_delta_rx (snd (env_port_state w n)) = rx"
  using assms by (simp_all add: good_world_def)

lemma runningD:
  assumes "running c p"
  shows "0 < wrTimeouts p WRS_S_LOCK" "wrTimeouts p WRS_S_LOCK < 2147483648"
    "0 < wrTimeouts p WRS_M_LOCK" "wrTimeouts p WRS_M_LOCK < 2147483648"
    "0 < wrTimeouts p WRS_LOCKED" "wrTimeouts p WRS_LOCKED < 2147483648"
    "0 < wrTimeouts p WRS_CALIBRATION" "wrTimeouts p WRS_CALIBRATION < 2147483648"
    "0 < wrTimeouts p WRS_CALIBRATED" "wrTimeouts p WRS_CALIBRATED < 2147483648"
    "0 < wrTimeouts p WRS_RESP_CALIB_REQ" "wrTimeouts p WRS_RESP_CALIB_REQ < 2147483648"
    "0 < wrTimeouts p WRS_WR_LINK_ON" "wrTimeouts p WRS_WR_LINK_ON < 2147483648"
    "0 < wrTimeouts p WRS_PRESENT" "wrTimeouts p WRS_PRESENT < 2147483648"
    "calibrated p" "deltaTx p = scaled_delta (ucast (w_tx c))" "deltaRx p = scaled_delta (ucast (w_rx c))"
    "wrPortState p \<noteq> WRS_IDLE \<Longrightarrow> \<not> due (w_time c) (wrTimers p (returnCurrentWRMainState (wrPortState p)))"
  using assms by (simp_all add: running_def timed_states_def)

lemmas turn_defs = presented_def signalled_def toWRState_def enter_wr_state_def wrTimetoutManage_def
  handshake_defs is_slave_role_def

lemma sent_same: "log s' = log s @ es \<Longrightarrow> sent s s' = frames es"
  by (simp add: sent_def)

lemmas after_defs = stands_def wr_node_def running_def good_port_def sent_same frames_def timed_states_def

text \<open>The frames say \<open>w\<close>, by a node that is calibrated with the delays of its HAL.\<close>

definition told :: "who \<Rightarrow> u16 \<Rightarrow> frame list \<Rightarrow> bool" where
  "told c w fs \<longleftrightarrow> (\<exists>p. calibrated p \<and> deltaTx p = scaled_delta (ucast (w_tx c)) \<and>
     deltaRx p = scaled_delta (ucast (w_rx c)) \<and> says (w_me c) (w_domain c) w (signalled p w) fs)"

lemma issue_told:
  assumes "good_world (w_time c) (w_tx c) (w_rx c) (world s)" "good_clock (w_domain c) (clk s)"
    and "good_port (w_me c) (w_domain c) (ports s i)"
    and "wrMode (ports s i) \<noteq> NON_WR" "w \<noteq> ANN_SUFIX" "calibrated (ports s i)"
    and "deltaTx (ports s i) = scaled_delta (ucast (w_tx c))" "deltaRx (ports s i) = scaled_delta (ucast (w_rx c))"
    and "\<And>n b d. headed (w_me c) (w_domain c) b \<Longrightarrow> told c w [(PTP_MULTICAST_ADDR, d)] \<Longrightarrow>
      Q () (s\<lparr>ports := (ports s)(i := (ports s i)\<lparr>msgObuf := b\<rparr>),
             log := log s @ [Sent i PTP_MULTICAST_ADDR 0x88f7 d], ncall := n\<rparr>)"
  shows "wp (issueWRSignalingMsg w i) Q s"
  by (rule issue_wp [OF assms(1-5)], rule assms(9)) (use assms(6-8) in \<open>auto simp: told_def\<close>)

lemma slave_locked:
  assumes s: "stands c i PTP_UNCALIBRATED WR_SLAVE WRS_S_LOCK_1 s"
  shows "wp (doState i) (\<lambda>_ s'. stands c i PTP_UNCALIBRATED WR_SLAVE WRS_LOCKED s' \<and> told c LOCKED (sent s s')) s"
proof -
  note d = standsD [OF s]
  note W = worldD [OF d(1)] and R = runningD [OF d(4)]
  show ?thesis
    unfolding wp_slave_turn [OF s]
    by (simp add: doWRState_def wp_fun d do_S_LOCK_1_def do_S_LOCK_2_def set_wr_def turn_defs d(8) [unfolded is_slave_role_def] W,
        rule issue_told [where c = c],
        use d(1-3) in \<open>simp_all add: good_port_def d R handshake_defs\<close>,
        rule wp_on_time [where t = "w_time c" and tx = "w_tx c" and rx = "w_rx c"],
        use d(1-4) in \<open>simp_all add: after_defs due_started R d d(8) W\<close>)
qed

definition knows :: "who \<Rightarrow> PtpPortDS \<Rightarrow> bool" where
  "knows c p \<longleftrightarrow> otherNodeDeltaTx p = scaled_delta (ucast (w_tx c)) \<and> otherNodeDeltaRx p = scaled_delta (ucast (w_rx c))"

text \<open>What a port hears of the other.\<close>

definition hears_of :: "who \<Rightarrow> who \<Rightarrow> u16 \<Rightarrow> sys \<Rightarrow> bool" where
  "hears_of c d w s \<longleftrightarrow> stranger (w_me d) (w_me c) \<and> w_domain d = w_domain c \<and>
     (\<exists>fs. told d w fs \<and> (\<forall>n. env_recvmsg (world s) n = arrival fs))"

lemma handle_told:
  assumes "wr_node c i s" "hears_of c d w s"
    and "\<And>n ts buf h p. calibrated p \<Longrightarrow> deltaTx p = scaled_delta (ucast (w_tx d)) \<Longrightarrow>
      deltaRx p = scaled_delta (ucast (w_rx d)) \<Longrightarrow>
      wp (presented i) Q (s\<lparr>ncall := n, ports := (ports s)(i := (signalled p w ((ports s i)\<lparr>current_rx_ts := ts,
        msgIbuf := buf, message_activity := True, msgTmpHeader := h\<rparr>))\<lparr>msgTmpWrMessageID := w\<rparr>)\<rparr>)"
  shows "wp (handle i) Q s"
proof -
  obtain p fs where fs: "stranger (w_me d) (w_me c)" "says (w_me d) (w_domain c) w (signalled p w) fs"
    "\<And>n. env_recvmsg (world s) n = arrival fs" and p: "calibrated p" "deltaTx p = scaled_delta (ucast (w_tx d))"
    "deltaRx p = scaled_delta (ucast (w_rx d))"
    using assms(2) by (auto simp: hears_of_def told_def)
  show ?thesis
    using assms(1) by (intro handle_hears [OF _ _ fs] assms(3) [OF p]) (auto simp: wr_node_def)
qed

lemma slave_locks:
  assumes s: "stands c i PTP_UNCALIBRATED WR_SLAVE WRS_PRESENT s" and hr: "hears_of c d LOCK s"
  shows "wp (doState i) (\<lambda>_ s'. stands c i PTP_UNCALIBRATED WR_SLAVE WRS_S_LOCK_1 s' \<and> sent s s' = []) s"
proof -
  note d = standsD [OF s] and n = stands_node [OF s]
  note W = worldD [OF d(1)] and R = runningD [OF d(4)]
  show ?thesis
    unfolding wp_slave_turn [OF s]
    by (simp add: doWRState_def wp_fun d do_PRESENT_def,
        rule handle_told [OF n hr],
        simp add: turn_defs enter_S_LOCK_def d d(8) [unfolded is_slave_role_def] W,
        rule wp_on_time [where t = "w_time c" and tx = "w_tx c" and rx = "w_rx c"],
        use d(1-4) in \<open>simp_all add: after_defs due_started R d d(8)\<close>)
qed

lemma slave_responds:
  assumes s: "stands c i PTP_UNCALIBRATED WR_SLAVE WRS_LOCKED s" and hr: "hears_of c d CALIBRATE s"
  shows "wp (doState i) (\<lambda>_ s'. stands c i PTP_UNCALIBRATED WR_SLAVE WRS_RESP_CALIB_REQ_1 s' \<and>
    otherNodeCalSendPattern (ports s' i) = 0 \<and> sent s s' = []) s"
proof -
  note d = standsD [OF s] and n = stands_node [OF s]
  note W = worldD [OF d(1)] and R = runningD [OF d(4)]
  show ?thesis
    unfolding wp_slave_turn [OF s]
    by (simp add: doWRState_def wp_fun d do_LOCKED_def,
        rule handle_told [OF n hr],
        simp add: turn_defs enter_RESP_CALIB_REQ_def d d(8) [unfolded is_slave_role_def] W,
        rule wp_on_time [where t = "w_time c" and tx = "w_tx c" and rx = "w_rx c"],
        use d(1-4) in \<open>simp_all add: after_defs due_started R d d(8) W\<close>)
qed

text \<open>A calibrated port enters the calibration at the poll of the transmit delay.\<close>

lemma calibration_entered:
  assumes "good_world (w_time c) (w_tx c) (w_rx c) (world s)" "good_clock (w_domain c) (clk s)"
    and g: "good_port (w_me c) (w_domain c) (ports s i)"
    and "wrMode (ports s i) \<noteq> NON_WR" and cal: "calibrated (ports s i)"
    and "deltaTx (ports s i) = scaled_delta (ucast (w_tx c))" "deltaRx (ports s i) = scaled_delta (ucast (w_rx c))"
    and "\<And>n b d iv. headed (w_me c) (w_domain c) b \<Longrightarrow> told c CALIBRATE [(PTP_MULTICAST_ADDR, d)] \<Longrightarrow>
      0 < iv \<Longrightarrow> iv < 2147483648 \<Longrightarrow>
      Q () (s\<lparr>log := log s @ [Sent i PTP_MULTICAST_ADDR 0x88f7 d], ncall := n,
             ports := (ports s)(i := (ports s i)\<lparr>msgObuf := b,
               wrTimeouts := (wrTimeouts (ports s i))(WRS_CALIBRATION := iv), wrPortState := WRS_CALIBRATION_2\<rparr>)\<rparr>)"
  shows "wp (enter_CALIBRATION i) Q s"
proof -
  define iv where "iv = s32 (uint (if calPeriod (ports s i) > 0 then calPeriod (ports s i) else wrStateTimeout (ports s i)))"
  have iv: "0 < iv" "iv < 2147483648"
    using g by (auto simp: iv_def good_port_def s32_id word_less_def)
  show ?thesis
    unfolding enter_CALIBRATION_def wp_bind
    by (cases "0 < calPeriod (ports s i)"; rule issue_told [where c = c])
      (use assms iv in \<open>simp_all add: wp_fun cal iv_def\<close>)
qed

lemma slave_asks:
  assumes s: "stands c i PTP_UNCALIBRATED WR_SLAVE WRS_RESP_CALIB_REQ_1 s" and hr: "hears_of c d CALIBRATED s"
    and pat: "otherNodeCalSendPattern (ports s i) = 0"
  shows "wp (doState i) (\<lambda>_ s'. stands c i PTP_UNCALIBRATED WR_SLAVE WRS_CALIBRATION_2 s' \<and> knows d (ports s' i) \<and>
    told c CALIBRATE (sent s s')) s"
proof -
  note d = standsD [OF s] and n = stands_node [OF s]
  note W = worldD [OF d(1)] and R = runningD [OF d(4)]
  show ?thesis
    unfolding wp_slave_turn [OF s]
    by (simp add: doWRState_def wp_fun d do_RESP_CALIB_REQ_1_def,
        rule handle_told [OF n hr],
        simp add: turn_defs do_RESP_CALIB_REQ_2_def do_RESP_CALIB_REQ_3_def set_wr_def d pat W,
        rule calibration_entered [where c = c],
        use d(1-3) in \<open>simp_all add: good_port_def d R handshake_defs\<close>,
        rule wp_on_time [where t = "w_time c" and tx = "w_tx c" and rx = "w_rx c"],
        use d(1-4) in \<open>simp_all add: after_defs due_started R d d(8) W knows_def\<close>)
qed

lemmas calibration_defs = do_CALIBRATION_2_def do_CALIBRATION_3_def do_CALIBRATION_4_def do_CALIBRATION_5_def
  do_CALIBRATION_6_def do_CALIBRATION_7_def do_CALIBRATION_8_def set_wr_def Let_def

lemma slave_measured:
  assumes s: "stands c i PTP_UNCALIBRATED WR_SLAVE WRS_CALIBRATION_2 s" and k: "knows d (ports s i)"
  shows "wp (doState i) (\<lambda>_ s'. stands c i PTP_UNCALIBRATED WR_SLAVE WRS_CALIBRATED s' \<and> knows d (ports s' i) \<and>
    told c CALIBRATED (sent s s')) s"
proof -
  note d = standsD [OF s]
  note W = worldD [OF d(1)] and R = runningD [OF d(4)]
  show ?thesis
    unfolding wp_slave_turn [OF s]
    by (simp add: doWRState_def wp_fun d calibration_defs turn_defs W,
        rule issue_told [where c = c],
        use d(1-3) in \<open>simp_all add: good_port_def d R handshake_defs\<close>,
        rule wp_on_time [where t = "w_time c" and tx = "w_tx c" and rx = "w_rx c"],
        use d(1-4) k in \<open>simp_all add: after_defs due_started R d d(8) W knows_def\<close>)
qed

lemma slave_link_on:
  assumes s: "stands c i PTP_UNCALIBRATED WR_SLAVE WRS_CALIBRATED s" and k: "knows d (ports s i)" and hr: "hears_of c d WR_MODE_ON s"
  shows "wp (doState i) (\<lambda>_ s'. stands c i PTP_UNCALIBRATED WR_SLAVE WRS_WR_LINK_ON s' \<and> knows d (ports s' i) \<and>
    wrModeON (ports s' i) \<and> parentWrModeON (ports s' i) \<and> sent s s' = []) s"
proof -
  note d = standsD [OF s] and n = stands_node [OF s]
  note W = worldD [OF d(1)] and R = runningD [OF d(4)]
  show ?thesis
    unfolding wp_slave_turn [OF s]
    by (simp add: doWRState_def wp_fun d do_CALIBRATED_def,
        rule handle_told [OF n hr],
        simp add: turn_defs enter_WR_LINK_ON_def d W,
        rule wp_on_time [where t = "w_time c" and tx = "w_tx c" and rx = "w_rx c"],
        use d(1-4) k in \<open>simp_all add: after_defs due_started R d d(8) W knows_def\<close>)
qed

lemma servo_initialised:
  assumes "good_world t tx rx (world s)"
    and "\<And>s' v. v = wr_servo_ds (ports s' i) \<Longrightarrow> world s' = world s \<Longrightarrow> clk s' = clk s \<Longrightarrow> rtOpts s' = rtOpts s \<Longrightarrow> frames (drop (length (log s)) (log s')) = [] \<Longrightarrow>
      ports s' = (ports s)(i := (ports s i)\<lparr>wr_servo_ds := v\<rparr>) \<Longrightarrow>
      delta_tx_m v = delta_ps (otherNodeDeltaTx (ports s i)) \<Longrightarrow> delta_rx_m v = delta_ps (otherNodeDeltaRx (ports s i)) \<Longrightarrow>
      delta_tx_s v = delta_ps (deltaTx (ports s i)) \<Longrightarrow> delta_rx_s v = delta_ps (deltaRx (ports s i)) \<Longrightarrow>
      state v = WR_SYNC_TAI \<Longrightarrow> Q 0 s'"
  shows "wp (wr_servo_init i) Q s"
  unfolding wr_servo_init_def
  by (simp add: handshake_defs worldD [OF assms(1)] Let_def upd_servo_def upd_es_def ptpd_netif_enable_timing_output_def
      halexp_pps_cmd_def) (rule assms(2), rule refl; simp add: frames_def)

text \<open>The four delays the servo of \<open>c\<close> has, on a link to \<open>d\<close>.\<close>

definition armed :: "who \<Rightarrow> who \<Rightarrow> PtpPortDS \<Rightarrow> bool" where
  "armed c d p \<longleftrightarrow> wrModeON p \<and> parentWrModeON p \<and>
     delta_tx_m (wr_servo_ds p) = delta_ps (scaled_delta (ucast (w_tx d))) \<and>
     delta_rx_m (wr_servo_ds p) = delta_ps (scaled_delta (ucast (w_rx d))) \<and>
     delta_tx_s (wr_servo_ds p) = delta_ps (scaled_delta (ucast (w_tx c))) \<and>
     delta_rx_s (wr_servo_ds p) = delta_ps (scaled_delta (ucast (w_rx c))) \<and>
     state (wr_servo_ds p) = WR_SYNC_TAI"

lemma slave_entered:
  assumes s: "stands c i PTP_UNCALIBRATED WR_SLAVE WRS_IDLE s" and k: "knows d (ports s i)"
    and on: "wrModeON (ports s i)" "parentWrModeON (ports s i)"
  shows "wp (toState PTP_SLAVE i) (\<lambda>_ s'. stands c i PTP_SLAVE WR_SLAVE WRS_IDLE s' \<and> armed c d (ports s' i)) s"
proof -
  note d = standsD [OF s]
  note W = worldD [OF d(1)] and R = runningD [OF d(4)]
  show ?thesis
    by (simp add: toState_def toState_with_def leave_state_def enter_state_def enter_slave_def wp_fun d,
        rule servo_initialised [where t = "w_time c" and tx = "w_tx c" and rx = "w_rx c"],
        simp add: d,
        use d(1-4) k on in \<open>simp add: wp_timer_fun after_defs R d d(8) knows_def armed_def\<close>)
qed

lemma slave_up:
  assumes s: "stands c i PTP_UNCALIBRATED WR_SLAVE WRS_WR_LINK_ON s" and k: "knows d (ports s i)"
    and on: "wrModeON (ports s i)" "parentWrModeON (ports s i)"
  shows "wp (doState i) (\<lambda>_ s'. stands c i PTP_SLAVE WR_SLAVE WRS_IDLE s' \<and> armed c d (ports s' i)) s"
proof -
  note d = standsD [OF s]
  note W = worldD [OF d(1)] and R = runningD [OF d(4)]
  show ?thesis
    unfolding wp_slave_turn [OF s]
    by (simp add: doWRState_def wp_fun d do_WR_LINK_ON_def turn_defs,
        rule wp_conseq, rule slave_entered [where c = c and d = d],
        use d(1-4) k on in \<open>simp_all add: after_defs R d d(8) W knows_def wp_idle armed_def\<close>)
qed

section \<open>The master's side\<close>

text \<open>A master that has nothing to do, and a listening port that may become a White Rabbit slave.\<close>

definition idle_master :: "who \<Rightarrow> nat \<Rightarrow> sys \<Rightarrow> bool" where
  "idle_master c i s \<longleftrightarrow> wr_node c i s \<and> portState (ports s i) = PTP_MASTER \<and> wrPortState (ports s i) = WRS_IDLE \<and>
     (wrConfig (ports s i) = WR_M_ONLY \<or> wrConfig (ports s i) = WR_M_AND_S) \<and>
     \<not> due (w_time c) (tm_sync (timers (ports s i))) \<and> \<not> due (w_time c) (tm_announceInterval (timers (ports s i))) \<and>
     E2E_mode (rtOpts s) \<and> \<not> globalStateDecisionEvent (clk s) \<and> clockClass (clockQuality (clk s)) \<noteq> 255"

definition future_slave :: "who \<Rightarrow> nat \<Rightarrow> sys \<Rightarrow> bool" where
  "future_slave c i s \<longleftrightarrow> wr_node c i s \<and> portState (ports s i) = PTP_LISTENING \<and> wrPortState (ports s i) = WRS_IDLE \<and>
     wr_candidate (ports s i) \<and> \<not> wrModeON (ports s i) \<and> is_slave_role (wrSlaveRole (ports s i))"

lemma wr_initialised:
  assumes "good_world (w_time c) (w_tx c) (w_rx c) (world s)" "good_port (w_me c) (w_domain c) (ports s i)"
    and "\<And>q n. (\<forall>st\<in>set timed_states. 0 < wrTimeouts q st \<and> wrTimeouts q st < 2147483648) \<Longrightarrow> calibrated q \<Longrightarrow>
      deltaTx q = scaled_delta (ucast (w_tx c)) \<Longrightarrow> deltaRx q = scaled_delta (ucast (w_rx c)) \<Longrightarrow>
      good_port (w_me c) (w_domain c) q \<Longrightarrow> wrPortState q = WRS_IDLE \<Longrightarrow> portState q = portState (ports s i) \<Longrightarrow>
      wrMode q = wrMode (ports s i) \<Longrightarrow> wrSlaveRole q = wrSlaveRole (ports s i) \<Longrightarrow> timers q = timers (ports s i) \<Longrightarrow>
      wrConfig q = wrConfig (ports s i) \<Longrightarrow> msgTmpWrMessageID q = msgTmpWrMessageID (ports s i) \<Longrightarrow>
      Q () (s\<lparr>ncall := n, ports := (ports s)(i := q)\<rparr>)"
  shows "wp (initWrData i RE_INIT) Q s"
  unfolding initWrData_def
  apply (use assms(2) in \<open>simp add: handshake_defs worldD [OF assms(1)] Let_def good_port_def\<close>)
  apply (rule assms(3); use assms(2) in \<open>simp add: good_port_def timed_states_def s32_id word_less_def\<close>)
  done

lemma wr_candidate_frame [simp]: "wr_candidate (p\<lparr>message_activity := b, timers := tm\<rparr>) = wr_candidate p"
  by (simp add: wr_candidate_def)

lemma slave_calls:
  assumes "future_slave c i s"
  shows "wp (toState PTP_UNCALIBRATED i) (\<lambda>_ s'. stands c i PTP_UNCALIBRATED WR_SLAVE WRS_PRESENT s' \<and>
    told c SLAVE_PRESENT (sent s s')) s"
proof -
  have d: "good_world (w_time c) (w_tx c) (w_rx c) (world s)" "good_clock (w_domain c) (clk s)"
    "good_port (w_me c) (w_domain c) (ports s i)" "portState (ports s i) = PTP_LISTENING" "wrPortState (ports s i) = WRS_IDLE"
    "wr_candidate (ports s i)" "\<not> wrModeON (ports s i)" "is_slave_role (wrSlaveRole (ports s i))" "wrMode (ports s i) = WR_SLAVE"
    using assms by (simp_all add: future_slave_def wr_node_def wr_candidate_def)
  show ?thesis
    by (simp add: toState_def toState_with_def leave_state_def enter_state_def wp_fun wp_timer_fun d,
        simp add: toWRState_def wp_fun d,
        rule wr_initialised [where c = c],
        use d(1) in simp,
        use d(3) in \<open>simp add: good_port_def\<close>,
        simp add: enter_wr_state_def wp_fun,
        rule issue_told [where c = c],
        use d(1-3) in \<open>simp_all add: d wrTimetoutManage_def handshake_defs worldD [OF d(1)]\<close>,
        simp add: after_defs due_started d)
qed

lemma master_called:
  assumes m: "idle_master c i s" and hr: "hears_of c d SLAVE_PRESENT s"
  shows "wp (doState i) (\<lambda>_ s'. stands c i PTP_MASTER WR_MASTER WRS_M_LOCK s' \<and>
    msgTmpWrMessageID (ports s' i) = SLAVE_PRESENT \<and> told c LOCK (sent s s')) s"
proof -
  have d: "good_world (w_time c) (w_tx c) (w_rx c) (world s)" "good_clock (w_domain c) (clk s)"
    "good_port (w_me c) (w_domain c) (ports s i)" "portState (ports s i) = PTP_MASTER" "wrPortState (ports s i) = WRS_IDLE"
    "wrConfig (ports s i) = WR_M_ONLY \<or> wrConfig (ports s i) = WR_M_AND_S"
    "\<not> due (w_time c) (tm_sync (timers (ports s i)))" "\<not> due (w_time c) (tm_announceInterval (timers (ports s i)))"
    "E2E_mode (rtOpts s)" "\<not> globalStateDecisionEvent (clk s)" "clockClass (clockQuality (clk s)) \<noteq> 255" "wr_node c i s"
    using m by (simp_all add: idle_master_def wr_node_def)
  have cfg: "wrConfig (ports s i) \<noteq> WR_S_ONLY" using d(6) by auto
  note W = worldD [OF d(1)]
  show ?thesis
    by (simp add: doState_def do_MASTER_def state_decision_def wp_fun d,
        rule handle_told [OF d(12) hr],
        simp add: presented_def wp_fun signalled_def d toWRState_def,
        rule wr_initialised [where c = c],
        use d(1) in simp,
        use d(3) in \<open>simp add: good_port_def\<close>,
        simp add: enter_wr_state_def wp_fun,
        rule issue_told [where c = c],
        use d(1-3) in \<open>simp_all add: d wrTimetoutManage_def handshake_defs worldD [OF d(1)]\<close>,
        simp add: wp_not_due [where t = "w_time c"] W d cfg,
        use d(1-3) in \<open>simp add: after_defs due_started d\<close>)
qed

text \<open>A master that waits in \<open>M_LOCK\<close> hears nothing of interest.\<close>

lemma master_waits:
  assumes s: "stands c i PTP_MASTER WR_MASTER WRS_M_LOCK s" and m: "msgTmpWrMessageID (ports s i) = SLAVE_PRESENT"
    and calm: "\<And>n. env_recvmsg (world s) n = RX_EAGAIN"
  shows "wp (doState i) (\<lambda>_ s'. stands c i PTP_MASTER WR_MASTER WRS_M_LOCK s' \<and> sent s s' = []) s"
proof -
  note d = standsD [OF s]
  note W = worldD [OF d(1)] and R = runningD [OF d(4)]
  show ?thesis
    by (subst wp_master_turn [OF s], simp,
        simp add: doWRState_def wp_fun d do_M_LOCK_def,
        rule handle_nothing, rule calm,
        simp add: wp_fun m d,
        rule wp_on_time [where t = "w_time c" and tx = "w_tx c" and rx = "w_rx c"],
        use d(1-4) in \<open>simp_all add: after_defs R d W\<close>)
qed

lemma master_asks:
  assumes s: "stands c i PTP_MASTER WR_MASTER WRS_M_LOCK s" and hr: "hears_of c d LOCKED s"
  shows "wp (doState i) (\<lambda>_ s'. stands c i PTP_MASTER WR_MASTER WRS_CALIBRATION_2 s' \<and> told c CALIBRATE (sent s s')) s"
proof -
  note d = standsD [OF s] and n = stands_node [OF s]
  note W = worldD [OF d(1)] and R = runningD [OF d(4)]
  show ?thesis
    by (subst wp_master_turn [OF s], simp,
        simp add: doWRState_def wp_fun d do_M_LOCK_def,
        rule handle_told [OF n hr],
        simp add: turn_defs d,
        rule calibration_entered [where c = c],
        use d(1-3) in \<open>simp_all add: good_port_def d R handshake_defs\<close>,
        rule wp_on_time [where t = "w_time c" and tx = "w_tx c" and rx = "w_rx c"],
        use d(1-4) in \<open>simp_all add: after_defs due_started R d W\<close>)
qed

lemma master_measured:
  assumes s: "stands c i PTP_MASTER WR_MASTER WRS_CALIBRATION_2 s"
  shows "wp (doState i) (\<lambda>_ s'. stands c i PTP_MASTER WR_MASTER WRS_CALIBRATED s' \<and> told c CALIBRATED (sent s s')) s"
proof -
  note d = standsD [OF s]
  note W = worldD [OF d(1)] and R = runningD [OF d(4)]
  show ?thesis
    by (subst wp_master_turn [OF s], simp,
        simp add: doWRState_def wp_fun d calibration_defs turn_defs W,
        rule issue_told [where c = c],
        use d(1-3) in \<open>simp_all add: good_port_def d R handshake_defs\<close>,
        rule wp_on_time [where t = "w_time c" and tx = "w_tx c" and rx = "w_rx c"],
        use d(1-4) in \<open>simp_all add: after_defs due_started R d W\<close>)
qed

lemma master_responds:
  assumes s: "stands c i PTP_MASTER WR_MASTER WRS_CALIBRATED s" and hr: "hears_of c d CALIBRATE s"
  shows "wp (doState i) (\<lambda>_ s'. stands c i PTP_MASTER WR_MASTER WRS_RESP_CALIB_REQ_1 s' \<and>
    otherNodeCalSendPattern (ports s' i) = 0 \<and> sent s s' = []) s"
proof -
  note d = standsD [OF s] and n = stands_node [OF s]
  note W = worldD [OF d(1)] and R = runningD [OF d(4)]
  show ?thesis
    by (subst wp_master_turn [OF s], simp,
        simp add: doWRState_def wp_fun d do_CALIBRATED_def,
        rule handle_told [OF n hr],
        simp add: turn_defs enter_RESP_CALIB_REQ_def d W,
        rule wp_on_time [where t = "w_time c" and tx = "w_tx c" and rx = "w_rx c"],
        use d(1-4) in \<open>simp_all add: after_defs due_started R d W\<close>)
qed

lemma master_link_on:
  assumes s: "stands c i PTP_MASTER WR_MASTER WRS_RESP_CALIB_REQ_1 s" and hr: "hears_of c d CALIBRATED s"
    and pat: "otherNodeCalSendPattern (ports s i) = 0"
  shows "wp (doState i) (\<lambda>_ s'. stands c i PTP_MASTER WR_MASTER WRS_WR_LINK_ON s' \<and> wrModeON (ports s' i) \<and>
    knows d (ports s' i) \<and> told c WR_MODE_ON (sent s s')) s"
proof -
  note d = standsD [OF s] and n = stands_node [OF s]
  note W = worldD [OF d(1)] and R = runningD [OF d(4)]
  show ?thesis
    by (subst wp_master_turn [OF s], simp,
        simp add: doWRState_def wp_fun d do_RESP_CALIB_REQ_1_def,
        rule handle_told [OF n hr],
        simp add: turn_defs enter_WR_LINK_ON_def do_RESP_CALIB_REQ_2_def do_RESP_CALIB_REQ_3_def set_wr_def d pat W,
        rule issue_told [where c = c],
        use d(1-3) in \<open>simp_all add: good_port_def d R handshake_defs W\<close>,
        rule wp_on_time [where t = "w_time c" and tx = "w_tx c" and rx = "w_rx c"],
        use d(1-4) in \<open>simp_all add: after_defs due_started R d W knows_def\<close>)
qed

lemma master_up:
  assumes s: "stands c i PTP_MASTER WR_MASTER WRS_WR_LINK_ON s" and on: "wrModeON (ports s i)" "knows d (ports s i)"
  shows "wp (doState i) (\<lambda>_ s'. stands c i PTP_MASTER WR_MASTER WRS_IDLE s' \<and> wrModeON (ports s' i) \<and>
    knows d (ports s' i) \<and> sent s s' = []) s"
proof -
  note d = standsD [OF s]
  note W = worldD [OF d(1)] and R = runningD [OF d(4)]
  show ?thesis
    by (subst wp_master_turn [OF s], simp,
        simp add: doWRState_def wp_fun d do_WR_LINK_ON_def turn_defs toState_def toState_with_def leave_state_def
      enter_state_def wp_idle,
        use d(1-4) on in \<open>simp add: after_defs R d W knows_def\<close>)
qed

section \<open>The two together\<close>

lemma hear_world [simp]: "good_world t tx rx (world (hear fs s)) = good_world t tx rx (world s)"
  by (simp add: hear_def good_world_def)

lemma hear_frame [simp]:
  "ports (hear fs s) = ports s" "clk (hear fs s) = clk s" "rtOpts (hear fs s) = rtOpts s" "log (hear fs s) = log s"
  "sent (hear fs s) s' = sent s s'" "env_recvmsg (world (hear [] s)) n = RX_EAGAIN"
  by (simp_all add: hear_def sent_def arrival_def)

lemma hear_stands [simp]:
  "stands c i st md w (hear fs s) = stands c i st md w s" "idle_master c i (hear fs s) = idle_master c i s"
  by (simp_all add: stands_def idle_master_def wr_node_def)

lemma hears_told: "stranger (w_me d) (w_me c) \<Longrightarrow> w_domain d = w_domain c \<Longrightarrow> told d w fs \<Longrightarrow> hears_of c d w (hear fs s)"
  by (auto simp: hears_of_def hear_def)

definition stage :: "(sys \<Rightarrow> bool) \<Rightarrow> (sys \<Rightarrow> bool) \<Rightarrow> (frame list \<Rightarrow> bool) \<Rightarrow> sys \<times> sys \<times> frame list \<Rightarrow> bool" where
  "stage P P' R = (\<lambda>(sm, ss, fs). P sm \<and> P' ss \<and> R fs)"

lemma stage_step:
  assumes "stage P P' R x"
    and "\<And>s fs. P s \<Longrightarrow> R fs \<Longrightarrow> wp (doState k) (\<lambda>_ s'. Q s' \<and> S (sent s s')) (hear fs s)"
    and "\<And>s fs. P' s \<Longrightarrow> S fs \<Longrightarrow> wp (doState i) (\<lambda>_ s'. Q' s' \<and> R' (sent s s')) (hear fs s)"
  shows "stage Q Q' R' (both_turns k i x)"
  using assms by (auto simp: stage_def both_turns_def turn_def wp_exec Let_def split: prod.splits)

lemma handshake_stages:
  assumes "idle_master c k sm" "future_slave d i ss"
    and n: "stranger (w_me c) (w_me d)" "stranger (w_me d) (w_me c)" "w_domain c = w_domain d"
  shows "stage (\<lambda>s. stands c k PTP_MASTER WR_MASTER WRS_IDLE s \<and> wrModeON (ports s k) \<and> knows d (ports s k))
    (\<lambda>s. stands d i PTP_SLAVE WR_SLAVE WRS_IDLE s \<and> armed d c (ports s i)) (\<lambda>_. True)
    ((both_turns k i ^^ 7) (sm, exec (toState PTP_UNCALIBRATED i) ss, sent ss (exec (toState PTP_UNCALIBRATED i) ss)))"
proof -
  let ?M = "stands c k PTP_MASTER WR_MASTER" and ?S = "stands d i PTP_UNCALIBRATED WR_SLAVE"
  let ?x = "(sm, exec (toState PTP_UNCALIBRATED i) ss, sent ss (exec (toState PTP_UNCALIBRATED i) ss))"
  let ?t = "both_turns k i"
  note mh = hears_told [OF n(2) n(3) [symmetric]] and sh = hears_told [OF n(1,3)]
  have "stage (idle_master c k) (?S WRS_PRESENT) (told d SLAVE_PRESENT) ?x"
    using assms(1) slave_calls [OF assms(2)] by (simp add: stage_def wp_exec)
  then have "stage (\<lambda>s. ?M WRS_M_LOCK s \<and> msgTmpWrMessageID (ports s k) = SLAVE_PRESENT) (?S WRS_S_LOCK_1) (\<lambda>fs. fs = []) (?t ?x)"
    by (rule stage_step [where S = "told c LOCK"])
      (use wp_conseq [OF master_called [where d = d]] wp_conseq [OF slave_locks [where d = c]] mh sh in fastforce)+
  then have "stage (?M WRS_M_LOCK) (?S WRS_LOCKED) (told d LOCKED) (?t (?t ?x))"
    by (rule stage_step [where S = "\<lambda>fs. fs = []"])
      (use wp_conseq [OF master_waits] wp_conseq [OF slave_locked] in fastforce)+
  then have "stage (?M WRS_CALIBRATION_2) (\<lambda>s. ?S WRS_RESP_CALIB_REQ_1 s \<and> otherNodeCalSendPattern (ports s i) = 0)
      (\<lambda>fs. fs = []) (?t (?t (?t ?x)))"
    by (rule stage_step [where S = "told c CALIBRATE"])
      (use wp_conseq [OF master_asks [where d = d]] wp_conseq [OF slave_responds [where d = c]] mh sh in fastforce)+
  then have "stage (?M WRS_CALIBRATED) (\<lambda>s. ?S WRS_CALIBRATION_2 s \<and> knows c (ports s i))
      (told d CALIBRATE) (?t (?t (?t (?t ?x))))"
    by (rule stage_step [where S = "told c CALIBRATED"])
      (use wp_conseq [OF master_measured] wp_conseq [OF slave_asks [where d = c]] mh sh in fastforce)+
  then have "stage (\<lambda>s. ?M WRS_RESP_CALIB_REQ_1 s \<and> otherNodeCalSendPattern (ports s k) = 0)
      (\<lambda>s. ?S WRS_CALIBRATED s \<and> knows c (ports s i)) (told d CALIBRATED) (?t (?t (?t (?t (?t ?x)))))"
    by (rule stage_step [where S = "\<lambda>fs. fs = []"])
      (use wp_conseq [OF master_responds [where d = d]] wp_conseq [OF slave_measured [where d = c]] mh sh in fastforce)+
  then have "stage (\<lambda>s. ?M WRS_WR_LINK_ON s \<and> wrModeON (ports s k) \<and> knows d (ports s k))
      (\<lambda>s. ?S WRS_WR_LINK_ON s \<and> knows c (ports s i) \<and> wrModeON (ports s i) \<and> parentWrModeON (ports s i))
      (\<lambda>fs. fs = []) (?t (?t (?t (?t (?t (?t ?x))))))"
    by (rule stage_step [where S = "told c WR_MODE_ON"])
      (use wp_conseq [OF master_link_on [where d = d]] wp_conseq [OF slave_link_on [where d = c]] mh sh in fastforce)+
  then have "stage (\<lambda>s. ?M WRS_IDLE s \<and> wrModeON (ports s k) \<and> knows d (ports s k))
      (\<lambda>s. stands d i PTP_SLAVE WR_SLAVE WRS_IDLE s \<and> armed d c (ports s i)) (\<lambda>_. True) (?t (?t (?t (?t (?t (?t (?t ?x)))))))"
    by (rule stage_step [where S = "\<lambda>_. True"])
      (use wp_conseq [OF master_up [where d = d]] wp_conseq [OF slave_up [where d = c]] in fastforce)+
  then show ?thesis by (simp add: eval_nat_numeral)
qed


section \<open>The whole handshake\<close>

text \<open>
  C2. A White Rabbit link comes up. The port of one node is an idle PTP master that may act as a
  White Rabbit master, the port of another node listens and is a candidate for a White Rabbit
  slave; both are configured alike and know each other only by their frames. The slave enters
  UNCALIBRATED, and the two take turns, each hearing the frame the other has sent. After seven
  turns each, whatever else the two states hold, both state machines are back in IDLE with White
  Rabbit on, the second port is a PTP slave, and its servo has the four fixed delays in
  picoseconds: those the HAL of the master has measured, carried over by the messages, and its
  own, to be used from the first phase of the synchronisation.
\<close>

theorem handshake_completes:
  assumes "idle_master c k sm" "future_slave d i ss"
    and "stranger (w_me c) (w_me d)" "stranger (w_me d) (w_me c)" "w_domain c = w_domain d"
    and "uint (w_tx c) < 2147483648" "uint (w_rx c) < 2147483648"
    and "uint (w_tx d) < 2147483648" "uint (w_rx d) < 2147483648"
  shows "let ss0 = exec (toState PTP_UNCALIBRATED i) ss;
       (sm', ss', fs) = (both_turns k i ^^ 7) (sm, ss0, sent ss ss0);
       m = ports sm' k; p = ports ss' i; v = wr_servo_ds p
     in portState m = PTP_MASTER \<and> wrPortState m = WRS_IDLE \<and> wrMode m = WR_MASTER \<and> wrModeON m \<and>
        portState p = PTP_SLAVE \<and> wrPortState p = WRS_IDLE \<and> wrMode p = WR_SLAVE \<and> wrModeON p \<and> parentWrModeON p \<and>
        state v = WR_SYNC_TAI \<and> delta_tx_m v = uint (w_tx c) \<and> delta_rx_m v = uint (w_rx c) \<and>
        delta_tx_s v = uint (w_tx d) \<and> delta_rx_s v = uint (w_rx d)"
proof -
  have u: "uint (ucast x :: u64) = uint x" for x :: u32 by (simp add: uint_up_ucast is_up)
  show ?thesis
    using handshake_stages [OF assms(1-5)] assms(6-9)
    by (auto simp: stage_def stands_def armed_def scaled_delta_ps u Let_def split: prod.splits)
qed

text \<open>Two nodes with clock identities 1 and 2, calibrated with what their HALs report.\<close>

definition a_node :: "u8 \<Rightarrow> u32 \<Rightarrow> u32 \<Rightarrow> who" where
  "a_node n tx rx = \<lparr>w_time = 5000, w_tx = tx, w_rx = rx,
     w_me = \<lparr>clockIdentity = replicate 7 0 @ [n], portNumber = ucast n\<rparr>, w_domain = 0\<rparr>"

definition a_station :: "who \<Rightarrow> ptp_state \<Rightarrow> u8 \<Rightarrow> sys" where
  "a_station c st md = sys_zero\<lparr>rtOpts := opts_zero\<lparr>E2E_mode := True\<rparr>,
     world := quiet_env\<lparr>env_gettimeofday := \<lambda>_. w_time c,
       env_port_state := \<lambda>_. (0, hps_idle\<lparr>hps_delta_tx := w_tx c, hps_delta_rx := w_rx c\<rparr>)\<rparr>,
     ports := \<lambda>_. (let p = port_zero\<lparr>portIdentity := w_me c, versionNumber := 2\<rparr> in
       p\<lparr>msgObuf := msgPackHeader p clock_zero (replicate 1024 0), netPath := net_zero\<lparr>multicastAddr := PTP_MULTICAST_ADDR\<rparr>,
         wrStateTimeout := 1000, wrConfig := WR_M_AND_S, parentWrConfig := WR_M_AND_S, wrMode := md,
         wrSlaveRole := PRIMARY_SLAVE, portState := st, wrPortState := WRS_IDLE\<rparr>)\<rparr>"

lemma station_headed:
  "length (clockIdentity (w_me c)) = 8 \<Longrightarrow>
   headed (w_me c) 0 (msgObuf (ports (a_station c st md) i))"
  by (simp add: a_station_def headed_def Let_def msgUnpackHeader_msgPackHeader port_ok_def sent_header_def)

lemma a_station_node:
  "wr_node (a_node n tx rx) i (a_station (a_node n tx rx) st md)"
  using station_headed [of "a_node n tx rx" st md i]
  by (simp add: wr_node_def good_world_def good_clock_def good_port_def a_station_def a_node_def hps_idle_def Let_def)

theorem handshake_completes_witness:
  "let c = a_node 1 46407 167843; d = a_node 2 7 9;
     sm = a_station c PTP_MASTER NON_WR; ss = a_station d PTP_LISTENING WR_SLAVE;
     ss0 = exec (toState PTP_UNCALIBRATED 0) ss;
     (sm', ss', fs) = (both_turns 0 0 ^^ 7) (sm, ss0, sent ss ss0)
   in portState (ports ss' 0) = PTP_SLAVE \<and> wrModeON (ports ss' 0) \<and> wrModeON (ports sm' 0) \<and>
     delta_tx_m (wr_servo_ds (ports ss' 0)) = 46407 \<and> delta_rx_s (wr_servo_ds (ports ss' 0)) = 9"
proof -
  let ?c = "a_node 1 46407 167843" and ?d = "a_node 2 7 9"
  have "idle_master ?c 0 (a_station ?c PTP_MASTER NON_WR)"
    using a_station_node [of 1 46407 167843 0 PTP_MASTER NON_WR]
    by (simp add: idle_master_def due_def timer_check_def a_station_def Let_def)
  moreover have "future_slave ?d 0 (a_station ?d PTP_LISTENING WR_SLAVE)"
    using a_station_node [of 2 7 9 0 PTP_LISTENING WR_SLAVE]
    by (simp add: future_slave_def wr_candidate_def is_slave_role_def a_station_def Let_def)
  ultimately show ?thesis
    using handshake_completes [of ?c 0 "a_station ?c PTP_MASTER NON_WR" ?d 0 "a_station ?d PTP_LISTENING WR_SLAVE"]
    by (simp add: stranger_def a_node_def Let_def split: prod.splits)
qed

end
