(* ===== verification/Minipc.thy ===== *)
theory Minipc
  imports Wire
begin

text \<open>
  Remote procedure calls (libminipc): the client marshals its arguments into a request,
  \<open>minipc_call\<close>; the server looks the name up among its exported functions, calls the one it
  finds and sends its result back, \<open>mpc_handle_client\<close>; and the lists of links and of
  exported functions. Packets are octet lists with the integers of the (little-endian) host.
  What the kernel answers (\<open>send\<close>, \<open>poll\<close>, \<open>recv\<close>, \<open>select\<close>, \<open>accept\<close>) and what is in an
  uninitialised packet are arguments. Addresses of links and list nodes are naturals.
\<close>

unbundle bit_operations_syntax

section \<open>Integers in host order\<close>

fun le_get :: "u8 list \<Rightarrow> int" where
  "le_get [] = 0"
| "le_get (x # xs) = uint x + 256 * le_get xs"

fun le_put :: "nat \<Rightarrow> int \<Rightarrow> u8 list" where
  "le_put 0 v = []"
| "le_put (Suc n) v = word_of_int v # le_put n (v div 256)"

lemma le_put_length [simp]: "length (le_put n v) = n"
  by (induction n arbitrary: v) auto

lemma le_get_put: "le_get (le_put n v) = v mod 256 ^ n"
proof (induction n arbitrary: v)
  case (Suc n)
  have "uint (word_of_int v :: u8) = v mod 256" by (simp add: uint_word_of_int)
  then show ?case using Suc by (simp add: zmod_zmult2_eq)
qed simp

lemma s32_mod: "s32 (v mod 4294967296) = s32 v"
proof -
  have "take_bit 32 (v mod 4294967296) = take_bit 32 v"
    by (simp add: take_bit_eq_mod)
  then show ?thesis
    unfolding s32_def by (simp add: signed_take_bit_eq_iff_take_bit_eq)
qed

text \<open>A C string at the start of an array of octets.\<close>

definition cstr :: "u8 list \<Rightarrow> u8 list" where
  "cstr = takeWhile (\<lambda>c. c \<noteq> 0)"

section \<open>Procedure definitions\<close>

abbreviation (input) MINIPC_MAX_NAME :: nat where "MINIPC_MAX_NAME \<equiv> 20"
abbreviation (input) MINIPC_MAX_CLIENTS :: nat where "MINIPC_MAX_CLIENTS \<equiv> 64"
abbreviation (input) MINIPC_MAX_ARGUMENTS :: nat where "MINIPC_MAX_ARGUMENTS \<equiv> 256"
abbreviation (input) MINIPC_MAX_REPLY :: nat where "MINIPC_MAX_REPLY \<equiv> 1024"

datatype minipc_at = ATYPE_ERROR | ATYPE_NONE | ATYPE_INT | ATYPE_INT64 | ATYPE_DOUBLE | ATYPE_STRING
  | ATYPE_STRUCT | ATYPE_OTHER u32

fun atype_code :: "minipc_at \<Rightarrow> u32" where
  "atype_code ATYPE_ERROR = 0xffff"
| "atype_code ATYPE_NONE = 0"
| "atype_code ATYPE_INT = 1"
| "atype_code ATYPE_INT64 = 2"
| "atype_code ATYPE_DOUBLE = 3"
| "atype_code ATYPE_STRING = 4"
| "atype_code ATYPE_STRUCT = 5"
| "atype_code (ATYPE_OTHER w) = w"

definition MINIPC_GET_ATYPE :: "u32 \<Rightarrow> minipc_at" where
  "MINIPC_GET_ATYPE word =
    (let t = drop_bit 16 word
     in if t = 0xffff then ATYPE_ERROR else if t = 0 then ATYPE_NONE else if t = 1 then ATYPE_INT
        else if t = 2 then ATYPE_INT64 else if t = 3 then ATYPE_DOUBLE else if t = 4 then ATYPE_STRING
        else if t = 5 then ATYPE_STRUCT else ATYPE_OTHER t)"

definition MINIPC_GET_ASIZE :: "u32 \<Rightarrow> nat" where
  "MINIPC_GET_ASIZE word = unat (word AND 0xffff)"

definition MINIPC_ARG_ENCODE :: "minipc_at \<Rightarrow> nat \<Rightarrow> u32" where
  "MINIPC_ARG_ENCODE atype asize = push_bit 16 (atype_code atype) OR word_of_nat asize"

definition MINIPC_GET_ANUM :: "nat \<Rightarrow> nat" where
  "MINIPC_GET_ANUM len = (len + 3) div 4"

record minipc_pd =
  pd_name :: "u8 list"
  pd_flags :: u32
  pd_retval :: u32
  pd_args :: "u32 list"

text \<open>The variable arguments of a call. A double is its eight octets.\<close>

datatype carg = AInt int | AInt64 int | ADouble "u8 list" | AString "u8 list" | AStruct "u8 list"

abbreviation (input) EINTR :: int where "EINTR \<equiv> 4"
abbreviation (input) ENOENT :: int where "ENOENT \<equiv> 2"
abbreviation (input) EINVAL :: int where "EINVAL \<equiv> 22"
abbreviation (input) EPROTO :: int where "EPROTO \<equiv> 71"
abbreviation (input) EOPNOTSUPP :: int where "EOPNOTSUPP \<equiv> 95"
abbreviation (input) ETIMEDOUT :: int where "ETIMEDOUT \<equiv> 110"
abbreviation (input) EREMOTEIO :: int where "EREMOTEIO \<equiv> 121"

section \<open>Exported functions and links\<close>

text \<open>
  An exported function gets its definition, the arguments and the place of its value; it returns
  its value, \<open>errno\<close> and the octets of the value, and may change a state \<open>'s\<close>.
\<close>

type_synonym 's minipc_f = "minipc_pd \<Rightarrow> u8 list \<Rightarrow> u8 list \<Rightarrow> ('s, int \<times> int \<times> u8 list) State_Monad.state"

record 's mpc_flist =
  fl_addr :: nat
  fl_pd :: minipc_pd
  fl_f :: "'s minipc_f"

abbreviation (input) MPC_MAGIC :: u32 where "MPC_MAGIC \<equiv> 0xc0ffee99"

record 's mpc_link =
  lk_addr :: nat
  ch_fd :: int
  magic :: u32
  lk_flags :: u32
  flist :: "'s mpc_flist list"
  memaddr :: bool
  logf :: bool
  fd :: "int list"
  fdset :: "int set"
  lk_name :: "u8 list"

section \<open>The client\<close>

text \<open>
  The loop of \<open>minipc_call\<close> over \<open>pd->args\<close>: the number of words used and the argument area
  (1024 octets, so that a write past it is a list that does not grow), or the error. An argument
  that is not of the declared type, or a definition without its terminator, is undefined in C.
\<close>

datatype call_error = Errno int | Undefined

fun marshal :: "u32 list \<Rightarrow> carg list \<Rightarrow> nat \<Rightarrow> u8 list \<Rightarrow> call_error + nat \<times> u8 list" where
  "marshal [] vs narg b = Inl Undefined"
| "marshal (t # ts) vs narg b =
    (let asize = MINIPC_GET_ASIZE t; next_narg = narg + MINIPC_GET_ANUM asize
     in if next_narg \<ge> MINIPC_MAX_ARGUMENTS then Inl (Errno EPROTO)
        else case (MINIPC_GET_ATYPE t, vs) of
          (ATYPE_NONE, _) \<Rightarrow> Inr (narg, b)
        | (ATYPE_INT, AInt v # vs) \<Rightarrow> marshal ts vs (narg + 1) (put_block (4 * narg) (le_put 4 v) b)
        | (ATYPE_INT64, AInt64 v # vs) \<Rightarrow> marshal ts vs next_narg (put_block (4 * narg) (le_put 8 v) b)
        | (ATYPE_DOUBLE, ADouble d # vs) \<Rightarrow> marshal ts vs next_narg (put_block (4 * narg) d b)
        | (ATYPE_STRING, AString s # vs) \<Rightarrow>
            (let alen = MINIPC_GET_ANUM (length s + 1)
             in if narg + alen \<ge> MINIPC_MAX_ARGUMENTS then Inl (Errno EPROTO)
                else marshal ts vs (narg + alen) (put_block (4 * narg) (s @ [0]) b))
        | (ATYPE_STRUCT, AStruct v # vs) \<Rightarrow> marshal ts vs next_narg (put_block (4 * narg) (take asize v) b)
        | (ATYPE_INT, _) \<Rightarrow> Inl Undefined
        | (ATYPE_INT64, _) \<Rightarrow> Inl Undefined
        | (ATYPE_DOUBLE, _) \<Rightarrow> Inl Undefined
        | (ATYPE_STRING, _) \<Rightarrow> Inl Undefined
        | (ATYPE_STRUCT, _) \<Rightarrow> Inl Undefined
        | _ \<Rightarrow> Inl (Errno EPROTO))"

text \<open>
  What the world does with the request: the values of \<open>send\<close>, \<open>poll\<close> and \<open>recv\<close>, the octets
  received, and the error each of them leaves.
\<close>

record rpc_io =
  io_send :: int
  io_poll :: int
  io_recv :: int
  io_data :: "u8 list"
  io_errno :: int

text \<open>The value of the call, \<open>errno\<close> and the octets at \<open>ret\<close>, which grow when written past their end.\<close>

record call_result =
  rc :: int
  rc_errno :: int
  rc_ret :: "u8 list"

definition failed :: "int \<Rightarrow> u8 list \<Rightarrow> call_result" where
  "failed e r = \<lparr>rc = - 1, rc_errno = e, rc_ret = r\<rparr>"

text \<open>
  What is done with a reply \<open>p\<close> of which \<open>retsize\<close> octets have been received. \<open>retsize\<close> is an
  \<open>int\<close> compared with a \<open>size_t\<close>, so the \<open>- 1\<close> of a failed \<open>recv\<close> is not too short.
\<close>

definition take_reply :: "minipc_pd \<Rightarrow> int \<Rightarrow> int \<Rightarrow> u8 list \<Rightarrow> u8 list \<Rightarrow> int \<Rightarrow> call_result" where
  "take_reply pd retsize full p ret errno =
    (let ptype = word_of_int (le_get (take 4 p)) :: u32; val = drop 4 p
     in if (word_of_int retsize :: u64) < 8 then failed EPROTO ret
        else if MINIPC_GET_ATYPE ptype = ATYPE_ERROR then failed EREMOTEIO (take 4 val @ drop 4 ret)
        else if MINIPC_GET_ATYPE ptype \<noteq> MINIPC_GET_ATYPE (pd_retval pd) then failed EPROTO ret
        else if retsize < full then failed EPROTO ret
        else \<lparr>rc = 0, rc_errno = errno,
          rc_ret = take (MINIPC_GET_ASIZE ptype) val @ drop (MINIPC_GET_ASIZE ptype) ret\<rparr>)"

text \<open>
  The request packet as far as it is sent; through shared memory all of it is there.
\<close>

definition request :: "bool \<Rightarrow> minipc_pd \<Rightarrow> carg list \<Rightarrow> u8 list \<Rightarrow> call_error + u8 list" where
  "request shm pd vs pkt =
    (case marshal (pd_args pd) vs 0 (drop MINIPC_MAX_NAME pkt) of
       Inl e \<Rightarrow> Inl e
     | Inr (narg, b) \<Rightarrow> Inr (take MINIPC_MAX_NAME (pd_name pd) @ (if shm then b else take (4 * narg) b)))"

text \<open>
  The call. \<open>pkt\<close> and \<open>rep\<close> are the octets of the two packets before (local, or in the shared
  memory), \<open>net\<close> what becomes of the request.
\<close>

definition minipc_call ::
    "(u8 list \<Rightarrow> rpc_io) \<Rightarrow> u8 list \<Rightarrow> u8 list \<Rightarrow> 's mpc_link \<Rightarrow> minipc_pd \<Rightarrow> carg list \<Rightarrow> u8 list \<Rightarrow> int \<Rightarrow>
     call_error + call_result" where
  "minipc_call net pkt rep link pd vs ret errno =
    (if magic link \<noteq> MPC_MAGIC then Inr (failed EINVAL ret)
     else case request (memaddr link) pd vs pkt of
       Inl Undefined \<Rightarrow> Inl Undefined
     | Inl (Errno e) \<Rightarrow> Inr (failed e ret)
     | Inr req \<Rightarrow>
         let io = net req; p = io_data io @ drop (length (io_data io)) rep
         in if \<not> memaddr link \<and> io_send io < 0 then Inr (failed (io_errno io) ret)
            else if io_poll io < 0 then Inr (failed (io_errno io) ret)
            else if io_poll io = 0 then Inr (failed ETIMEDOUT ret)
            else if memaddr link then Inr (take_reply pd 1028 1028 p ret errno)
            else Inr (take_reply pd (io_recv io) (int (MINIPC_GET_ASIZE (pd_retval pd)) + 4) p ret errno))"

section \<open>The server\<close>

text \<open>A pointer to an argument is the index of its word.\<close>

definition minipc_get_next_arg :: "u8 list \<Rightarrow> nat \<Rightarrow> u32 \<Rightarrow> nat" where
  "minipc_get_next_arg b arg atype =
    arg + (if MINIPC_GET_ATYPE atype \<noteq> ATYPE_STRING then MINIPC_GET_ANUM (MINIPC_GET_ASIZE atype)
           else MINIPC_GET_ANUM (length (cstr (drop (4 * arg) b)) + 1))"

text \<open>The name in a request may lack its terminator: \<open>strcmp\<close> then reads on into the arguments.\<close>

definition mpc_find :: "u8 list \<Rightarrow> 's mpc_flist list \<Rightarrow> 's mpc_flist option" where
  "mpc_find n fs = find (\<lambda>f. cstr n = cstr (pd_name (fl_pd f))) fs"

text \<open>The reply to a request \<open>p\<close>, over the octets \<open>out\<close> of the reply packet before.\<close>

definition mpc_reply :: "'s mpc_flist list \<Rightarrow> u8 list \<Rightarrow> u8 list \<Rightarrow> ('s, u8 list) State_Monad.state" where
  "mpc_reply fs p out =
    (case mpc_find p fs of
       None \<Rightarrow> State_Monad.return
         (le_put 4 (uint (MINIPC_ARG_ENCODE ATYPE_ERROR 4)) @ le_put 4 EOPNOTSUPP @ drop 8 out)
     | Some f \<Rightarrow> do {
         r \<leftarrow> fl_f f (fl_pd f) (drop MINIPC_MAX_NAME p) (drop 4 out);
         let (i, errno, val) = r;
         State_Monad.return
           (if i < 0 then le_put 4 (uint (MINIPC_ARG_ENCODE ATYPE_ERROR 4)) @ le_put 4 errno @ drop 4 val
            else if MINIPC_GET_ATYPE (pd_retval (fl_pd f)) = ATYPE_STRING
            then let len = (length (cstr val) + 1 + 3) div 4 * 4
                 in le_put 4 (uint (MINIPC_ARG_ENCODE ATYPE_STRING len)) @ val
            else le_put 4 (uint (pd_retval (fl_pd f))) @ val) })"

text \<open>
  \<open>mpc_handle_client\<close>: \<open>i\<close>, \<open>errno\<close> and \<open>data\<close> are the outcome of \<open>recv\<close>, \<open>sent\<close> that of
  \<open>send\<close>; the octets sent, if any, and the link. In shared memory the request and the reply are
  \<open>pkt\<close> and \<open>out\<close>, and the reply is left there.
\<close>

definition close_client :: "nat \<Rightarrow> 's mpc_link \<Rightarrow> 's mpc_link" where
  "close_client pos link = link\<lparr>fdset := fdset link - {fd link ! pos}, fd := (fd link)[pos := - 1]\<rparr>"

definition reply_size :: "u8 list \<Rightarrow> nat" where
  "reply_size out = 4 + MINIPC_GET_ASIZE (word_of_int (le_get (take 4 out)))"

definition mpc_handle_client ::
    "nat \<Rightarrow> int \<Rightarrow> int \<Rightarrow> u8 list \<Rightarrow> int \<Rightarrow> u8 list \<Rightarrow> u8 list \<Rightarrow> 's mpc_link \<Rightarrow>
     ('s, u8 list option \<times> 's mpc_link) State_Monad.state" where
  "mpc_handle_client pos i errno data sent pkt out link =
    (if memaddr link then do {
       out' \<leftarrow> mpc_reply (flist link) pkt out;
       State_Monad.return (Some out', link) }
     else if i < 0 \<and> errno = EINTR then State_Monad.return (None, link)
     else if i \<le> 0 then State_Monad.return (None, close_client pos link)
     else do {
       out' \<leftarrow> mpc_reply (flist link) (data @ drop (length data) pkt) out;
       State_Monad.return (Some (take (reply_size out') out'),
         if sent < 0 then close_client pos link else link) })"

record client_io =
  ci_recv :: int
  ci_errno :: int
  ci_data :: "u8 list"
  ci_send :: int
  ci_pkt :: "u8 list"
  ci_out :: "u8 list"

definition mpc_handle_connection :: "int \<Rightarrow> 's mpc_link \<Rightarrow> 's mpc_link" where
  "mpc_handle_connection newfd link =
    (if newfd < 0 then link
     else let i = length (takeWhile (\<lambda>f. \<not> f < 0) (fd link))
          in if i = length (fd link) then link
             else link\<lparr>fd := (fd link)[i := newfd], fdset := insert newfd (fdset link)\<rparr>)"

text \<open>The loop over the clients, and the action: \<open>n\<close> and \<open>ready\<close> are the outcome of \<open>select\<close>.\<close>

fun serve_clients ::
    "(nat \<Rightarrow> client_io) \<Rightarrow> int set \<Rightarrow> nat list \<Rightarrow> 's mpc_link \<Rightarrow>
     ('s, (nat \<times> u8 list) list \<times> 's mpc_link) State_Monad.state" where
  "serve_clients io ready [] link = State_Monad.return ([], link)"
| "serve_clients io ready (i # is) link =
    (if fd link ! i < 0 \<or> fd link ! i \<notin> ready then serve_clients io ready is link
     else do {
       r \<leftarrow> mpc_handle_client i (ci_recv (io i)) (ci_errno (io i)) (ci_data (io i)) (ci_send (io i))
              (ci_pkt (io i)) (ci_out (io i)) link;
       rest \<leftarrow> serve_clients io ready is (snd r);
       State_Monad.return ((case fst r of None \<Rightarrow> [] | Some b \<Rightarrow> [(i, b)]) @ fst rest, snd rest) })"

definition minipc_server_action ::
    "int \<Rightarrow> int \<Rightarrow> int set \<Rightarrow> (nat \<Rightarrow> client_io) \<Rightarrow> int \<Rightarrow> 's mpc_link \<Rightarrow>
     ('s, int \<times> (nat \<times> u8 list) list \<times> 's mpc_link) State_Monad.state" where
  "minipc_server_action n errno ready io newfd link =
    (if magic link \<noteq> MPC_MAGIC then State_Monad.return (- 1, [], link)
     else if n = 0 \<or> n < 0 \<and> errno = EINTR then State_Monad.return (0, [], link)
     else if n < 0 then State_Monad.return (- 1, [], link)
     else if memaddr link then do {
       r \<leftarrow> mpc_handle_client 0 0 0 [] 0 (ci_pkt (io 0)) (ci_out (io 0)) link;
       State_Monad.return (0, (case fst r of None \<Rightarrow> [] | Some b \<Rightarrow> [(0, b)]), snd r) }
     else do {
       r \<leftarrow> serve_clients io ready [0..<MINIPC_MAX_CLIENTS] link;
       State_Monad.return (0, fst r,
         if ch_fd link \<in> ready then mpc_handle_connection newfd (snd r) else snd r) })"

definition minipc_server_get_fdset :: "'s mpc_link \<Rightarrow> int set option" where
  "minipc_server_get_fdset link = (if magic link \<noteq> MPC_MAGIC then None else Some (fdset link))"

section \<open>Exported functions\<close>

text \<open>\<open>None\<close> is the end of the process: \<open>mpc_free_flist\<close> writes to a log that may not be there.\<close>

definition mpc_free_flist :: "nat \<Rightarrow> 's mpc_link \<Rightarrow> 's mpc_link option" where
  "mpc_free_flist a link =
    (let k = length (takeWhile (\<lambda>f. fl_addr f \<noteq> a) (flist link))
     in if k = length (flist link) then Some link
        else if \<not> logf link then None
        else Some (link\<lparr>flist := take k (flist link) @ drop (Suc k) (flist link)\<rparr>))"

text \<open>\<open>a\<close> is what \<open>calloc\<close> returns.\<close>

definition minipc_export :: "nat option \<Rightarrow> minipc_pd \<Rightarrow> 's minipc_f \<Rightarrow> 's mpc_link \<Rightarrow> int \<times> 's mpc_link" where
  "minipc_export a pd f link =
    (if magic link \<noteq> MPC_MAGIC then (- 1, link)
     else case a of None \<Rightarrow> (- 1, link)
       | Some a \<Rightarrow> (0, link\<lparr>flist := \<lparr>fl_addr = a, fl_pd = pd, fl_f = f\<rparr> # flist link\<rparr>))"

text \<open>
  The node to free is \<open>container_of(&pd, struct mpc_flist, pd)\<close>: \<open>pd\<close> is the first member, so
  it is the address \<open>local\<close> of the parameter itself. A procedure definition is its address, which
  its content stands for.
\<close>

definition minipc_unexport :: "nat \<Rightarrow> minipc_pd \<Rightarrow> 's mpc_link \<Rightarrow> (int \<times> 's mpc_link) option" where
  "minipc_unexport local pd link =
    (if magic link \<noteq> MPC_MAGIC then Some (- 1, link)
     else if \<not> (\<exists>f\<in>set (flist link). fl_pd f = pd) then Some (- 1, link)
     else map_option (Pair 0) (mpc_free_flist local link))"

section \<open>Links\<close>

text \<open>The links by address, and the list \<open>__mpc_base\<close> of the addresses of all that were made.\<close>

record 's mpc_state =
  mpc_base :: "nat list"
  mpc_links :: "nat \<Rightarrow> 's mpc_link option"
  mpc_poll_usec :: int

abbreviation (input) MPC_FLAG_SERVER :: u32 where "MPC_FLAG_SERVER \<equiv> 0x00010000"
abbreviation (input) MPC_FLAG_CLIENT :: u32 where "MPC_FLAG_CLIENT \<equiv> 0x00020000"
abbreviation (input) MPC_FLAG_SHMEM :: u32 where "MPC_FLAG_SHMEM \<equiv> 0x00040000"
abbreviation (input) MPC_FLAG_DEVMEM :: u32 where "MPC_FLAG_DEVMEM \<equiv> 0x00080000"

definition minipc_set_poll :: "int \<Rightarrow> 's mpc_state \<Rightarrow> int \<times> 's mpc_state" where
  "minipc_set_poll usec st =
    (if usec \<le> 0 then (- 1, st) else (mpc_poll_usec st, st\<lparr>mpc_poll_usec := usec\<rparr>))"

definition minipc_set_logfile :: "bool \<Rightarrow> 's mpc_link \<Rightarrow> int \<times> 's mpc_link" where
  "minipc_set_logfile f link = (if magic link \<noteq> MPC_MAGIC then (- 1, link) else (0, link\<lparr>logf := f\<rparr>))"

text \<open>Releasing all functions: at most as many turns as there are.\<close>

fun free_all :: "nat \<Rightarrow> 's mpc_link \<Rightarrow> 's mpc_link option" where
  "free_all 0 link = Some link"
| "free_all (Suc fuel) link =
    (case flist link of [] \<Rightarrow> Some link
     | f # _ \<Rightarrow> Option.bind (mpc_free_flist (fl_addr f) link) (free_all fuel))"

text \<open>
  \<open>minipc_close\<close>. \<open>*nextp\<close> is the link itself when it is found, so
  \<open>(*nextp)->nextl = link->nextl\<close> leaves the list as it is.
\<close>

definition minipc_close :: "nat \<Rightarrow> 's mpc_state \<Rightarrow> (int \<times> 's mpc_state) option" where
  "minipc_close a st =
    (case mpc_links st a of
       None \<Rightarrow> None
     | Some link \<Rightarrow>
         if magic link \<noteq> MPC_MAGIC then Some (- 1, st)
         else if a \<notin> set (mpc_base st) then Some (- 1, st)
         else map_option (\<lambda>_. (0, st\<lparr>mpc_links := (mpc_links st)(a := None)\<rparr>))
                (free_all (length (flist link)) link))"

text \<open>The size of the shared memory, for a page of \<open>pagesize\<close> octets; \<open>struct mpc_shmem\<close> has 2080.\<close>

definition shmem_size :: "u32 \<Rightarrow> u32" where
  "shmem_size pagesize = (2080 + pagesize - 1) AND NOT pagesize"

text \<open>
  What the C library and the kernel answer while a link in memory is made: the two \<open>sscanf\<close>, the
  calls that map the memory, the pipe and the fork. \<open>io_uninit\<close> says whether the uninitialised
  \<open>addr\<close> happens not to be NULL: it is used when neither \<open>sscanf\<close> finds a number.
\<close>

record mem_io =
  io_sscanf_shm :: int
  io_shmget :: int
  io_shmat :: bool
  io_sscanf_mem :: int
  io_open :: int
  io_mmap :: bool
  io_uninit :: bool
  io_pipe :: int
  io_pipe_fd :: int
  io_fork :: int

definition minipc_memlink_create :: "mem_io \<Rightarrow> 's mpc_link \<Rightarrow> 's mpc_link option" where
  "minipc_memlink_create io link =
    (let shm = (io_sscanf_shm io \<noteq> 0); devmem = (io_sscanf_mem io \<noteq> 0);
         link = (if shm then link\<lparr>lk_flags := lk_flags link OR MPC_FLAG_SHMEM\<rparr> else link);
         link = (if devmem then link\<lparr>lk_flags := lk_flags link OR MPC_FLAG_DEVMEM\<rparr> else link)
     in if shm \<and> (io_shmget io < 0 \<or> \<not> io_shmat io) then None
        else if devmem \<and> (io_open io < 0 \<or> \<not> io_mmap io) then None
        else if io_pipe io < 0 \<or> io_fork io = - 1 then None
        else Some (link\<lparr>memaddr := (shm \<or> devmem \<or> io_uninit io), ch_fd := io_pipe_fd io\<rparr>))"

text \<open>What is answered while a link is made.\<close>

record create_io =
  cr_calloc :: "nat option"
  cr_mem :: mem_io
  cr_socket :: int
  cr_bind :: int
  cr_listen :: int
  cr_connect :: int

definition minipc_link_create ::
    "create_io \<Rightarrow> u8 list \<Rightarrow> u32 \<Rightarrow> 's mpc_state \<Rightarrow> nat option \<times> 's mpc_state" where
  "minipc_link_create io name flags st =
    (case cr_calloc io of
       None \<Rightarrow> (None, st)
     | Some a \<Rightarrow>
         let link = \<lparr>lk_addr = a, ch_fd = 0, magic = MPC_MAGIC, lk_flags = flags, flist = [],
               memaddr = False, logf = False, fd = replicate MINIPC_MAX_CLIENTS 0, fdset = {},
               lk_name = take 19 (cstr name) @ replicate (20 - min 19 (length (cstr name))) 0\<rparr>;
             shm = (take 4 name = [0x73, 0x68, 0x6d, 0x3a]);
             devmem = (take 4 name = [0x6d, 0x65, 0x6d, 0x3a]);
             server = (flags AND MPC_FLAG_SERVER \<noteq> 0);
             made = (if shm \<or> devmem then minipc_memlink_create (cr_mem io) link
                     else if cr_socket io < 0 then None
                     else if server \<and> (cr_bind io < 0 \<or> cr_listen io < 0) then None
                     else if \<not> server \<and> cr_connect io < 0 then None
                     else Some (link\<lparr>ch_fd := cr_socket io\<rparr>))
         in case made of
              None \<Rightarrow> (None, st)
            | Some l \<Rightarrow>
                let l = (if server then l\<lparr>fd := replicate MINIPC_MAX_CLIENTS (- 1), fdset := {ch_fd l}\<rparr> else l)
                in (Some a, st\<lparr>mpc_base := a # mpc_base st, mpc_links := (mpc_links st)(a \<mapsto> l)\<rparr>))"

definition minipc_server_create :: "create_io \<Rightarrow> u8 list \<Rightarrow> u32 \<Rightarrow> 's mpc_state \<Rightarrow> nat option \<times> 's mpc_state" where
  "minipc_server_create io name f = minipc_link_create io name ((f AND 0xffff) OR MPC_FLAG_SERVER)"

definition minipc_client_create :: "create_io \<Rightarrow> u8 list \<Rightarrow> u32 \<Rightarrow> 's mpc_state \<Rightarrow> nat option \<times> 's mpc_state" where
  "minipc_client_create io name f = minipc_link_create io name ((f AND 0xffff) OR MPC_FLAG_CLIENT)"

text \<open>
  The child of a link in shared memory: the counter it sees in each turn of its loop, and
  whether it writes an octet to its parent then.
\<close>

fun minipc_child :: "u32 \<Rightarrow> u32 list \<Rightarrow> bool list" where
  "minipc_child prev [] = []"
| "minipc_child prev (v # vs) = (if v \<noteq> prev then True # minipc_child (prev + 1) vs
     else False # minipc_child prev vs)"

section \<open>What the server finds in a request\<close>

text \<open>
  The reader every exported function is: the arguments of the declared types, each found with
  \<open>minipc_get_next_arg\<close> from the one before.
\<close>

fun read_args :: "u32 list \<Rightarrow> nat \<Rightarrow> u8 list \<Rightarrow> carg list" where
  "read_args [] n b = []"
| "read_args (t # ts) n b =
    (case MINIPC_GET_ATYPE t of
       ATYPE_INT \<Rightarrow> AInt (s32 (le_get (get_block 4 (4 * n) b))) # read_args ts (minipc_get_next_arg b n t) b
     | ATYPE_INT64 \<Rightarrow> AInt64 (le_get (get_block 8 (4 * n) b)) # read_args ts (minipc_get_next_arg b n t) b
     | ATYPE_DOUBLE \<Rightarrow> ADouble (get_block 8 (4 * n) b) # read_args ts (minipc_get_next_arg b n t) b
     | ATYPE_STRING \<Rightarrow> AString (cstr (drop (4 * n) b)) # read_args ts (minipc_get_next_arg b n t) b
     | ATYPE_STRUCT \<Rightarrow> AStruct (get_block (MINIPC_GET_ASIZE t) (4 * n) b) # read_args ts (minipc_get_next_arg b n t) b
     | _ \<Rightarrow> [])"

fun typed :: "u32 list \<Rightarrow> carg list \<Rightarrow> bool" where
  "typed [] vs = False"
| "typed (t # ts) vs =
    (case (MINIPC_GET_ATYPE t, vs) of
       (ATYPE_NONE, []) \<Rightarrow> MINIPC_GET_ASIZE t = 0
     | (ATYPE_INT, AInt v # vs) \<Rightarrow> MINIPC_GET_ASIZE t = 4 \<and> - 2147483648 \<le> v \<and> v < 2147483648 \<and> typed ts vs
     | (ATYPE_INT64, AInt64 v # vs) \<Rightarrow> MINIPC_GET_ASIZE t = 8 \<and> 0 \<le> v \<and> v < 18446744073709551616 \<and> typed ts vs
     | (ATYPE_DOUBLE, ADouble d # vs) \<Rightarrow> MINIPC_GET_ASIZE t = 8 \<and> length d = 8 \<and> typed ts vs
     | (ATYPE_STRING, AString s # vs) \<Rightarrow> MINIPC_GET_ASIZE t \<le> 8 \<and> 0 \<notin> set s \<and> typed ts vs
     | (ATYPE_STRUCT, AStruct v # vs) \<Rightarrow> length v = MINIPC_GET_ASIZE t \<and> typed ts vs
     | _ \<Rightarrow> False)"

fun arg_words :: "carg list \<Rightarrow> nat" where
  "arg_words [] = 0"
| "arg_words (AInt _ # vs) = 1 + arg_words vs"
| "arg_words (AInt64 _ # vs) = 2 + arg_words vs"
| "arg_words (ADouble _ # vs) = 2 + arg_words vs"
| "arg_words (AString s # vs) = MINIPC_GET_ANUM (length s + 1) + arg_words vs"
| "arg_words (AStruct v # vs) = MINIPC_GET_ANUM (length v) + arg_words vs"

lemma cstr_at:
  assumes "0 \<notin> set s" "p + length s < length c" "get_block (length s + 1) p c = s @ [0]"
  shows "cstr (drop p c) = s"
proof -
  have c: "c ! (p + k) = (s @ [0]) ! k" if "k < length s + 1" for k
  proof -
    have "get_block (length s + 1) p c ! k = c ! (p + k)" using that unfolding get_block_def by (simp del: upt_Suc)
    then show ?thesis unfolding assms(3) by simp
  qed
  have "cstr (drop p c) = take (length s) (drop p c)"
    unfolding cstr_def
  proof (rule takeWhile_eq_take_P_nth)
    fix k assume "k < length s" "k < length (drop p c)"
    then show "drop p c ! k \<noteq> 0" using assms(1,2) c [of k] by (auto simp: nth_append in_set_conv_nth)
  next
    show "\<not> drop p c ! length s \<noteq> 0" using assms(2) c [of "length s"] by simp
  qed
  also have "\<dots> = s" using assms(2) c by (intro nth_equalityI) (auto simp: nth_append)
  finally show ?thesis .
qed

lemma block_read:
  assumes "4 * n + length x \<le> 4 * m" "m < 256" "length b = 1024" "m \<le> n'"
    and "\<forall>k<4*m. b' ! k = put_block (4 * n) x b ! k" "\<forall>k<4*n'. c ! k = b' ! k"
  shows "get_block (length x) (4 * n) c = x" "\<forall>k<4*n. b' ! k = b ! k"
proof -
  have "c ! (4 * n + k) = x ! k" if "k < length x" for k
    using that assms by (simp add: put_block_inside)
  then show "get_block (length x) (4 * n) c = x" by (intro nth_equalityI) (simp_all add: get_block_def)
  show "\<forall>k<4*n. b' ! k = b ! k" using assms by (simp add: put_block_outside)
qed

lemma words_fit: "length x \<le> a \<Longrightarrow> 4 * n + length x \<le> 4 * (n + MINIPC_GET_ANUM a)"
  by (simp add: MINIPC_GET_ANUM_def)

definition read_back :: "u32 list \<Rightarrow> carg list \<Rightarrow> nat \<Rightarrow> u8 list \<Rightarrow> nat \<Rightarrow> u8 list \<Rightarrow> bool" where
  "read_back ts vs n b n' b' \<longleftrightarrow> n \<le> n' \<and> n' < 256 \<and> length b' = 1024 \<and> (\<forall>k<4*n. b' ! k = b ! k) \<and>
     (\<forall>c. 4 * n' \<le> length c \<longrightarrow> (\<forall>k<4*n'. c ! k = b' ! k) \<longrightarrow> read_args ts n c = vs)"

lemma read_back_step:
  assumes "read_back ts vs m (put_block (4 * n) x b) n' b'"
    and "4 * n + length x \<le> 4 * m" "n \<le> m" "m < 256" "length b = 1024"
    and "\<And>c. get_block (length x) (4 * n) c = x \<Longrightarrow> 4 * n + length x \<le> length c \<Longrightarrow>
      read_args (t # ts) n c = v # read_args ts m c"
  shows "read_back (t # ts) (v # vs) n b n' b'"
proof -
  have r: "m \<le> n'" "n' < 256" "length b' = 1024" "\<forall>k<4*m. b' ! k = put_block (4 * n) x b ! k"
    and next_args: "\<And>c. 4 * n' \<le> length c \<Longrightarrow> \<forall>k<4*n'. c ! k = b' ! k \<Longrightarrow> read_args ts m c = vs"
    using assms(1) unfolding read_back_def by blast+
  note blk = block_read [OF assms(2,4,5) r(1,4)]
  have "read_args (t # ts) n c = v # vs" if c: "4 * n' \<le> length c" "\<forall>k<4*n'. c ! k = b' ! k" for c
  proof -
    have "4 * n + length x \<le> length c" using assms(2) c(1) r(1) by linarith
    from assms(6) [OF blk(1) [OF c(2)] this] show ?thesis by (simp only: next_args [OF c])
  qed
  moreover have "\<forall>k<4*n. b' ! k = b ! k" by (rule blk(2) [of b']) simp
  ultimately show ?thesis using r assms(3) by (simp only: read_back_def) auto
qed

lemma marshal_read_back:
  "typed ts vs \<Longrightarrow> marshal ts vs n b = Inr (n', b') \<Longrightarrow> length b = 1024 \<Longrightarrow> n < 256 \<Longrightarrow>
   read_back ts vs n b n' b'"
proof (induction ts arbitrary: vs n b)
  case (Cons t ts)
  note IH = Cons.IH
  let ?m = "n + MINIPC_GET_ANUM (MINIPC_GET_ASIZE t)"
  have m: "?m < 256" using Cons.prems(2) by (auto simp: Let_def split: if_splits)
  have fits: "length x \<le> MINIPC_GET_ASIZE t \<Longrightarrow> 4 * n + length x \<le> 4 * ?m" for x :: "u8 list"
    by (rule words_fit)
  have anum: "MINIPC_GET_ANUM 4 = 1" "MINIPC_GET_ANUM 8 = 2" by (simp_all add: MINIPC_GET_ANUM_def)
  show ?case
  proof (cases "MINIPC_GET_ATYPE t")
    case ATYPE_NONE
    with Cons.prems m show ?thesis by (cases vs) (auto simp: read_back_def Let_def)
  next
    case ATYPE_INT
    with Cons.prems m obtain v vs' where v: "vs = AInt v # vs'" "MINIPC_GET_ASIZE t = 4" "- 2147483648 \<le> v"
      "v < 2147483648" "typed ts vs'" "marshal ts vs' (n + 1) (put_block (4 * n) (le_put 4 v) b) = Inr (n', b')"
      by (auto simp: Let_def split: list.splits carg.splits)
    have "s32 (le_get (le_put 4 v)) = v" using v(3,4) by (simp add: le_get_put s32_mod s32_id)
    with v m ATYPE_INT show ?thesis
      using IH [OF v(5,6)] Cons.prems(3)
      by (auto simp: anum put_block_length minipc_get_next_arg_def
          intro!: read_back_step [where x = "le_put 4 v" and m = "n + 1"])
  next
    case ATYPE_INT64
    with Cons.prems m obtain v vs' where v: "vs = AInt64 v # vs'" "MINIPC_GET_ASIZE t = 8" "0 \<le> v"
      "v < 18446744073709551616" "typed ts vs'" "marshal ts vs' ?m (put_block (4 * n) (le_put 8 v) b) = Inr (n', b')"
      by (auto simp: Let_def split: list.splits carg.splits)
    have "le_get (le_put 8 v) = v" using v(3,4) by (simp add: le_get_put)
    with v m ATYPE_INT64 show ?thesis
      using IH [OF v(5,6)] Cons.prems(3)
      by (auto simp: anum put_block_length minipc_get_next_arg_def
          intro!: read_back_step [where x = "le_put 8 v" and m = "n + 2"])
  next
    case ATYPE_DOUBLE
    with Cons.prems m obtain d vs' where v: "vs = ADouble d # vs'" "MINIPC_GET_ASIZE t = 8" "length d = 8"
      "typed ts vs'" "marshal ts vs' ?m (put_block (4 * n) d b) = Inr (n', b')"
      by (auto simp: Let_def split: list.splits carg.splits)
    with m ATYPE_DOUBLE show ?thesis
      using IH [OF v(4,5)] Cons.prems(3)
      by (auto simp: anum put_block_length minipc_get_next_arg_def
          intro!: read_back_step [where x = d and m = "n + 2"])
  next
    case ATYPE_STRING
    with Cons.prems m obtain s vs' where v: "vs = AString s # vs'" "0 \<notin> set s" "typed ts vs'"
      and fit: "n + MINIPC_GET_ANUM (length s + 1) < 256"
      and go_on: "marshal ts vs' (n + MINIPC_GET_ANUM (length s + 1)) (put_block (4 * n) (s @ [0]) b) = Inr (n', b')"
      by (auto simp: Let_def split: list.splits carg.splits if_splits)
    have "4 * n + length (s @ [0]) \<le> 4 * (n + MINIPC_GET_ANUM (length s + 1))" by (rule words_fit) simp
    moreover have "cstr (drop (4 * n) c) = s"
      if "get_block (length (s @ [0])) (4 * n) c = s @ [0]" "4 * n + length (s @ [0]) \<le> length c" for c
      using that v(2) by (intro cstr_at) auto
    ultimately show ?thesis
      using IH [OF v(3) go_on] Cons.prems(3) fit ATYPE_STRING v(1)
      by (auto simp: put_block_length minipc_get_next_arg_def
          intro!: read_back_step [where x = "s @ [0]" and m = "n + MINIPC_GET_ANUM (length s + 1)"])
  next
    case ATYPE_STRUCT
    with Cons.prems m obtain v vs' where v: "vs = AStruct v # vs'" "length v = MINIPC_GET_ASIZE t"
      "typed ts vs'" "marshal ts vs' ?m (put_block (4 * n) v b) = Inr (n', b')"
      by (auto simp: Let_def split: list.splits carg.splits)
    with m ATYPE_STRUCT show ?thesis
      using IH [OF v(3,4)] Cons.prems(3) fits [of v]
      by (auto simp: put_block_length minipc_get_next_arg_def
          intro!: read_back_step [where x = v and m = ?m])
  qed (use Cons.prems in \<open>auto simp: Let_def split: list.splits carg.splits\<close>)
qed simp

text \<open>It is only too many words that a call is refused for.\<close>

lemma marshal_fits:
  "typed ts vs \<Longrightarrow> n + arg_words vs + 2 < 256 \<Longrightarrow> \<exists>n' b'. marshal ts vs n b = Inr (n', b')"
proof (induction ts arbitrary: vs n b)
  case (Cons t ts)
  have anum: "MINIPC_GET_ANUM 4 = 1" "MINIPC_GET_ANUM 8 = 2" "MINIPC_GET_ANUM 0 = 0"
    "k \<le> 8 \<Longrightarrow> MINIPC_GET_ANUM k \<le> 2" for k by (simp_all add: MINIPC_GET_ANUM_def)
  show ?case
    using Cons.prems
    by (cases "MINIPC_GET_ATYPE t"; auto simp: Let_def anum not_le split: list.splits carg.splits
        dest!: anum(4) intro!: Cons.IH)
qed simp

section \<open>A call over a socket\<close>

text \<open>
  The request goes to the server, which answers in its turn: \<open>net\<close> for a server with link \<open>link\<close>
  in state \<open>s\<close>. \<open>spkt\<close> and \<open>sout\<close> are its uninitialised packets.
\<close>

definition serve :: "nat \<Rightarrow> u8 list \<Rightarrow> u8 list \<Rightarrow> 's mpc_link \<Rightarrow> u8 list \<Rightarrow> ('s, u8 list option \<times> 's mpc_link) State_Monad.state" where
  "serve pos spkt sout link req = mpc_handle_client pos (int (length req)) 0 req 0 spkt sout link"

definition rpc_net :: "nat \<Rightarrow> u8 list \<Rightarrow> u8 list \<Rightarrow> 's mpc_link \<Rightarrow> 's \<Rightarrow> u8 list \<Rightarrow> rpc_io" where
  "rpc_net pos spkt sout link s req =
    (case fst (run_state (serve pos spkt sout link req) s) of
       (None, _) \<Rightarrow> \<lparr>io_send = int (length req), io_poll = 0, io_recv = 0, io_data = [], io_errno = 0\<rparr>
     | (Some r, _) \<Rightarrow> \<lparr>io_send = int (length req), io_poll = 1, io_recv = int (length r), io_data = r, io_errno = 0\<rparr>)"

lemma asize_bound: "MINIPC_GET_ASIZE w < 65536"
proof -
  have "w AND 0xffff = take_bit 16 w" by (simp add: take_bit_eq_mask mask_eq_exp_minus_1)
  then have "MINIPC_GET_ASIZE w = take_bit 16 (unat w)"
    unfolding MINIPC_GET_ASIZE_def by (simp only: unsigned_take_bit_eq)
  then show ?thesis using take_bit_nat_less_exp [of 16 "unat w"] by simp
qed

lemma word_of_le: "word_of_int (le_get (le_put 4 (uint (w :: u32)))) = w"
proof -
  have "uint w mod 4294967296 = uint w" using uint_lt2p [of w] by simp
  then show ?thesis by (simp add: le_get_put)
qed

lemma error_type: "MINIPC_GET_ATYPE (MINIPC_ARG_ENCODE ATYPE_ERROR 4) = ATYPE_ERROR"
  "MINIPC_GET_ASIZE (MINIPC_ARG_ENCODE ATYPE_ERROR 4) = 4"
  by (simp_all add: MINIPC_GET_ATYPE_def MINIPC_GET_ASIZE_def MINIPC_ARG_ENCODE_def)

lemma request_read:
  assumes "typed (pd_args pd) vs" "arg_words vs + 2 < 256" "length pkt = 1044" "length (pd_name pd) = 20"
  obtains req where "request False pd vs pkt = Inr req" "20 \<le> length req" "length req \<le> 1044"
    "\<And>rest. length (req @ rest) = 1044 \<Longrightarrow> take 20 (req @ rest) = pd_name pd \<and>
       read_args (pd_args pd) 0 (drop 20 (req @ rest)) = vs"
proof -
  obtain n' b' where m: "marshal (pd_args pd) vs 0 (drop 20 pkt) = Inr (n', b')"
    using marshal_fits [of "pd_args pd" vs 0 "drop 20 pkt"] assms(1,2) by auto
  from marshal_read_back [OF assms(1) m] assms(3)
  have rb: "read_back (pd_args pd) vs 0 (drop 20 pkt) n' b'" by simp
  let ?req = "pd_name pd @ take (4 * n') b'"
  have "request False pd vs pkt = Inr ?req" using assms(4) by (simp add: request_def m)
  moreover have "read_args (pd_args pd) 0 (drop 20 (?req @ rest)) = vs" if "length (?req @ rest) = 1044" for rest
    using rb that assms(4) unfolding read_back_def by (simp add: nth_append)
  ultimately show thesis
    using that [of ?req] assms(4) rb by (simp add: read_back_def)
qed

lemma cstr_name: "take 20 p = n \<Longrightarrow> 0 \<in> set n \<Longrightarrow> cstr p = cstr n"
proof -
  assume n: "take 20 p = n" "0 \<in> set n"
  have "takeWhile (\<lambda>c. c \<noteq> 0) (n @ drop 20 p) = takeWhile (\<lambda>c. c \<noteq> 0) n"
    using n(2) by (intro takeWhile_append1 [of 0]) auto
  moreover have "n @ drop 20 p = p" using n(1) by (metis append_take_drop_id)
  ultimately show ?thesis by (simp add: cstr_def)
qed

text \<open>The reply a client gets is the packet the server has put together.\<close>

definition replied :: "u32 \<Rightarrow> u8 list \<Rightarrow> u8 list" where
  "replied w val = le_put 4 (uint w) @ val"

lemma replied_size: "reply_size (replied w val) = 4 + MINIPC_GET_ASIZE w"
  using word_of_le [of w] by (simp only: reply_size_def replied_def) simp

lemma reply_taken:
  assumes "length val = 1024" "4 \<le> MINIPC_GET_ASIZE w" "MINIPC_GET_ASIZE w \<le> 1024"
    and "MINIPC_GET_ATYPE w \<noteq> ATYPE_ERROR \<Longrightarrow> full \<le> 4 + int (MINIPC_GET_ASIZE w)"
  shows "take_reply pd (4 + int (MINIPC_GET_ASIZE w)) full
      (take (4 + MINIPC_GET_ASIZE w) (replied w val) @ rest) ret errno =
    (if MINIPC_GET_ATYPE w = ATYPE_ERROR then failed EREMOTEIO (take 4 val @ drop 4 ret)
     else if MINIPC_GET_ATYPE w \<noteq> MINIPC_GET_ATYPE (pd_retval pd) then failed EPROTO ret
     else \<lparr>rc = 0, rc_errno = errno, rc_ret = take (MINIPC_GET_ASIZE w) val @ drop (MINIPC_GET_ASIZE w) ret\<rparr>)"
proof -
  let ?n = "MINIPC_GET_ASIZE w"
  have "uint (word_of_int (4 + int ?n) :: u64) = 4 + int ?n"
    using assms(3) by (simp only: uint_word_of_int_eq) (rule take_bit_int_eq_self; simp)
  then have "\<not> (word_of_int (4 + int ?n) :: u64) < 8"
    using assms(2) by (simp only: word_less_def) simp
  moreover have "take (4 + ?n) (replied w val) @ rest = le_put 4 (uint w) @ take ?n val @ rest"
    by (simp add: replied_def)
  ultimately show ?thesis
    using assms by (cases "MINIPC_GET_ATYPE w = ATYPE_ERROR")
      (simp_all add: take_reply_def Let_def word_of_le del: le_put.simps)
qed

lemma served:
  assumes "length req + length rest = 1044" "0 < length req" "rest = drop (length req) spkt"
    and "mpc_find (req @ rest) (flist link) = Some f" "fl_pd f = pd" "\<not> memaddr link"
    and "MINIPC_GET_ATYPE (pd_retval pd) \<noteq> ATYPE_STRING"
    and "run_state (fl_f f pd (drop 20 (req @ rest)) (drop 4 sout)) s = ((i, e, val), s')"
  shows "run_state (serve pos spkt sout link req) s =
    (let out = (if i < 0 then replied (MINIPC_ARG_ENCODE ATYPE_ERROR 4) (le_put 4 e @ drop 4 val)
                else replied (pd_retval pd) val)
     in ((Some (take (reply_size out) out), link), s'))"
  using assms
  by (simp add: serve_def mpc_handle_client_def mpc_reply_def replied_def Let_def split_beta
      del: le_put.simps)

text \<open>
  The call and the service put together: \<open>a\<close> is the argument area the function finds.
\<close>

lemma remote_call:
  assumes "typed (pd_args pd) vs" "arg_words vs + 2 < 256" "length (pd_name pd) = 20" "0 \<in> set (pd_name pd)"
    and "magic ch = MPC_MAGIC" "\<not> memaddr ch" "\<not> memaddr link"
    and "mpc_find (pd_name pd) (flist link) = Some f" "fl_pd f = pd"
    and "MINIPC_GET_ATYPE (pd_retval pd) \<noteq> ATYPE_STRING" "MINIPC_GET_ATYPE (pd_retval pd) \<noteq> ATYPE_ERROR"
    and "4 \<le> MINIPC_GET_ASIZE (pd_retval pd)" "MINIPC_GET_ASIZE (pd_retval pd) \<le> 1024"
    and "length pkt = 1044" "length rep = 1028" "length spkt = 1044" "length sout = 1028"
    and "\<And>a. length (snd (snd (fst (run_state (fl_f f pd a (drop 4 sout)) s)))) = 1024"
  obtains req a where "request False pd vs pkt = Inr req" "read_args (pd_args pd) 0 a = vs"
    "\<And>i e val s'. run_state (fl_f f pd a (drop 4 sout)) s = ((i, e, val), s') \<Longrightarrow>
      exec (serve pos spkt sout link req) s = s' \<and>
      minipc_call (rpc_net pos spkt sout link s) pkt rep ch pd vs ret errno = Inr (
        if i < 0 then failed EREMOTEIO (le_put 4 e @ drop 4 ret)
        else \<lparr>rc = 0, rc_errno = errno, rc_ret = take (MINIPC_GET_ASIZE (pd_retval pd)) val @
          drop (MINIPC_GET_ASIZE (pd_retval pd)) ret\<rparr>)"
proof -
  obtain req where req: "request False pd vs pkt = Inr req" "20 \<le> length req" "length req \<le> 1044"
    and rd: "\<And>rest. length (req @ rest) = 1044 \<Longrightarrow> take 20 (req @ rest) = pd_name pd \<and>
       read_args (pd_args pd) 0 (drop 20 (req @ rest)) = vs"
    using request_read [OF assms(1,2,14,3)] by blast
  define rest where "rest = drop (length req) spkt"
  define a where "a = drop 20 (req @ rest)"
  have rest: "length req + length rest = 1044" using req(3) assms(16) by (simp add: rest_def)
  with rd [of rest] have name: "take 20 (req @ rest) = pd_name pd" and vs: "read_args (pd_args pd) 0 a = vs"
    by (simp_all add: a_def)
  have found: "mpc_find (req @ rest) (flist link) = Some f"
    using assms(4,8) name rest req(2) by (simp add: mpc_find_def cstr_name [of "req @ rest" "pd_name pd"])
  obtain i e val s' where run: "run_state (fl_f f pd a (drop 4 sout)) s = ((i, e, val), s')" by (metis prod.exhaust)
  have val: "length val = 1024" using assms(18) [of a] by (simp add: run)
  define n where "n = MINIPC_GET_ASIZE (pd_retval pd)"
  define w where "w = (if i < 0 then MINIPC_ARG_ENCODE ATYPE_ERROR 4 else pd_retval pd)"
  define v where "v = (if i < 0 then le_put 4 e @ drop 4 val else val)"
  have w: "4 \<le> MINIPC_GET_ASIZE w" "MINIPC_GET_ASIZE w \<le> 1024" and v: "length v = 1024"
    using assms(12,13) val error_type(2) by (auto simp: w_def v_def)
  have srv: "run_state (serve pos spkt sout link req) s =
      ((Some (take (4 + MINIPC_GET_ASIZE w) (replied w v)), link), s')"
  proof -
    have "mpc_find (req @ rest) (flist link) = Some f" by (rule found)
    moreover have "0 < length req" using req(2) by linarith
    moreover have "(if i < 0 then replied (MINIPC_ARG_ENCODE ATYPE_ERROR 4) (le_put 4 e @ drop 4 val)
        else replied (pd_retval pd) val) = replied w v" by (simp add: w_def v_def)
    ultimately show ?thesis
      using served [OF rest _ rest_def _ assms(9,7,10) run [unfolded a_def], where pos = pos]
      by (simp only: Let_def replied_size)
  qed
  have call: "minipc_call (rpc_net pos spkt sout link s) pkt rep ch pd vs ret errno =
      Inr (take_reply pd (4 + int (MINIPC_GET_ASIZE w)) (int n + 4)
        (take (4 + MINIPC_GET_ASIZE w) (replied w v) @ drop (4 + MINIPC_GET_ASIZE w) rep) ret errno)"
    using w(2) v by (simp add: minipc_call_def assms(5,6) req(1) rpc_net_def srv Let_def n_def replied_def min_def del: le_put.simps)
  have "take_reply pd (4 + int (MINIPC_GET_ASIZE w)) (int n + 4)
      (take (4 + MINIPC_GET_ASIZE w) (replied w v) @ drop (4 + MINIPC_GET_ASIZE w) rep) ret errno =
    (if i < 0 then failed EREMOTEIO (le_put 4 e @ drop 4 ret)
     else \<lparr>rc = 0, rc_errno = errno, rc_ret = take n val @ drop n ret\<rparr>)"
    using v w assms(11) error_type(1)
    by (subst reply_taken) (auto simp: w_def v_def n_def)
  then have "minipc_call (rpc_net pos spkt sout link s) pkt rep ch pd vs ret errno = Inr (
      if i < 0 then failed EREMOTEIO (le_put 4 e @ drop 4 ret)
      else \<lparr>rc = 0, rc_errno = errno, rc_ret = take n val @ drop n ret\<rparr>)"
    by (simp only: call)
  with req(1) vs run show thesis
    by (intro that [of req a]) (auto simp: Let_def exec_def srv n_def)
qed

section \<open>Properties\<close>

text \<open>
  C7. A remote call is a call: for arguments of the declared types that fit, a client that calls
  an exported function through a socket has the server run it on arguments that read back as the
  ones passed, with the effect of that call on the server's state and no other, and gets its
  value, or EREMOTEIO and the server's error in the place of the value. The type of the value
  must be fixed and at least an \<open>int\<close> long: a shorter reply is refused as too short.
\<close>
theorem rpc_transparent:
  assumes "typed (pd_args pd) vs" "arg_words vs + 2 < 256" "length (pd_name pd) = 20" "0 \<in> set (pd_name pd)"
    and "magic ch = MPC_MAGIC" "\<not> memaddr ch" "\<not> memaddr link"
    and "mpc_find (pd_name pd) (flist link) = Some f" "fl_pd f = pd"
    and "MINIPC_GET_ATYPE (pd_retval pd) \<noteq> ATYPE_STRING" "MINIPC_GET_ATYPE (pd_retval pd) \<noteq> ATYPE_ERROR"
    and "4 \<le> MINIPC_GET_ASIZE (pd_retval pd)" "MINIPC_GET_ASIZE (pd_retval pd) \<le> 1024"
    and "length pkt = 1044" "length rep = 1028" "length spkt = 1044" "length sout = 1028"
    and "\<And>a. length (snd (snd (fst (run_state (fl_f f pd a (drop 4 sout)) s)))) = 1024"
  shows "\<exists>req a. request False pd vs pkt = Inr req \<and> read_args (pd_args pd) 0 a = vs \<and>
    (let ((i, e, val), s') = run_state (fl_f f pd a (drop 4 sout)) s; n = MINIPC_GET_ASIZE (pd_retval pd)
     in exec (serve pos spkt sout link req) s = s' \<and>
        minipc_call (rpc_net pos spkt sout link s) pkt rep ch pd vs ret errno = Inr (
          if i < 0 then failed EREMOTEIO (le_put 4 e @ drop 4 ret)
          else \<lparr>rc = 0, rc_errno = errno, rc_ret = take n val @ drop n ret\<rparr>))"
proof -
  obtain req a where c: "request False pd vs pkt = Inr req" "read_args (pd_args pd) 0 a = vs"
    and run: "\<And>i e val s'. run_state (fl_f f pd a (drop 4 sout)) s = ((i, e, val), s') \<Longrightarrow>
      exec (serve pos spkt sout link req) s = s' \<and>
      minipc_call (rpc_net pos spkt sout link s) pkt rep ch pd vs ret errno = Inr (
        if i < 0 then failed EREMOTEIO (le_put 4 e @ drop 4 ret)
        else \<lparr>rc = 0, rc_errno = errno, rc_ret = take (MINIPC_GET_ASIZE (pd_retval pd)) val @
          drop (MINIPC_GET_ASIZE (pd_retval pd)) ret\<rparr>)"
    using remote_call [OF assms, where ret = ret and errno = errno and pos = pos] by blast
  obtain i e val s' where "run_state (fl_f f pd a (drop 4 sout)) s = ((i, e, val), s')" by (metis prod.exhaust)
  with c run show ?thesis by (intro exI [of _ req] exI [of _ a]) (simp add: Let_def)
qed

text \<open>
  C32. What a client believes of a reply: the call succeeds exactly when the request was sent, a
  reply came, its type is the declared one and it is at least as long as the declared value; a
  failed \<open>recv\<close>, whose \<open>- 1\<close> passes the first test of the length, is caught by the second. But
  the number of octets copied to the caller's object is the one the reply states: a reply with
  a larger size than the declared one is written past the end of the object.
\<close>
theorem reply_checked:
  assumes "magic ch = MPC_MAGIC" "\<not> memaddr ch" "request False pd vs pkt = Inr req" "io = net req" "p = io_data io @ drop (length (io_data io)) rep"
    and "length p = 1028" "w = word_of_int (le_get (take 4 p))"
    and "- 9223372036854775808 \<le> io_recv io" "io_recv io < 9223372036854775808"
  shows "\<exists>r. minipc_call net pkt rep ch pd vs ret errno = Inr r \<and> rc r \<in> {- 1, 0} \<and>
    (rc r = 0 \<longleftrightarrow> 0 \<le> io_send io \<and> 0 < io_poll io \<and>
      MINIPC_GET_ATYPE w = MINIPC_GET_ATYPE (pd_retval pd) \<and> MINIPC_GET_ATYPE w \<noteq> ATYPE_ERROR \<and>
      8 \<le> io_recv io \<and> int (MINIPC_GET_ASIZE (pd_retval pd)) + 4 \<le> io_recv io) \<and>
    rc_ret r = (if rc r = 0 then take (MINIPC_GET_ASIZE w) (drop 4 p) @ drop (MINIPC_GET_ASIZE w) ret
                else if rc_errno r = EREMOTEIO \<and> 0 \<le> io_send io \<and> 0 < io_poll io
                then take 4 (drop 4 p) @ drop 4 ret else ret)"
proof -
  have short: "(word_of_int (io_recv io) :: u64) < 8 \<longleftrightarrow> 0 \<le> io_recv io \<and> io_recv io < 8"
  proof (cases "0 \<le> io_recv io")
    case True
    then have "uint (word_of_int (io_recv io) :: u64) = io_recv io"
      using assms(9) by (simp only: uint_word_of_int_eq) (rule take_bit_int_eq_self; simp)
    then show ?thesis using True by (simp only: word_less_def) simp
  next
    case False
    then have "(word_of_int (io_recv io) :: u64) = word_of_int (io_recv io + 18446744073709551616)"
      by (simp add: word_of_int_eq_iff take_bit_eq_mod)
    moreover have "uint (word_of_int (io_recv io + 18446744073709551616) :: u64) = io_recv io + 18446744073709551616"
      using False assms(8) by (simp only: uint_word_of_int_eq) (rule take_bit_int_eq_self; simp)
    ultimately show ?thesis using False assms(8) by (simp only: word_less_def) simp
  qed
  show ?thesis
    using assms(1-3) short
    by (auto simp: minipc_call_def take_reply_def failed_def Let_def
        assms(4) [symmetric] assms(5) [symmetric] assms(7) [symmetric])
qed

lemma free_all_logged: "logf link \<Longrightarrow> \<exists>l. free_all n link = Some l"
proof (induction n arbitrary: link)
  case (Suc n)
  then show ?case
    by (cases "flist link") (simp_all add: mpc_free_flist_def)
qed simp

text \<open>
  C33. Closing and unexporting do not undo what they should: a link that is closed is freed and
  stays in the list of links, closing a link with exported functions and no log ends the process,
  and \<open>minipc_unexport\<close> of an exported function reports success and leaves it exported, since no
  node has the address of the parameter.
\<close>
theorem minipc_forgets_nothing:
  assumes "mpc_links st a = Some link" "magic link = MPC_MAGIC" "a \<in> set (mpc_base st)"
    and "f \<in> set (flist link)" "local \<notin> fl_addr ` set (flist link)"
  shows "(if logf link
      then minipc_close a st = Some (0, st\<lparr>mpc_links := (mpc_links st)(a := None)\<rparr>)
      else minipc_close a st = None) \<and>
    minipc_unexport local (fl_pd f) link = Some (0, link)"
proof
  obtain g gs where fl: "flist link = g # gs" using assms(4) by (cases "flist link") auto
  show "if logf link
      then minipc_close a st = Some (0, st\<lparr>mpc_links := (mpc_links st)(a := None)\<rparr>)
      else minipc_close a st = None"
    using assms(1-3) fl free_all_logged [of link "length (flist link)"]
    by (auto simp: minipc_close_def mpc_free_flist_def)
  have "length (takeWhile (\<lambda>f. fl_addr f \<noteq> local) (flist link)) = length (flist link)"
    using assms(5) by (subst takeWhile_eq_all_conv [THEN iffD2]) auto
  with assms(2,4) show "minipc_unexport local (fl_pd f) link = Some (0, link)"
    by (auto simp: minipc_unexport_def mpc_free_flist_def)
qed

section \<open>Concrete runs\<close>

text \<open>A client of a procedure without arguments that returns an \<open>int\<close>.\<close>

definition a_link :: "unit mpc_link" where
  "a_link = \<lparr>lk_addr = 1, ch_fd = 3, magic = MPC_MAGIC, lk_flags = MPC_FLAG_CLIENT, flist = [],
     memaddr = False, logf = False, fd = replicate 64 0, fdset = {}, lk_name = []\<rparr>"

lemma a_link_facts: "magic a_link = MPC_MAGIC" "\<not> memaddr a_link"
  by (simp_all add: a_link_def)

definition a_pd :: minipc_pd where
  "a_pd = \<lparr>pd_name = replicate 20 0, pd_flags = 0, pd_retval = 0x00010004, pd_args = [0]\<rparr>"

definition a_function :: "unit mpc_flist" where
  "a_function = \<lparr>fl_addr = 7, fl_pd = a_pd, fl_f = (\<lambda>pd args val. State_Monad.return (0, 0, val))\<rparr>"

text \<open>A reply of type \<open>int\<close> that states eight octets, where four were declared.\<close>

definition long_reply :: rpc_io where
  "long_reply = \<lparr>io_send = 20, io_poll = 1, io_recv = 12,
     io_data = le_put 4 0x00010008 @ [1, 2, 3, 4, 5, 6, 7, 8], io_errno = 0\<rparr>"

lemma a_request: "request False a_pd [] (replicate 1044 0) = Inr (replicate 20 0)"
  by (simp add: request_def a_pd_def MINIPC_GET_ATYPE_def MINIPC_GET_ASIZE_def MINIPC_GET_ANUM_def Let_def)

text \<open>The four octets at \<open>ret\<close> and the four after them are overwritten.\<close>

lemma reply_checked_witness:
  "\<exists>r. minipc_call (\<lambda>_. long_reply) (replicate 1044 0) (replicate 1028 0) a_link a_pd [] [0, 0, 0, 0] 0 = Inr r \<and>
     rc_ret r = [1, 2, 3, 4, 5, 6, 7, 8]"
proof -
  have w: "word_of_int (le_get (take 4 (io_data long_reply @ drop (length (io_data long_reply)) (replicate 1028 0)))) =
      (0x00010008 :: u32)"
    by (simp add: long_reply_def le_get_put)
  show ?thesis
    using reply_checked [of a_link a_pd "[]" "replicate 1044 0" "replicate 20 0" long_reply "\<lambda>_. long_reply"
        _ "replicate 1028 0" _ "[0, 0, 0, 0]" 0, OF _ _ a_request refl refl _ refl]
    by (simp only: w) (auto simp: a_link_def a_pd_def long_reply_def MINIPC_GET_ATYPE_def MINIPC_GET_ASIZE_def)
qed

lemma minipc_forgets_nothing_witness:
  "minipc_close 1 \<lparr>mpc_base = [1], mpc_links = [1 \<mapsto> a_link\<lparr>flist := [a_function]\<rparr>], mpc_poll_usec = 10000\<rparr> = None \<and>
   minipc_unexport 5 a_pd (a_link\<lparr>flist := [a_function]\<rparr>) = Some (0, a_link\<lparr>flist := [a_function]\<rparr>)"
  using minipc_forgets_nothing [of "\<lparr>mpc_base = [1], mpc_links = [1 \<mapsto> a_link\<lparr>flist := [a_function]\<rparr>], mpc_poll_usec = 10000\<rparr>"
      1 "a_link\<lparr>flist := [a_function]\<rparr>" a_function 5]
  by (simp add: a_link_def a_function_def)

end
