(* ===== verification/Exports.thy ===== *)
theory Exports
  imports Servo Minipc
begin

text \<open>
  What the daemon exports to remote callers (ptpd\_exports.c): the state of the servo and the
  commands that steer it. \<open>layout\<close> is how the compiler lays out \<open>ptpdexp_sync_state_t\<close>, 168 octets,
  and \<open>garbage\<close> the uninitialised one a wrapper starts from.
\<close>

section \<open>The exported functions\<close>

definition c_name :: "u8 list \<Rightarrow> u8 list" where
  "c_name s = s @ replicate (20 - length s) 0"

definition rpcdef_get_sync_state :: minipc_pd where
  "rpcdef_get_sync_state = \<lparr>pd_name = c_name [0x67, 0x65, 0x74, 0x5f, 0x73, 0x79, 0x6e, 0x63, 0x5f, 0x73, 0x74, 0x61, 0x74, 0x65],
     pd_flags = 0, pd_retval = MINIPC_ARG_ENCODE ATYPE_STRUCT 168, pd_args = [MINIPC_ARG_ENCODE ATYPE_NONE 0]\<rparr>"

definition rpcdef_cmd :: minipc_pd where
  "rpcdef_cmd = \<lparr>pd_name = c_name [0x63, 0x6d, 0x64], pd_flags = 0, pd_retval = MINIPC_ARG_ENCODE ATYPE_INT 4,
     pd_args = [MINIPC_ARG_ENCODE ATYPE_INT 4, MINIPC_ARG_ENCODE ATYPE_INT 4, MINIPC_ARG_ENCODE ATYPE_NONE 0]\<rparr>"

definition export_get_sync_state ::
    "(ptpdexp_sync_state_t \<Rightarrow> u8 list) \<Rightarrow> ptpdexp_sync_state_t \<Rightarrow> sys minipc_f" where
  "export_get_sync_state layout garbage pd args ret = do {
     st \<leftarrow> ptpdexp_get_sync_state garbage;
     State_Monad.return (0, 0, layout st @ drop (length (layout st)) ret) }"

definition export_cmd :: "sys minipc_f" where
  "export_cmd pd args ret = do {
     i \<leftarrow> ptpdexp_cmd (s32 (le_get (get_block 4 0 args))) (s32 (le_get (get_block 4 4 args)));
     State_Monad.return (0, 0, le_put 4 i @ drop 4 ret) }"

text \<open>
  \<open>a\<close> and \<open>b\<close> are the nodes \<open>calloc\<close> gives; without a server the daemon dies at the first export.
\<close>

definition ptpd_init_exports ::
    "(ptpdexp_sync_state_t \<Rightarrow> u8 list) \<Rightarrow> ptpdexp_sync_state_t \<Rightarrow> create_io \<Rightarrow> nat option \<Rightarrow> nat option \<Rightarrow>
     sys mpc_state \<Rightarrow> (nat \<times> sys mpc_state) option" where
  "ptpd_init_exports layout garbage io a b st =
    (case minipc_server_create io [0x70, 0x74, 0x70, 0x64] 0 st of
       (None, _) \<Rightarrow> None
     | (Some ch, st) \<Rightarrow> Some (ch, st\<lparr>mpc_links := (mpc_links st)(ch := map_option
         (\<lambda>l. snd (minipc_export b rpcdef_cmd export_cmd
                (snd (minipc_export a rpcdef_get_sync_state (export_get_sync_state layout garbage) l))))
         (mpc_links st ch))\<rparr>))"

definition ptpd_handle_wripc ::
    "int \<Rightarrow> int \<Rightarrow> int set \<Rightarrow> (nat \<Rightarrow> client_io) \<Rightarrow> int \<Rightarrow> sys mpc_link \<Rightarrow> ((nat \<times> u8 list) list \<times> sys mpc_link) cmd" where
  "ptpd_handle_wripc n errno ready io newfd link = do {
     r \<leftarrow> minipc_server_action n errno ready io newfd link;
     State_Monad.return (snd r) }"

section \<open>An exported command from the other side\<close>

definition cmd_node :: "nat \<Rightarrow> sys mpc_flist" where
  "cmd_node b = \<lparr>fl_addr = b, fl_pd = rpcdef_cmd, fl_f = export_cmd\<rparr>"

definition state_node :: "(ptpdexp_sync_state_t \<Rightarrow> u8 list) \<Rightarrow> ptpdexp_sync_state_t \<Rightarrow> nat \<Rightarrow> sys mpc_flist" where
  "state_node layout garbage a = \<lparr>fl_addr = a, fl_pd = rpcdef_get_sync_state, fl_f = export_get_sync_state layout garbage\<rparr>"

lemma atype_encode [simp]:
  "MINIPC_GET_ATYPE (MINIPC_ARG_ENCODE ATYPE_INT 4) = ATYPE_INT" "MINIPC_GET_ASIZE (MINIPC_ARG_ENCODE ATYPE_INT 4) = 4"
  "MINIPC_GET_ATYPE (MINIPC_ARG_ENCODE ATYPE_NONE 0) = ATYPE_NONE" "MINIPC_GET_ASIZE (MINIPC_ARG_ENCODE ATYPE_NONE 0) = 0"
  by (simp_all add: MINIPC_GET_ATYPE_def MINIPC_GET_ASIZE_def MINIPC_ARG_ENCODE_def)

lemma c_name_in: "length s < 20 \<Longrightarrow> 0 \<in> set (c_name s)"
  by (simp add: c_name_def)

lemma cmd_def_facts:
  "length (pd_name rpcdef_cmd) = 20" "pd_retval rpcdef_cmd = MINIPC_ARG_ENCODE ATYPE_INT 4"
  "pd_args rpcdef_cmd = [MINIPC_ARG_ENCODE ATYPE_INT 4, MINIPC_ARG_ENCODE ATYPE_INT 4, MINIPC_ARG_ENCODE ATYPE_NONE 0]"
  "0 \<in> set (pd_name rpcdef_cmd)"
  by (simp_all add: rpcdef_cmd_def c_name_def)

definition ptpd_link :: "nat \<Rightarrow> sys mpc_link" where
  "ptpd_link b = \<lparr>lk_addr = 0, ch_fd = 3, magic = MPC_MAGIC, lk_flags = MPC_FLAG_SERVER, flist = [cmd_node b],
     memaddr = False, logf = False, fd = replicate 64 (- 1), fdset = {3}, lk_name = []\<rparr>"

lemma ptpd_link_facts: "\<not> memaddr (ptpd_link b)" "mpc_find (pd_name rpcdef_cmd) (flist (ptpd_link b)) = Some (cmd_node b)"
  by (simp_all add: ptpd_link_def mpc_find_def cmd_node_def)

lemma state_def_facts:
  "length (pd_name rpcdef_get_sync_state) = 20" "pd_args rpcdef_get_sync_state = [MINIPC_ARG_ENCODE ATYPE_NONE 0]"
  "0 \<in> set (pd_name rpcdef_get_sync_state)"
  "MINIPC_GET_ATYPE (pd_retval rpcdef_get_sync_state) = ATYPE_STRUCT" "MINIPC_GET_ASIZE (pd_retval rpcdef_get_sync_state) = 168"
  by (simp_all add: rpcdef_get_sync_state_def c_name_def MINIPC_GET_ATYPE_def MINIPC_GET_ASIZE_def MINIPC_ARG_ENCODE_def)

lemma exports_made:
  assumes "ptpd_init_exports layout garbage io (Some a) (Some b) st = Some (k, st')" "mpc_links st' k = Some link"
  shows "flist link = [cmd_node b, state_node layout garbage a]" "\<not> memaddr link" "magic link = MPC_MAGIC"
  using assms
  by (auto simp: ptpd_init_exports_def minipc_server_create_def minipc_link_create_def minipc_export_def
      cmd_node_def state_node_def Let_def split: option.splits prod.splits if_splits)

lemma exports_found:
  "mpc_find (pd_name rpcdef_cmd) [cmd_node b, state_node layout garbage a] = Some (cmd_node b)"
  "mpc_find (pd_name rpcdef_get_sync_state) [cmd_node b, state_node layout garbage a] = Some (state_node layout garbage a)"
  by (simp_all add: mpc_find_def cmd_node_def state_node_def cstr_def rpcdef_cmd_def rpcdef_get_sync_state_def c_name_def)

lemma cmd_args:
  assumes "read_args (pd_args rpcdef_cmd) 0 a = [AInt c, AInt v]"
  shows "s32 (le_get (get_block 4 0 a)) = c" "s32 (le_get (get_block 4 4 a)) = v"
  using assms by (simp_all add: cmd_def_facts minipc_get_next_arg_def MINIPC_GET_ANUM_def)

lemma call_cmd:
  assumes "- 2147483648 \<le> c" "c < 2147483648" "- 2147483648 \<le> v" "v < 2147483648"
    and "magic ch = MPC_MAGIC" "\<not> memaddr ch" "\<not> memaddr link"
    and "mpc_find (pd_name rpcdef_cmd) (flist link) = Some (cmd_node b)"
    and "length pkt = 1044" "length rep = 1028" "length spkt = 1044" "length sout = 1028"
  shows "\<exists>req. request False rpcdef_cmd [AInt c, AInt v] pkt = Inr req \<and>
    exec (serve pos spkt sout link req) s = exec (ptpdexp_cmd c v) s \<and>
    minipc_call (rpc_net pos spkt sout link s) pkt rep ch rpcdef_cmd [AInt c, AInt v] ret errno =
      Inr \<lparr>rc = 0, rc_errno = errno, rc_ret = le_put 4 (fst (run_state (ptpdexp_cmd c v) s)) @ drop 4 ret\<rparr>"
proof -
  have facts: "typed (pd_args rpcdef_cmd) [AInt c, AInt v]" "arg_words [AInt c, AInt v] + 2 < 256"
    "fl_pd (cmd_node b) = rpcdef_cmd"
    "MINIPC_GET_ATYPE (pd_retval rpcdef_cmd) \<noteq> ATYPE_STRING" "MINIPC_GET_ATYPE (pd_retval rpcdef_cmd) \<noteq> ATYPE_ERROR"
    "4 \<le> MINIPC_GET_ASIZE (pd_retval rpcdef_cmd)" "MINIPC_GET_ASIZE (pd_retval rpcdef_cmd) \<le> 1024"
    "\<And>a. length (snd (snd (fst (run_state (fl_f (cmd_node b) rpcdef_cmd a (drop 4 sout)) s)))) = 1024"
    using assms(1-4,12) by (simp_all add: cmd_def_facts export_cmd_def split_beta cmd_node_def)
  obtain req a where req: "request False rpcdef_cmd [AInt c, AInt v] pkt = Inr req"
    and a: "read_args (pd_args rpcdef_cmd) 0 a = [AInt c, AInt v]"
    and run: "\<And>i e val s'. run_state (fl_f (cmd_node b) rpcdef_cmd a (drop 4 sout)) s = ((i, e, val), s') \<Longrightarrow>
      exec (serve pos spkt sout link req) s = s' \<and>
      minipc_call (rpc_net pos spkt sout link s) pkt rep ch rpcdef_cmd [AInt c, AInt v] ret errno = Inr (
        if i < 0 then failed EREMOTEIO (le_put 4 e @ drop 4 ret)
        else \<lparr>rc = 0, rc_errno = errno, rc_ret = take (MINIPC_GET_ASIZE (pd_retval rpcdef_cmd)) val @
          drop (MINIPC_GET_ASIZE (pd_retval rpcdef_cmd)) ret\<rparr>)"
    using remote_call [OF facts(1,2) cmd_def_facts(1,4) assms(5-8) facts(3-7) assms(9-12) facts(8),
      where ret = ret and errno = errno and pos = pos] by blast
  obtain i s' where i: "run_state (ptpdexp_cmd c v) s = (i, s')" by (metis prod.exhaust)
  then have "run_state (fl_f (cmd_node b) rpcdef_cmd a (drop 4 sout)) s = ((0, 0, le_put 4 i @ drop 8 sout), s')"
    by (simp add: export_cmd_def cmd_args [OF a] cmd_node_def)
  from run [OF this] i req show ?thesis by (simp add: exec_def cmd_def_facts)
qed

lemma call_get_sync_state:
  assumes "\<And>e. length (layout e) = 168"
    and "magic ch = MPC_MAGIC" "\<not> memaddr ch" "\<not> memaddr link"
    and "mpc_find (pd_name rpcdef_get_sync_state) (flist link) = Some (state_node layout garbage a)"
    and "length pkt = 1044" "length rep = 1028" "length spkt = 1044" "length sout = 1028"
  shows "\<exists>req. request False rpcdef_get_sync_state [] pkt = Inr req \<and>
    exec (serve pos spkt sout link req) s = s \<and>
    minipc_call (rpc_net pos spkt sout link s) pkt rep ch rpcdef_get_sync_state [] ret errno =
      Inr \<lparr>rc = 0, rc_errno = errno, rc_ret = layout (if servo_state_valid s then (cur_servo_state s)\<lparr>es_valid := True\<rparr>
        else garbage\<lparr>es_valid := False\<rparr>) @ drop 168 ret\<rparr>"
proof -
  let ?pd = rpcdef_get_sync_state
  define r where "r = layout (if servo_state_valid s then (cur_servo_state s)\<lparr>es_valid := True\<rparr> else garbage\<lparr>es_valid := False\<rparr>)"
  have r: "length r = 168" unfolding r_def by (rule assms(1))
  have got: "run_state (fl_f (state_node layout garbage a) ?pd x (drop 4 sout)) s = ((0, 0, r @ drop 172 sout), s)" for x
    by (simp add: export_get_sync_state_def ptpdexp_get_sync_state_def state_node_def assms(1) r_def)
  have facts: "typed (pd_args ?pd) []" "arg_words [] + 2 < 256" "fl_pd (state_node layout garbage a) = ?pd"
    "MINIPC_GET_ATYPE (pd_retval ?pd) \<noteq> ATYPE_STRING" "MINIPC_GET_ATYPE (pd_retval ?pd) \<noteq> ATYPE_ERROR"
    "4 \<le> MINIPC_GET_ASIZE (pd_retval ?pd)" "MINIPC_GET_ASIZE (pd_retval ?pd) \<le> 1024"
    by (simp_all add: state_def_facts) (simp add: state_node_def)
  have len: "length (snd (snd (fst (run_state (fl_f (state_node layout garbage a) ?pd x (drop 4 sout)) s)))) = 1024" for x
    using r assms(9) by (simp add: got)
  obtain req x where req: "request False ?pd [] pkt = Inr req" and "read_args (pd_args ?pd) 0 x = []"
    and run: "\<And>i e val s'. run_state (fl_f (state_node layout garbage a) ?pd x (drop 4 sout)) s = ((i, e, val), s') \<Longrightarrow>
      exec (serve pos spkt sout link req) s = s' \<and>
      minipc_call (rpc_net pos spkt sout link s) pkt rep ch ?pd [] ret errno = Inr (
        if i < 0 then failed EREMOTEIO (le_put 4 e @ drop 4 ret)
        else \<lparr>rc = 0, rc_errno = errno, rc_ret = take (MINIPC_GET_ASIZE (pd_retval ?pd)) val @
          drop (MINIPC_GET_ASIZE (pd_retval ?pd)) ret\<rparr>)"
    by (rule remote_call [OF facts(1,2) state_def_facts(1,3) assms(2-5) facts(3-7) assms(6-9) len,
      where ret = ret and errno = errno and pos = pos]) (rule that)
  from run [OF got] req r show ?thesis by (simp add: state_def_facts r_def [symmetric])
qed

text \<open>
  C14. A command given from another process is the command. For the link that
  \<open>ptpd_init_exports\<close> made: a client that calls \<open>cmd\<close> changes the daemon's state just as
  \<open>ptpdexp_cmd\<close> with the same two integers does, and finds its value at \<open>ret\<close>; a client that
  calls \<open>get_sync_state\<close> changes nothing and gets the octets of the servo's state when it is
  valid, and an uninitialised object marked as not valid otherwise.
\<close>
theorem remote_control:
  assumes "ptpd_init_exports layout garbage io (Some a) (Some b) st = Some (k, st')" "mpc_links st' k = Some link"
    and "- 2147483648 \<le> c" "c < 2147483648" "- 2147483648 \<le> v" "v < 2147483648" "\<And>e. length (layout e) = 168"
    and "magic ch = MPC_MAGIC" "\<not> memaddr ch"
    and "length pkt = 1044" "length rep = 1028" "length spkt = 1044" "length sout = 1028"
  shows "\<exists>req req'. request False rpcdef_cmd [AInt c, AInt v] pkt = Inr req \<and>
    exec (serve pos spkt sout link req) s = exec (ptpdexp_cmd c v) s \<and>
    minipc_call (rpc_net pos spkt sout link s) pkt rep ch rpcdef_cmd [AInt c, AInt v] ret errno =
      Inr \<lparr>rc = 0, rc_errno = errno, rc_ret = le_put 4 (fst (run_state (ptpdexp_cmd c v) s)) @ drop 4 ret\<rparr> \<and>
    request False rpcdef_get_sync_state [] pkt = Inr req' \<and>
    exec (serve pos spkt sout link req') s = s \<and>
    minipc_call (rpc_net pos spkt sout link s) pkt rep ch rpcdef_get_sync_state [] ret errno =
      Inr \<lparr>rc = 0, rc_errno = errno, rc_ret = layout (if servo_state_valid s then (cur_servo_state s)\<lparr>es_valid := True\<rparr>
        else garbage\<lparr>es_valid := False\<rparr>) @ drop 168 ret\<rparr>"
proof -
  note link = exports_made [OF assms(1,2)]
  note cmd = call_cmd [OF assms(3-6,8,9) link(2), where b = b, OF _ assms(10-13), unfolded link(1), OF exports_found(1)]
  note st = call_get_sync_state [OF assms(7-9) link(2), OF _ assms(10-13), unfolded link(1), OF exports_found(2)]
  show ?thesis using cmd [of pos s ret errno] st [of pos s ret errno] by blast
qed

definition no_memory :: mem_io where
  "no_memory = \<lparr>io_sscanf_shm = 0, io_shmget = - 1, io_shmat = False, io_sscanf_mem = 0, io_open = - 1, io_mmap = False,
     io_uninit = False, io_pipe = - 1, io_pipe_fd = 0, io_fork = - 1\<rparr>"

definition a_listener :: create_io where
  "a_listener = \<lparr>cr_calloc = Some 1, cr_mem = no_memory, cr_socket = 3, cr_bind = 0, cr_listen = 0, cr_connect = - 1\<rparr>"

lemma remote_control_witness:
  "\<exists>link req. request False rpcdef_cmd [AInt 1, AInt 0] (replicate 1044 0) = Inr req \<and>
     tracking_enabled (exec (serve 0 (replicate 1044 0) (replicate 1028 0) link req) sys_zero) = 0"
proof -
  let ?st = "\<lparr>mpc_base = [], mpc_links = \<lambda>_. None, mpc_poll_usec = 10000\<rparr> :: sys mpc_state"
  let ?i = "ptpd_init_exports (\<lambda>_. replicate 168 0) (cur_servo_state sys_zero) a_listener (Some 2) (Some 3) ?st"
  obtain k st' link where i: "?i = Some (k, st')" "mpc_links st' k = Some link"
    by (simp add: ptpd_init_exports_def minipc_server_create_def minipc_link_create_def a_listener_def Let_def)
  obtain req where "request False rpcdef_cmd [AInt 1, AInt 0] (replicate 1044 0) = Inr req"
    "exec (serve 0 (replicate 1044 0) (replicate 1028 0) link req) sys_zero = exec (ptpdexp_cmd 1 0) sys_zero"
    using remote_control [OF i, of 1 0 a_link "replicate 1044 0" "replicate 1028 0" "replicate 1044 0" "replicate 1028 0" 0 sys_zero]
    by (auto simp: a_link_facts)
  moreover have "tracking_enabled (exec (ptpdexp_cmd 1 0) sys_zero) = 0"
    by (simp add: ptpdexp_cmd_def wr_servo_enable_tracking_def exec_bind exec_when)
  ultimately show ?thesis by metis
qed

lemma le_put_zero: "le_put 4 0 = [0, 0, 0, 0]"
  by (simp add: eval_nat_numeral)

lemma rpc_transparent_witness:
  "\<exists>r. minipc_call (rpc_net 0 (replicate 1044 0) (replicate 1028 0) (ptpd_link 3) sys_zero) (replicate 1044 0)
     (replicate 1028 0) a_link rpcdef_cmd [AInt 1, AInt 0] [9, 9, 9, 9] 0 = Inr r \<and> rc_ret r = [0, 0, 0, 0]"
  using rpc_transparent [of rpcdef_cmd "[AInt 1, AInt 0]" a_link "ptpd_link 3" "cmd_node 3" "replicate 1044 0" "replicate 1028 0"
      "replicate 1044 0" "replicate 1028 0" sys_zero 0 "[9, 9, 9, 9]" 0]
  by (auto simp: cmd_def_facts ptpd_link_facts a_link_facts cmd_node_def export_cmd_def ptpdexp_cmd_def split_beta Let_def le_put_zero)

end
