(* ===== verification/Freestanding.thy ===== *)
theory Freestanding
  imports NetIf Startup
begin

text \<open>
  The port that runs without an operating system: the network interface on the functions of the
  board (libposix/freestanding-wrapper.c) and the start without options
  (libposix/freestanding-startup.c). The board support package is not part of this repository:
  what its functions answer during a call is the record \<open>board\<close>, what is asked of it a list of
  commands.
\<close>

section \<open>The board\<close>

text \<open>
  \<open>b_ptracker\<close> is the result of \<open>spll_read_ptracker\<close> and the phase it writes; \<open>b_transition\<close> and
  \<open>b_alpha\<close> are the variables \<open>cal_phase_transition\<close> and \<open>sfp_alpha\<close>; \<open>b_master\<close> says whether
  \<open>WRPC_MASTER\<close> is defined.
\<close>

record board =
  b_master :: bool
  b_tics :: u64
  b_deltas :: "u32 \<times> u32"
  b_ptracker :: "bool \<times> int"
  b_link_up :: int
  b_lock :: int
  b_phase_shift :: u32
  b_transition :: int
  b_alpha :: int
  b_mac :: "u8 list"
  b_pps_busy :: bool
  b_shifter_busy :: bool

datatype board_cmd =
  CalPatternEnable
| CalPatternDisable
| SpllInitSlave
| EnablePtracker
| PpsOutput int
| PpsAdjustSec int
| PpsAdjustNsec int
| PhaseShift int

section \<open>The state of the port\<close>

record fs_port_state = hexp_port_state +
  hps_is_locked :: int
  hps_lock_priority :: int
  hps_phase_setpoint :: u32
  hps_t4_phase_transition :: u32
  hps_hw_addr :: "u8 list"
  hps_hw_index :: int

definition read_phase_val :: "board \<Rightarrow> fs_port_state \<Rightarrow> fs_port_state" where
  "read_phase_val b st =
    (if fst (b_ptracker b)
     then st\<lparr>hps_phase_val := word_of_int (snd (b_ptracker b)), hps_phase_val_valid := True\<rparr>
     else st\<lparr>hps_phase_val := 0, hps_phase_val_valid := False\<rparr>)"

text \<open>\<open>u\<close> is the caller's uninitialised object; every field the daemon reads is written.\<close>

definition fs_get_port_state :: "board \<Rightarrow> fs_port_state \<Rightarrow> int \<times> fs_port_state" where
  "fs_get_port_state b u =
    (let st = u\<lparr>hps_valid := True, hps_mode := (if b_master b then 1 else 2),
                hps_delta_tx := fst (b_deltas b), hps_delta_rx := snd (b_deltas b)\<rparr>;
         st = read_phase_val b st
     in (0, st\<lparr>hps_up := b_link_up b, hps_tx_calibrated := True, hps_rx_calibrated := True,
          hps_is_locked := b_lock b, hps_lock_priority := 0, hps_phase_setpoint := b_phase_shift b,
          hps_clock_period := 8000, hps_t2_phase_transition := word_of_int (b_transition b),
          hps_t4_phase_transition := word_of_int (b_transition b), hps_hw_addr := b_mac b,
          hps_hw_index := 0, hps_fiber_fix_alpha := b_alpha b\<rparr>))"

section \<open>Calibration\<close>

text \<open>
  The return code and the four outputs; \<open>None\<close> where an output is not written. \<open>wanted\<close> says which
  of the four pointers are not NULL.
\<close>

record cal_out =
  out_delta_tx :: "u64 option"
  out_delta_rx :: "u64 option"
  out_alpha :: "int option"
  out_clock_period :: "int option"

definition fs_read_calibration_data ::
    "board \<Rightarrow> fs_port_state \<Rightarrow> bool \<times> bool \<times> bool \<times> bool \<Rightarrow> int \<times> cal_out" where
  "fs_read_calibration_data b u wanted =
    (let (w_tx, w_rx, w_alpha, w_period) = wanted;
         st = snd (fs_get_port_state b u);
         none = \<lparr>out_delta_tx = None, out_delta_rx = None, out_alpha = None, out_clock_period = None\<rparr>;
         out = none\<lparr>out_alpha := (if w_alpha then Some (hps_fiber_fix_alpha st) else None),
                    out_clock_period := (if w_period then Some (s32 (uint (hps_clock_period st))) else None)\<rparr>;
         out_tx = out\<lparr>out_delta_tx := (if w_tx then Some (ucast (hps_delta_tx st)) else None)\<rparr>;
         out_rx = out_tx\<lparr>out_delta_rx := (if w_rx then Some (ucast (hps_delta_rx st)) else None)\<rparr>
     in if \<not> hps_valid st then (PTPD_NETIF_OK, none)
        else if \<not> hps_tx_calibrated st then (PTPD_NETIF_NOT_FOUND, out)
        else if \<not> hps_rx_calibrated st then (PTPD_NETIF_NOT_FOUND, out_tx)
        else (PTPD_NETIF_OK, out_rx))"

text \<open>\<open>u_tx\<close> and \<open>u_rx\<close> are the two uninitialised locals.\<close>

definition fs_calibrating_poll :: "board \<Rightarrow> fs_port_state \<Rightarrow> u64 \<Rightarrow> u64 \<Rightarrow> int \<Rightarrow> int \<times> u64" where
  "fs_calibrating_poll b u u_tx u_rx txrx =
    (let out = snd (fs_read_calibration_data b u (True, True, False, False));
         d_tx = (case out_delta_tx out of None \<Rightarrow> u_tx | Some d \<Rightarrow> d);
         d_rx = (case out_delta_rx out of None \<Rightarrow> u_rx | Some d \<Rightarrow> d)
     in (PTPD_NETIF_READY, if txrx = PTPD_NETIF_TX then d_tx else d_rx))"

definition fs_calibrating_enable :: int where "fs_calibrating_enable = PTPD_NETIF_OK"

definition fs_calibrating_disable :: int where "fs_calibrating_disable = PTPD_NETIF_OK"

definition fs_calibration_pattern_enable :: "int \<times> board_cmd list" where
  "fs_calibration_pattern_enable = (PTPD_NETIF_OK, [CalPatternEnable])"

definition fs_calibration_pattern_disable :: "int \<times> board_cmd list" where
  "fs_calibration_pattern_disable = (PTPD_NETIF_OK, [CalPatternDisable])"

section \<open>Locking and the clock\<close>

definition fs_netif_get_port_state :: "board \<Rightarrow> int" where
  "fs_netif_get_port_state b = (if b_link_up b \<noteq> 0 then PTPD_NETIF_OK else PTPD_NETIF_ERROR)"

definition fs_get_ifName :: "int \<Rightarrow> int \<times> string" where
  "fs_get_ifName number = (PTPD_NETIF_OK, ''wr0'')"

definition fs_locking_disable :: int where "fs_locking_disable = PTPD_NETIF_OK"

definition fs_locking_enable :: "int \<times> board_cmd list" where
  "fs_locking_enable = (PTPD_NETIF_OK, [SpllInitSlave, EnablePtracker])"

definition fs_locking_poll :: "board \<Rightarrow> int" where
  "fs_locking_poll b = (if b_lock b \<noteq> 0 then PTPD_NETIF_READY else PTPD_NETIF_ERROR)"

definition fs_enable_phase_tracking :: "int \<times> board_cmd list" where
  "fs_enable_phase_tracking = (PTPD_NETIF_OK, [EnablePtracker])"

definition fs_enable_timing_output :: "int \<Rightarrow> int \<times> board_cmd list" where
  "fs_enable_timing_output enable = (PTPD_NETIF_OK, [PpsOutput enable])"

definition fs_adjust_in_progress :: "board \<Rightarrow> int" where
  "fs_adjust_in_progress b = (if b_pps_busy b \<or> b_shifter_busy b then 1 else 0)"

definition fs_adjust_counters :: "int \<Rightarrow> int \<Rightarrow> int \<times> board_cmd list" where
  "fs_adjust_counters adjust_sec adjust_nsec =
    (0, (if adjust_sec \<noteq> 0 then [PpsAdjustSec adjust_sec] else []) @
        (if adjust_nsec \<noteq> 0 then [PpsAdjustNsec adjust_nsec] else []))"

text \<open>The function ends without a value: \<open>u\<close> is the one its caller finds.\<close>

definition fs_adjust_phase :: "int \<Rightarrow> int \<Rightarrow> int \<times> board_cmd list" where
  "fs_adjust_phase u phase_ps = (u, [PhaseShift phase_ps])"

definition fs_extsrc_detection :: int where "fs_extsrc_detection = PTPD_NETIF_OK"

definition fs_get_dmtd_phase :: "board \<Rightarrow> bool \<Rightarrow> int option" where
  "fs_get_dmtd_phase b wanted = (if wanted then Some (snd (b_ptracker b)) else None)"

definition fs_get_msec_tics :: "board \<Rightarrow> u64" where
  "fs_get_msec_tics b = b_tics b"

text \<open>The turns of the loop of \<open>usleep\<close>, whose test decrements after it.\<close>

function usleep_turns :: "u32 \<Rightarrow> nat" where
  "usleep_turns useconds = (if useconds = 0 then 0 else Suc (usleep_turns (useconds - 1)))"
  by auto
termination by (relation "measure unat") (auto simp: unat_minus_one unat_gt_0)

declare usleep_turns.simps [simp del]

lemma usleep_turns_eq: "usleep_turns n = unat n"
proof (induction n rule: usleep_turns.induct)
  case (1 n)
  then show ?case
    by (cases "n = 0") (simp_all add: usleep_turns.simps [of n] usleep_turns.simps [of 0] unat_minus_one unat_gt_0)
qed

section \<open>The start\<close>

text \<open>
  Built with \<open>WRPC_EXTRA_SLIM\<close> the daemon has one port and one foreign record for it; the
  options are those compiled in, but for the name of the interface.
\<close>

abbreviation (input) SLIM_PORTS :: nat where "SLIM_PORTS \<equiv> 1"
abbreviation (input) SLIM_RECORDS :: nat where "SLIM_RECORDS \<equiv> 1"

definition fs_startup :: "unit cmd" where
  "fs_startup = do {
     modify (\<lambda>s. s\<lparr>rtOpts := set_iface 0 ''wru1'' (rtOpts s)\<rparr>);
     modify (\<lambda>s. s\<lparr>ports := (\<lambda>i. if i < SLIM_PORTS
       then (ports s i)\<lparr>portIdentity := (portIdentity (ports s i))\<lparr>portNumber := word_of_nat (i + 1)\<rparr>,
              foreign := replicate SLIM_RECORDS foreign_zero\<rparr>
       else ports s i)\<rparr>) }"

section \<open>Properties\<close>

text \<open>
  The port state a daemon of the HAL would report for the board, as far as the Linux library
  reads it.
\<close>

definition hal_view :: "board \<Rightarrow> fs_port_state \<Rightarrow> hexp_port_state" where
  "hal_view b u = hexp_port_state.truncate (snd (fs_get_port_state b u))"

lemma fs_calibration: "fs_read_calibration_data b u (w_tx, w_rx, w_alpha, w_period) =
   (PTPD_NETIF_OK, \<lparr>out_delta_tx = (if w_tx then Some (ucast (fst (b_deltas b))) else None),
     out_delta_rx = (if w_rx then Some (ucast (snd (b_deltas b))) else None),
     out_alpha = (if w_alpha then Some (b_alpha b) else None),
     out_clock_period = (if w_period then Some 8000 else None)\<rparr>)"
  by (simp add: fs_read_calibration_data_def fs_get_port_state_def read_phase_val_def Let_def s32_id)

lemma hal_view_fields:
  "hps_valid (hal_view b u)" "hps_tx_calibrated (hal_view b u)" "hps_rx_calibrated (hal_view b u)"
  "hps_delta_tx (hal_view b u) = fst (b_deltas b)" "hps_delta_rx (hal_view b u) = snd (b_deltas b)"
  "hps_up (hal_view b u) = b_link_up b" "hps_fiber_fix_alpha (hal_view b u) = b_alpha b"
  "hps_clock_period (hal_view b u) = 8000"
  by (simp_all add: hal_view_def fs_get_port_state_def read_phase_val_def hexp_port_state.truncate_def Let_def)

text \<open>
  C31. The two ports of the network interface agree: over a HAL that reports the state of the
  board, the Linux library gives the calibration data, the outcome of a calibration and the
  state of the link that the freestanding port takes from the board itself, and whatever its
  uninitialised locals hold, the freestanding port never hands them out.
\<close>
theorem freestanding_agrees:
  assumes "\<And>n. env_port_state (world s) n = (r, hal_view b u)" "0 \<le> b_link_up b"
  shows "fst (run_state (ptpd_netif_read_calibration_data i) s) =
      (let out = snd (fs_read_calibration_data b v (True, True, True, True))
       in Some (the (out_delta_tx out), the (out_delta_rx out), the (out_alpha out), the (out_clock_period out))) \<and>
    fst (run_state (ptpd_netif_calibrating_poll i txrx) s) = fs_calibrating_poll b v u_tx u_rx txrx \<and>
    fst (run_state (ptpd_netif_get_port_state i) s) = fs_netif_get_port_state b"
  using assms
  by (simp add: ptpd_netif_read_calibration_data_def ptpd_netif_calibrating_poll_def ptpd_netif_get_port_state_def
      halexp_get_port_state_def ext_def fs_calibration fs_calibrating_poll_def fs_netif_get_port_state_def
      hal_view_fields s32_id Let_def)

definition a_port_state :: fs_port_state where
  "a_port_state = \<lparr>hps_valid = False, hps_mode = 0, hps_delta_tx = 0, hps_delta_rx = 0, hps_phase_val = 0,
     hps_phase_val_valid = False, hps_up = 0, hps_tx_calibrated = False, hps_rx_calibrated = False,
     hps_clock_period = 0, hps_t2_phase_transition = 0, hps_fiber_fix_alpha = 0, hps_is_locked = 0,
     hps_lock_priority = 0, hps_phase_setpoint = 0, hps_t4_phase_transition = 0, hps_hw_addr = [], hps_hw_index = 0\<rparr>"

definition a_board :: board where
  "a_board = \<lparr>b_master = False, b_tics = 5, b_deltas = (174000, 168000), b_ptracker = (True, 1200), b_link_up = 1,
     b_lock = 1, b_phase_shift = 0, b_transition = 2389, b_alpha = 73622176, b_mac = replicate 6 2,
     b_pps_busy = False, b_shifter_busy = False\<rparr>"

lemma freestanding_agrees_witness:
  "fst (run_state (ptpd_netif_calibrating_poll 0 PTPD_NETIF_TX)
     (sys_zero\<lparr>world := (world sys_zero)\<lparr>env_port_state := \<lambda>_. (0, hal_view a_board a_port_state)\<rparr>\<rparr>)) =
   (PTPD_NETIF_READY, 174000)"
proof -
  let ?s = "sys_zero\<lparr>world := (world sys_zero)\<lparr>env_port_state := \<lambda>_. (0, hal_view a_board a_port_state)\<rparr>\<rparr>"
  have "fst (run_state (ptpd_netif_calibrating_poll 0 PTPD_NETIF_TX) ?s) =
      fs_calibrating_poll a_board a_port_state 0 0 PTPD_NETIF_TX"
    using freestanding_agrees [of ?s 0 a_board a_port_state 0 a_port_state PTPD_NETIF_TX 0 0] by (simp add: a_board_def)
  then show ?thesis by (simp add: fs_calibrating_poll_def fs_calibration a_board_def)
qed

text \<open>The port the freestanding start leaves is the one the Linux start allocates.\<close>

lemma fs_startup_port:
  "ports s 0 = port_zero \<Longrightarrow> opt_max_foreign_records r = 1 \<Longrightarrow> ports (exec fs_startup s) 0 = new_port r 0"
  by (simp add: fs_startup_def new_port_def exec_bind port_zero_def)

lemma fs_startup_frame:
  "0 < i \<Longrightarrow> ports (exec fs_startup s) i = ports s i"
  "clk (exec fs_startup s) = clk s" "world (exec fs_startup s) = world s"
  by (simp_all add: fs_startup_def exec_bind)

end
