(* ===== verification/Display.thy ===== *)
theory Display
  imports Sys
begin

text \<open>
  What the daemon prints (PTPWRd/display.c, displayStats of dep/sys.c, the prefix of dep/trace.h
  and the two formatting functions of wr\_protocol.c), as the text each function writes. Members
  of the structs that only the printing reads are added to the records of PtpTypes. The dump of
  the buffers and every number printed can be read back, and no text overflows its buffer.
\<close>

section \<open>The conversions of printf\<close>

abbreviation (input) nl :: string where "nl \<equiv> [CHR 0x0A]"

definition digit :: "nat \<Rightarrow> char" where
  "digit n = char_of (if n < 10 then 48 + n else 87 + n)"

definition digit_value :: "char \<Rightarrow> nat" where
  "digit_value c = (if of_char c < (58 :: nat) then of_char c - 48 else of_char c - 87)"

lemma digit_value [simp]: "n < 16 \<Longrightarrow> digit_value (digit n) = n"
  by (simp add: digit_def digit_value_def)

text \<open>\<open>%u\<close>, \<open>%d\<close> and \<open>%0wd\<close> on an \<open>int\<close>, \<open>%lld\<close> and \<open>%02hhx\<close>.\<close>

fun str_u :: "nat \<Rightarrow> string" where
  "str_u n = (if n < 10 then [digit n] else str_u (n div 10) @ [digit (n mod 10)])"

declare str_u.simps [simp del]

definition signed :: "nat \<Rightarrow> int \<Rightarrow> string" where
  "signed w x = (let s = str_u (nat \<bar>x\<bar>); sgn = (if x < 0 then ''-'' else [])
     in sgn @ replicate (w - length sgn - length s) (CHR ''0'') @ s)"

abbreviation str_d :: "int \<Rightarrow> string" where "str_d x \<equiv> signed 0 (s32 x)"
abbreviation str_0d :: "nat \<Rightarrow> int \<Rightarrow> string" where "str_0d w x \<equiv> signed w (s32 x)"
abbreviation str_lld :: "int \<Rightarrow> string" where "str_lld x \<equiv> signed 0 (s64 x)"
abbreviation str_b :: "bool \<Rightarrow> string" where "str_b b \<equiv> str_d (if b then 1 else 0)"

definition hex2 :: "u8 \<Rightarrow> string" where
  "hex2 x = [digit (unat x div 16), digit (unat x mod 16)]"

definition str_c :: "u8 \<Rightarrow> char" where "str_c x = char_of (unat x)"

text \<open>Reading a decimal number back.\<close>

definition read_u :: "string \<Rightarrow> nat" where
  "read_u = foldl (\<lambda>a c. 10 * a + digit_value c) 0"

definition read_d :: "string \<Rightarrow> int" where
  "read_d s = (case s of [] \<Rightarrow> 0 | c # r \<Rightarrow> if c = CHR ''-'' then - int (read_u r) else int (read_u s))"

lemma read_str_u [simp]: "read_u (str_u n) = n"
proof (induction n rule: str_u.induct)
  case (1 n)
  then show ?case
    by (subst str_u.simps) (auto simp: read_u_def)
qed

lemma read_zeros: "read_u (replicate k (CHR ''0'') @ s) = read_u s"
  by (induction k) (simp_all add: read_u_def digit_value_def)

lemma digit_not_minus: "n < 10 \<Longrightarrow> digit n \<noteq> CHR ''-''"
  by (auto simp: digit_def dest: arg_cong [where f = "of_char :: char \<Rightarrow> nat"])

lemma str_u_plain: "\<exists>c r. str_u n = c # r \<and> c \<noteq> CHR ''-''"
proof (induction n rule: str_u.induct)
  case (1 n)
  then show ?case
    by (cases "n < 10") (auto simp: str_u.simps [of n] digit_not_minus)
qed

lemma read_signed [simp]: "read_d (signed w x) = x"
proof -
  obtain c r where u: "str_u (nat \<bar>x\<bar>) = c # r" "c \<noteq> CHR ''-''" using str_u_plain by blast
  let ?z = "replicate (w - length (str_u (nat \<bar>x\<bar>))) (CHR ''0'')"
  have "read_u (?z @ str_u (nat \<bar>x\<bar>)) = nat \<bar>x\<bar>" by (simp add: read_zeros)
  moreover have "\<exists>d q. ?z @ str_u (nat \<bar>x\<bar>) = d # q \<and> d \<noteq> CHR ''-''"
    using u by (cases "w - length (str_u (nat \<bar>x\<bar>))") auto
  ultimately obtain d q where z: "?z @ str_u (nat \<bar>x\<bar>) = d # q" "d \<noteq> CHR ''-''" "read_u (d # q) = nat \<bar>x\<bar>" by metis
  show ?thesis
  proof (cases "x < 0")
    case True
    then show ?thesis by (simp add: signed_def read_d_def Let_def read_zeros)
  next
    case False
    then show ?thesis using z by (simp add: signed_def read_d_def Let_def)
  qed
qed

lemma str_u_length: "0 < k \<Longrightarrow> n < 10 ^ k \<Longrightarrow> length (str_u n) \<le> k"
proof (induction n arbitrary: k rule: str_u.induct)
  case (1 n)
  show ?case
  proof (cases "n < 10")
    case True
    with 1(2) show ?thesis by (simp add: str_u.simps)
  next
    case False
    with 1(2,3) obtain j where k: "k = Suc j" "0 < j" by (cases k; cases "k - 1") auto
    with 1(3) have "n div 10 < 10 ^ j" by (simp add: less_mult_imp_div_less mult.commute)
    with 1(1) [OF False k(2)] False show ?thesis
      by (simp add: k(1) str_u.simps [of n])
  qed
qed

lemma signed_length:
  assumes "\<bar>x\<bar> < 10 ^ k" "0 < k"
  shows "length (signed w x) \<le> max w (Suc k)"
proof -
  have "nat \<bar>x\<bar> < 10 ^ k" using assms(1) by (simp add: nat_less_iff)
  from str_u_length [OF assms(2) this] show ?thesis by (auto simp: signed_def Let_def)
qed

section \<open>Members that are only printed\<close>

record shown_opts = RunTimeOpts +
  unicastAddress :: "u8 list"
  opt_ifaceName :: "nat \<Rightarrow> u8 list"

record shown_clock = PtpClockDS +
  offsetFromMaster :: TimeInternal
  meanPathDelay :: TimeInternal
  parentStats :: bool
  observedParentOffsetScaledLogVariance :: u16
  observedParentClockPhaseChangeRate :: int

record offset_from_master_filter =
  ofm_nsec_prev :: int
  ofm_y :: int

record one_way_delay_filter =
  owd_nsec_prev :: int
  owd_y :: int
  owd_s_exp :: int

record shown_port = PtpPortDS +
  master_to_slave_delay :: TimeInternal
  slave_to_master_delay :: TimeInternal
  observed_drift :: int
  sentPDelayReq :: bool
  ofm_filt :: offset_from_master_filter
  owd_filt :: one_way_delay_filter
  port_communication_technology :: u8

section \<open>Values and messages (display.c)\<close>

definition line :: "string \<Rightarrow> string \<Rightarrow> string" where
  "line l v = l @ v @ nl"

text \<open>Most labels are followed by a colon, and the number by a blank.\<close>

definition field :: "string \<Rightarrow> int \<Rightarrow> string" where
  "field l x = line (l @ '' : '') (str_d x @ '' '')"

definition colons :: "string list \<Rightarrow> string" where
  "colons xs = (case xs of [] \<Rightarrow> [] | y # ys \<Rightarrow> y @ concat (map (\<lambda>z. CHR '':'' # z) ys))"

definition integer64_display :: "Integer64 \<Rightarrow> string" where
  "integer64_display b = ''Integer 64 : '' @ nl @ line ''LSB : '' (str_u (unat (i64_lsb b))) @
     line ''MSB : '' (str_d (i64_msb b))"

definition uInteger48_display :: "Timestamp \<Rightarrow> string" where
  "uInteger48_display t = ''Integer 48 : '' @ nl @ line ''LSB : '' (str_u (unat (secs_lsb t))) @
     line ''MSB : '' (str_u (unat (secs_msb t)))"

definition timeInternal_display :: "TimeInternal \<Rightarrow> string" where
  "timeInternal_display t = field ''seconds'' (seconds t) @ line ''nanoseconds '' (str_d (nanoseconds t) @ '' '')"

definition timestamp_display :: "Timestamp \<Rightarrow> string" where
  "timestamp_display t = uInteger48_display t @ line ''nanoseconds '' (str_u (unat (nanosecondsField t)) @ '' '')"

definition clockIdentity_display :: "u8 list \<Rightarrow> string" where
  "clockIdentity_display c = line ''ClockIdentity : '' (colons (map hex2 (take 8 c)))"

definition clockUUID_display :: "u8 list \<Rightarrow> string" where
  "clockUUID_display u = line ''sourceUuid '' (colons (map hex2 (take 6 u)))"

text \<open>The body of \<open>netPath_display\<close> is switched off; \<open>tics\<close> is the millisecond counter.\<close>

definition netPath_display :: "NetPath \<Rightarrow> string" where
  "netPath_display n = []"

definition intervalTimer_display :: "u64 \<Rightarrow> IntervalTimer \<Rightarrow> string" where
  "intervalTimer_display tics t = field ''interval'' (interval t) @
     field ''left'' (uint (tics + word_of_int (interval t) - t_start t)) @
     field ''expire'' (uint (tics - t_start t))"

definition timeInterval_display :: "Integer64 \<Rightarrow> string" where
  "timeInterval_display t = integer64_display t"

definition portIdentity_display :: "PortIdentity \<Rightarrow> string" where
  "portIdentity_display p = clockIdentity_display (clockIdentity p) @ field ''port number'' (uint (portNumber p))"

definition clockQuality_display :: "ClockQuality \<Rightarrow> string" where
  "clockQuality_display q = field ''clockClass'' (uint (clockClass q)) @
     field ''clockAccuracy'' (uint (clockAccuracy q)) @
     field ''offsetScaledLogVariance'' (uint (offsetScaledLogVariance q))"

definition iFaceName_display :: "u8 list \<Rightarrow> string" where
  "iFaceName_display n = line ''iFaceName : '' (map str_c (take 16 n))"

definition unicast_display :: "u8 list \<Rightarrow> string" where
  "unicast_display u = line ''Unicast adress : '' (map str_c (take 16 u))"

definition msgSync_display :: "Timestamp \<Rightarrow> string" where
  "msgSync_display t = ''Message Sync : '' @ nl @ nl @ timestamp_display t @ nl"

definition plain :: "string \<Rightarrow> int \<Rightarrow> string" where
  "plain l x = line (l @ '' : '') (str_d x)"

definition msgHeader_display :: "MsgHeader \<Rightarrow> string" where
  "msgHeader_display h = ''Message header : '' @ nl @ nl @
     plain ''transportSpecific'' (uint (transportSpecific h)) @
     plain ''messageType'' (uint (messageType h)) @
     plain ''versionPTP'' (uint (versionPTP h)) @
     plain ''messageLength'' (uint (messageLength h)) @
     plain ''domainNumber'' (uint (hdr_domainNumber h)) @
     line ''FlagField '' (colons (map hex2 (take 2 (flagField h)))) @
     integer64_display (correctionfield h) @
     portIdentity_display (sourcePortIdentity h) @
     plain ''sequenceId'' (uint (sequenceId h)) @
     plain ''controlField'' (uint (controlField h)) @
     plain ''logMessageInterval'' (logMessageInterval h) @ nl"

definition msgAnnounce_display :: "MsgAnnounce \<Rightarrow> string" where
  "msgAnnounce_display a = ''Announce Message : '' @ nl @ nl @ ''originTimestamp : '' @ nl @ ''secondField  : '' @ nl @
     timestamp_display (ann_originTimestamp a) @
     field ''currentUtcOffset'' (ann_currentUtcOffset a) @
     field ''grandMasterPriority1'' (uint (ann_grandmasterPriority1 a)) @
     ''grandMasterClockQuality : '' @ nl @ clockQuality_display (ann_clockQuality a) @
     field ''grandMasterPriority2'' (uint (ann_grandmasterPriority2 a)) @
     ''grandMasterIdentity : '' @ nl @ clockIdentity_display (ann_grandmasterIdentity a) @
     field ''stepsRemoved'' (uint (ann_stepsRemoved a)) @
     field ''timeSource'' (uint (ann_timeSource a)) @ nl"

definition msgFollowUp_display :: "Timestamp \<Rightarrow> string" where
  "msgFollowUp_display t = timestamp_display t"

definition msgPDelayReq_display :: "Timestamp \<Rightarrow> string" where
  "msgPDelayReq_display t = timestamp_display t"

definition msgPDelayResp_display :: "MsgResp \<Rightarrow> string" where
  "msgPDelayResp_display r = timestamp_display (resp_timestamp r) @ portIdentity_display (requestingPortIdentity r)"

definition msgPDelayRespFollowUp_display :: "MsgResp \<Rightarrow> string" where
  "msgPDelayRespFollowUp_display r = timestamp_display (resp_timestamp r) @ portIdentity_display (requestingPortIdentity r)"

section \<open>The data sets\<close>

definition flag :: "string \<Rightarrow> bool \<Rightarrow> string" where
  "flag l b = field l (if b then 1 else 0)"

definition displayRunTimeOpts :: "shown_opts \<Rightarrow> string" where
  "displayRunTimeOpts r = ''---Run time Options Display-- '' @ nl @ nl @
     field ''announceInterval'' (opt_announceInterval r) @
     field ''syncInterval'' (opt_syncInterval r) @
     clockQuality_display (opt_clockQuality r) @
     field ''priority1'' (uint (opt_priority1 r)) @
     field ''priority2'' (uint (opt_priority2 r)) @
     field ''domainNumber'' (uint (opt_domainNumber r)) @
     field ''currentUtcOffset'' (opt_currentUtcOffset r) @
     unicast_display (unicastAddress r) @
     flag ''noResetClock'' (noResetClock r) @
     flag ''noAdjust'' (noAdjust r) @
     flag ''displayStats'' (displayStats r) @
     flag ''csvStats'' (csvStats r) @
     iFaceName_display (opt_ifaceName r 0) @
     field ''ap'' (opt_ap r) @
     field ''aI'' (opt_ai r) @
     field ''s'' (opt_s r) @
     ''inbound latency : '' @ nl @ timeInternal_display (inboundLatency r) @
     ''outbound latency : '' @ nl @ timeInternal_display (outboundLatency r) @
     field ''max_foreign_records'' (opt_max_foreign_records r) @
     flag ''ethernet mode'' (ethernet_mode r) @ nl"

definition displayDefault :: "shown_clock \<Rightarrow> shown_port \<Rightarrow> string" where
  "displayDefault c p = ''---Ptp Clock Default Data Set-- '' @ nl @ nl @
     flag ''twoStepFlag'' (twoStepFlag c) @
     clockIdentity_display (port_clockIdentity p) @
     field ''numberPorts'' (uint (numberPorts c)) @
     clockQuality_display (clockQuality c) @
     field ''priority1'' (uint (priority1 c)) @
     field ''priority2'' (uint (priority2 c)) @
     field ''domainNumber'' (uint (domainNumber c)) @ nl"

definition displayCurrent :: "shown_clock \<Rightarrow> string" where
  "displayCurrent c = ''---Ptp Clock Current Data Set-- '' @ nl @ nl @
     field ''stepsremoved'' (uint (stepsRemoved c)) @
     ''Offset from master : '' @ nl @ timeInternal_display (offsetFromMaster c) @
     ''Mean path delay : '' @ nl @ timeInternal_display (meanPathDelay c) @ nl"

definition displayParent :: "shown_clock \<Rightarrow> string" where
  "displayParent c = ''---Ptp Clock Parent Data Set-- '' @ nl @ nl @
     portIdentity_display (parentPortIdentity c) @
     flag ''parentStats'' (parentStats c) @
     field ''observedParentOffsetScaledLogVariance'' (uint (observedParentOffsetScaledLogVariance c)) @
     field ''observedParentClockPhaseChangeRate'' (observedParentClockPhaseChangeRate c) @
     ''--GrandMaster--'' @ nl @
     clockIdentity_display (grandmasterIdentity c) @
     clockQuality_display (grandmasterClockQuality c) @
     field ''grandmasterpriority1'' (uint (grandmasterPriority1 c)) @
     field ''grandmasterpriority2'' (uint (grandmasterPriority2 c)) @ nl"

definition displayGlobal :: "shown_clock \<Rightarrow> string" where
  "displayGlobal c = ''---Ptp Clock Global Time Data Set-- '' @ nl @ nl @
     field ''currentUtcOffset'' (currentUtcOffset c) @
     flag ''currentUtcOffsetValid'' (currentUtcOffsetValid c) @
     flag ''leap59'' (leap59 c) @
     flag ''leap61'' (leap61 c) @
     flag ''timeTraceable'' (timeTraceable c) @
     flag ''frequencyTraceable'' (frequencyTraceable c) @
     flag ''ptpTimescale'' (ptpTimescale c) @
     field ''timeSource'' (uint (timeSource c)) @ nl"

text \<open>The numbers of the states of a port (constants.h).\<close>

definition state_number :: "ptp_state \<Rightarrow> int" where
  "state_number s = (case s of PTP_INITIALIZING \<Rightarrow> 0 | PTP_FAULTY \<Rightarrow> 1 | PTP_DISABLED \<Rightarrow> 2 | PTP_LISTENING \<Rightarrow> 3
     | PTP_PRE_MASTER \<Rightarrow> 4 | PTP_MASTER \<Rightarrow> 5 | PTP_PASSIVE \<Rightarrow> 6 | PTP_UNCALIBRATED \<Rightarrow> 7 | PTP_SLAVE \<Rightarrow> 8)"

definition displayPort :: "shown_port \<Rightarrow> string" where
  "displayPort p = ''---Ptp Clock Port Data Set-- '' @ nl @ nl @
     portIdentity_display (portIdentity p) @
     field ''port state'' (state_number (portState p)) @
     field ''logMinDelayReqInterval'' (logMinDelayReqInterval p) @
     ''peerMeanPathDelay : '' @ nl @ timeInternal_display (peerMeanPathDelay p) @
     field ''logAnnounceInterval'' (logAnnounceInterval p) @
     field ''announceReceiptTimeout'' (uint (announceReceiptTimeout p)) @
     field ''logSyncInterval'' (logSyncInterval p) @
     field ''delayMechanism'' (uint (delayMechanism p)) @
     field ''logMinPdelayReqInterval'' (logMinPdelayReqInterval p) @
     field ''versionNumber'' (uint (versionNumber p)) @ nl"

definition foreign_display :: "ForeignMasterRecord \<Rightarrow> string" where
  "foreign_display f = portIdentity_display (fmPortIdentity f) @
     field ''number of Announce message received'' (uint (fmAnnounceMessages f)) @
     msgHeader_display (fm_header f) @ msgAnnounce_display (fm_announce f)"

definition displayForeignMaster :: "shown_port \<Rightarrow> string" where
  "displayForeignMaster p =
     (if 0 < number_foreign_records p
      then ''---Ptp Clock Foreign Data Set-- '' @ nl @ nl @
        line ''There is '' (str_d (uint (number_foreign_records p)) @ '' Foreign master Recorded '') @
        concat (map (\<lambda>i. foreign_display (foreign p ! i)) [0..<unat (number_foreign_records p)])
      else ''No Foreign masters recorded '' @ nl) @ nl"

definition displayOthers :: "shown_port \<Rightarrow> string" where
  "displayOthers p = ''---Ptp Others Data Set-- '' @ nl @ nl @
     ''master_to_slave_delay : '' @ nl @ timeInternal_display (master_to_slave_delay p) @ nl @
     ''slave_to_master_delay : '' @ nl @ timeInternal_display (slave_to_master_delay p) @ nl @
     ''delay_req_receive_time : '' @ nl @ timeInternal_display (pdelay_req_receive_time p) @ nl @
     ''delay_req_send_time : '' @ nl @ timeInternal_display (pdelay_req_send_time p) @ nl @
     ''delay_resp_receive_time : '' @ nl @ timeInternal_display (pdelay_resp_receive_time p) @ nl @
     ''delay_resp_send_time : '' @ nl @ timeInternal_display (pdelay_resp_send_time p) @ nl @
     ''sync_receive_time : '' @ nl @ timeInternal_display (sync_receive_time p) @ nl @
     flag ''sentPdelayReq'' (sentPDelayReq p) @
     field ''sentPDelayReqSequenceId'' (uint (sentPDelayReqSequenceId p)) @
     flag ''waitingForFollow'' (waitingForFollow p) @ nl @
     ''Offset from master filter : '' @ nl @
     field ''nsec_prev'' (ofm_nsec_prev (ofm_filt p)) @
     field ''y'' (ofm_y (ofm_filt p)) @ nl @
     ''One way delay filter : '' @ nl @
     field ''nsec_prev'' (owd_nsec_prev (owd_filt p)) @
     field ''y'' (owd_y (owd_filt p)) @
     field ''s_exp'' (owd_s_exp (owd_filt p)) @ nl @
     field ''observed_drift'' (observed_drift p) @
     line ''message activity '' (str_b (message_activity p) @ '' '') @ nl @
     netPath_display (netPath p) @
     line ''mCommunication technology '' (str_d (uint (port_communication_technology p)) @ '' '') @
     clockUUID_display (port_uuid_field p) @ nl"

text \<open>One loop of \<open>displayBuffer\<close>: \<open>j\<close> octets of the line are written.\<close>

fun dump :: "nat \<Rightarrow> u8 list \<Rightarrow> string" where
  "dump j [] = []"
| "dump j (x # xs) = CHR '':'' # hex2 x @ (if j + 1 = 8 then '' '' else []) @
     (if j + 1 = 16 then nl @ dump 0 xs else dump (j + 1) xs)"

definition displayBuffer :: "shown_port \<Rightarrow> string" where
  "displayBuffer p = ''PtpPortDS Buffer Out  '' @ nl @ nl @ dump 0 (take PACKET_SIZE (msgObuf p)) @ nl @ nl @
     ''PtpPortDS Buffer In  '' @ nl @ nl @ dump 0 (take PACKET_SIZE (msgIbuf p)) @ nl @ nl"

definition displayPtpPortDS :: "shown_clock \<Rightarrow> shown_port \<Rightarrow> string" where
  "displayPtpPortDS c p = displayDefault c p @ displayCurrent c @ displayParent c @ displayGlobal c @ displayPort p @
     displayForeignMaster p @ displayBuffer p @ displayOthers p"

section \<open>Traces and statistics\<close>

text \<open>
  The text \<open>PTPD_TRACE\<close> puts before a message of a port; the mask of subsystems lets all
  through. \<open>displayConfigINFO\<close> has no port, so its messages have no prefix.
\<close>

definition PTPD_TRACE :: "PtpPortDS \<Rightarrow> string \<Rightarrow> string" where
  "PTPD_TRACE p x = ''([p='' @ str_d (uint (portNumber (portIdentity p))) @ ''] '' @
     (if portState p = PTP_SLAVE then ''ptp[S]'' else if portState p = PTP_MASTER then ''ptp[M]'' else ''ptp[-]'') @
     '' WR: '' @ (if wrModeON p then ''ON->'' else ''OFF '') @ (if wrMode p = WR_MASTER then ''MASTER'' else []) @
     (if wrMode p = WR_SLAVE then if wrSlaveRole p = PRIMARY_SLAVE then ''p-SLAVE'' else ''s-SLAVE'' else []) @
     '') '' @ x"

definition wrConfig_text :: "u8 \<Rightarrow> string" where
  "wrConfig_text w =
     (if w = WR_MODE_AUTO then ''Autodetection (ptpx-implementation-specific) ''
      else if w = WR_M_AND_S then ''Master and Slave ''
      else if w = WR_SLAVE then ''Slave ''
      else if w = WR_MASTER then ''Master ''
      else if w = NON_WR then ''NON_WR''
      else ''ERROR'')"

definition running_as :: "u16 \<Rightarrow> bool \<Rightarrow> string" where
  "running_as n auto =
     (if n = 1 \<and> \<not> auto then
        ''running as ...................... single port node (forced, no auto port number discovery)''
      else if n = 1 \<and> auto then ''running as ...................... single port node (auto port number discovery)''
      else if n > 1 \<and> auto then
        ''running as ....................... multi port node ['' @ str_d (uint n) @ ''] (auto port number discovery)''
      else if n > 1 \<and> \<not> auto then ''running as ....................... multi port node ['' @ str_d (uint n) @
        ''] (forced, no auto port number discovery)''
      else ''running as ....................... ERROR,should not get here'')"

definition displayConfigINFO :: "shown_opts \<Rightarrow> string" where
  "displayConfigINFO r = ''------------- INFO ----------------------'' @ nl @ nl @
     (if E2E_mode r then ''E2E_mode ........................ TRUE'' else ''P2P_mode ........................ TRUE'') @ nl @
     line ''portNumber  ..................... '' (str_d (uint (opt_portNumber r))) @
     running_as (opt_portNumber r) (autoPortDiscovery r) @ nl @
     concat (map (\<lambda>i.
       (if \<not> autoPortDiscovery r
        then line (''net ifaceName [port = '' @ str_d (int i + 1) @ ''] ........ '')
          (map str_c (takeWhile (\<lambda>c. c \<noteq> 0) (opt_ifaceName r i)))
        else []) @
       line (''wrConfig  [port = '' @ str_d (int i + 1) @ ''] ............ '') (wrConfig_text (opt_wrConfig r)))
       [0..<unat (opt_portNumber r)]) @
     ''----------- now the fun ------------'' @ nl @ nl @
     line ''clockClass ....................... '' (str_d (uint (clockClass (opt_clockQuality r))))"

text \<open>
  \<open>displayStats\<close> of dep/sys.c: \<open>start\<close> is its static variable. The line is printed into \<open>sbuf\<close>,
  128 octets of blanks; each \<open>sprintf\<close> also writes the zero that ends a string, so what is
  written with a fixed length has that zero in it. The result is the new \<open>start\<close>, whether the
  heading is traced, and the octets written.
\<close>

abbreviation (input) SCREEN_BUFSZ where "SCREEN_BUFSZ \<equiv> 128"
abbreviation (input) SCREEN_MAXSZ where "SCREEN_MAXSZ \<equiv> 80"

definition state_text :: "ptp_state \<Rightarrow> string" where
  "state_text s = (case s of PTP_INITIALIZING \<Rightarrow> ''init'' | PTP_FAULTY \<Rightarrow> ''flt'' | PTP_LISTENING \<Rightarrow> ''lstn''
     | PTP_PASSIVE \<Rightarrow> ''pass'' | PTP_UNCALIBRATED \<Rightarrow> ''uncl'' | PTP_SLAVE \<Rightarrow> ''slv'' | PTP_PRE_MASTER \<Rightarrow> ''pmst''
     | PTP_MASTER \<Rightarrow> ''mst'' | PTP_DISABLED \<Rightarrow> ''dsbl'')"

definition stats_text :: "bool \<Rightarrow> shown_clock \<Rightarrow> shown_port \<Rightarrow> string" where
  "stats_text csv c p =
     (let label = (\<lambda>l. if csv then [] else l);
          time = (\<lambda>t. str_d (seconds t) @ ''.'' @ str_0d 9 (nanoseconds t))
      in (if csv then nl else CHR 0x0D # ''state: '') @ state_text (portState p) @
         (if portState p = PTP_SLAVE
          then '', '' @ label ''owd: '' @ time (meanPathDelay c) @ '', '' @ label ''ofm: '' @ time (offsetFromMaster c) @
            '', '' @ label ''drift: '' @ str_d (observed_drift p)
          else []))"

definition stats_display :: "bool \<Rightarrow> bool \<Rightarrow> shown_clock \<Rightarrow> shown_port \<Rightarrow> bool \<times> bool \<times> string" where
  "stats_display start csv c p =
     (let s = stats_text csv c p; sbuf = s @ CHR 0x00 # replicate (SCREEN_BUFSZ - 1 - length s) (CHR '' '')
      in (start \<and> \<not> csv, start \<and> csv, take (if csv then length s else SCREEN_MAXSZ + 1) sbuf))"

section \<open>The formatting functions of wr\_protocol.c\<close>

definition printf_bits :: "u32 \<Rightarrow> string" where
  "printf_bits w = map (\<lambda>i. if bit w (31 - i) then CHR ''1'' else CHR ''0'') [0..<32]"

text \<open>\<open>snprintf\<close> keeps 63 characters and the zero.\<close>

definition format_wr_timestamp :: "wr_timestamp \<Rightarrow> string" where
  "format_wr_timestamp t = take 63 (''sec: '' @ str_lld (sec t) @ '' nsec: '' @ str_lld (nsec t) @ '' '')"

section \<open>What was printed can be read\<close>

definition hex_value :: "char \<Rightarrow> char \<Rightarrow> u8" where
  "hex_value a b = word_of_nat (16 * digit_value a + digit_value b)"

fun read_dump :: "string \<Rightarrow> u8 list \<times> string" where
  "read_dump (c # a # b # s) =
     (if c = CHR '':'' then let (xs, r) = read_dump s in (hex_value a b # xs, r)
      else if c = CHR '' '' \<or> c = CHR 0x0A then read_dump (a # b # s) else ([], c # a # b # s))"
| "read_dump s = ([], s)"

lemma hex2_read: "\<exists>a b. hex2 x = [a, b] \<and> hex_value a b = x"
proof -
  have "unat x < 256" using unsigned_less [of x, where ?'a = nat] by simp
  then have "unat x div 16 < 16" "unat x mod 16 < 16" by auto
  moreover have "word_of_nat (16 * (unat x div 16) + unat x mod 16) = x" by simp
  ultimately show ?thesis by (simp add: hex2_def hex_value_def del: of_nat_add of_nat_mult)
qed

lemma read_blank: "2 \<le> length s \<Longrightarrow> read_dump (CHR '' '' # s) = read_dump s" "2 \<le> length s \<Longrightarrow> read_dump (CHR 0x0A # s) = read_dump s"
  by (cases s; cases "tl s"; simp)+

lemma dump_read:
  assumes "read_dump t = ([], r)" "2 \<le> length t"
  shows "read_dump (dump j xs @ t) = (xs, r)"
proof (induction j xs rule: dump.induct)
  case (2 j x xs)
  obtain a b where h: "hex2 x = [a, b]" "hex_value a b = x" using hex2_read by blast
  have l: "2 \<le> length (dump k ys @ t)" for k ys using assms(2) by simp
  show ?case
    using 2 h by (cases "j = 7"; cases "j = 15") (simp_all add: read_blank [OF l])
qed (use assms(1) in simp)

definition read_buffers :: "string \<Rightarrow> u8 list \<times> u8 list" where
  "read_buffers s = (let (out, r) = read_dump (drop 24 s) in (out, fst (read_dump (drop 23 r))))"

text \<open>
  C40. The dump of a port's buffers is readable: from the text of \<open>displayBuffer\<close>, sixteen octets to
  a line with a gap in the middle, a reader that knows only the headings recovers both buffers
  octet by octet.
\<close>

theorem displayBuffer_readable:
  assumes "length (msgObuf p) = 1024" "length (msgIbuf p) = 1024"
  shows "read_buffers (displayBuffer p) = (msgObuf p, msgIbuf p)"
proof -
  let ?in = "dump 0 (msgIbuf p) @ nl @ nl"
  have i: "read_dump ?in = (msgIbuf p, nl @ nl)" by (rule dump_read) simp_all
  have o: "read_dump (dump 0 (msgObuf p) @ (nl @ nl @ ''PtpPortDS Buffer In  '' @ nl @ nl @ ?in)) =
      (msgObuf p, ''PtpPortDS Buffer In  '' @ nl @ nl @ ?in)"
    by (rule dump_read) simp_all
  show ?thesis
    using assms i o by (simp add: read_buffers_def displayBuffer_def)
qed

section \<open>What is printed fits\<close>

lemma str_d_length: "length (str_d x) \<le> 11"
  using signed_length [of "s32 x" 10 0] s32_range [of x] by simp

lemma str_0d_length: "length (str_0d 9 x) \<le> 11"
  using signed_length [of "s32 x" 10 9] s32_range [of x] by simp

lemma str_lld_length: "length (str_lld x) \<le> 20"
proof -
  have "- 9223372036854775808 \<le> s64 x" "s64 x < 9223372036854775808"
    using signed_take_bit_int_greater_eq_minus_exp [of 63 x] signed_take_bit_int_less_exp [of 63 x] by (simp_all add: s64_def)
  then show ?thesis using signed_length [of "s64 x" 19 0] by simp
qed

lemma stats_text_length: "length (stats_text csv c p) \<le> 91"
proof (cases "portState p = PTP_SLAVE")
  case True
  then show ?thesis
    using str_d_length [of "seconds (meanPathDelay c)"] str_0d_length [of "nanoseconds (meanPathDelay c)"]
      str_d_length [of "seconds (offsetFromMaster c)"] str_0d_length [of "nanoseconds (offsetFromMaster c)"]
      str_d_length [of "observed_drift p"]
    by (simp add: stats_text_def state_text_def)
next
  case False
  then show ?thesis by (cases "portState p") (simp_all add: stats_text_def state_text_def)
qed

text \<open>
  No text overflows its buffer: whatever the data sets hold, the statistics line has at most 91
  characters, so that it and its terminator fit into the 128 octets of \<open>sbuf\<close>, and as many octets
  as are written exist; the bits of a pattern are 32 characters of 33, and of a timestamp nothing is
  cut. Without CSV always 81 octets are written, which hold the terminator, and not all of a line
  longer than that.
\<close>

lemma printed_fits:
  "length (stats_text csv c p) \<le> 91 \<and>
   length (snd (snd (stats_display start csv c p))) = (if csv then length (stats_text csv c p) else 81) \<and>
   length (printf_bits w) = 32 \<and>
   format_wr_timestamp t = ''sec: '' @ str_lld (sec t) @ '' nsec: '' @ str_lld (nsec t) @ '' ''"
  using stats_text_length [of csv c p] str_lld_length [of "sec t"] str_lld_length [of "nsec t"]
  by (auto simp: stats_display_def printf_bits_def format_wr_timestamp_def Let_def)

text \<open>The bits are those of the number.\<close>

lemma printf_bits_read: "horner_sum (\<lambda>c. of_bool (c = CHR ''1'')) 2 (rev (printf_bits w)) = uint w"
proof -
  have "rev (printf_bits w) = map (\<lambda>i. if bit (uint w) i then CHR ''1'' else CHR ''0'') [0..<32]"
    by (rule nth_equalityI) (simp_all add: printf_bits_def rev_nth bit_simps)
  then have "horner_sum (\<lambda>c. of_bool (c = CHR ''1'')) 2 (rev (printf_bits w)) = (horner_sum of_bool 2 (map (bit (uint w)) [0..<32]) :: int)"
    by (auto simp: horner_sum_foldr foldr_map intro!: foldr_cong)
  then show ?thesis using unsigned_less [of w, where ?'a = int]
    by (simp add: horner_sum_bit_eq_take_bit take_bit_int_eq_self)
qed

text \<open>A port of the example prints its empty buffers.\<close>

definition shown_zero :: shown_port where
  "shown_zero = PtpPortDS.extend port_zero \<lparr>master_to_slave_delay = ti_zero, slave_to_master_delay = ti_zero,
     observed_drift = 0, sentPDelayReq = False, ofm_filt = \<lparr>ofm_nsec_prev = 0, ofm_y = 0\<rparr>,
     owd_filt = \<lparr>owd_nsec_prev = 0, owd_y = 0, owd_s_exp = 0\<rparr>, port_communication_technology = 0\<rparr>"

theorem displayBuffer_readable_witness:
  "read_buffers (displayBuffer (shown_zero\<lparr>msgObuf := replicate 1024 7, msgIbuf := replicate 1024 0xAB\<rparr>)) =
     (replicate 1024 7, replicate 1024 0xAB)"
  using displayBuffer_readable [of "shown_zero\<lparr>msgObuf := replicate 1024 7, msgIbuf := replicate 1024 0xAB\<rparr>"] by simp

end
