(* ===== verification/Spec2Isabelle.thy ===== *)
theory Spec2Isabelle
  imports Arith Wire NetIf Timer Msg Bmc Picos Ticks Servo Steering Net States Handlers Foreign
    WrFsm Protocol Frames Startup Invariants Handshake Sockq Exchange Recovery Linkup Minipc
    Exports Freestanding Display
begin

text \<open>
  A verification development for PTPWRd, the White Rabbit PTP daemon.

  The program. A node synchronises its clock to the one of a neighbour with sub-nanosecond
  accuracy. Its ports exchange PTP messages (IEEE 1588) over raw Ethernet frames; the best
  master clock algorithm gives each port a role; between a White Rabbit master and slave a
  handshake of signalling messages locks the slave's oscillator to the link, measures the fixed
  delays of both ends and exchanges them; then the servo of the slave computes the offset from
  four hardware timestamps and corrects seconds, nanoseconds and phase through the hardware
  abstraction layer (HAL). The daemon runs on Linux over a HAL daemon it calls remotely, or
  freestanding over the functions of a board.

  How the model corresponds to the code. Records have the fields of the structs, functions the
  names of the C functions (a suffix or the prefix \<open>fs_\<close> where a name is taken or
  exists twice). Integers are words of their width, or \<open>int\<close> with
  \<open>s16\<close>, \<open>s32\<close>, \<open>s64\<close> and
  \<open>u8\<close>..\<open>u64\<close> conversions where C converts; division and remainder
  truncate (\<open>sdiv\<close>, \<open>smod\<close>). A pointer to a port is its index
  \<open>i\<close>, a buffer a list of octets. A function with effects is a \<open>cmd\<close>,
  a state monad over \<open>sys\<close> (theory Sys): options, ports, the clock data set, the
  static variables of the servo, the log of what was sent and asked of the HAL, and the world.
  The world (\<open>env\<close>) answers every call of the kernel and the HAL, and holds the
  content of uninitialised variables; a theorem that does not constrain it holds for all of its
  answers.

  The theories, in the order they build on each other.

  Prelude, Arith, Wire. Machine integers, the state monad with a weakest precondition calculus
  (\<open>wp\<close>, \<open>wp_simps\<close>) and preservation of predicates
  (\<open>keeps\<close>); PTPWRd/arith.c; the octet accessors of messages, with the locale
  \<open>wire\<close> for a reader and a writer of a block and \<open>wire_pair\<close> for
  blocks that do not overlap, interpreted for every pair of widths.

  PtpTypes, Sys, NetIf, Timer, Net. The structs of PTPWRd/datatypes.h and its dependents; the
  state; libptpnetif/ptpd\_netif.c and hal\_client.c; PTPWRd/dep/timer.c with the locale
  \<open>polled_timer\<close>; PTPWRd/dep/net.c.

  Msg. PTPWRd/dep/msg.c: every packer and unpacker, and that what one writes the other reads.

  Bmc. PTPWRd/bmc.c: the comparison of data sets is antisymmetric and, between different
  grandmasters, lexicographic but for the variance; the searches find a best record (locale
  \<open>ranked_scan\<close>); the decision, and that of two clocks that hear each other one
  becomes the master.

  Picos, Ticks, Servo. PTPWRd/dep/wr\_servo.c: exact arithmetic in picoseconds, and the offset
  in whole clock cycles; one update of the servo as a step of its specification, what it may
  change, that it locks within five updates on a good link, and when it stops doing so for good.

  Steering. The servo in its loop. An update is a function \<open>steer\<close> of the offset on
  the state of the servo and what it has commanded; the commands move the clock of the slave
  (counters are added to, the last phase shift is in force, and the clock lags by the delay of
  the fibre), and the next timestamps are taken from that clock. A count of the updates left
  (\<open>stage\<close>) shows that it ends in tracking, an invariant (\<open>follows\<close>)
  that it stays right while the fibre drifts.

  States, Handlers, Foreign, WrFsm, Protocol. PTPWRd/protocol.c and wr\_protocol.c:
  \<open>toState\<close>; the issuing and handling of the messages; the table of foreign
  masters; \<open>doWRState\<close> and its timeouts; \<open>doState\<close>, the loops and
  \<open>multiProtocol\<close>.

  Startup. PTPWRd/dep/startup.c and ptpd.c: options, allocation, \<open>main\<close>.

  Frames, Invariants, Handshake. The locales \<open>comm_frame\<close>,
  \<open>handshake_frame\<close>, \<open>handler_frame\<close> and \<open>engine_frame\<close>
  say once for all what an operation may do to a predicate on ports; interpreted on the daemon's
  invariants they give what holds in any run of \<open>ptpd_main\<close>, and that a call of
  \<open>doWRState\<close> is a step of the abstract handshake.

  Exchange, Recovery, Linkup. Two nodes: the timestamps and delays one of them sends are the
  ones the servo of the other computes with; how a port comes out of a state, out of a lost
  White Rabbit link and out of a handshake whose answers do not come. In Linkup the two take
  turns, each hearing what the other has sent: a lemma for each turn says what a port in a state
  of the handshake does with the message it hears, and put together they bring the link up.

  Minipc, Exports. libminipc and PTPWRd/ptpd\_exports.c: marshalling against the reader of the
  server, a call over a socket as a call of the function, and the daemon's commands through it.

  Sockq, Freestanding. libposix: the ring buffer of a socket as a bounded queue of frames
  (locale \<open>bounded_queue\<close>); the network interface over a board against the one over
  the HAL.

  Display. PTPWRd/display.c, displayStats of dep/sys.c, the prefix of a trace: the text each
  function prints; that the dump of the buffers can be read back and no text overflows its
  buffer.

  Fuel and bounds. Loops that end are structural or have a measure. \<open>for(;;)\<close> loops
  over what the world answers have fuel: \<open>halexp_client_try_connect\<close> is given its
  10 retries, \<open>port_scan\<close> any number above that of the HAL's ports (shown to be
  enough), \<open>find_foreign\<close> the number of records (shown to visit each),
  \<open>free_all\<close> the number of functions. The endless loop of the daemon is a list of
  turns: what holds for every list holds in every run. Where a theorem bounds a value the bound
  is in its statement: the range in which C's integers do not wrap.

  Findings. Where the code does not do what it means to, the theorem states what it does: the
  variance compared by one octet, the search for the best master among no records, the table of
  foreign masters, long frames, a servo that gives up for good, negative fibre times, the
  65536th delay request, a resynchronisation that falls back or keeps the old phase shift as its
  offset, replies that are longer than declared, links and functions that are not forgotten.

  Not modelled. What the daemon traces and displays on its way: the functions that print have
  their texts in Display, but their calls are left out of the components. PTPWRd/dep/servo.c has
  empty bodies. Of the modelled files: closing sockets and \<open>select\<close> of the network
  layers, usage texts, output redirection and signal handlers of the start, log output of
  libminipc. The HAL, the board support package, the kernel and the C library are not part of
  the repository and are parameters; what the HAL does with a clock command is assumed in
  Steering as its interface documents it. PTP management messages have empty handlers in the
  code. Interface names are indices of ports.
\<close>

end
